(* ===== verification/Prelude.thy ===== *)
theory Prelude
  imports Complex_Main
begin

text \<open>
  What every component shares: the exceptions the services raise, the result of a
  database action, transactions (\<^verbatim>\<open>database/db.py\<close>), Python's \<^verbatim>\<open>Decimal\<close> and the
  two roundings it meets (a \<^verbatim>\<open>DECIMAL(14,2)\<close> column and \<^verbatim>\<open>quantize(Decimal("1"))\<close>),
  zero padded decimal numerals, and generic lemmas on lists.
\<close>

section \<open>Automation\<close>

text \<open>The rewriting rules that unfold one step of a database operation.\<close>

named_theorems db_simps \<open>table operations and their elementary rewriting\<close>

section \<open>Exceptions and results\<close>

datatype value_reason =
    ResellerNotFound | TransactionNotFound | AlreadyProcessed | PackageNotFound
  | OrderNotFound | TopupNotFound | DisputeNotFound | BadQuantity | NotAnInteger

datatype discount_reason = CodeNotFound | CodeExpired | UsageLimitReached

datatype exn =
    ValueError value_reason
  | TypeError
  | AttributeError
  | KeyError
  | IndexError
  | RuntimeError
  | IntegrityError
  | InvalidOperation
  | DatabaseError
  | InsufficientCreditError
  | PendingOrderLimitExceeded nat
  | CustomerBlacklistedError
  | OrderInsufficientCreditError nat nat string
  | WalletInsufficientBalanceError
  | WalletTopupInsufficientCreditError nat nat
  | ChargeCustomerBlacklistedError
  | ChargeInsufficientBalanceError
  | ChargeOutOfStockError "nat option"
  | InvalidDiscountCode discount_reason

text \<open>
  An action on a state of type \<open>'s\<close> ends with a value or an exception, and with the
  state it leaves behind: statements that were committed before the exception stay.
\<close>

type_synonym ('s, 'a) outcome = "(exn + 'a) \<times> 's"

text \<open>
  \<^verbatim>\<open>transaction()\<close>: begin, run the body, commit; when the body raises, roll back to the
  state at the beginning and raise again.
\<close>

definition transaction :: "('s \<Rightarrow> ('s, 'a) outcome) \<Rightarrow> 's \<Rightarrow> ('s, 'a) outcome" where
  "transaction body s =
     (case body s of
        (Inl e, s') \<Rightarrow> (Inl e, s)
      | (Inr x, s') \<Rightarrow> (Inr x, s'))"

lemma transaction_simps [simp]:
  "body s = (Inl e, s') \<Longrightarrow> transaction body s = (Inl e, s)"
  "body s = (Inr x, s') \<Longrightarrow> transaction body s = (Inr x, s')"
  by (simp_all add: transaction_def)

lemma transaction_Inl_iff:
  "transaction body s = (Inl e, s') \<longleftrightarrow> s' = s \<and> fst (body s) = Inl e"
  by (auto simp: transaction_def split: prod.splits sum.splits)

lemma transaction_Inr_iff:
  "transaction body s = (Inr x, s') \<longleftrightarrow> body s = (Inr x, s')"
  by (auto simp: transaction_def split: prod.splits sum.splits)

lemma snd_transaction_cases:
  "snd (transaction body s) = s \<or> (\<exists>x. body s = (Inr x, snd (transaction body s)))"
  by (auto simp: transaction_def split: prod.splits sum.splits)

text \<open>A run that did not end with an exception, as an equation.\<close>

lemma outcome_ok: "\<not> isl (fst run) \<Longrightarrow> run = (Inr (projr (fst run)), snd run)"
  by (cases run; cases "fst run") auto

section \<open>Decimals\<close>

text \<open>
  A Python \<^verbatim>\<open>Decimal\<close> is a rational number: the code only adds, subtracts, multiplies
  and divides by 100, and the columns it reads hold at most 14 digits, so with Python's
  28 digits of precision none of its results is rounded. A \<^verbatim>\<open>DECIMAL(14,2)\<close> or
  \<^verbatim>\<open>DECIMAL(5,2)\<close> column holds a whole number of hundredths; reading one is \<open>dec\<close>,
  writing one is \<open>store\<close>, which rounds half away from zero as MySQL does.
\<close>

type_synonym decimal = rat
type_synonym cents = int

definition dec :: "cents \<Rightarrow> decimal" where
  "dec c = of_int c / 100"

definition round_half_away :: "rat \<Rightarrow> int" where
  "round_half_away x = (if 0 \<le> x then \<lfloor>x + 1/2\<rfloor> else - \<lfloor>1/2 - x\<rfloor>)"

definition store :: "decimal \<Rightarrow> cents" where
  "store x = round_half_away (100 * x)"

text \<open>
  \<^verbatim>\<open>x.quantize(Decimal("1"))\<close> rounds to a whole number, half to even (Python's default
  context).
\<close>

definition quantize1 :: "decimal \<Rightarrow> int" where
  "quantize1 x =
     (let f = \<lfloor>x\<rfloor>; r = x - of_int f in
      if r < 1/2 then f
      else if 1/2 < r then f + 1
      else if even f then f else f + 1)"

lemma dec_mono [simp]: "dec a \<le> dec b \<longleftrightarrow> a \<le> b" "dec a < dec b \<longleftrightarrow> a < b"
  by (simp_all add: dec_def divide_le_cancel divide_less_cancel)

lemma dec_inject [simp]: "dec a = dec b \<longleftrightarrow> a = b"
  by (simp add: dec_def)

lemma dec_arith:
  "dec 0 = 0" "dec (a + b) = dec a + dec b" "dec (a - b) = dec a - dec b"
  "dec (- a) = - dec a" "dec (n * a) = of_int n * dec a"
  by (simp_all add: dec_def add_divide_distrib diff_divide_distrib)

lemma round_half_away_of_int [simp]: "round_half_away (of_int n) = n"
proof (cases "0 \<le> n")
  case True
  then show ?thesis by (auto simp: round_half_away_def intro!: floor_unique)
next
  case False
  moreover have "\<lfloor>1/2 - (of_int n :: rat)\<rfloor> = - n"
    by (rule floor_unique) simp_all
  ultimately show ?thesis by (simp add: round_half_away_def)
qed

lemma round_half_away_near: "\<bar>of_int (round_half_away x) - x\<bar> \<le> 1/2"
proof (cases "0 \<le> x")
  case True
  with floor_correct [of "x + 1/2"] show ?thesis
    unfolding round_half_away_def by (simp only: if_True) linarith
next
  case False
  with floor_correct [of "1/2 - x"] show ?thesis
    unfolding round_half_away_def by (simp only: if_False of_int_minus) linarith
qed

lemma round_half_away_mono: "x \<le> y \<Longrightarrow> round_half_away x \<le> round_half_away y"
proof -
  assume le: "x \<le> y"
  have neg: "- \<lfloor>1/2 - x\<rfloor> \<le> 0" if "x < 0"
    using that by (simp add: zero_le_floor)
  have pos: "0 \<le> \<lfloor>y + 1/2\<rfloor>" if "0 \<le> y"
    using that by (simp add: zero_le_floor)
  consider "0 \<le> x" | "x < 0" "0 \<le> y" | "x < 0" "y < 0" using le by linarith
  then show ?thesis
  proof cases
    case 1
    with le show ?thesis by (simp add: round_half_away_def floor_mono)
  next
    case 2
    with neg pos have "- \<lfloor>1/2 - x\<rfloor> \<le> \<lfloor>y + 1/2\<rfloor>"
      by (blast intro: order_trans)
    with 2 show ?thesis by (simp add: round_half_away_def)
  next
    case 3
    with le show ?thesis by (simp add: round_half_away_def floor_mono)
  qed
qed

lemma store_dec [simp]: "store (dec c) = c"
  by (simp add: store_def dec_def)

lemma store_neg_dec [simp]: "store (- dec c) = - c"
  using store_dec [of "- c"] by (simp add: dec_arith)

lemma store_mono: "x \<le> y \<Longrightarrow> store x \<le> store y"
  by (simp add: store_def round_half_away_mono)

lemma store_ge: "dec c \<le> x \<Longrightarrow> c \<le> store x"
  using store_mono [of "dec c" x] by simp

lemma store_le: "x \<le> dec c \<Longrightarrow> store x \<le> c"
  using store_mono [of x "dec c"] by simp

lemma store_minus: "store (- x) = - store x"
proof -
  have "round_half_away (- y) = - round_half_away y" for y
  proof (cases "y = 0")
    case True
    then show ?thesis using round_half_away_of_int [of 0] by simp
  next
    case False
    then show ?thesis by (auto simp: round_half_away_def algebra_simps)
  qed
  then show ?thesis by (simp add: store_def)
qed

text \<open>Rounding a difference: it is off by at most one hundredth from the rounded parts.\<close>

lemma store_diff_near: "\<bar>store (dec b - x) - (b + store (- x))\<bar> \<le> 1"
proof -
  have scale: "100 * (dec b - x) = of_int b - 100 * x" "100 * (- x) = - (100 * x)"
    by (simp_all add: dec_def right_diff_distrib)
  have "\<bar>of_int (store (dec b - x)) - (of_int b - 100 * x)\<bar> \<le> (1/2 :: rat)"
    and "\<bar>of_int (store (- x)) - (- (100 * x))\<bar> \<le> (1/2 :: rat)"
    unfolding store_def scale by (rule round_half_away_near)+
  then have "\<bar>of_int (store (dec b - x) - (b + store (- x)))\<bar> \<le> (1 :: rat)"
    by linarith
  then show ?thesis by linarith
qed

lemma store_near: "\<bar>of_int (store x) - 100 * x\<bar> \<le> 1/2"
  unfolding store_def by (rule round_half_away_near)

lemma quantize1_of_int [simp]: "quantize1 (of_int n) = n"
  by (simp add: quantize1_def)

lemma quantize1_near: "\<bar>of_int (quantize1 x) - x\<bar> \<le> 1/2"
proof -
  have "of_int \<lfloor>x\<rfloor> \<le> x" "x < of_int \<lfloor>x\<rfloor> + 1" by linarith+
  then show ?thesis
    by (cases "x - of_int \<lfloor>x\<rfloor> < 1/2"; cases "1/2 < x - of_int \<lfloor>x\<rfloor>"; cases "even \<lfloor>x\<rfloor>")
      (simp_all add: quantize1_def Let_def abs_le_iff)
qed

lemma quantize1_nonneg: "0 \<le> x \<Longrightarrow> 0 \<le> quantize1 x"
  by (simp add: quantize1_def Let_def zero_le_floor)

lemma quantize1_le: "x \<le> of_int n \<Longrightarrow> quantize1 x \<le> n"
proof -
  assume le: "x \<le> of_int n"
  show ?thesis
  proof (cases "x = of_int n")
    case False
    with le have "\<lfloor>x\<rfloor> < n" by (simp add: floor_less_iff)
    then show ?thesis by (simp add: quantize1_def Let_def)
  qed simp
qed

section \<open>Decimal numerals\<close>

text \<open>\<^verbatim>\<open>str(n)\<close> for a non-negative \<^verbatim>\<open>n\<close>, and \<^verbatim>\<open>f"{n:0wd}"\<close>: padded with zeros on the left.\<close>

definition digit_char :: "nat \<Rightarrow> char" where
  "digit_char n = char_of (48 + n)"

fun show_nat :: "nat \<Rightarrow> string" where
  "show_nat n =
     (if n < 10 then [digit_char n] else show_nat (n div 10) @ [digit_char (n mod 10)])"

declare show_nat.simps [simp del]

definition zero_pad :: "nat \<Rightarrow> nat \<Rightarrow> string" where
  "zero_pad w n = replicate (w - length (show_nat n)) CHR ''0'' @ show_nat n"

text \<open>The value of a numeral, which undoes both.\<close>

definition digit_value :: "char \<Rightarrow> nat" where
  "digit_value c = of_char c - 48"

definition nat_value :: "string \<Rightarrow> nat" where
  "nat_value s = foldl (\<lambda>n c. 10 * n + digit_value c) 0 s"

lemma digit_value_digit_char [simp]: "n < 10 \<Longrightarrow> digit_value (digit_char n) = n"
  by (simp add: digit_value_def digit_char_def)

lemma nat_value_snoc [simp]: "nat_value (s @ [c]) = 10 * nat_value s + digit_value c"
  by (simp add: nat_value_def)

lemma nat_value_show_nat [simp]: "nat_value (show_nat n) = n"
proof (induction n rule: show_nat.induct)
  case (1 n)
  then show ?case
    by (subst show_nat.simps) (simp add: nat_value_def [of "[_]"])
qed

lemma foldl_zeros [simp]:
  "foldl (\<lambda>n c. 10 * n + digit_value c) 0 (replicate k CHR ''0'') = 0"
  by (induction k) (simp_all add: digit_value_def)

lemma nat_value_zero_pad [simp]: "nat_value (zero_pad w n) = n"
  using nat_value_show_nat [of n] by (simp add: zero_pad_def nat_value_def)

lemma zero_pad_inject [simp]: "zero_pad w m = zero_pad w n \<longleftrightarrow> m = n"
  by (metis nat_value_zero_pad)

lemma length_show_nat_100: "n < 100 \<Longrightarrow> length (show_nat n) \<le> 2"
  by (subst show_nat.simps, subst show_nat.simps) auto

lemma length_zero_pad_2: "n < 100 \<Longrightarrow> length (zero_pad 2 n) = 2"
  using length_show_nat_100 [of n] by (simp add: zero_pad_def)

section \<open>Python strings\<close>

text \<open>
  \<^verbatim>\<open>str.splitlines()\<close> and \<^verbatim>\<open>str.strip()\<close> on the characters below 256: the line boundaries
  (a carriage return and a line feed together are one) and the white space of Python.
\<close>

definition is_line_break :: "char \<Rightarrow> bool" where
  "is_line_break c \<longleftrightarrow> (of_char c :: nat) \<in> {10, 11, 12, 13, 28, 29, 30, 133}"

definition is_space :: "char \<Rightarrow> bool" where
  "is_space c \<longleftrightarrow>
     (of_char c :: nat) \<in> {9, 10, 11, 12, 13, 28, 29, 30, 31, 32, 133, 160}"

fun split_lines_from :: "string \<Rightarrow> string \<Rightarrow> string list" where
  "split_lines_from line [] = (if line = [] then [] else [rev line])"
| "split_lines_from line [c] =
     (if is_line_break c then [rev line] else [rev (c # line)])"
| "split_lines_from line (c # c' # cs) =
     (if c = char_of (13 :: nat) \<and> c' = char_of (10 :: nat)
      then rev line # split_lines_from [] cs
      else if is_line_break c then rev line # split_lines_from [] (c' # cs)
      else split_lines_from (c # line) (c' # cs))"

definition splitlines :: "string \<Rightarrow> string list" where
  "splitlines s = split_lines_from [] s"

definition strip :: "string \<Rightarrow> string" where
  "strip s = rev (dropWhile is_space (rev (dropWhile is_space s)))"

text \<open>\<^verbatim>\<open>str.upper()\<close> on the letters of ASCII; other characters stay.\<close>

definition upper_char :: "char \<Rightarrow> char" where
  "upper_char c = (let n = of_char c :: nat in
     if 97 \<le> n \<and> n \<le> 122 then char_of (n - 32) else c)"

definition upper :: "string \<Rightarrow> string" where
  "upper s = map upper_char s"

definition newline :: char where
  "newline = char_of (10 :: nat)"

text \<open>Lines come back from a text in which each of them ends with a line feed.\<close>

lemma split_line:
  "\<forall>x \<in> set c. \<not> is_line_break x \<Longrightarrow>
   split_lines_from line (c @ newline # rest) = (rev line @ c) # split_lines_from [] rest"
proof (induction c arbitrary: line)
  case Nil
  have "is_line_break newline" "newline \<noteq> char_of (13 :: nat)"
    by (simp_all add: newline_def is_line_break_def)
  then show ?case by (cases rest) simp_all
next
  case (Cons x c)
  then have x: "\<not> is_line_break x" "x \<noteq> char_of (13 :: nat)"
    by (auto simp: is_line_break_def)
  obtain y ys where "c @ newline # rest = y # ys" by (cases c) auto
  with x Cons show ?case by simp
qed

lemma splitlines_lines:
  "\<forall>c \<in> set cs. \<forall>x \<in> set c. \<not> is_line_break x \<Longrightarrow>
   splitlines (concat (map (\<lambda>c. c @ [newline]) cs)) = cs"
  by (induction cs) (simp_all add: splitlines_def split_line)

lemma no_space_no_break: "\<not> is_space x \<Longrightarrow> \<not> is_line_break x"
  by (auto simp: is_space_def is_line_break_def)

lemma strip_no_space: "\<forall>x \<in> set c. \<not> is_space x \<Longrightarrow> strip c = c"
proof -
  assume "\<forall>x \<in> set c. \<not> is_space x"
  then have "dropWhile is_space c = c" "dropWhile is_space (rev c) = rev c"
    by (auto simp: dropWhile_eq_self_iff hd_rev)
  then show ?thesis by (simp add: strip_def)
qed

text \<open>A text is stripped already when it begins and ends with no white space.\<close>

lemma strip_id: "s \<noteq> [] \<Longrightarrow> \<not> is_space (hd s) \<Longrightarrow> \<not> is_space (last s) \<Longrightarrow> strip s = s"
proof -
  assume "s \<noteq> []" "\<not> is_space (hd s)" "\<not> is_space (last s)"
  then have "dropWhile is_space s = s" "dropWhile is_space (rev s) = rev s"
    by (simp_all add: dropWhile_eq_self_iff hd_rev)
  then show ?thesis by (simp add: strip_def)
qed

lemma strip_newline: "strip (newline # s) = strip s"
  by (simp add: strip_def newline_def is_space_def)

text \<open>\<^verbatim>\<open>s.split(sep)\<close> for a separator of one character.\<close>

fun split_on :: "char \<Rightarrow> string \<Rightarrow> string list" where
  "split_on sep [] = [[]]"
| "split_on sep (c # cs) =
     (if c = sep then [] # split_on sep cs
      else case split_on sep cs of [] \<Rightarrow> [[c]] | s # ss \<Rightarrow> (c # s) # ss)"

lemma split_on_append: "sep \<notin> set s \<Longrightarrow> split_on sep (s @ sep # r) = s # split_on sep r"
  by (induction s) auto

lemma split_on_none: "sep \<notin> set s \<Longrightarrow> split_on sep s = [s]"
  by (induction s) auto

end
