(* ===== verification/Tables.thy ===== *)
theory Tables
  imports Prelude
begin

text \<open>
  Tables with an auto-increment primary key: what the helpers of \<^verbatim>\<open>database/db.py\<close> do for
  the shapes of SQL statement the services use. The locale \<open>id_table\<close> is the interface of
  a table; theory Schema interprets it for every row type, and the services' proofs rest
  on its laws.
\<close>

section \<open>Tables\<close>

record 'r table =
  trows :: "'r list"
  auto_inc :: nat

definition empty_table :: "'r table" where
  "empty_table = \<lparr>trows = [], auto_inc = 1\<rparr>"

text \<open>
  \<open>lookup\<close> is \<^verbatim>\<open>SELECT ... WHERE id = i\<close>; \<open>fetch_one\<close> and \<open>fetch_all\<close> are the
  functions of that name for a condition; a row of an \<^verbatim>\<open>INSERT\<close> gets the next number.
\<close>

definition lookup :: "('r \<Rightarrow> nat) \<Rightarrow> nat \<Rightarrow> 'r table \<Rightarrow> 'r option" where
  "lookup key i t = find (\<lambda>r. key r = i) (trows t)"

definition fetch_one :: "('r \<Rightarrow> bool) \<Rightarrow> 'r table \<Rightarrow> 'r option" where
  "fetch_one P t = find P (trows t)"

definition fetch_all :: "('r \<Rightarrow> bool) \<Rightarrow> 'r table \<Rightarrow> 'r list" where
  "fetch_all P t = filter P (trows t)"

definition count_rows :: "('r \<Rightarrow> bool) \<Rightarrow> 'r table \<Rightarrow> nat" where
  "count_rows P t = length (filter P (trows t))"

definition sum_rows :: "('r \<Rightarrow> bool) \<Rightarrow> ('r \<Rightarrow> int) \<Rightarrow> 'r table \<Rightarrow> int" where
  "sum_rows P g t = sum_list (map g (filter P (trows t)))"

definition update_rows :: "('r \<Rightarrow> bool) \<Rightarrow> ('r \<Rightarrow> 'r) \<Rightarrow> 'r table \<Rightarrow> 'r table" where
  "update_rows P f t = t\<lparr>trows := map (\<lambda>r. if P r then f r else r) (trows t)\<rparr>"

definition update_id :: "('r \<Rightarrow> nat) \<Rightarrow> nat \<Rightarrow> ('r \<Rightarrow> 'r) \<Rightarrow> 'r table \<Rightarrow> 'r table" where
  "update_id key i f t = update_rows (\<lambda>r. key r = i) f t"

definition delete_rows :: "('r \<Rightarrow> bool) \<Rightarrow> 'r table \<Rightarrow> 'r table" where
  "delete_rows P t = t\<lparr>trows := filter (\<lambda>r. \<not> P r) (trows t)\<rparr>"

definition insert_row :: "(nat \<Rightarrow> 'r \<Rightarrow> 'r) \<Rightarrow> 'r \<Rightarrow> 'r table \<Rightarrow> 'r table" where
  "insert_row set_key r t =
     t\<lparr>trows := trows t @ [set_key (auto_inc t) r], auto_inc := Suc (auto_inc t)\<rparr>"

text \<open>Primary keys are distinct and below the counter.\<close>

definition wf_table :: "('r \<Rightarrow> nat) \<Rightarrow> 'r table \<Rightarrow> bool" where
  "wf_table key t \<longleftrightarrow>
     distinct (map key (trows t)) \<and> (\<forall>r \<in> set (trows t). key r < auto_inc t)"

lemma find_None_ball: "find P xs = None \<longleftrightarrow> (\<forall>x \<in> set xs. \<not> P x)"
  by (induction xs) auto

lemma find_Some_mem: "find P xs = Some x \<Longrightarrow> P x \<and> x \<in> set xs"
  by (induction xs) (auto split: if_splits)

lemma find_map_same:
  "(\<And>r. P (f r) = P r) \<Longrightarrow> find P (map f xs) = map_option f (find P xs)"
  by (induction xs) auto

lemma find_append:
  "find P (xs @ ys) = (case find P xs of Some x \<Rightarrow> Some x | None \<Rightarrow> find P ys)"
  by (induction xs) auto

lemma fetch_one_Some: "fetch_one P t = Some r \<Longrightarrow> P r \<and> r \<in> set (trows t)"
  by (simp add: fetch_one_def find_Some_mem)

lemma fetch_one_None: "fetch_one P t = None \<longleftrightarrow> (\<forall>r \<in> set (trows t). \<not> P r)"
  by (simp add: fetch_one_def find_None_ball)

lemma update_id_trows:
  "trows (update_id key i f t) = map (\<lambda>r. if key r = i then f r else r) (trows t)"
  by (simp add: update_id_def update_rows_def)

lemma auto_inc_update [simp]:
  "auto_inc (update_rows P f t) = auto_inc t" "auto_inc (update_id key i f t) = auto_inc t"
  "auto_inc (delete_rows P t) = auto_inc t" "auto_inc (insert_row sk r t) = Suc (auto_inc t)"
  by (simp_all add: update_id_def update_rows_def delete_rows_def insert_row_def)

lemma wf_table_map:
  "wf_table key t \<longleftrightarrow>
     distinct (map key (trows t)) \<and> (\<forall>k \<in> set (map key (trows t)). k < auto_inc t)"
  by (simp add: wf_table_def)

lemma sum_map_if_key:
  fixes g :: "'r \<Rightarrow> int"
  assumes "distinct (map key xs)" and "find (\<lambda>r. key r = i) xs = Some r"
  shows "sum_list (map g (filter P (map (\<lambda>r. if key r = i then f r else r) xs))) =
    sum_list (map g (filter P xs)) - (if P r then g r else 0) + (if P (f r) then g (f r) else 0)"
  using assms
proof (induction xs)
  case (Cons x xs)
  show ?case
  proof (cases "key x = i")
    case True
    with Cons.prems have "map (\<lambda>r. if key r = i then f r else r) xs = xs"
      by (intro map_idI) (simp, metis image_eqI)
    with True Cons.prems show ?thesis by (simp add: if_distrib)
  next
    case False
    with Cons show ?thesis by (simp split: if_splits)
  qed
qed simp

section \<open>The interface of a table\<close>

locale id_table =
  fixes key :: "'r \<Rightarrow> nat" and set_key :: "nat \<Rightarrow> 'r \<Rightarrow> 'r"
  assumes key_set [simp]: "key (set_key i r) = i"
begin

lemma empty_wf [simp]: "wf_table key empty_table"
  by (simp add: wf_table_def empty_table_def)

lemma insert_wf [db_simps]: "wf_table key t \<Longrightarrow> wf_table key (insert_row set_key r t)"
  by (auto simp: wf_table_def insert_row_def less_Suc_eq)

lemma update_wf [db_simps]:
  "(\<And>r. key (f r) = key r) \<Longrightarrow> wf_table key (update_rows P f t) = wf_table key t"
proof -
  assume k: "\<And>r. key (f r) = key r"
  have "map (\<lambda>x. key (if P x then f x else x)) (trows t) = map key (trows t)"
    by (rule map_cong) (simp_all add: k)
  then have "map key (trows (update_rows P f t)) = map key (trows t)"
    by (simp add: update_rows_def o_def)
  then show ?thesis by (simp only: wf_table_map auto_inc_update)
qed

lemma update_id_wf [db_simps]:
  "(\<And>r. key (f r) = key r) \<Longrightarrow> wf_table key (update_id key i f t) = wf_table key t"
  by (simp add: update_id_def update_wf)

lemma delete_wf [db_simps]: "wf_table key t \<Longrightarrow> wf_table key (delete_rows P t)"
  by (auto simp: wf_table_def delete_rows_def distinct_map_filter)

lemma lookup_SomeD: "lookup key i t = Some r \<Longrightarrow> key r = i \<and> r \<in> set (trows t)"
  by (auto simp: lookup_def dest: find_Some_mem)

lemma lookup_iff: "wf_table key t \<Longrightarrow> lookup key i t = Some r \<longleftrightarrow> r \<in> set (trows t) \<and> key r = i"
proof
  assume wf: "wf_table key t" and r: "r \<in> set (trows t) \<and> key r = i"
  then obtain r' where r': "lookup key i t = Some r'"
    by (cases "lookup key i t") (auto simp: lookup_def find_None_ball)
  with r have "key r' = key r" "r' \<in> set (trows t)" by (auto dest: lookup_SomeD)
  with wf r have "r' = r" by (auto simp: wf_table_def distinct_map dest: inj_onD)
  with r' show "lookup key i t = Some r" by simp
qed (simp add: lookup_SomeD)

lemma lookup_insert [db_simps]:
  "wf_table key t \<Longrightarrow> lookup key i (insert_row set_key r t) =
     (if i = auto_inc t then Some (set_key i r) else lookup key i t)"
proof -
  assume "wf_table key t"
  then have "find (\<lambda>r. key r = auto_inc t) (trows t) = None"
    by (auto simp: wf_table_def find_None_ball)
  then show ?thesis
    by (auto simp: lookup_def insert_row_def find_append split: option.splits)
qed

lemma lookup_update [db_simps]:
  "(\<And>r. key (f r) = key r) \<Longrightarrow> lookup key i (update_rows P f t) =
     map_option (\<lambda>r. if P r then f r else r) (lookup key i t)"
  by (simp add: lookup_def update_rows_def find_map_same)

lemma lookup_update_id [db_simps]:
  "(\<And>r. key (f r) = key r) \<Longrightarrow> lookup key i (update_id key j f t) =
     (if i = j then map_option f (lookup key i t) else lookup key i t)"
  by (cases "lookup key i t") (auto simp: update_id_def lookup_update dest: lookup_SomeD)

lemma lookup_fresh: "wf_table key t \<Longrightarrow> auto_inc t \<le> i \<Longrightarrow> lookup key i t = None"
  by (auto simp: wf_table_def lookup_def find_None_ball)

lemma lookup_delete:
  assumes wf: "wf_table key t"
  shows "lookup key i (delete_rows P t) =
    (case lookup key i t of None \<Rightarrow> None | Some r \<Rightarrow> if P r then None else Some r)"
proof -
  have iff: "lookup key i (delete_rows P t) = Some r \<longleftrightarrow> lookup key i t = Some r \<and> \<not> P r" for r
    using lookup_iff [OF delete_wf [OF wf], of i P r] lookup_iff [OF wf, of i r]
    by (auto simp: delete_rows_def)
  show ?thesis
  proof (cases "lookup key i (delete_rows P t)")
    case None
    with iff show ?thesis by (auto split: option.split)
  next
    case (Some r)
    with iff [of r] show ?thesis by simp
  qed
qed

lemma sum_insert [db_simps]:
  "sum_rows P g (insert_row set_key r t) =
     sum_rows P g t + (if P (set_key (auto_inc t) r) then g (set_key (auto_inc t) r) else 0)"
  by (simp add: sum_rows_def insert_row_def)

lemma sum_update_id:
  "wf_table key t \<Longrightarrow> lookup key i t = Some r \<Longrightarrow>
   sum_rows P g (update_id key i f t) =
     sum_rows P g t - (if P r then g r else 0) + (if P (f r) then g (f r) else 0)"
  unfolding sum_rows_def update_id_trows wf_table_def lookup_def
  by (rule sum_map_if_key) simp_all

lemma count_insert [db_simps]:
  "count_rows P (insert_row set_key r t) =
     count_rows P t + (if P (set_key (auto_inc t) r) then 1 else 0)"
  by (simp add: count_rows_def insert_row_def)

lemma sum_update_id_missing:
  "lookup key i t = None \<Longrightarrow> update_id key i f t = t"
  by (simp add: lookup_def find_None_ball update_id_def update_rows_def map_idI)

end

lemma count_rows_sum: "int (count_rows P t) = sum_rows P (\<lambda>_. 1) t"
  by (simp add: count_rows_def sum_rows_def sum_list_triv)

end
