(* ===== verification/Schema.thy ===== *)
theory Schema
  imports Tables
begin

text \<open>
  The rows of \<^verbatim>\<open>database/schema.sql\<close>, with the columns added by its phase 4 and wallet
  sections, and the state \<open>db\<close> with one table each. Every column that the code reads or
  writes is a field; a \<^verbatim>\<open>DECIMAL(_,2)\<close> column is a number of hundredths (\<open>cents\<close>),
  a nullable column an option, an \<^verbatim>\<open>ENUM\<close> a datatype, a \<^verbatim>\<open>DATETIME\<close> a number of seconds.
\<close>

section \<open>Enumerations\<close>

datatype reseller_status = ResellerActive | ResellerSuspended

datatype order_status =
    AwaitingPayment | AwaitingReceiptReview | Confirmed | Activated | Rejected
  | RefundPending | Refunded | FailedInsufficientCredit

datatype order_type = PackageOrder | ChargeOrder

datatype tx_type = TxTopup | TxCommissionDeduction | TxRefund

datatype pay_method = Card | Zarinpal | Crypto

datatype tx_status = TxPending | TxConfirmed | TxRejected

datatype review_status = ReviewPending | ReviewApproved | ReviewRejected

datatype topup_status =
    TopupPending | TopupConfirmed | TopupConfirmedInsufficientCredit | TopupRejected

datatype code_status = Available | Sold

datatype operator_status = OperatorActive | OperatorDisabled

section \<open>Rows\<close>

type_synonym time = nat

record reseller =
  r_id :: nat
  bot_token_encrypted :: string
  bot_username :: string
  telegram_numeric_id :: int
  commission_percent :: cents
  wallet_credit_balance :: cents
  credit_limit_negative :: cents
  r_status :: reseller_status
  order_prefix :: string
  support_contact :: "string option"
  zarinpal_merchant_id :: "string option"
  end_order_message :: "string option"
  test_mode_enabled :: bool
  test_mode_order_limit :: int
  test_mode_orders_used :: int

record operator_row =
  op_id :: nat
  op_reseller_id :: nat
  op_telegram_user_id :: int
  op_status :: operator_status

record card_row =
  pc_id :: nat
  pc_reseller_id :: nat
  card_number :: string
  card_holder_name :: string
  bank_name :: "string option"
  pc_is_active :: bool

record wallet_tx =
  wt_id :: nat
  wt_reseller_id :: nat
  wt_type :: tx_type
  wt_amount :: cents
  wt_method :: "pay_method option"
  wt_status :: tx_status
  wt_reference :: "string option"

record package =
  p_id :: nat
  p_reseller_id :: nat
  p_category_id :: nat
  p_name :: string
  sale_price :: cents
  cost_price :: "cents option"
  p_is_active :: bool

record customer =
  c_id :: nat
  c_reseller_id :: nat
  c_telegram_user_id :: int
  wallet_balance :: cents

record order =
  o_id :: nat
  order_code :: string
  o_reseller_id :: nat
  o_package_id :: nat
  o_customer_id :: nat
  o_status :: order_status
  receipt_image :: "string option"
  phone_number :: "string option"
  package_price :: cents
  commission_amount :: cents
  is_test_order :: bool
  created_at :: time
  confirmed_at :: "time option"
  activated_at :: "time option"
  paid_from_wallet :: bool
  o_type :: order_type
  delivered_charge_code :: "string option"

record dispute =
  d_id :: nat
  d_order_id :: nat
  d_reseller_id :: nat
  d_reason :: string
  d_review_status :: review_status
  refunded_amount :: "cents option"
  reviewed_at :: "time option"

record discount_code =
  dc_id :: nat
  dc_reseller_id :: nat
  dc_code :: string
  dc_percent :: cents
  usage_limit :: int
  usage_count :: int
  expires_at :: "time option"
  dc_is_active :: bool

record referral_row =
  rf_id :: nat
  rf_reseller_id :: nat
  rf_is_enabled :: bool
  profit_percent :: cents

record referral_link =
  rl_id :: nat
  rl_reseller_id :: nat
  referrer_customer_id :: int
  referred_customer_id :: nat

record blacklist_row =
  b_id :: nat
  b_telegram_user_id :: int
  reported_by_reseller_id :: "nat option"
  b_reason :: string
  is_global :: bool

record topup =
  tu_id :: nat
  tu_reseller_id :: nat
  tu_customer_id :: nat
  tu_amount :: cents
  tu_method :: pay_method
  tu_receipt_image :: "string option"
  tu_status :: topup_status
  tu_confirmed_at :: "time option"

record charge_code =
  cc_id :: nat
  cc_reseller_id :: nat
  cc_package_id :: nat
  cc_code :: string
  cc_status :: code_status
  added_at :: time
  sold_at :: "time option"
  sold_to_customer_id :: "nat option"
  sold_order_id :: "nat option"

datatype catalog_type = PackageCatalog | ChargeCatalog

record category =
  cat_id :: nat
  cat_reseller_id :: nat
  operator_name :: string
  parent_category_id :: "nat option"
  cat_title :: string
  cat_type :: catalog_type

record price_floor =
  pf_id :: nat
  pf_operator_name :: string
  min_sane_price :: cents

datatype channel_setter = SetByAdmin | SetByReseller

record forced_channel =
  fc_id :: nat
  fc_reseller_id :: nat
  channel_id :: string
  set_by :: channel_setter

record crypto_setting =
  cs_id :: nat
  coin_name :: string
  address :: string
  network :: string
  coin_price :: cents

section \<open>The database\<close>

record db =
  resellers :: "reseller table"
  reseller_operators :: "operator_row table"
  reseller_payment_cards :: "card_row table"
  wallet_transactions :: "wallet_tx table"
  packages :: "package table"
  customers :: "customer table"
  orders :: "order table"
  disputes :: "dispute table"
  discount_codes :: "discount_code table"
  referrals :: "referral_row table"
  referral_links :: "referral_link table"
  blacklist :: "blacklist_row table"
  customer_wallet_topups :: "topup table"
  charge_codes :: "charge_code table"
  categories :: "category table"
  category_price_floors :: "price_floor table"
  forced_join_channels :: "forced_channel table"
  crypto_settings :: "crypto_setting table"

definition empty_db :: db where
  "empty_db = \<lparr>resellers = empty_table, reseller_operators = empty_table,
     reseller_payment_cards = empty_table, wallet_transactions = empty_table,
     packages = empty_table, customers = empty_table, orders = empty_table,
     disputes = empty_table, discount_codes = empty_table, referrals = empty_table,
     referral_links = empty_table, blacklist = empty_table,
     customer_wallet_topups = empty_table, charge_codes = empty_table,
     categories = empty_table, category_price_floors = empty_table,
     forced_join_channels = empty_table, crypto_settings = empty_table\<rparr>"

text \<open>Setting the primary key of a new row, one function per table.\<close>

definition reseller_with_id :: "nat \<Rightarrow> reseller \<Rightarrow> reseller" where
  "reseller_with_id i r = r\<lparr>r_id := i\<rparr>"

definition card_with_id :: "nat \<Rightarrow> card_row \<Rightarrow> card_row" where
  "card_with_id i r = r\<lparr>pc_id := i\<rparr>"

definition tx_with_id :: "nat \<Rightarrow> wallet_tx \<Rightarrow> wallet_tx" where
  "tx_with_id i r = r\<lparr>wt_id := i\<rparr>"

definition package_with_id :: "nat \<Rightarrow> package \<Rightarrow> package" where
  "package_with_id i r = r\<lparr>p_id := i\<rparr>"

definition customer_with_id :: "nat \<Rightarrow> customer \<Rightarrow> customer" where
  "customer_with_id i r = r\<lparr>c_id := i\<rparr>"

definition order_with_id :: "nat \<Rightarrow> order \<Rightarrow> order" where
  "order_with_id i r = r\<lparr>o_id := i\<rparr>"

definition dispute_with_id :: "nat \<Rightarrow> dispute \<Rightarrow> dispute" where
  "dispute_with_id i r = r\<lparr>d_id := i\<rparr>"

definition discount_with_id :: "nat \<Rightarrow> discount_code \<Rightarrow> discount_code" where
  "discount_with_id i r = r\<lparr>dc_id := i\<rparr>"

definition referral_with_id :: "nat \<Rightarrow> referral_row \<Rightarrow> referral_row" where
  "referral_with_id i r = r\<lparr>rf_id := i\<rparr>"

definition link_with_id :: "nat \<Rightarrow> referral_link \<Rightarrow> referral_link" where
  "link_with_id i r = r\<lparr>rl_id := i\<rparr>"

definition blacklist_with_id :: "nat \<Rightarrow> blacklist_row \<Rightarrow> blacklist_row" where
  "blacklist_with_id i r = r\<lparr>b_id := i\<rparr>"

definition topup_with_id :: "nat \<Rightarrow> topup \<Rightarrow> topup" where
  "topup_with_id i r = r\<lparr>tu_id := i\<rparr>"

definition code_with_id :: "nat \<Rightarrow> charge_code \<Rightarrow> charge_code" where
  "code_with_id i r = r\<lparr>cc_id := i\<rparr>"

definition operator_with_id :: "nat \<Rightarrow> operator_row \<Rightarrow> operator_row" where
  "operator_with_id i r = r\<lparr>op_id := i\<rparr>"

definition category_with_id :: "nat \<Rightarrow> category \<Rightarrow> category" where
  "category_with_id i r = r\<lparr>cat_id := i\<rparr>"

definition floor_with_id :: "nat \<Rightarrow> price_floor \<Rightarrow> price_floor" where
  "floor_with_id i r = r\<lparr>pf_id := i\<rparr>"

definition channel_with_id :: "nat \<Rightarrow> forced_channel \<Rightarrow> forced_channel" where
  "channel_with_id i r = r\<lparr>fc_id := i\<rparr>"

definition crypto_with_id :: "nat \<Rightarrow> crypto_setting \<Rightarrow> crypto_setting" where
  "crypto_with_id i r = r\<lparr>cs_id := i\<rparr>"

lemmas with_id_defs [simp] =
  operator_with_id_def category_with_id_def floor_with_id_def channel_with_id_def crypto_with_id_def
  reseller_with_id_def card_with_id_def tx_with_id_def package_with_id_def
  customer_with_id_def order_with_id_def dispute_with_id_def discount_with_id_def
  referral_with_id_def link_with_id_def blacklist_with_id_def topup_with_id_def
  code_with_id_def

interpretation resellers: id_table r_id reseller_with_id by unfold_locales simp
interpretation cards: id_table pc_id card_with_id by unfold_locales simp
interpretation txs: id_table wt_id tx_with_id by unfold_locales simp
interpretation packages: id_table p_id package_with_id by unfold_locales simp
interpretation customers: id_table c_id customer_with_id by unfold_locales simp
interpretation orders: id_table o_id order_with_id by unfold_locales simp
interpretation disputes: id_table d_id dispute_with_id by unfold_locales simp
interpretation discounts: id_table dc_id discount_with_id by unfold_locales simp
interpretation referrals: id_table rf_id referral_with_id by unfold_locales simp
interpretation links: id_table rl_id link_with_id by unfold_locales simp
interpretation blacklist: id_table b_id blacklist_with_id by unfold_locales simp
interpretation topups: id_table tu_id topup_with_id by unfold_locales simp
interpretation codes: id_table cc_id code_with_id by unfold_locales simp
interpretation operators: id_table op_id operator_with_id by unfold_locales simp
interpretation categories: id_table cat_id category_with_id by unfold_locales simp
interpretation floors: id_table pf_id floor_with_id by unfold_locales simp
interpretation channels: id_table fc_id channel_with_id by unfold_locales simp
interpretation cryptos: id_table cs_id crypto_with_id by unfold_locales simp

text \<open>Primary keys of the tables the financial services write.\<close>

definition wf_db :: "db \<Rightarrow> bool" where
  "wf_db d \<longleftrightarrow>
     wf_table r_id (resellers d) \<and> wf_table wt_id (wallet_transactions d) \<and>
     wf_table p_id (packages d) \<and> wf_table c_id (customers d) \<and> wf_table o_id (orders d) \<and>
     wf_table d_id (disputes d) \<and> wf_table dc_id (discount_codes d) \<and>
     wf_table tu_id (customer_wallet_topups d) \<and> wf_table cc_id (charge_codes d)"

lemma wf_dbD [dest]:
  assumes "wf_db d"
  shows "wf_table r_id (resellers d)" "wf_table wt_id (wallet_transactions d)"
    "wf_table p_id (packages d)" "wf_table c_id (customers d)" "wf_table o_id (orders d)"
    "wf_table d_id (disputes d)" "wf_table dc_id (discount_codes d)"
    "wf_table tu_id (customer_wallet_topups d)" "wf_table cc_id (charge_codes d)"
  using assms by (simp_all add: wf_db_def)

section \<open>Inserting an order\<close>

text \<open>
  \<^verbatim>\<open>INSERT INTO orders\<close>: the unique key on \<^verbatim>\<open>order_code\<close> and the foreign keys of the table
  make the statement raise \<^verbatim>\<open>IntegrityError\<close>.
\<close>

definition insert_order :: "order \<Rightarrow> db \<Rightarrow> (db, nat) outcome" where
  "insert_order r d =
     (if fetch_one (\<lambda>r'. order_code r' = order_code r) (orders d) \<noteq> None
        \<or> lookup r_id (o_reseller_id r) (resellers d) = None
        \<or> lookup p_id (o_package_id r) (packages d) = None
        \<or> lookup c_id (o_customer_id r) (customers d) = None
      then (Inl IntegrityError, d)
      else (Inr (auto_inc (orders d)), d\<lparr>orders := insert_row order_with_id r (orders d)\<rparr>))"

end
