(* ===== verification/CommissionWallet.thy ===== *)
theory CommissionWallet
  imports Schema
begin

text \<open>
  The commission wallet of a reseller at the platform (\<^verbatim>\<open>services/wallet_service.py\<close>):
  deducting and refunding commission, and top-ups that the super admin confirms. The
  locale \<open>commission_account\<close> is what its two clients, the order flow and the customer
  wallet, rely on when they deduct inside a transaction of their own.
\<close>

section \<open>Operations\<close>

definition upd_reseller :: "nat \<Rightarrow> (reseller \<Rightarrow> reseller) \<Rightarrow> db \<Rightarrow> db" where
  "upd_reseller i f d = d\<lparr>resellers := update_id r_id i f (resellers d)\<rparr>"

definition insert_tx :: "wallet_tx \<Rightarrow> db \<Rightarrow> db" where
  "insert_tx t d =
     d\<lparr>wallet_transactions := insert_row tx_with_id t (wallet_transactions d)\<rparr>"

definition deduct_commission_in_tx ::
  "nat \<Rightarrow> decimal \<Rightarrow> string \<Rightarrow> db \<Rightarrow> (db, unit) outcome" where
  "deduct_commission_in_tx rid amount ref d =
     (case lookup r_id rid (resellers d) of
        None \<Rightarrow> (Inl (ValueError ResellerNotFound), d)
      | Some r \<Rightarrow>
          let new_balance = dec (wallet_credit_balance r) - amount in
          if new_balance < - dec (credit_limit_negative r)
          then (Inl InsufficientCreditError, d)
          else
            (let d1 = upd_reseller rid (\<lambda>r. r\<lparr>wallet_credit_balance := store new_balance\<rparr>) d
             in (Inr (), insert_tx
                   \<lparr>wt_id = 0, wt_reseller_id = rid, wt_type = TxCommissionDeduction,
                    wt_amount = store (- amount), wt_method = None,
                    wt_status = TxConfirmed, wt_reference = Some ref\<rparr> d1)))"

definition deduct_commission ::
  "nat \<Rightarrow> decimal \<Rightarrow> string \<Rightarrow> db \<Rightarrow> (db, unit) outcome" where
  "deduct_commission rid amount ref = transaction (deduct_commission_in_tx rid amount ref)"

definition refund_commission ::
  "nat \<Rightarrow> decimal \<Rightarrow> string \<Rightarrow> db \<Rightarrow> (db, unit) outcome" where
  "refund_commission rid amount ref = transaction (\<lambda>d.
     case lookup r_id rid (resellers d) of
       None \<Rightarrow> (Inl (ValueError ResellerNotFound), d)
     | Some r \<Rightarrow>
         let new_balance = dec (wallet_credit_balance r) + amount;
             d1 = upd_reseller rid (\<lambda>r. r\<lparr>wallet_credit_balance := store new_balance\<rparr>) d
         in (Inr (), insert_tx
               \<lparr>wt_id = 0, wt_reseller_id = rid, wt_type = TxRefund,
                wt_amount = store amount, wt_method = None,
                wt_status = TxConfirmed, wt_reference = Some ref\<rparr> d1))"

definition request_topup ::
  "nat \<Rightarrow> decimal \<Rightarrow> pay_method \<Rightarrow> string option \<Rightarrow> db \<Rightarrow> (db, nat) outcome" where
  "request_topup rid amount meth ref = transaction (\<lambda>d.
     if lookup r_id rid (resellers d) = None then (Inl IntegrityError, d)
     else (Inr (auto_inc (wallet_transactions d)), insert_tx
       \<lparr>wt_id = 0, wt_reseller_id = rid, wt_type = TxTopup, wt_amount = store amount,
        wt_method = Some meth, wt_status = TxPending, wt_reference = ref\<rparr> d))"

definition confirm_topup :: "nat \<Rightarrow> db \<Rightarrow> (db, unit) outcome" where
  "confirm_topup tid = transaction (\<lambda>d.
     case lookup wt_id tid (wallet_transactions d) of
       None \<Rightarrow> (Inl (ValueError TransactionNotFound), d)
     | Some t \<Rightarrow>
         if wt_status t \<noteq> TxPending then (Inl (ValueError AlreadyProcessed), d)
         else
           (let d1 = d\<lparr>wallet_transactions := update_id wt_id tid
                       (\<lambda>t. t\<lparr>wt_status := TxConfirmed\<rparr>) (wallet_transactions d)\<rparr>
            in case lookup r_id (wt_reseller_id t) (resellers d1) of
                 None \<Rightarrow> (Inl TypeError, d1)
               | Some r \<Rightarrow>
                   let new_balance = dec (wallet_credit_balance r) + dec (wt_amount t)
                   in (Inr (), upd_reseller (wt_reseller_id t)
                         (\<lambda>r. r\<lparr>wallet_credit_balance := store new_balance\<rparr>) d1)))"

text \<open>
  The pattern of the two clients: deduct inside the running transaction; when the credit
  does not suffice, record the failure in the same transaction instead of raising, so
  that it is committed (\<^verbatim>\<open>try ... except InsufficientCreditError ... else\<close>). The value is
  the flag \<^verbatim>\<open>insufficient_credit\<close>.
\<close>

fun settle_commission ::
  "(db \<Rightarrow> (db, unit) outcome) \<Rightarrow> (db \<Rightarrow> db) \<Rightarrow> (db \<Rightarrow> db) \<Rightarrow> db \<Rightarrow> (db, bool) outcome" where
  "settle_commission deduct mark_failed mark_ok d =
     (case deduct d of
        (Inl e, d1) \<Rightarrow>
          if e = InsufficientCreditError then (Inr True, mark_failed d1) else (Inl e, d1)
      | (Inr u, d1) \<Rightarrow> (Inr False, mark_ok d1))"

declare settle_commission.simps [simp del]

text \<open>
  The commission on a price, \<^verbatim>\<open>Decimal(price) * Decimal(commission_percent) / Decimal("100")\<close>:
  the same expression for a receipt order and for a top-up of a customer's wallet.
\<close>

definition commission_on :: "cents \<Rightarrow> cents \<Rightarrow> decimal" where
  "commission_on price percent = dec price * dec percent / 100"

section \<open>The account seen by the rest of the program\<close>

definition balance_of :: "nat \<Rightarrow> db \<Rightarrow> cents" where
  "balance_of rid d =
     (case lookup r_id rid (resellers d) of None \<Rightarrow> 0 | Some r \<Rightarrow> wallet_credit_balance r)"

text \<open>What the confirmed rows of the ledger of a reseller add up to.\<close>

definition ledger_of :: "nat \<Rightarrow> db \<Rightarrow> cents" where
  "ledger_of rid d =
     sum_rows (\<lambda>t. wt_reseller_id t = rid \<and> wt_status t = TxConfirmed) wt_amount
       (wallet_transactions d)"

text \<open>No reseller is further in the red than its negative credit limit allows.\<close>

definition within_credit :: "db \<Rightarrow> bool" where
  "within_credit d \<longleftrightarrow>
     (\<forall>r \<in> set (trows (resellers d)). - credit_limit_negative r \<le> wallet_credit_balance r)"

text \<open>The tables an operation of the wallet leaves alone.\<close>

definition same_elsewhere :: "db \<Rightarrow> db \<Rightarrow> bool" where
  "same_elsewhere d d' \<longleftrightarrow>
     d' = d\<lparr>resellers := resellers d', wallet_transactions := wallet_transactions d'\<rparr>"

lemma same_elsewhere_upd [simp]:
  "same_elsewhere d d" "same_elsewhere d (upd_reseller i f d)"
  "same_elsewhere d (insert_tx t (upd_reseller i f d))"
  by (simp_all add: same_elsewhere_def upd_reseller_def insert_tx_def)

lemma same_elsewhereD:
  assumes "same_elsewhere d d'"
  shows "orders d' = orders d" "customers d' = customers d"
    "customer_wallet_topups d' = customer_wallet_topups d" "disputes d' = disputes d"
    "packages d' = packages d" "charge_codes d' = charge_codes d" "blacklist d' = blacklist d"
  by (subst assms [unfolded same_elsewhere_def], simp)+

lemma upd_reseller_simps [simp]:
  "resellers (upd_reseller i f d) = update_id r_id i f (resellers d)"
  "wallet_transactions (upd_reseller i f d) = wallet_transactions d"
  "resellers (insert_tx t d) = resellers d"
  "wallet_transactions (insert_tx t d) =
     insert_row tx_with_id t (wallet_transactions d)"
  by (simp_all add: upd_reseller_def insert_tx_def)

lemma within_credit_update:
  assumes "within_credit d"
    and "\<And>r. r \<in> set (trows (resellers d)) \<Longrightarrow> r_id r = i \<Longrightarrow>
           - credit_limit_negative (f r) \<le> wallet_credit_balance (f r)"
    and "resellers d' = update_id r_id i f (resellers d)"
  shows "within_credit d'"
  using assms by (auto simp: within_credit_def update_id_trows)

text \<open>What happens in each case of a deduction.\<close>

lemma deduct_cases:
  "lookup r_id rid (resellers d) = None \<Longrightarrow>
     deduct_commission_in_tx rid a ref d = (Inl (ValueError ResellerNotFound), d)"
  "lookup r_id rid (resellers d) = Some r \<Longrightarrow>
     dec (wallet_credit_balance r) - a < - dec (credit_limit_negative r) \<Longrightarrow>
     deduct_commission_in_tx rid a ref d = (Inl InsufficientCreditError, d)"
  "lookup r_id rid (resellers d) = Some r \<Longrightarrow>
     - dec (credit_limit_negative r) \<le> dec (wallet_credit_balance r) - a \<Longrightarrow>
     deduct_commission_in_tx rid a ref d =
       (Inr (), insert_tx
          \<lparr>wt_id = 0, wt_reseller_id = rid, wt_type = TxCommissionDeduction,
           wt_amount = store (- a), wt_method = None, wt_status = TxConfirmed,
           wt_reference = Some ref\<rparr>
          (upd_reseller rid
            (\<lambda>s. s\<lparr>wallet_credit_balance := store (dec (wallet_credit_balance r) - a)\<rparr>) d))"
  by (auto simp: deduct_commission_in_tx_def Let_def)

section \<open>The interface\<close>

locale commission_account =
  fixes deduct :: "nat \<Rightarrow> decimal \<Rightarrow> string \<Rightarrow> db \<Rightarrow> (db, unit) outcome"
  assumes deduct_error: "deduct rid a ref d = (Inl e, d') \<Longrightarrow> d' = d"
    and deduct_insufficient:
      "lookup r_id rid (resellers d) = Some r \<Longrightarrow>
       fst (deduct rid a ref d) = Inl InsufficientCreditError \<longleftrightarrow>
         dec (wallet_credit_balance r) - a < - dec (credit_limit_negative r)"
    and deduct_frame: "same_elsewhere d (snd (deduct rid a ref d))"
    and deduct_row:
      "deduct rid a ref d = (Inr (), d') \<Longrightarrow> lookup r_id rid (resellers d) = Some r \<Longrightarrow>
       lookup r_id rid (resellers d') =
         Some (r\<lparr>wallet_credit_balance := store (dec (wallet_credit_balance r) - a)\<rparr>)"
    and deduct_ledger:
      "deduct rid a ref d = (Inr (), d') \<Longrightarrow> ledger_of rid d' = ledger_of rid d + store (- a)"
    and deduct_others: "rid' \<noteq> rid \<Longrightarrow> balance_of rid' (snd (deduct rid a ref d)) = balance_of rid' d"
    and deduct_wf: "wf_db d \<Longrightarrow> wf_db (snd (deduct rid a ref d))"
    and deduct_within: "wf_db d \<Longrightarrow> within_credit d \<Longrightarrow> within_credit (snd (deduct rid a ref d))"
    and deduct_found:
      "lookup r_id rid (resellers d) = Some r \<Longrightarrow>
       fst (deduct rid a ref d) \<in> {Inr (), Inl InsufficientCreditError}"
begin

lemma deduct_balance:
  "deduct rid a ref d = (Inr (), d') \<Longrightarrow> lookup r_id rid (resellers d) = Some r \<Longrightarrow>
   balance_of rid d' = store (dec (wallet_credit_balance r) - a)"
  by (simp add: balance_of_def deduct_row)

text \<open>A client that settles keeps every reseller within its credit.\<close>

lemma settle_within:
  assumes "wf_db d" and "within_credit d"
    and "\<And>d. resellers (mark_failed d) = resellers d" and "\<And>d. resellers (mark_ok d) = resellers d"
  shows "within_credit (snd (settle_commission (deduct rid a ref) mark_failed mark_ok d))"
proof -
  have "within_credit (snd (deduct rid a ref d))" using assms(1,2) by (rule deduct_within)
  then show ?thesis using assms(3,4)
    by (auto simp: settle_commission.simps within_credit_def split: prod.splits sum.splits)
qed

text \<open>It records exactly one of the two outcomes, and a failure leaves the balance alone.\<close>

lemma settle_failed:
  assumes "lookup r_id rid (resellers d) = Some r"
    and "dec (wallet_credit_balance r) - a < - dec (credit_limit_negative r)"
  shows "settle_commission (deduct rid a ref) mark_failed mark_ok d = (Inr True, mark_failed d)"
proof -
  from assms have "fst (deduct rid a ref d) = Inl InsufficientCreditError"
    by (simp add: deduct_insufficient)
  then obtain d' where "deduct rid a ref d = (Inl InsufficientCreditError, d')"
    by (cases "deduct rid a ref d") auto
  moreover from this have "d' = d" by (rule deduct_error)
  ultimately show ?thesis by (simp add: settle_commission.simps)
qed

lemma settle_ok:
  assumes "lookup r_id rid (resellers d) = Some r"
    and "- dec (credit_limit_negative r) \<le> dec (wallet_credit_balance r) - a"
  obtains d1 where "deduct rid a ref d = (Inr (), d1)"
    and "settle_commission (deduct rid a ref) mark_failed mark_ok d = (Inr False, mark_ok d1)"
    and "same_elsewhere d d1"
    and "balance_of rid d1 = store (dec (wallet_credit_balance r) - a)"
proof -
  from assms have "fst (deduct rid a ref d) \<noteq> Inl InsufficientCreditError"
    by (simp add: deduct_insufficient)
  with deduct_found [OF assms(1), of a ref] obtain d1
    where d1: "deduct rid a ref d = (Inr (), d1)"
    by (cases "deduct rid a ref d") auto
  with deduct_frame [of d rid a ref] have "same_elsewhere d d1" by simp
  with d1 deduct_balance [OF d1 assms(1)] that show ?thesis
    by (simp add: settle_commission.simps)
qed

end

section \<open>The wallet service provides the interface\<close>

lemma lookup_cases:
  obtains "lookup key i t = None" | r where "lookup key i t = Some r"
  by (cases "lookup key i t") auto

lemma deduct_result:
  assumes "lookup r_id rid (resellers d) = Some r"
  shows "deduct_commission_in_tx rid a ref d =
    (if dec (wallet_credit_balance r) - a < - dec (credit_limit_negative r)
     then (Inl InsufficientCreditError, d)
     else (Inr (), insert_tx
          \<lparr>wt_id = 0, wt_reseller_id = rid, wt_type = TxCommissionDeduction,
           wt_amount = store (- a), wt_method = None, wt_status = TxConfirmed,
           wt_reference = Some ref\<rparr>
          (upd_reseller rid
            (\<lambda>s. s\<lparr>wallet_credit_balance := store (dec (wallet_credit_balance r) - a)\<rparr>) d)))"
  using assms by (simp add: deduct_commission_in_tx_def Let_def)

lemma balance_of_upd [simp]:
  "balance_of rid (insert_tx t d) = balance_of rid d"
  "(\<And>r. r_id (f r) = r_id r) \<Longrightarrow> balance_of rid (upd_reseller i f d) =
     (case lookup r_id rid (resellers d) of None \<Rightarrow> 0
      | Some r \<Rightarrow> if rid = i then wallet_credit_balance (f r) else wallet_credit_balance r)"
  by (auto simp: balance_of_def resellers.lookup_update_id split: option.splits)

lemma ledger_of_upd [simp]:
  "ledger_of rid (upd_reseller i f d) = ledger_of rid d"
  "ledger_of rid (insert_tx t d) = ledger_of rid d +
     (if wt_reseller_id t = rid \<and> wt_status t = TxConfirmed then wt_amount t else 0)"
  by (simp_all add: ledger_of_def txs.sum_insert)

lemma wf_db_upd [simp]:
  "wf_db d \<Longrightarrow> (\<And>r. r_id (f r) = r_id r) \<Longrightarrow> wf_db (upd_reseller i f d)"
  "wf_db d \<Longrightarrow> wf_db (insert_tx t d)"
  by (simp_all add: wf_db_def upd_reseller_def insert_tx_def resellers.update_id_wf txs.insert_wf)

lemma credit_bound:
  "- dec l \<le> dec b - a \<Longrightarrow> - l \<le> store (dec b - a)"
  using store_ge [of "- l"] by (simp add: dec_arith)

lemma deduct_within_credit:
  assumes "wf_db d" and "within_credit d"
  shows "within_credit (snd (deduct_commission_in_tx rid a ref d))"
proof (cases "lookup r_id rid (resellers d)")
  case None
  with assms show ?thesis by (simp add: deduct_cases)
next
  case (Some r)
  show ?thesis
  proof (cases "dec (wallet_credit_balance r) - a < - dec (credit_limit_negative r)")
    case True
    with Some assms show ?thesis by (simp add: deduct_cases)
  next
    case False
    let ?b = "store (dec (wallet_credit_balance r) - a)"
    from False have "- credit_limit_negative r \<le> ?b" by (simp add: credit_bound not_less)
    moreover have "s = r" if "s \<in> set (trows (resellers d))" "r_id s = rid" for s
      using resellers.lookup_iff [of "resellers d" rid s] that Some assms(1) by auto
    ultimately show ?thesis using Some False
      by (intro within_credit_update [OF assms(2)]) (auto simp: deduct_result)
  qed
qed

interpretation wallet: commission_account deduct_commission_in_tx
proof unfold_locales
  fix rid rid' a ref d e d' r
  show "d' = d" if "deduct_commission_in_tx rid a ref d = (Inl e, d')"
    using that by (auto simp: deduct_commission_in_tx_def Let_def split: option.splits if_splits)
  show "(fst (deduct_commission_in_tx rid a ref d) = Inl InsufficientCreditError) =
      (dec (wallet_credit_balance r) - a < - dec (credit_limit_negative r))"
    if "lookup r_id rid (resellers d) = Some r"
    using that by (simp add: deduct_result)
  show "same_elsewhere d (snd (deduct_commission_in_tx rid a ref d))"
    by (simp add: deduct_commission_in_tx_def Let_def split: option.splits)
  show "lookup r_id rid (resellers d') =
      Some (r\<lparr>wallet_credit_balance := store (dec (wallet_credit_balance r) - a)\<rparr>)"
    if "deduct_commission_in_tx rid a ref d = (Inr (), d')"
      and "lookup r_id rid (resellers d) = Some r"
    using that by (auto simp: deduct_result resellers.lookup_update_id split: if_splits)
  show "ledger_of rid d' = ledger_of rid d + store (- a)"
    if "deduct_commission_in_tx rid a ref d = (Inr (), d')"
    using that by (auto simp: deduct_commission_in_tx_def Let_def split: option.splits if_splits)
  show "balance_of rid' (snd (deduct_commission_in_tx rid a ref d)) = balance_of rid' d"
    if "rid' \<noteq> rid"
    using that by (simp add: deduct_commission_in_tx_def Let_def balance_of_def
        resellers.lookup_update_id split: option.splits)
  show "wf_db (snd (deduct_commission_in_tx rid a ref d))" if "wf_db d"
    using that by (simp add: deduct_commission_in_tx_def Let_def split: option.splits)
  show "within_credit (snd (deduct_commission_in_tx rid a ref d))"
    if "wf_db d" and "within_credit d"
    using that by (rule deduct_within_credit)
  show "fst (deduct_commission_in_tx rid a ref d) \<in> {Inr (), Inl InsufficientCreditError}"
    if "lookup r_id rid (resellers d) = Some r"
    using that by (simp add: deduct_result)
qed

section \<open>Refunds and top-ups\<close>

lemma refund_result:
  "refund_commission rid a ref d =
    (case lookup r_id rid (resellers d) of
       None \<Rightarrow> (Inl (ValueError ResellerNotFound), d)
     | Some r \<Rightarrow> (Inr (), insert_tx
         \<lparr>wt_id = 0, wt_reseller_id = rid, wt_type = TxRefund, wt_amount = store a,
          wt_method = None, wt_status = TxConfirmed, wt_reference = Some ref\<rparr>
         (upd_reseller rid
           (\<lambda>s. s\<lparr>wallet_credit_balance := store (dec (wallet_credit_balance r) + a)\<rparr>) d)))"
  by (simp add: refund_commission_def transaction_def Let_def split: option.splits)

lemma store_sum [simp]: "store (dec a + dec b) = a + b" "store (dec a - dec b) = a - b"
  by (simp_all only: dec_arith [symmetric] store_dec)

lemma refund_balance:
  assumes "lookup r_id rid (resellers d) = Some r"
  shows "balance_of rid (snd (refund_commission rid (dec c) ref d)) = wallet_credit_balance r + c"
  using assms by (simp add: refund_result)

text \<open>The states a confirmed top-up passes through.\<close>

lemma confirm_topup_result:
  assumes "lookup wt_id tid (wallet_transactions d) = Some t" and "wt_status t = TxPending"
    and "lookup r_id (wt_reseller_id t) (resellers d) = Some r"
  shows "confirm_topup tid d =
    (Inr (), upd_reseller (wt_reseller_id t)
       (\<lambda>s. s\<lparr>wallet_credit_balance := wallet_credit_balance r + wt_amount t\<rparr>)
       (d\<lparr>wallet_transactions := update_id wt_id tid (\<lambda>t. t\<lparr>wt_status := TxConfirmed\<rparr>)
            (wallet_transactions d)\<rparr>))"
  using assms by (simp add: confirm_topup_def transaction_def Let_def)

lemma confirm_topup_error:
  "fst (confirm_topup tid d) = Inl e \<Longrightarrow> snd (confirm_topup tid d) = d"
  by (auto simp: confirm_topup_def transaction_def Let_def split: option.splits if_splits)

section \<open>Properties\<close>

text \<open>
  Property C22: a commission deduction keeps the stored balance and the ledger in step. The
  balance column and the ledger row are rounded to hundredths separately, so they may
  drift apart by one hundredth when the amount has more than two decimals; for an amount
  in whole hundredths they move by the same amount. Errors change neither.
\<close>

theorem deduct_commission_ledger:
  "\<bar>(balance_of rid (snd (deduct_commission rid a ref d)) - balance_of rid d) -
    (ledger_of rid (snd (deduct_commission rid a ref d)) - ledger_of rid d)\<bar> \<le> 1
   \<and> balance_of rid (snd (deduct_commission rid (dec c) ref d)) - balance_of rid d =
     ledger_of rid (snd (deduct_commission rid (dec c) ref d)) - ledger_of rid d"
proof (cases "lookup r_id rid (resellers d)")
  case None
  then show ?thesis by (simp add: deduct_commission_def transaction_def deduct_cases)
next
  case (Some r)
  then show ?thesis
    using store_diff_near [of "wallet_credit_balance r" a, folded diff_diff_eq]
    by (simp add: deduct_commission_def transaction_def deduct_result balance_of_def
        resellers.lookup_update_id)
qed

text \<open>
  A pending top-up that the super admin confirms raises the reseller's balance
  and ledger by exactly its amount, and only once: a second confirmation is refused and
  changes nothing.
\<close>

theorem confirm_topup_credits_once:
  assumes "wf_db d"
    and "lookup wt_id tid (wallet_transactions d) = Some t" and "wt_status t = TxPending"
    and "lookup r_id (wt_reseller_id t) (resellers d) = Some r"
  shows "fst (confirm_topup tid d) = Inr () \<and>
    balance_of (wt_reseller_id t) (snd (confirm_topup tid d)) =
      wallet_credit_balance r + wt_amount t \<and>
    ledger_of (wt_reseller_id t) (snd (confirm_topup tid d)) =
      ledger_of (wt_reseller_id t) d + wt_amount t \<and>
    confirm_topup tid (snd (confirm_topup tid d)) =
      (Inl (ValueError AlreadyProcessed), snd (confirm_topup tid d))"
proof (intro conjI)
  note res = confirm_topup_result [OF assms(2-4)]
  show "fst (confirm_topup tid d) = Inr ()" by (simp add: res)
  show "balance_of (wt_reseller_id t) (snd (confirm_topup tid d)) =
      wallet_credit_balance r + wt_amount t"
    using assms(4) by (simp add: res)
  show "ledger_of (wt_reseller_id t) (snd (confirm_topup tid d)) =
      ledger_of (wt_reseller_id t) d + wt_amount t"
    using assms(1-3) by (simp add: res) (auto simp: ledger_of_def txs.sum_update_id [where r = t])
  show "confirm_topup tid (snd (confirm_topup tid d)) =
      (Inl (ValueError AlreadyProcessed), snd (confirm_topup tid d))"
    using assms(2) by (simp add: res) (simp add: confirm_topup_def transaction_def txs.lookup_update_id)
qed

definition demo_reseller :: reseller where
  "demo_reseller = \<lparr>r_id = 1, bot_token_encrypted = ''x'', bot_username = ''shop_bot'',
     telegram_numeric_id = 700, commission_percent = 250, wallet_credit_balance = 100000,
     credit_limit_negative = 0, r_status = ResellerActive, order_prefix = ''AR'',
     support_contact = None, zarinpal_merchant_id = None, end_order_message = None,
     test_mode_enabled = False, test_mode_order_limit = 0, test_mode_orders_used = 0\<rparr>"

lemma demo_reseller_simps [simp]:
  "r_id demo_reseller = 1" "commission_percent demo_reseller = 250"
  "wallet_credit_balance demo_reseller = 100000" "credit_limit_negative demo_reseller = 0"
  "order_prefix demo_reseller = ''AR''" "test_mode_enabled demo_reseller = False"
  "r_status demo_reseller = ResellerActive"
  by (simp_all add: demo_reseller_def)

definition demo_wallet_db :: db where
  "demo_wallet_db = empty_db\<lparr>
     resellers := \<lparr>trows = [demo_reseller], auto_inc = 2\<rparr>,
     wallet_transactions := \<lparr>trows =
       [\<lparr>wt_id = 1, wt_reseller_id = 1, wt_type = TxTopup, wt_amount = 5000,
         wt_method = Some Card, wt_status = TxPending, wt_reference = None\<rparr>], auto_inc = 2\<rparr>\<rparr>"

lemma demo_wallet_db_wf: "wf_db demo_wallet_db"
  by (simp add: wf_db_def wf_table_def demo_wallet_db_def demo_reseller_def empty_db_def
      empty_table_def)

lemma confirm_topup_credits_once_witness:
  "fst (confirm_topup 1 demo_wallet_db) = Inr ()
   \<and> balance_of 1 (snd (confirm_topup 1 demo_wallet_db)) = 105000
   \<and> ledger_of 1 (snd (confirm_topup 1 demo_wallet_db)) = 5000
   \<and> fst (confirm_topup 1 (snd (confirm_topup 1 demo_wallet_db))) =
       Inl (ValueError AlreadyProcessed)"
  using confirm_topup_credits_once
    [OF demo_wallet_db_wf, of 1 "hd (trows (wallet_transactions demo_wallet_db))" demo_reseller]
  by (simp add: demo_wallet_db_def lookup_def demo_reseller_def ledger_of_def sum_rows_def)

text \<open>
  Requesting a top-up and confirming it adds the requested amount, whatever
  its sign: nothing on the way asks for a positive amount, so a request over a negative
  amount is a debit that no credit limit is checked against.
\<close>

theorem request_then_confirm_topup:
  assumes "wf_db d" and "lookup r_id rid (resellers d) = Some r"
  shows "balance_of rid (snd (confirm_topup (auto_inc (wallet_transactions d))
           (snd (request_topup rid (dec c) m ref d)))) = wallet_credit_balance r + c"
proof -
  let ?t = "\<lparr>wt_id = auto_inc (wallet_transactions d), wt_reseller_id = rid, wt_type = TxTopup,
    wt_amount = c, wt_method = Some m, wt_status = TxPending, wt_reference = ref\<rparr>"
  let ?d = "snd (request_topup rid (dec c) m ref d)"
  from assms have "lookup wt_id (auto_inc (wallet_transactions d)) (wallet_transactions ?d) = Some ?t"
    by (simp add: request_topup_def transaction_def txs.lookup_insert wf_dbD)
  moreover from assms have "lookup r_id rid (resellers ?d) = Some r"
    by (simp add: request_topup_def transaction_def)
  ultimately show ?thesis by (simp add: confirm_topup_result)
qed

lemma request_then_confirm_topup_witness:
  "balance_of 1 (snd (confirm_topup 2 (snd (request_topup 1 (dec (- 300000)) Card None
     demo_wallet_db)))) = - 200000"
  using request_then_confirm_topup [OF demo_wallet_db_wf, of 1 demo_reseller "- 300000" Card None]
  by (simp add: demo_wallet_db_def lookup_def demo_reseller_def)

end
