(* ===== verification/CustomerWallet.thy ===== *)
theory CustomerWallet
  imports CommissionWallet
begin

text \<open>
  The wallet of a customer (\<^verbatim>\<open>services/customer_wallet_service.py\<close>): top-up requests with a
  receipt, which the reseller confirms or rejects by hand. A confirmation credits the
  customer and deducts the reseller's commission in one transaction; it is split into the
  checks before the transaction and the transaction itself, because two confirmations of
  one request can interleave between the two.
\<close>

section \<open>Operations\<close>

definition get_wallet_balance :: "nat \<Rightarrow> db \<Rightarrow> decimal" where
  "get_wallet_balance cid d =
     (case lookup c_id cid (customers d) of None \<Rightarrow> 0 | Some c \<Rightarrow> dec (wallet_balance c))"

definition upd_customer :: "nat \<Rightarrow> (customer \<Rightarrow> customer) \<Rightarrow> db \<Rightarrow> db" where
  "upd_customer i f d = d\<lparr>customers := update_id c_id i f (customers d)\<rparr>"

definition upd_topup :: "nat \<Rightarrow> (topup \<Rightarrow> topup) \<Rightarrow> db \<Rightarrow> db" where
  "upd_topup i f d =
     d\<lparr>customer_wallet_topups := update_id tu_id i f (customer_wallet_topups d)\<rparr>"

definition create_topup_request ::
  "nat \<Rightarrow> nat \<Rightarrow> decimal \<Rightarrow> pay_method \<Rightarrow> db \<Rightarrow> (db, nat) outcome" where
  "create_topup_request rid cid amount meth d =
     (if lookup r_id rid (resellers d) = None \<or> lookup c_id cid (customers d) = None
      then (Inl IntegrityError, d)
      else (Inr (auto_inc (customer_wallet_topups d)),
            d\<lparr>customer_wallet_topups := insert_row topup_with_id
                \<lparr>tu_id = 0, tu_reseller_id = rid, tu_customer_id = cid,
                 tu_amount = store amount, tu_method = meth, tu_receipt_image = None,
                 tu_status = TopupPending, tu_confirmed_at = None\<rparr>
                (customer_wallet_topups d)\<rparr>))"

definition attach_topup_receipt :: "nat \<Rightarrow> string \<Rightarrow> db \<Rightarrow> db" where
  "attach_topup_receipt tid receipt = upd_topup tid (\<lambda>t. t\<lparr>tu_receipt_image := Some receipt\<rparr>)"

definition get_topup :: "nat \<Rightarrow> db \<Rightarrow> topup option" where
  "get_topup tid d = lookup tu_id tid (customer_wallet_topups d)"

definition topup_reference :: "nat \<Rightarrow> string" where
  "topup_reference tid = ''wallet-topup-'' @ show_nat tid"

text \<open>What the checks before the transaction read and compute.\<close>

record topup_plan =
  tp_topup :: topup
  tp_commission :: decimal

definition confirm_customer_topup_checks :: "nat \<Rightarrow> db \<Rightarrow> exn + topup_plan" where
  "confirm_customer_topup_checks tid d =
     (case lookup tu_id tid (customer_wallet_topups d) of
        None \<Rightarrow> Inl (ValueError TopupNotFound)
      | Some t \<Rightarrow>
          if tu_status t \<noteq> TopupPending then Inl (ValueError AlreadyProcessed)
          else (case lookup r_id (tu_reseller_id t) (resellers d) of
                  None \<Rightarrow> Inl TypeError
                | Some r \<Rightarrow> Inr \<lparr>tp_topup = t,
                    tp_commission = commission_on (tu_amount t) (commission_percent r)\<rparr>))"

definition confirm_customer_topup_tx :: "time \<Rightarrow> topup_plan \<Rightarrow> db \<Rightarrow> (db, bool) outcome" where
  "confirm_customer_topup_tx now plan = transaction (\<lambda>d.
     let t = tp_topup plan;
         tid = tu_id t;
         d1 = upd_customer (tu_customer_id t)
                (\<lambda>c. c\<lparr>wallet_balance := wallet_balance c + tu_amount t\<rparr>) d
     in settle_commission
          (deduct_commission_in_tx (tu_reseller_id t) (tp_commission plan) (topup_reference tid))
          (upd_topup tid (\<lambda>t. t\<lparr>tu_status := TopupConfirmedInsufficientCredit,
                                tu_confirmed_at := Some now\<rparr>))
          (upd_topup tid (\<lambda>t. t\<lparr>tu_status := TopupConfirmed, tu_confirmed_at := Some now\<rparr>))
          d1)"

definition confirm_customer_topup_commit ::
  "time \<Rightarrow> topup_plan \<Rightarrow> db \<Rightarrow> (db, topup option) outcome" where
  "confirm_customer_topup_commit now plan d =
     (case confirm_customer_topup_tx now plan d of
        (Inl e, d1) \<Rightarrow> (Inl e, d1)
      | (Inr insufficient_credit, d1) \<Rightarrow>
          if insufficient_credit
          then (Inl (WalletTopupInsufficientCreditError (tu_id (tp_topup plan))
                       (tu_reseller_id (tp_topup plan))), d1)
          else (Inr (lookup tu_id (tu_id (tp_topup plan)) (customer_wallet_topups d1)), d1))"

definition confirm_customer_topup :: "time \<Rightarrow> nat \<Rightarrow> db \<Rightarrow> (db, topup option) outcome" where
  "confirm_customer_topup now tid d =
     (case confirm_customer_topup_checks tid d of
        Inl e \<Rightarrow> (Inl e, d)
      | Inr plan \<Rightarrow> confirm_customer_topup_commit now plan d)"

definition reject_customer_topup :: "nat \<Rightarrow> db \<Rightarrow> db" where
  "reject_customer_topup tid = upd_topup tid (\<lambda>t. t\<lparr>tu_status := TopupRejected\<rparr>)"

section \<open>Elementary facts\<close>

definition customer_balance :: "nat \<Rightarrow> db \<Rightarrow> cents" where
  "customer_balance cid d =
     (case lookup c_id cid (customers d) of None \<Rightarrow> 0 | Some c \<Rightarrow> wallet_balance c)"

lemma get_wallet_balance_eq: "get_wallet_balance cid d = dec (customer_balance cid d)"
  by (simp add: get_wallet_balance_def customer_balance_def dec_def split: option.split)

lemma upd_customer_simps [simp]:
  "resellers (upd_customer i f d) = resellers d"
  "wallet_transactions (upd_customer i f d) = wallet_transactions d"
  "orders (upd_customer i f d) = orders d"
  "packages (upd_customer i f d) = packages d"
  "charge_codes (upd_customer i f d) = charge_codes d"
  "blacklist (upd_customer i f d) = blacklist d"
  "disputes (upd_customer i f d) = disputes d"
  "discount_codes (upd_customer i f d) = discount_codes d"
  "customer_wallet_topups (upd_customer i f d) = customer_wallet_topups d"
  "customers (upd_customer i f d) = update_id c_id i f (customers d)"
  by (simp_all add: upd_customer_def)

lemma upd_topup_simps [simp]:
  "resellers (upd_topup i f d) = resellers d"
  "wallet_transactions (upd_topup i f d) = wallet_transactions d"
  "orders (upd_topup i f d) = orders d"
  "packages (upd_topup i f d) = packages d"
  "charge_codes (upd_topup i f d) = charge_codes d"
  "customers (upd_topup i f d) = customers d"
  "customer_wallet_topups (upd_topup i f d) = update_id tu_id i f (customer_wallet_topups d)"
  by (simp_all add: upd_topup_def)

lemma balance_of_frame [simp]:
  "balance_of rid (upd_customer i f d) = balance_of rid d"
  "balance_of rid (upd_topup i g d) = balance_of rid d"
  by (simp_all add: balance_of_def)

lemma customer_balance_frame [simp]:
  "customer_balance cid (upd_topup i g d) = customer_balance cid d"
  by (simp add: customer_balance_def)

lemma customer_balance_same_elsewhere:
  "same_elsewhere d d' \<Longrightarrow> customer_balance cid d' = customer_balance cid d"
  by (simp add: customer_balance_def same_elsewhereD)

lemma customer_balance_add:
  "lookup c_id i (customers d) = Some c \<Longrightarrow>
   customer_balance cid (upd_customer i (\<lambda>c. c\<lparr>wallet_balance := wallet_balance c + a\<rparr>) d) =
     customer_balance cid d + (if cid = i then a else 0)"
  by (auto simp: customer_balance_def customers.lookup_update_id split: option.split)

text \<open>The transaction of a confirmation, case by case.\<close>

lemma confirm_tx_result:
  fixes d plan now
  defines "t \<equiv> tp_topup plan"
  defines "d1 \<equiv> upd_customer (tu_customer_id t)
             (\<lambda>c. c\<lparr>wallet_balance := wallet_balance c + tu_amount t\<rparr>) d"
  assumes r: "lookup r_id (tu_reseller_id t) (resellers d) = Some r"
  obtains
    (insufficient) "dec (wallet_credit_balance r) - tp_commission plan < - dec (credit_limit_negative r)"
      "confirm_customer_topup_tx now plan d = (Inr True, upd_topup (tu_id t)
         (\<lambda>t. t\<lparr>tu_status := TopupConfirmedInsufficientCredit, tu_confirmed_at := Some now\<rparr>) d1)"
  | (deducted) d2 where
      "- dec (credit_limit_negative r) \<le> dec (wallet_credit_balance r) - tp_commission plan"
      "confirm_customer_topup_tx now plan d = (Inr False, upd_topup (tu_id t)
         (\<lambda>t. t\<lparr>tu_status := TopupConfirmed, tu_confirmed_at := Some now\<rparr>) d2)"
      "deduct_commission_in_tx (tu_reseller_id t) (tp_commission plan)
         (topup_reference (tu_id t)) d1 = (Inr (), d2)"
      "same_elsewhere d1 d2"
      "balance_of (tu_reseller_id t) d2 = store (dec (wallet_credit_balance r) - tp_commission plan)"
proof -
  have r1: "lookup r_id (tu_reseller_id t) (resellers d1) = Some r" using r by (simp add: d1_def)
  have tx: "confirm_customer_topup_tx now plan d = transaction (\<lambda>_. settle_commission
      (deduct_commission_in_tx (tu_reseller_id t) (tp_commission plan) (topup_reference (tu_id t)))
      (upd_topup (tu_id t) (\<lambda>t. t\<lparr>tu_status := TopupConfirmedInsufficientCredit,
         tu_confirmed_at := Some now\<rparr>))
      (upd_topup (tu_id t) (\<lambda>t. t\<lparr>tu_status := TopupConfirmed, tu_confirmed_at := Some now\<rparr>)) d1) d"
    by (simp add: confirm_customer_topup_tx_def t_def d1_def Let_def transaction_def)
  show thesis
  proof (cases "dec (wallet_credit_balance r) - tp_commission plan < - dec (credit_limit_negative r)")
    case True
    show thesis
      by (rule insufficient [OF True]) (simp add: tx wallet.settle_failed [OF r1 True])
  next
    case False
    then have le: "- dec (credit_limit_negative r) \<le> dec (wallet_credit_balance r) - tp_commission plan"
      by simp
    obtain d2 where d2: "deduct_commission_in_tx (tu_reseller_id t) (tp_commission plan)
          (topup_reference (tu_id t)) d1 = (Inr (), d2)"
        "settle_commission (deduct_commission_in_tx (tu_reseller_id t) (tp_commission plan)
           (topup_reference (tu_id t)))
         (upd_topup (tu_id t) (\<lambda>t. t\<lparr>tu_status := TopupConfirmedInsufficientCredit,
            tu_confirmed_at := Some now\<rparr>))
         (upd_topup (tu_id t) (\<lambda>t. t\<lparr>tu_status := TopupConfirmed, tu_confirmed_at := Some now\<rparr>)) d1 =
         (Inr False, upd_topup (tu_id t)
            (\<lambda>t. t\<lparr>tu_status := TopupConfirmed, tu_confirmed_at := Some now\<rparr>) d2)"
        "same_elsewhere d1 d2"
        "balance_of (tu_reseller_id t) d2 = store (dec (wallet_credit_balance r) - tp_commission plan)"
      by (rule wallet.settle_ok [OF r1 le]) assumption
    show thesis
      by (rule deducted [OF le _ d2(1) d2(3,4)]) (simp add: tx d2(2))
  qed
qed


text \<open>What a commit leaves behind, read off the two cases.\<close>

lemma confirm_commit_effect:
  fixes d plan now
  defines "t \<equiv> tp_topup plan"
  assumes c: "lookup c_id (tu_customer_id t) (customers d) = Some c"
    and r: "lookup r_id (tu_reseller_id t) (resellers d) = Some r"
    and tu: "lookup tu_id (tu_id t) (customer_wallet_topups d) = Some t'"
  defines "failed \<equiv> dec (wallet_credit_balance r) - tp_commission plan < - dec (credit_limit_negative r)"
  defines "marked \<equiv> t'\<lparr>tu_status := if failed then TopupConfirmedInsufficientCredit else TopupConfirmed,
                       tu_confirmed_at := Some now\<rparr>"
  shows "fst (confirm_customer_topup_commit now plan d) =
      (if failed then Inl (WalletTopupInsufficientCreditError (tu_id t) (tu_reseller_id t))
       else Inr (Some marked))" (is ?result)
    and "customer_balance cid (snd (confirm_customer_topup_commit now plan d)) =
      customer_balance cid d + (if cid = tu_customer_id t then tu_amount t else 0)" (is ?credit)
    and "lookup tu_id (tu_id t) (customer_wallet_topups (snd (confirm_customer_topup_commit now plan d))) =
      Some marked" (is ?mark)
    and "balance_of (tu_reseller_id t) (snd (confirm_customer_topup_commit now plan d)) =
      (if failed then wallet_credit_balance r
       else store (dec (wallet_credit_balance r) - tp_commission plan))" (is ?balance)
    and "lookup c_id (tu_customer_id t) (customers (snd (confirm_customer_topup_commit now plan d))) =
      Some (c\<lparr>wallet_balance := wallet_balance c + tu_amount t\<rparr>)" (is ?customer)
proof -
  have all: "?result \<and> ?credit \<and> ?mark \<and> ?balance \<and> ?customer"
  proof (cases rule: confirm_tx_result [OF r [unfolded t_def], of now])
    case 1
    from 1(1) have f: failed by (simp add: failed_def)
    show ?thesis using c r tu f
      by (simp add: confirm_customer_topup_commit_def 1(2) marked_def t_def [symmetric]
          topups.lookup_update_id customers.lookup_update_id customer_balance_add [OF c] balance_of_def)
  next
    case (2 d2)
    from 2(1) have f: "\<not> failed" by (simp add: failed_def t_def)
    note same = same_elsewhereD [OF 2(4)]
    have cb: "customer_balance cid d2 =
        customer_balance cid d + (if cid = tu_customer_id t then tu_amount t else 0)"
      using customer_balance_same_elsewhere [OF 2(4), of cid] customer_balance_add [OF c]
      by (simp add: t_def)
    show ?thesis using c r tu f 2(5)
      by (simp add: confirm_customer_topup_commit_def 2(2) marked_def t_def [symmetric] cb same
          topups.lookup_update_id customers.lookup_update_id)
  qed
  from all show ?result ?credit ?mark ?balance ?customer by blast+
qed

lemma confirm_checks_ok:
  assumes "lookup tu_id tid (customer_wallet_topups d) = Some t" and "tu_status t = TopupPending"
    and "lookup r_id (tu_reseller_id t) (resellers d) = Some r"
  shows "confirm_customer_topup_checks tid d = Inr \<lparr>tp_topup = t,
    tp_commission = commission_on (tu_amount t) (commission_percent r)\<rparr>"
  using assms by (simp add: confirm_customer_topup_checks_def)

lemma confirm_checks_processed:
  assumes "lookup tu_id tid (customer_wallet_topups d) = Some t" and "tu_status t \<noteq> TopupPending"
  shows "confirm_customer_topup now tid d = (Inl (ValueError AlreadyProcessed), d)"
  using assms by (simp add: confirm_customer_topup_def confirm_customer_topup_checks_def)


lemma commit_keeps_reseller:
  assumes "lookup r_id (tu_reseller_id (tp_topup plan)) (resellers d) = Some r"
  shows "\<exists>r'. lookup r_id (tu_reseller_id (tp_topup plan))
    (resellers (snd (confirm_customer_topup_commit now plan d))) = Some r'"
proof (cases rule: confirm_tx_result [OF assms, of now])
  case 1
  with assms show ?thesis by (simp add: confirm_customer_topup_commit_def)
next
  case (2 d2)
  from 2(3) assms have "\<exists>r'. lookup r_id (tu_reseller_id (tp_topup plan)) (resellers d2) = Some r'"
    by (auto simp: deduct_result resellers.lookup_update_id split: if_splits)
  with 2(2) show ?thesis by (simp add: confirm_customer_topup_commit_def)
qed

section \<open>Properties\<close>

text \<open>
  Property C23: confirming a pending top-up credits the customer with exactly its amount and
  charges the reseller the commission percentage of it, rounded to hundredths, unless that
  would exceed the negative credit limit; in that case the reseller's balance stays, the
  exception tells so, and the customer is credited all the same. A second confirmation is
  refused and changes nothing.
\<close>

theorem confirm_customer_topup_once:
  assumes tu: "lookup tu_id tid (customer_wallet_topups d) = Some t"
    and pending: "tu_status t = TopupPending"
    and c: "lookup c_id (tu_customer_id t) (customers d) = Some c"
    and r: "lookup r_id (tu_reseller_id t) (resellers d) = Some r"
    and a: "a = commission_on (tu_amount t) (commission_percent r)"
    and d': "confirm_customer_topup now tid d = (res, d')"
  shows "customer_balance (tu_customer_id t) d' = wallet_balance c + tu_amount t
    \<and> (if dec (wallet_credit_balance r) - a < - dec (credit_limit_negative r)
       then res = Inl (WalletTopupInsufficientCreditError tid (tu_reseller_id t))
         \<and> balance_of (tu_reseller_id t) d' = wallet_credit_balance r
       else (\<exists>t'. res = Inr (Some t') \<and> tu_status t' = TopupConfirmed)
         \<and> balance_of (tu_reseller_id t) d' = store (dec (wallet_credit_balance r) - a))
    \<and> confirm_customer_topup now2 tid d' = (Inl (ValueError AlreadyProcessed), d')"
proof -
  let ?plan = "\<lparr>tp_topup = t, tp_commission = a\<rparr>"
  have id: "tu_id t = tid" using tu by (auto dest: topups.lookup_SomeD)
  have commit: "confirm_customer_topup_commit now ?plan d = (res, d')"
    using d' by (simp add: confirm_customer_topup_def confirm_checks_ok [OF tu pending r] a)
  note eff = confirm_commit_effect [of ?plan d c r t now, simplified, OF c r tu [folded id],
      unfolded commit]
  show ?thesis
    using eff(1,3-5) confirm_checks_processed [OF eff(3) [unfolded id]] id
    by (simp add: customer_balance_def split: if_splits)
qed

definition demo_customer :: customer where
  "demo_customer = \<lparr>c_id = 1, c_reseller_id = 1, c_telegram_user_id = 900, wallet_balance = 500\<rparr>"

definition demo_topup :: topup where
  "demo_topup = \<lparr>tu_id = 1, tu_reseller_id = 1, tu_customer_id = 1, tu_amount = 2000000,
     tu_method = Card, tu_receipt_image = Some ''file'', tu_status = TopupPending,
     tu_confirmed_at = None\<rparr>"

definition demo_topup_db :: db where
  "demo_topup_db = demo_wallet_db\<lparr>
     customers := \<lparr>trows = [demo_customer], auto_inc = 2\<rparr>,
     customer_wallet_topups := \<lparr>trows = [demo_topup], auto_inc = 2\<rparr>\<rparr>"

lemma demo_topup_simps [simp]:
  "c_id demo_customer = 1" "wallet_balance demo_customer = 500"
  "tu_id demo_topup = 1" "tu_reseller_id demo_topup = 1" "tu_customer_id demo_topup = 1"
  "tu_amount demo_topup = 2000000" "tu_status demo_topup = TopupPending"
  by (simp_all add: demo_customer_def demo_topup_def)

lemma demo_topup_db_rows:
  "lookup tu_id 1 (customer_wallet_topups demo_topup_db) = Some demo_topup"
  "lookup c_id (tu_customer_id demo_topup) (customers demo_topup_db) = Some demo_customer"
  "lookup r_id (tu_reseller_id demo_topup) (resellers demo_topup_db) = Some demo_reseller"
  by (simp_all add: demo_topup_db_def demo_wallet_db_def lookup_def)

lemma demo_commission: "commission_on 2000000 250 = dec 50000"
  by (simp add: commission_on_def dec_def)

lemma confirm_customer_topup_once_witness:
  "customer_balance 1 (snd (confirm_customer_topup 7 1 demo_topup_db)) = 2000500
   \<and> balance_of 1 (snd (confirm_customer_topup 7 1 demo_topup_db)) = 50000
   \<and> fst (confirm_customer_topup 8 1 (snd (confirm_customer_topup 7 1 demo_topup_db))) =
       Inl (ValueError AlreadyProcessed)"
  using confirm_customer_topup_once
    [OF demo_topup_db_rows(1) _ demo_topup_db_rows(2,3) refl, of 7
      "fst (confirm_customer_topup 7 1 demo_topup_db)"
      "snd (confirm_customer_topup 7 1 demo_topup_db)" 8]
  by (simp del: One_nat_def add: demo_commission flip: dec_arith(3,4))

text \<open>
  Two confirmations of one pending top-up whose checks both ran before either
  transaction (a double press of the button, or two operators) credit the customer twice:
  the transaction updates the balance without looking at the status again. One top-up of
  amount \<open>a\<close> then raises the balance by \<open>2 * a\<close>.
\<close>

theorem overlapping_confirmations_credit_twice:
  assumes tu: "lookup tu_id tid (customer_wallet_topups d) = Some t"
    and pending: "tu_status t = TopupPending"
    and c: "lookup c_id (tu_customer_id t) (customers d) = Some c"
    and r: "lookup r_id (tu_reseller_id t) (resellers d) = Some r"
    and first: "confirm_customer_topup_checks tid d = Inr plan1"
    and second: "confirm_customer_topup_checks tid d = Inr plan2"
    and d1: "d1 = snd (confirm_customer_topup_commit now1 plan1 d)"
    and d2: "d2 = snd (confirm_customer_topup_commit now2 plan2 d1)"
  shows "customer_balance (tu_customer_id t) d2 = wallet_balance c + 2 * tu_amount t"
proof -
  let ?plan = "\<lparr>tp_topup = t, tp_commission = commission_on (tu_amount t) (commission_percent r)\<rparr>"
  have id: "tu_id t = tid" using tu by (auto dest: topups.lookup_SomeD)
  have plans: "plan1 = ?plan" "plan2 = ?plan"
    using first second confirm_checks_ok [OF tu pending r] by simp_all
  note eff = confirm_commit_effect [of ?plan d c r t now1, simplified, OF c r tu [folded id],
      folded plans(1), folded d1]
  obtain r1 where r1: "lookup r_id (tu_reseller_id t) (resellers d1) = Some r1"
    using commit_keeps_reseller [of plan1 d r now1] c r by (auto simp: plans d1)
  note eff2 = confirm_commit_effect(5) [of ?plan d1 _ r1 _ now2, simplified, OF eff(5) r1,
      OF eff(3), folded plans(2), folded d2]
  show ?thesis using eff2 by (simp add: customer_balance_def)
qed

definition demo_topup_plan :: topup_plan where
  "demo_topup_plan = \<lparr>tp_topup = demo_topup, tp_commission = dec 50000\<rparr>"

lemma demo_topup_plan_checks: "confirm_customer_topup_checks 1 demo_topup_db = Inr demo_topup_plan"
  using confirm_checks_ok [OF demo_topup_db_rows(1) _ demo_topup_db_rows(3)]
  by (simp add: demo_topup_plan_def demo_commission)

lemma overlapping_confirmations_credit_twice_witness:
  "customer_balance 1 (snd (confirm_customer_topup_commit 9 demo_topup_plan
     (snd (confirm_customer_topup_commit 8 demo_topup_plan demo_topup_db)))) = 500 + 2 * 2000000"
  using overlapping_confirmations_credit_twice
    [OF demo_topup_db_rows(1) _ demo_topup_db_rows(2,3) demo_topup_plan_checks
      demo_topup_plan_checks refl refl, of 9 8]
  by simp

text \<open>
  A rejection only relabels the request. When a confirmed top-up is rejected
  afterwards (a second operator with the same message), the row says rejected while the
  customer keeps the credit and the reseller has paid the commission, and the request
  cannot be confirmed again.
\<close>

theorem reject_after_confirm_keeps_credit:
  assumes tu: "lookup tu_id tid (customer_wallet_topups d) = Some t"
    and pending: "tu_status t = TopupPending"
    and c: "lookup c_id (tu_customer_id t) (customers d) = Some c"
    and r: "lookup r_id (tu_reseller_id t) (resellers d) = Some r"
    and d1: "d1 = snd (confirm_customer_topup now tid d)"
    and d2: "d2 = reject_customer_topup tid d1"
  shows "map_option tu_status (get_topup tid d2) = Some TopupRejected
    \<and> customer_balance (tu_customer_id t) d2 = wallet_balance c + tu_amount t
    \<and> balance_of (tu_reseller_id t) d2 = balance_of (tu_reseller_id t) d1
    \<and> confirm_customer_topup now2 tid d2 = (Inl (ValueError AlreadyProcessed), d2)"
proof -
  let ?plan = "\<lparr>tp_topup = t, tp_commission = commission_on (tu_amount t) (commission_percent r)\<rparr>"
  have id: "tu_id t = tid" using tu by (auto dest: topups.lookup_SomeD)
  have commit: "d1 = snd (confirm_customer_topup_commit now ?plan d)"
    by (simp add: d1 confirm_customer_topup_def confirm_checks_ok [OF tu pending r])
  note eff = confirm_commit_effect [of ?plan d c r t now, simplified, OF c r tu [folded id],
      folded commit]
  obtain t2 where row: "lookup tu_id tid (customer_wallet_topups d2) = Some t2"
      "tu_status t2 = TopupRejected"
    using eff(3) by (simp add: d2 reject_customer_topup_def topups.lookup_update_id id)
  show ?thesis
    using row eff(5) confirm_checks_processed [OF row(1), of now2]
    by (simp add: get_topup_def d2 reject_customer_topup_def customer_balance_def)
qed

lemma reject_after_confirm_keeps_credit_witness:
  "map_option tu_status (get_topup 1 (reject_customer_topup 1
     (snd (confirm_customer_topup 7 1 demo_topup_db)))) = Some TopupRejected
   \<and> customer_balance 1 (reject_customer_topup 1
     (snd (confirm_customer_topup 7 1 demo_topup_db))) = 2000500"
  using reject_after_confirm_keeps_credit
    [OF demo_topup_db_rows(1) _ demo_topup_db_rows(2,3) refl refl, of 7]
  by simp

end
