(* ===== verification/Blacklist.thy ===== *)
theory Blacklist
  imports Schema
begin

text \<open>
  The shared blacklist (\<^verbatim>\<open>services/blacklist_service.py\<close>). Its interface, the locale
  \<open>blacklist_gate\<close>, is what the purchase flows rely on: a block is seen by every later
  check, and it stays seen.
\<close>

section \<open>Operations\<close>

definition AUTO_BLACKLIST_THRESHOLD :: nat where
  "AUTO_BLACKLIST_THRESHOLD = 3"

definition is_blacklisted :: "int \<Rightarrow> nat option \<Rightarrow> db \<Rightarrow> bool" where
  "is_blacklisted user rid d =
     (if fetch_one (\<lambda>b. b_telegram_user_id b = user \<and> is_global b) (blacklist d) \<noteq> None
      then True
      else if rid \<noteq> None
        \<and> fetch_one (\<lambda>b. b_telegram_user_id b = user \<and> reported_by_reseller_id b = rid)
            (blacklist d) \<noteq> None
      then True
      else False)"

definition add_to_blacklist :: "int \<Rightarrow> string \<Rightarrow> nat option \<Rightarrow> bool \<Rightarrow> db \<Rightarrow> db" where
  "add_to_blacklist user reason rid glob d =
     d\<lparr>blacklist := insert_row blacklist_with_id
         \<lparr>b_id = 0, b_telegram_user_id = user, reported_by_reseller_id = rid,
          b_reason = reason, is_global = glob\<rparr> (blacklist d)\<rparr>"

text \<open>
  The join of \<^verbatim>\<open>count_confirmed_fake_receipts\<close>: approved disputes whose order belongs to
  a customer with this Telegram id. Orders and customers are joined on their primary key.
\<close>

definition count_confirmed_fake_receipts :: "int \<Rightarrow> db \<Rightarrow> nat" where
  "count_confirmed_fake_receipts user d =
     count_rows (\<lambda>di. d_review_status di = ReviewApproved \<and>
       (case lookup o_id (d_order_id di) (orders d) of None \<Rightarrow> False
        | Some ord \<Rightarrow> (case lookup c_id (o_customer_id ord) (customers d) of None \<Rightarrow> False
                   | Some cu \<Rightarrow> c_telegram_user_id cu = user))) (disputes d)"

text \<open>The reason text, with the count in it (the source's wording is Persian).\<close>

definition fake_receipt_reason :: "nat \<Rightarrow> string" where
  "fake_receipt_reason n = ''repeated fake receipts: '' @ show_nat n"

definition maybe_auto_blacklist :: "int \<Rightarrow> db \<Rightarrow> bool \<times> db" where
  "maybe_auto_blacklist user d =
     (let count = count_confirmed_fake_receipts user d in
      if AUTO_BLACKLIST_THRESHOLD \<le> count \<and> \<not> is_blacklisted user None d
      then (True, add_to_blacklist user (fake_receipt_reason count) None True d)
      else (False, d))"

section \<open>The check as a predicate on the rows\<close>

lemma is_blacklisted_iff:
  "is_blacklisted user rid d \<longleftrightarrow>
     (\<exists>b \<in> set (trows (blacklist d)). b_telegram_user_id b = user \<and>
        (is_global b \<or> rid \<noteq> None \<and> reported_by_reseller_id b = rid))"
proof -
  have some: "(fetch_one P t \<noteq> None) = (\<exists>r \<in> set (trows t). P r)" for P and t :: "blacklist_row table"
    by (simp add: fetch_one_None)
  show ?thesis unfolding is_blacklisted_def some by auto
qed

lemma blacklist_add [simp]:
  "trows (blacklist (add_to_blacklist u why by g d)) = trows (blacklist d) @
     [\<lparr>b_id = auto_inc (blacklist d), b_telegram_user_id = u, reported_by_reseller_id = by,
       b_reason = why, is_global = g\<rparr>]"
  by (simp add: add_to_blacklist_def insert_row_def)

lemma add_to_blacklist_frame [simp]:
  "customers (add_to_blacklist u why rep g d) = customers d"
  "orders (add_to_blacklist u why rep g d) = orders d"
  "disputes (add_to_blacklist u why rep g d) = disputes d"
  "resellers (add_to_blacklist u why rep g d) = resellers d"
  "wallet_transactions (add_to_blacklist u why rep g d) = wallet_transactions d"
  "customer_wallet_topups (add_to_blacklist u why rep g d) = customer_wallet_topups d"
  "charge_codes (add_to_blacklist u why rep g d) = charge_codes d"
  "packages (add_to_blacklist u why rep g d) = packages d"
  "discount_codes (add_to_blacklist u why rep g d) = discount_codes d"
  by (simp_all add: add_to_blacklist_def)

lemma is_blacklisted_cong: "blacklist d' = blacklist d \<Longrightarrow> is_blacklisted u rid d' = is_blacklisted u rid d"
  by (simp add: is_blacklisted_iff)

lemma is_blacklisted_add:
  "is_blacklisted u rid (add_to_blacklist v why by g d) \<longleftrightarrow>
     is_blacklisted u rid d \<or> u = v \<and> (g \<or> rid \<noteq> None \<and> by = rid)"
  by (auto simp: is_blacklisted_iff)

section \<open>The interface\<close>

locale blacklist_gate =
  fixes blocked :: "int \<Rightarrow> nat option \<Rightarrow> db \<Rightarrow> bool"
    and block :: "int \<Rightarrow> string \<Rightarrow> nat option \<Rightarrow> bool \<Rightarrow> db \<Rightarrow> db"
  assumes block_global: "blocked u rid (block u why by True d)"
    and block_local: "blocked u (Some r) (block u why (Some r) g d)"
    and block_mono: "blocked u rid d \<Longrightarrow> blocked u rid (block v why by g d)"
    and block_frame: "customers (block v why by g d) = customers d"
    and blocked_frame: "blacklist d' = blacklist d \<Longrightarrow> blocked u rid d' = blocked u rid d"
begin

text \<open>A list of further reports never lifts a block.\<close>

lemma blocked_fold:
  "blocked u rid d \<Longrightarrow>
   blocked u rid (fold (\<lambda>(v, why, by, g). block v why by g) reports d)"
  by (induction reports arbitrary: d) (auto intro: block_mono)

lemma customers_fold:
  "customers (fold (\<lambda>(v, why, by, g). block v why by g) reports d) = customers d"
  by (induction reports arbitrary: d) (auto simp: block_frame)

lemma block_then_fold:
  "blocked u rid (fold (\<lambda>(v, why, by, g). block v why by g) reports (block u why by True d))"
  by (rule blocked_fold [OF block_global])

end

interpretation gate: blacklist_gate is_blacklisted add_to_blacklist
  by unfold_locales (auto simp: is_blacklisted_add cong: is_blacklisted_cong)

text \<open>
  The guard of every purchase: the customer row exists and its Telegram id is blocked,
  globally or by this reseller.
\<close>

definition customer_blacklisted :: "nat \<Rightarrow> nat \<Rightarrow> db \<Rightarrow> bool" where
  "customer_blacklisted rid cid d =
     (case lookup c_id cid (customers d) of
        None \<Rightarrow> False
      | Some c \<Rightarrow> is_blacklisted (c_telegram_user_id c) (Some rid) d)"

text \<open>
  An operation that refuses a blacklisted customer before it does anything else. The
  lemma is the client side: once the super admin has blocked the user, and whatever is
  reported later, the operation is refused in every shop.
\<close>

locale guarded_purchase =
  fixes purchase :: "nat \<Rightarrow> nat \<Rightarrow> db \<Rightarrow> (db, 'a) outcome" and refusal :: exn
  assumes guard: "customer_blacklisted rid cid d \<Longrightarrow> purchase rid cid d = (Inl refusal, d)"
begin

lemma refused_after_global_block:
  assumes "lookup c_id cid (customers d) = Some c"
    and d': "d' = fold (\<lambda>(v, why, by, g). add_to_blacklist v why by g) reports
             (add_to_blacklist (c_telegram_user_id c) why by True d)"
  shows "purchase rid cid d' = (Inl refusal, d')"
proof (rule guard)
  have "customers d' = customers d"
    by (simp add: d' gate.customers_fold gate.block_frame)
  with assms(1) show "customer_blacklisted rid cid d'"
    by (simp add: customer_blacklisted_def d' gate.block_then_fold)
qed

end

text \<open>
  The automatic block. After the call the user is blocked for every reseller
  exactly when the user was blocked already or three approved disputes are on record; the
  flag tells whether the block was added by this call, and a second call adds nothing.
\<close>

theorem maybe_auto_blacklist_threshold:
  "(is_blacklisted u rid (snd (maybe_auto_blacklist u d)) \<longleftrightarrow>
      is_blacklisted u rid d \<or> 3 \<le> count_confirmed_fake_receipts u d
        \<and> \<not> is_blacklisted u None d)
   \<and> (fst (maybe_auto_blacklist u d) \<longleftrightarrow>
      3 \<le> count_confirmed_fake_receipts u d \<and> \<not> is_blacklisted u None d)
   \<and> maybe_auto_blacklist u (snd (maybe_auto_blacklist u d)) =
      (False, snd (maybe_auto_blacklist u d))"
proof -
  have frame: "count_confirmed_fake_receipts u (add_to_blacklist u why rep g d) =
      count_confirmed_fake_receipts u d" for why rep g
    by (simp add: count_confirmed_fake_receipts_def cong: option.case_cong)
  show ?thesis
    by (auto simp: maybe_auto_blacklist_def AUTO_BLACKLIST_THRESHOLD_def Let_def
        is_blacklisted_add frame)
qed

end
