(* ===== verification/Purchases.thy ===== *)
theory Purchases
  imports CustomerWallet Blacklist
begin

text \<open>
  What the three purchases from a customer's wallet share (\<^verbatim>\<open>create_order_paid_by_wallet\<close>
  in \<^verbatim>\<open>services/order_service.py\<close>, \<^verbatim>\<open>purchase_charge\<close> and \<^verbatim>\<open>purchase_charge_bulk\<close> in
  \<^verbatim>\<open>services/charge_service.py\<close>): the moment at which they run, the order codes, and the
  contract of their transactions, the locale \<open>wallet_purchase\<close>. Each of them reads prices
  before its transaction, so a transaction is a function of a plan that may be out of date.
\<close>

section \<open>Time and order codes\<close>

text \<open>
  \<^verbatim>\<open>datetime.now()\<close> broken into its fields; \<^verbatim>\<open>strftime\<close> with \<^verbatim>\<open>%y%m%d\<close> and \<^verbatim>\<open>%H%M%S\<close>.
\<close>

record clock =
  clk_year :: nat
  clk_month :: nat
  clk_day :: nat
  clk_hour :: nat
  clk_minute :: nat
  clk_second :: nat

definition strftime_ymd :: "clock \<Rightarrow> string" where
  "strftime_ymd t = zero_pad 2 (clk_year t mod 100) @ zero_pad 2 (clk_month t) @ zero_pad 2 (clk_day t)"

definition strftime_hms :: "clock \<Rightarrow> string" where
  "strftime_hms t = zero_pad 2 (clk_hour t) @ zero_pad 2 (clk_minute t) @ zero_pad 2 (clk_second t)"

text \<open>The clock shows a time: months, days, hours, minutes and seconds have two digits.\<close>

definition valid_clock :: "clock \<Rightarrow> bool" where
  "valid_clock t \<longleftrightarrow>
     clk_month t \<le> 12 \<and> clk_day t \<le> 31 \<and> clk_hour t < 24 \<and> clk_minute t < 60 \<and> clk_second t < 60"

text \<open>
  A call happens at a moment: MySQL's \<^verbatim>\<open>NOW()\<close>, Python's \<^verbatim>\<open>datetime.now()\<close>, and the three
  letters and digits that \<^verbatim>\<open>random.choices\<close> returns.
\<close>

record moment =
  m_now :: time
  m_clock :: clock
  m_suffix :: string

definition valid_moment :: "moment \<Rightarrow> bool" where
  "valid_moment m \<longleftrightarrow> valid_clock (m_clock m) \<and> length (m_suffix m) = 3"

lemma length_ymd: "valid_clock t \<Longrightarrow> length (strftime_ymd t) = 6"
  by (simp add: valid_clock_def strftime_ymd_def length_zero_pad_2)

lemma length_hms: "valid_clock t \<Longrightarrow> length (strftime_hms t) = 6"
  by (simp add: valid_clock_def strftime_hms_def length_zero_pad_2)

lemma ymd_inject:
  "valid_clock t \<Longrightarrow> valid_clock u \<Longrightarrow> strftime_ymd t = strftime_ymd u \<longleftrightarrow>
     clk_year t mod 100 = clk_year u mod 100 \<and> clk_month t = clk_month u \<and> clk_day t = clk_day u"
  by (simp add: valid_clock_def strftime_ymd_def length_zero_pad_2)

lemma hms_inject:
  "valid_clock t \<Longrightarrow> valid_clock u \<Longrightarrow> strftime_hms t = strftime_hms u \<longleftrightarrow>
     clk_hour t = clk_hour u \<and> clk_minute t = clk_minute u \<and> clk_second t = clk_second u"
  by (simp add: valid_clock_def strftime_hms_def length_zero_pad_2)

section \<open>The contract of a purchase\<close>

text \<open>
  Running requests one after the other, whatever each of them answers, and what the
  accepted requests of one buyer cost in total.
\<close>

fun run_all :: "('k \<Rightarrow> db \<Rightarrow> (db, 'a) outcome) \<Rightarrow> 'k list \<Rightarrow> db \<Rightarrow> db" where
  "run_all buy [] d = d"
| "run_all buy (q # qs) d = run_all buy qs (snd (buy q d))"

fun accepted_cost ::
  "('k \<Rightarrow> db \<Rightarrow> (db, 'a) outcome) \<Rightarrow> ('k \<Rightarrow> nat) \<Rightarrow> ('k \<Rightarrow> cents) \<Rightarrow> nat \<Rightarrow> 'k list \<Rightarrow> db \<Rightarrow> cents"
where
  "accepted_cost buy buyer cost cid [] d = 0"
| "accepted_cost buy buyer cost cid (q # qs) d =
     (if buyer q = cid \<and> \<not> isl (fst (buy q d)) then cost q else 0) +
     accepted_cost buy buyer cost cid qs (snd (buy q d))"

locale wallet_purchase =
  fixes buy :: "'k \<Rightarrow> db \<Rightarrow> (db, 'a) outcome"
    and buyer :: "'k \<Rightarrow> nat" and cost :: "'k \<Rightarrow> cents"
  assumes buy_error: "buy q d = (Inl e, d') \<Longrightarrow> d' = d"
    and buy_affordable: "buy q d = (Inr x, d') \<Longrightarrow> cost q \<le> customer_balance (buyer q) d"
    and buy_pays: "buy q d = (Inr x, d') \<Longrightarrow> customer_balance cid d' =
      customer_balance cid d - (if cid = buyer q then cost q else 0)"
    and buy_frame: "buy q d = (Inr x, d') \<Longrightarrow> resellers d' = resellers d"
      "buy q d = (Inr x, d') \<Longrightarrow> wallet_transactions d' = wallet_transactions d"
begin

lemma buy_balance:
  "customer_balance cid (snd (buy q d)) =
     customer_balance cid d - (if buyer q = cid \<and> \<not> isl (fst (buy q d)) then cost q else 0)"
proof (cases "fst (buy q d)")
  case (Inl e)
  with buy_error [of q d e "snd (buy q d)"] show ?thesis by (simp add: prod_eq_iff)
next
  case (Inr x)
  with buy_pays [of q d x "snd (buy q d)" cid] show ?thesis by (simp add: prod_eq_iff)
qed

text \<open>Every hundredth that leaves a wallet is the cost of an accepted request.\<close>

lemma run_balance:
  "customer_balance cid (run_all buy qs d) =
     customer_balance cid d - accepted_cost buy buyer cost cid qs d"
  by (induction qs arbitrary: d) (simp_all add: buy_balance)

lemma buy_no_overdraft:
  "min 0 (customer_balance cid d) \<le> customer_balance cid (snd (buy q d))"
proof (cases "fst (buy q d)")
  case (Inr x)
  with buy_affordable [of q d x "snd (buy q d)"] show ?thesis
    by (auto simp: buy_balance prod_eq_iff)
qed (simp add: buy_balance)

text \<open>No order of requests, checked against whatever balance, overdraws a wallet.\<close>

lemma run_no_overdraft:
  "min 0 (customer_balance cid d) \<le> customer_balance cid (run_all buy qs d)"
proof (induction qs arbitrary: d)
  case (Cons q qs)
  from buy_no_overdraft [of cid d q] Cons.IH [of "snd (buy q d)"] show ?case
    by (simp add: min_def split: if_splits)
qed simp

lemma run_keeps_commission: 
  "resellers (run_all buy qs d) = resellers d \<and>
   wallet_transactions (run_all buy qs d) = wallet_transactions d"
proof (induction qs arbitrary: d)
  case (Cons q qs)
  have "resellers (snd (buy q d)) = resellers d \<and>
      wallet_transactions (snd (buy q d)) = wallet_transactions d"
  proof (cases "buy q d")
    case (Pair res d')
    show ?thesis
    proof (cases res)
      case (Inl e)
      with Pair buy_error [of q d e d'] show ?thesis by simp
    next
      case (Inr x)
      with Pair buy_frame [of q d x d'] show ?thesis by simp
    qed
  qed
  with Cons show ?case by simp
qed simp

end

end
