(* ===== verification/Orders.thy ===== *)
theory Orders
  imports Purchases
begin

text \<open>
  The order flow (\<^verbatim>\<open>services/order_service.py\<close>): creating an order, paying it from the
  customer's wallet, submitting a receipt with the automatic deduction of commission, the
  decisions of the reseller, and the alert for orders that wait too long. Operations with
  reads before their transaction are split into checks, which compute a plan, and the
  transaction that carries the plan out.
\<close>

section \<open>Configuration\<close>

text \<open>The two limits of \<^verbatim>\<open>config.py\<close> the service reads, with their defaults.\<close>

record config =
  MAX_PENDING_ORDERS_PER_CUSTOMER :: nat
  PENDING_ACTIVATION_ALERT_HOURS :: nat

definition default_config :: config where
  "default_config =
     \<lparr>MAX_PENDING_ORDERS_PER_CUSTOMER = 3, PENDING_ACTIVATION_ALERT_HOURS = 6\<rparr>"

section \<open>Operations\<close>

definition upd_order :: "nat \<Rightarrow> (order \<Rightarrow> order) \<Rightarrow> db \<Rightarrow> db" where
  "upd_order i f d = d\<lparr>orders := update_id o_id i f (orders d)\<rparr>"

definition get_or_create_customer :: "nat \<Rightarrow> int \<Rightarrow> db \<Rightarrow> (db, customer option) outcome" where
  "get_or_create_customer rid user d =
     (case fetch_one (\<lambda>c. c_reseller_id c = rid \<and> c_telegram_user_id c = user) (customers d) of
        Some c \<Rightarrow> (Inr (Some c), d)
      | None \<Rightarrow>
          if lookup r_id rid (resellers d) = None then (Inl IntegrityError, d)
          else let cid = auto_inc (customers d);
              d1 = d\<lparr>customers := insert_row customer_with_id
                     \<lparr>c_id = 0, c_reseller_id = rid, c_telegram_user_id = user,
                      wallet_balance = 0\<rparr> (customers d)\<rparr>
          in (Inr (lookup c_id cid (customers d1)), d1))"

definition count_pending_orders :: "nat \<Rightarrow> db \<Rightarrow> nat" where
  "count_pending_orders cid d =
     count_rows (\<lambda>r. o_customer_id r = cid \<and> o_status r = AwaitingReceiptReview) (orders d)"

definition generate_order_code :: "string \<Rightarrow> moment \<Rightarrow> string" where
  "generate_order_code prefix m =
     prefix @ ''-'' @ strftime_ymd (m_clock m) @ ''-'' @ strftime_hms (m_clock m) @ m_suffix m"

text \<open>
  \<^verbatim>\<open>SELECT * FROM orders WHERE order_code = ...\<close> after an insert, with the \<^verbatim>\<open>RuntimeError\<close>
  of a row that is not there.
\<close>

definition fetch_created_order :: "string \<Rightarrow> db \<Rightarrow> exn + order" where
  "fetch_created_order code d =
     (case fetch_one (\<lambda>r. order_code r = code) (orders d) of
        None \<Rightarrow> Inl RuntimeError | Some r \<Rightarrow> Inr r)"

definition create_order ::
  "moment \<Rightarrow> nat \<Rightarrow> nat \<Rightarrow> nat \<Rightarrow> string option \<Rightarrow> db \<Rightarrow> (db, order) outcome" where
  "create_order m rid pid cid phone d =
     (if customer_blacklisted rid cid d then (Inl CustomerBlacklistedError, d)
      else case lookup p_id pid (packages d) of
        None \<Rightarrow> (Inl (ValueError PackageNotFound), d)
      | Some p \<Rightarrow>
          (case lookup r_id rid (resellers d) of
             None \<Rightarrow> (Inl TypeError, d)
           | Some r \<Rightarrow>
               let code = generate_order_code (order_prefix r) m in
               (case insert_order
                       \<lparr>o_id = 0, order_code = code, o_reseller_id = rid, o_package_id = pid,
                        o_customer_id = cid, o_status = AwaitingPayment, receipt_image = None,
                        phone_number = phone, package_price = sale_price p,
                        commission_amount = 0, is_test_order = False, created_at = m_now m,
                        confirmed_at = None, activated_at = None, paid_from_wallet = False,
                        o_type = PackageOrder, delivered_charge_code = None\<rparr> d of
                  (Inl e, d1) \<Rightarrow> (Inl e, d1)
                | (Inr _, d1) \<Rightarrow> (fetch_created_order code d1, d1))))"

text \<open>
  \<^verbatim>\<open>create_order_paid_by_wallet\<close>: the checks, the transaction, and the row that is
  fetched afterwards. Prices and balances are whole hundredths and are compared as such.
\<close>

record wallet_order_plan =
  wp_reseller :: nat
  wp_package :: nat
  wp_customer :: nat
  wp_price :: cents
  wp_code :: string
  wp_phone :: "string option"

definition wallet_order_checks ::
  "moment \<Rightarrow> nat \<Rightarrow> nat \<Rightarrow> nat \<Rightarrow> string option \<Rightarrow> db \<Rightarrow> exn + wallet_order_plan" where
  "wallet_order_checks m rid pid cid phone d =
     (if customer_blacklisted rid cid d then Inl CustomerBlacklistedError
      else case lookup p_id pid (packages d) of
        None \<Rightarrow> Inl (ValueError PackageNotFound)
      | Some p \<Rightarrow>
          (case lookup c_id cid (customers d) of
             None \<Rightarrow> Inl TypeError
           | Some c \<Rightarrow>
               if wallet_balance c < sale_price p then Inl WalletInsufficientBalanceError
               else (case lookup r_id rid (resellers d) of
                       None \<Rightarrow> Inl TypeError
                     | Some r \<Rightarrow> Inr
                         \<lparr>wp_reseller = rid, wp_package = pid, wp_customer = cid,
                          wp_price = sale_price p,
                          wp_code = generate_order_code (order_prefix r) m,
                          wp_phone = phone\<rparr>)))"

definition wallet_order_row :: "time \<Rightarrow> wallet_order_plan \<Rightarrow> order" where
  "wallet_order_row t plan =
     \<lparr>o_id = 0, order_code = wp_code plan, o_reseller_id = wp_reseller plan,
      o_package_id = wp_package plan, o_customer_id = wp_customer plan,
      o_status = Confirmed, receipt_image = None, phone_number = wp_phone plan,
      package_price = wp_price plan, commission_amount = 0, is_test_order = False,
      created_at = t, confirmed_at = Some t, activated_at = None,
      paid_from_wallet = True, o_type = PackageOrder, delivered_charge_code = None\<rparr>"

definition pay_order_from_wallet :: "time \<Rightarrow> wallet_order_plan \<Rightarrow> db \<Rightarrow> (db, nat) outcome" where
  "pay_order_from_wallet t plan = transaction (\<lambda>d.
     case lookup c_id (wp_customer plan) (customers d) of
       None \<Rightarrow> (Inl TypeError, d)
     | Some c \<Rightarrow>
         if wallet_balance c < wp_price plan then (Inl WalletInsufficientBalanceError, d)
         else insert_order (wallet_order_row t plan)
           (upd_customer (wp_customer plan)
              (\<lambda>c. c\<lparr>wallet_balance := wallet_balance c - wp_price plan\<rparr>) d))"

definition create_order_paid_by_wallet ::
  "moment \<Rightarrow> nat \<Rightarrow> nat \<Rightarrow> nat \<Rightarrow> string option \<Rightarrow> db \<Rightarrow> (db, order) outcome" where
  "create_order_paid_by_wallet m rid pid cid phone d =
     (case wallet_order_checks m rid pid cid phone d of
        Inl e \<Rightarrow> (Inl e, d)
      | Inr plan \<Rightarrow>
          (case pay_order_from_wallet (m_now m) plan d of
             (Inl e, d1) \<Rightarrow> (Inl e, d1)
           | (Inr _, d1) \<Rightarrow> (fetch_created_order (wp_code plan) d1, d1)))"

text \<open>\<^verbatim>\<open>submit_receipt\<close>, split in the same way.\<close>

record receipt_plan =
  rp_order :: order
  rp_is_test :: bool
  rp_commission :: decimal

definition receipt_plan_for :: "order \<Rightarrow> reseller \<Rightarrow> receipt_plan" where
  "receipt_plan_for ord r =
     (let is_test = (test_mode_enabled r \<and> test_mode_orders_used r < test_mode_order_limit r)
      in \<lparr>rp_order = ord, rp_is_test = is_test,
          rp_commission = (if is_test then 0
            else commission_on (package_price ord) (commission_percent r))\<rparr>)"

definition submit_receipt_checks :: "config \<Rightarrow> nat \<Rightarrow> db \<Rightarrow> exn + receipt_plan" where
  "submit_receipt_checks cfg oid d =
     (case lookup o_id oid (orders d) of
        None \<Rightarrow> Inl (ValueError OrderNotFound)
      | Some ord \<Rightarrow>
          let pending_count = count_pending_orders (o_customer_id ord) d in
          if MAX_PENDING_ORDERS_PER_CUSTOMER cfg \<le> pending_count
          then Inl (PendingOrderLimitExceeded pending_count)
          else (case lookup r_id (o_reseller_id ord) (resellers d) of
                  None \<Rightarrow> Inl TypeError
                | Some r \<Rightarrow> Inr (receipt_plan_for ord r)))"

definition mark_receipt ::
  "receipt_plan \<Rightarrow> string \<Rightarrow> order_status \<Rightarrow> db \<Rightarrow> db" where
  "mark_receipt plan receipt st = upd_order (o_id (rp_order plan)) (\<lambda>r.
     r\<lparr>o_status := st, receipt_image := Some receipt,
       commission_amount := store (rp_commission plan), is_test_order := rp_is_test plan\<rparr>)"

definition submit_receipt_tx :: "string \<Rightarrow> receipt_plan \<Rightarrow> db \<Rightarrow> (db, bool) outcome" where
  "submit_receipt_tx receipt plan = transaction (\<lambda>d.
     if \<not> rp_is_test plan
     then settle_commission
            (deduct_commission_in_tx (o_reseller_id (rp_order plan)) (rp_commission plan)
               (order_code (rp_order plan)))
            (mark_receipt plan receipt FailedInsufficientCredit)
            (mark_receipt plan receipt AwaitingReceiptReview) d
     else (Inr False, mark_receipt plan receipt AwaitingReceiptReview d))"

definition submit_receipt_commit ::
  "string \<Rightarrow> receipt_plan \<Rightarrow> db \<Rightarrow> (db, order option) outcome" where
  "submit_receipt_commit receipt plan d =
     (case submit_receipt_tx receipt plan d of
        (Inl e, d1) \<Rightarrow> (Inl e, d1)
      | (Inr insufficient_credit, d1) \<Rightarrow>
          if insufficient_credit
          then (Inl (OrderInsufficientCreditError (o_id (rp_order plan))
                       (o_reseller_id (rp_order plan)) (order_code (rp_order plan))), d1)
          else (Inr (lookup o_id (o_id (rp_order plan)) (orders d1)), d1))"

definition submit_receipt :: "config \<Rightarrow> nat \<Rightarrow> string \<Rightarrow> db \<Rightarrow> (db, order option) outcome" where
  "submit_receipt cfg oid receipt d =
     (case submit_receipt_checks cfg oid d of
        Inl e \<Rightarrow> (Inl e, d)
      | Inr plan \<Rightarrow> submit_receipt_commit receipt plan d)"

text \<open>
  The counter of the test mode. MySQL evaluates the assignments of one \<^verbatim>\<open>UPDATE\<close> from left
  to right, so the \<^verbatim>\<open>CASE\<close> reads the counter after it was incremented.
\<close>

definition increment_test_counter :: "reseller \<Rightarrow> reseller" where
  "increment_test_counter r =
     (let r1 = r\<lparr>test_mode_orders_used := test_mode_orders_used r + 1\<rparr>
      in r1\<lparr>test_mode_enabled :=
              (if test_mode_order_limit r1 \<le> test_mode_orders_used r1 + 1 then False
               else test_mode_enabled r1)\<rparr>)"

definition increment_test_counter_if_needed :: "nat \<Rightarrow> nat \<Rightarrow> db \<Rightarrow> db" where
  "increment_test_counter_if_needed rid oid d =
     (case lookup o_id oid (orders d) of
        None \<Rightarrow> d
      | Some ord \<Rightarrow> if is_test_order ord then upd_reseller rid increment_test_counter d else d)"

definition confirm_order :: "time \<Rightarrow> nat \<Rightarrow> db \<Rightarrow> db" where
  "confirm_order t oid = upd_order oid (\<lambda>r. r\<lparr>o_status := Confirmed, confirmed_at := Some t\<rparr>)"

definition activate_order :: "time \<Rightarrow> nat \<Rightarrow> db \<Rightarrow> (db, order option) outcome" where
  "activate_order t oid d =
     (let found = lookup o_id oid (orders d);
          d1 = upd_order oid (\<lambda>r. r\<lparr>o_status := Activated, activated_at := Some t\<rparr>) d
      in case found of
           None \<Rightarrow> (Inl TypeError, d1)
         | Some ord \<Rightarrow>
             let d2 = increment_test_counter_if_needed (o_reseller_id ord) oid d1
             in (Inr (lookup o_id oid (orders d2)), d2))"

definition reject_order :: "nat \<Rightarrow> db \<Rightarrow> db" where
  "reject_order oid = upd_order oid (\<lambda>r. r\<lparr>o_status := Rejected\<rparr>)"

definition find_orders_pending_activation_alert :: "time \<Rightarrow> nat \<Rightarrow> db \<Rightarrow> order list" where
  "find_orders_pending_activation_alert t hours d =
     fetch_all (\<lambda>r. o_status r = Confirmed \<and>
       (case confirmed_at r of None \<Rightarrow> False | Some t0 \<Rightarrow> t0 + hours * 3600 < t)) (orders d)"


section \<open>Elementary facts\<close>

lemma upd_order_simps [simp]:
  "resellers (upd_order i f d) = resellers d"
  "wallet_transactions (upd_order i f d) = wallet_transactions d"
  "packages (upd_order i f d) = packages d"
  "charge_codes (upd_order i f d) = charge_codes d"
  "blacklist (upd_order i f d) = blacklist d"
  "disputes (upd_order i f d) = disputes d"
  "customers (upd_order i f d) = customers d"
  "customer_wallet_topups (upd_order i f d) = customer_wallet_topups d"
  "orders (upd_order i f d) = update_id o_id i f (orders d)"
  by (simp_all add: upd_order_def)

lemma balance_of_upd_order [simp]:
  "balance_of rid (upd_order i f d) = balance_of rid d"
  "ledger_of rid (upd_order i f d) = ledger_of rid d"
  "customer_balance cid (upd_order i f d) = customer_balance cid d"
  by (simp_all add: balance_of_def ledger_of_def customer_balance_def)

lemma wf_db_upd_order [simp]:
  "(\<And>r. o_id (f r) = o_id r) \<Longrightarrow> wf_db (upd_order i f d) = wf_db d"
  by (simp add: wf_db_def upd_order_def orders.update_id_wf)

lemma insert_order_InrD:
  assumes "insert_order r d = (Inr i, d')"
  shows "i = auto_inc (orders d)" "d' = d\<lparr>orders := insert_row order_with_id r (orders d)\<rparr>"
    "fetch_one (\<lambda>r'. order_code r' = order_code r) (orders d) = None"
  using assms by (auto simp: insert_order_def split: if_splits)

lemma insert_order_InlD: "insert_order r d = (Inl e, d') \<Longrightarrow> d' = d \<and> e = IntegrityError"
  by (auto simp: insert_order_def split: if_splits)

text \<open>The row that was inserted is the one that is fetched by its code.\<close>

lemma fetch_inserted_order:
  assumes "insert_order r d = (Inr i, d')"
  shows "d' = d\<lparr>orders := orders d'\<rparr> \<and> i = auto_inc (orders d)
    \<and> trows (orders d') = trows (orders d) @ [r\<lparr>o_id := auto_inc (orders d)\<rparr>]
    \<and> fetch_created_order (order_code r) d' = Inr (r\<lparr>o_id := auto_inc (orders d)\<rparr>)"
  using insert_order_InrD [OF assms]
  by (simp add: fetch_created_order_def fetch_one_def insert_row_def find_append)

section \<open>Wallet purchases keep their contract\<close>

lemma pay_order_InrD:
  assumes "pay_order_from_wallet t plan d = (Inr i, d')"
  obtains c where "lookup c_id (wp_customer plan) (customers d) = Some c"
    and "wp_price plan \<le> wallet_balance c"
    and "insert_order (wallet_order_row t plan) (upd_customer (wp_customer plan)
           (\<lambda>c. c\<lparr>wallet_balance := wallet_balance c - wp_price plan\<rparr>) d) = (Inr i, d')"
  using assms
  by (auto simp: pay_order_from_wallet_def transaction_Inr_iff split: option.splits if_splits)

interpretation order_wallet: wallet_purchase
  "\<lambda>(t, plan). pay_order_from_wallet t plan" "\<lambda>(t, plan). wp_customer plan"
  "\<lambda>(t, plan). wp_price plan"
proof (unfold_locales, goal_cases)
  case (1 q d e d')
  then show ?case by (cases q) (auto simp: pay_order_from_wallet_def transaction_Inl_iff)
next
  case (2 q d x d')
  then show ?case
    by (cases q) (auto simp: customer_balance_def elim!: pay_order_InrD)
next
  case (3 q d x d' cid)
  obtain t plan where q: "q = (t, plan)" by (cases q)
  with 3 have "pay_order_from_wallet t plan d = (Inr x, d')" by simp
  then show ?case
  proof (cases rule: pay_order_InrD)
    case (1 c)
    from insert_order_InrD(2) [OF 1(3)] customer_balance_add [OF 1(1), of cid "- wp_price plan"]
    show ?thesis by (simp add: q customer_balance_def)
  qed
next
  case (4 q d x d')
  then show ?case by (cases q) (auto elim!: pay_order_InrD dest!: insert_order_InrD(2))
next
  case (5 q d x d')
  then show ?case by (cases q) (auto elim!: pay_order_InrD dest!: insert_order_InrD(2))
qed


text \<open>Both ways of ordering refuse a blacklisted customer first.\<close>

interpretation order_guard: guarded_purchase
  "\<lambda>rid cid. create_order m rid pid cid phone" CustomerBlacklistedError for m pid phone
  by unfold_locales (simp add: create_order_def)

interpretation wallet_order_guard: guarded_purchase
  "\<lambda>rid cid. create_order_paid_by_wallet m rid pid cid phone" CustomerBlacklistedError for m pid phone
  by unfold_locales (simp add: create_order_paid_by_wallet_def wallet_order_checks_def)

section \<open>Properties of orders\<close>

text \<open>
  Order codes are unique up to the second and the random suffix: two codes
  agree only when prefix, date (within a century), time of day and suffix agree. The
  prefix may hold dashes and digits, since the rest of the code has a fixed length.
\<close>

theorem generate_order_code_unique:
  assumes "valid_moment m" and "valid_moment m'"
  shows "generate_order_code p m = generate_order_code p' m' \<longleftrightarrow>
     p = p' \<and> m_suffix m = m_suffix m' \<and>
     clk_year (m_clock m) mod 100 = clk_year (m_clock m') mod 100 \<and>
     clk_month (m_clock m) = clk_month (m_clock m') \<and> clk_day (m_clock m) = clk_day (m_clock m') \<and>
     clk_hour (m_clock m) = clk_hour (m_clock m') \<and>
     clk_minute (m_clock m) = clk_minute (m_clock m') \<and>
     clk_second (m_clock m) = clk_second (m_clock m')"
proof -
  have valid: "valid_clock (m_clock m)" "valid_clock (m_clock m')"
    and len: "length (m_suffix m) = 3" "length (m_suffix m') = 3"
    using assms by (auto simp: valid_moment_def)
  have "generate_order_code p m = generate_order_code p' m' \<longleftrightarrow>
      p = p' \<and> strftime_ymd (m_clock m) = strftime_ymd (m_clock m')
        \<and> strftime_hms (m_clock m) = strftime_hms (m_clock m') \<and> m_suffix m = m_suffix m'"
    using valid len
    by (simp add: generate_order_code_def append_eq_append_conv length_ymd length_hms)
  then show ?thesis by (auto simp: ymd_inject [OF valid] hms_inject [OF valid])
qed

definition demo_moment :: moment where
  "demo_moment = \<lparr>m_now = 1000,
     m_clock = \<lparr>clk_year = 2024, clk_month = 7, clk_day = 18, clk_hour = 15, clk_minute = 32,
                clk_second = 9\<rparr>, m_suffix = ''7QX''\<rparr>"

lemma generate_order_code_unique_witness:
  "valid_moment demo_moment
   \<and> generate_order_code ''AR'' demo_moment \<noteq>
      generate_order_code ''AR'' (demo_moment\<lparr>m_suffix := ''7QY''\<rparr>)"
proof -
  have "valid_moment demo_moment" "valid_moment (demo_moment\<lparr>m_suffix := ''7QY''\<rparr>)"
    by (simp_all add: demo_moment_def valid_moment_def valid_clock_def)
  then show ?thesis
    using generate_order_code_unique [of demo_moment "demo_moment\<lparr>m_suffix := ''7QY''\<rparr>" "''AR''" "''AR''"]
    by (simp add: demo_moment_def)
qed

lemma create_order_InlD: "create_order m rid pid cid phone d = (Inl e, d') \<Longrightarrow> d' = d \<and> e \<noteq> RuntimeError"
  by (auto simp: create_order_def Let_def
      dest!: insert_order_InlD fetch_inserted_order
      split: if_splits option.splits sum.splits prod.splits)

lemma create_order_InrD:
  assumes "create_order m rid pid cid phone d = (Inr ord, d')"
  obtains p r where "lookup p_id pid (packages d) = Some p" and "lookup r_id rid (resellers d) = Some r"
    and "package_price ord = sale_price p" and "order_code ord = generate_order_code (order_prefix r) m"
    and "\<not> customer_blacklisted rid cid d"
    and "o_status ord = AwaitingPayment" and "commission_amount ord = 0" and "\<not> paid_from_wallet ord"
    and "o_customer_id ord = cid" and "o_reseller_id ord = rid"
    and "o_package_id ord = pid" and "phone_number ord = phone"
    and "o_id ord = auto_inc (orders d)" and "trows (orders d') = trows (orders d) @ [ord]"
    and "d' = d\<lparr>orders := orders d'\<rparr>"
proof -
  from assms obtain p r i row where checks: "lookup p_id pid (packages d) = Some p"
      "lookup r_id rid (resellers d) = Some r" "\<not> customer_blacklisted rid cid d"
      and row: "row = \<lparr>o_id = 0, order_code = generate_order_code (order_prefix r) m,
        o_reseller_id = rid, o_package_id = pid, o_customer_id = cid, o_status = AwaitingPayment,
        receipt_image = None, phone_number = phone, package_price = sale_price p,
        commission_amount = 0, is_test_order = False, created_at = m_now m, confirmed_at = None,
        activated_at = None, paid_from_wallet = False, o_type = PackageOrder,
        delivered_charge_code = None\<rparr>"
      and ins: "insert_order row d = (Inr i, d')"
      and fetch: "fetch_created_order (order_code row) d' = Inr ord"
    by (auto simp: create_order_def Let_def split: if_splits option.splits sum.splits prod.splits)
  from fetch_inserted_order [OF ins] fetch
  have "ord = row\<lparr>o_id := auto_inc (orders d)\<rparr>" "trows (orders d') = trows (orders d) @ [ord]"
    "d' = d\<lparr>orders := orders d'\<rparr>" by simp_all
  with checks row show ?thesis by (intro that [of p r]) simp_all
qed

text \<open>An accepted order of the wallet is the accepted request of a transaction.\<close>

lemma paid_by_wallet_InlD:
  "create_order_paid_by_wallet m rid pid cid phone d = (Inl e, d') \<Longrightarrow> d' = d \<and> e \<noteq> RuntimeError"
proof (cases "wallet_order_checks m rid pid cid phone d")
  case (Inl e')
  then show "create_order_paid_by_wallet m rid pid cid phone d = (Inl e, d') \<Longrightarrow> d' = d \<and> e \<noteq> RuntimeError"
    by (auto simp: create_order_paid_by_wallet_def wallet_order_checks_def Let_def
        split: if_splits option.splits)
next
  case (Inr plan)
  assume run: "create_order_paid_by_wallet m rid pid cid phone d = (Inl e, d')"
  show ?thesis
  proof (cases "pay_order_from_wallet (m_now m) plan d")
    case (Pair res d1)
    show ?thesis
    proof (cases res)
      case e: (Inl e1)
      then have "d1 = d" "e1 \<noteq> RuntimeError" using Pair
        by (auto simp: pay_order_from_wallet_def transaction_Inl_iff insert_order_def
            split: option.splits if_splits)
      with Inr Pair e run show ?thesis by (simp add: create_order_paid_by_wallet_def)
    next
      case i: (Inr i)
      with Pair have "pay_order_from_wallet (m_now m) plan d = (Inr i, d1)" by simp
      then have "fetch_created_order (wp_code plan) d1 \<noteq> Inl e'" for e'
        by (cases rule: pay_order_InrD) (drule fetch_inserted_order, simp add: wallet_order_row_def)
      with Inr Pair i run show ?thesis by (simp add: create_order_paid_by_wallet_def)
    qed
  qed
qed

lemma paid_by_wallet_InrD:
  assumes "create_order_paid_by_wallet m rid pid cid phone d = (Inr ord, d')"
  obtains p plan where "lookup p_id pid (packages d) = Some p" and "package_price ord = sale_price p"
    and "\<not> customer_blacklisted rid cid d" and "wp_customer plan = cid" and "wp_price plan = sale_price p"
    and "wp_reseller plan = rid" and "wp_package plan = pid" and "wp_phone plan = phone"
    and "pay_order_from_wallet (m_now m) plan d = (Inr (auto_inc (orders d)), d')"
    and "ord = (wallet_order_row (m_now m) plan)\<lparr>o_id := auto_inc (orders d)\<rparr>"
    and "trows (orders d') = trows (orders d) @ [ord]"
proof -
  from assms obtain plan i where checks: "wallet_order_checks m rid pid cid phone d = Inr plan"
      and pay: "pay_order_from_wallet (m_now m) plan d = (Inr i, d')"
      and fetch: "fetch_created_order (wp_code plan) d' = Inr ord"
    by (auto simp: create_order_paid_by_wallet_def split: sum.splits prod.splits)
  from checks obtain p where plan: "lookup p_id pid (packages d) = Some p" "wp_customer plan = cid"
      "\<not> customer_blacklisted rid cid d" "wp_price plan = sale_price p" "wp_reseller plan = rid"
      "wp_package plan = pid" "wp_phone plan = phone"
    by (auto simp: wallet_order_checks_def split: if_splits option.splits)
  from pay obtain d1 where "orders d1 = orders d"
      and ins: "insert_order (wallet_order_row (m_now m) plan) d1 = (Inr i, d')"
    by (rule pay_order_InrD) (metis upd_customer_simps(3))
  with fetch_inserted_order [OF ins] fetch
  have "i = auto_inc (orders d)" "trows (orders d') = trows (orders d) @ [ord]"
    "ord = (wallet_order_row (m_now m) plan)\<lparr>o_id := auto_inc (orders d)\<rparr>"
    by (simp_all add: wallet_order_row_def)
  with plan pay that show ?thesis by (simp add: wallet_order_row_def)
qed

text \<open>
  Creating an order. It is refused without a trace, or it appends one order
  that awaits payment, with the price of the package at this moment, no commission and no
  link to the wallet; no balance moves. The \<^verbatim>\<open>RuntimeError\<close> of a vanished row never occurs.
\<close>

theorem create_order_spec:
  "case create_order m rid pid cid phone d of
     (Inl e, d') \<Rightarrow> d' = d \<and> e \<noteq> RuntimeError
   | (Inr ord, d') \<Rightarrow>
       (\<exists>p r. lookup p_id pid (packages d) = Some p \<and> lookup r_id rid (resellers d) = Some r
          \<and> package_price ord = sale_price p
          \<and> order_code ord = generate_order_code (order_prefix r) m)
       \<and> \<not> customer_blacklisted rid cid d
       \<and> o_status ord = AwaitingPayment \<and> commission_amount ord = 0
       \<and> \<not> paid_from_wallet ord \<and> o_customer_id ord = cid \<and> phone_number ord = phone
       \<and> trows (orders d') = trows (orders d) @ [ord]
       \<and> d' = d\<lparr>orders := orders d'\<rparr>"
  by (auto split: prod.split sum.split dest: create_order_InlD elim!: create_order_InrD)

text \<open>
  Property C21: paying an order from the wallet. Either nothing changes, or one confirmed
  order at the price of the package is appended, the wallet held at least the price and
  loses exactly the price, and the reseller's commission account is untouched (commission
  was paid when the wallet was charged).
\<close>

theorem create_order_paid_by_wallet_spec:
  "case create_order_paid_by_wallet m rid pid cid phone d of
     (Inl e, d') \<Rightarrow> d' = d \<and> e \<noteq> RuntimeError
   | (Inr ord, d') \<Rightarrow>
       (\<exists>p. lookup p_id pid (packages d) = Some p \<and> package_price ord = sale_price p)
       \<and> \<not> customer_blacklisted rid cid d
       \<and> o_status ord = Confirmed \<and> paid_from_wallet ord \<and> confirmed_at ord = Some (m_now m)
       \<and> commission_amount ord = 0 \<and> \<not> is_test_order ord
       \<and> trows (orders d') = trows (orders d) @ [ord]
       \<and> package_price ord \<le> customer_balance cid d
       \<and> (\<forall>any. customer_balance any d' =
            customer_balance any d - (if any = cid then package_price ord else 0))
       \<and> resellers d' = resellers d \<and> wallet_transactions d' = wallet_transactions d"
proof (cases "create_order_paid_by_wallet m rid pid cid phone d")
  case (Pair res d')
  show ?thesis
  proof (cases res)
    case (Inl e)
    with Pair show ?thesis by (auto dest: paid_by_wallet_InlD)
  next
    case (Inr ord)
    with Pair have "create_order_paid_by_wallet m rid pid cid phone d = (Inr ord, d')" by simp
    then show ?thesis
    proof (cases rule: paid_by_wallet_InrD)
      case (1 p plan)
      then have buy: "(\<lambda>(t, plan). pay_order_from_wallet t plan) (m_now m, plan) d =
          (Inr (auto_inc (orders d)), d')" by simp
      show ?thesis
        using order_wallet.buy_affordable [OF buy] order_wallet.buy_pays [OF buy]
          order_wallet.buy_frame [OF buy] 1
        by (simp add: Pair Inr wallet_order_row_def)
    qed
  qed
qed

definition pay_request :: "time \<times> wallet_order_plan \<Rightarrow> db \<Rightarrow> (db, nat) outcome" where
  "pay_request = (\<lambda>(t, plan). pay_order_from_wallet t plan)"

text \<open>
  Property C8: wallet orders under any interleaving. However the transactions of many
  requests are ordered, and however stale the balances and prices are that their checks
  saw, no wallet is overdrawn, what a customer loses is the sum of the prices of the
  accepted requests, and no commission is charged.
\<close>

theorem wallet_orders_interleaved:
  "min 0 (customer_balance cid d) \<le> customer_balance cid (run_all pay_request requests d)
   \<and> customer_balance cid (run_all pay_request requests d) = customer_balance cid d -
       accepted_cost pay_request (\<lambda>(t, plan). wp_customer plan) (\<lambda>(t, plan). wp_price plan)
         cid requests d
   \<and> resellers (run_all pay_request requests d) = resellers d
   \<and> wallet_transactions (run_all pay_request requests d) = wallet_transactions d"
  unfolding pay_request_def
  using order_wallet.run_no_overdraft order_wallet.run_balance order_wallet.run_keeps_commission
  by blast


section \<open>Submitting a receipt\<close>

lemma mark_receipt_frame [simp]:
  "resellers (mark_receipt plan receipt st d) = resellers d"
  "wallet_transactions (mark_receipt plan receipt st d) = wallet_transactions d"
  "customers (mark_receipt plan receipt st d) = customers d"
  "balance_of rid (mark_receipt plan receipt st d) = balance_of rid d"
  "ledger_of rid (mark_receipt plan receipt st d) = ledger_of rid d"
  by (simp_all add: mark_receipt_def)

text \<open>Whether the deduction fails, and the status that is recorded.\<close>

definition credit_exceeded :: "receipt_plan \<Rightarrow> reseller \<Rightarrow> bool" where
  "credit_exceeded plan r \<longleftrightarrow> \<not> rp_is_test plan \<and>
     dec (wallet_credit_balance r) - rp_commission plan < - dec (credit_limit_negative r)"

definition receipt_status :: "receipt_plan \<Rightarrow> reseller \<Rightarrow> order_status" where
  "receipt_status plan r =
     (if credit_exceeded plan r then FailedInsufficientCredit else AwaitingReceiptReview)"

lemma submit_tx_result:
  assumes r: "lookup r_id (o_reseller_id (rp_order plan)) (resellers d) = Some r"
  obtains d1 where
    "submit_receipt_tx receipt plan d =
       (Inr (credit_exceeded plan r), mark_receipt plan receipt (receipt_status plan r) d1)"
    and "same_elsewhere d d1"
    and "lookup r_id (o_reseller_id (rp_order plan)) (resellers d1) =
       Some (if rp_is_test plan \<or> credit_exceeded plan r then r else
         r\<lparr>wallet_credit_balance := store (dec (wallet_credit_balance r) - rp_commission plan)\<rparr>)"
    and "ledger_of (o_reseller_id (rp_order plan)) d1 = ledger_of (o_reseller_id (rp_order plan)) d +
       (if rp_is_test plan \<or> credit_exceeded plan r then 0 else store (- rp_commission plan))"
proof (cases "rp_is_test plan")
  case True
  with r show ?thesis
    by (intro that [of d]) (simp_all add: submit_receipt_tx_def credit_exceeded_def receipt_status_def)
next
  case False
  show ?thesis
  proof (cases "credit_exceeded plan r")
    case True
    with r False show ?thesis
      by (intro that [of d])
        (simp_all add: submit_receipt_tx_def receipt_status_def wallet.settle_failed credit_exceeded_def)
  next
    case ok: False
    with False have le: "- dec (credit_limit_negative r) \<le>
        dec (wallet_credit_balance r) - rp_commission plan"
      by (simp add: credit_exceeded_def)
    obtain d1 where d1: "deduct_commission_in_tx (o_reseller_id (rp_order plan))
          (rp_commission plan) (order_code (rp_order plan)) d = (Inr (), d1)"
        "settle_commission (deduct_commission_in_tx (o_reseller_id (rp_order plan))
          (rp_commission plan) (order_code (rp_order plan)))
          (mark_receipt plan receipt FailedInsufficientCredit)
          (mark_receipt plan receipt AwaitingReceiptReview) d =
         (Inr False, mark_receipt plan receipt AwaitingReceiptReview d1)"
        "same_elsewhere d d1"
      by (rule wallet.settle_ok [OF r le]) assumption
    show ?thesis
      using d1 False ok wallet.deduct_row [OF d1(1) r] wallet.deduct_ledger [OF d1(1)]
      by (intro that [of d1]) (simp_all add: submit_receipt_tx_def receipt_status_def)
  qed
qed

lemma mark_receipt_disputes [simp]:
  "disputes (mark_receipt plan receipt st d) = disputes d"
  by (simp add: mark_receipt_def)

text \<open>What the commission account and the order rows have no part in, a receipt leaves alone.\<close>

lemma submit_receipt_frame:
  fixes g :: "db \<Rightarrow> 'x"
  assumes same: "\<And>d d'. same_elsewhere d d' \<Longrightarrow> g d' = g d"
    and mark: "\<And>plan st d. g (mark_receipt plan receipt st d) = g d"
  shows "g (snd (submit_receipt cfg oid receipt d)) = g d"
proof -
  have "g (snd (deduct_commission_in_tx rid a ref d)) = g d" for rid a ref
    by (rule same [OF wallet.deduct_frame])
  then have settle: "g (snd (settle_commission (deduct_commission_in_tx rid a ref)
      (mark_receipt plan receipt x) (mark_receipt plan receipt y) d)) = g d" for rid a ref plan x y
    by (simp add: settle_commission.simps mark split: prod.split sum.split)
      (metis snd_conv)
  have tx: "g (snd (submit_receipt_tx receipt plan d)) = g d" for plan
    using settle
    by (cases "rp_is_test plan")
      (auto simp: submit_receipt_tx_def transaction_def mark split: prod.split sum.split, (metis snd_conv)+)
  have "g (snd (submit_receipt_commit receipt plan d)) = g d" for plan
    using tx [of plan]
    by (cases "submit_receipt_tx receipt plan d")
      (auto simp: submit_receipt_commit_def split: sum.splits)
  then show ?thesis by (simp add: submit_receipt_def split: sum.split)
qed

lemma submit_receipt_disputes: "disputes (snd (submit_receipt cfg oid receipt d)) = disputes d"
  by (rule submit_receipt_frame) (simp_all add: same_elsewhereD)

lemma submit_commit_effect:
  fixes plan d receipt
  defines "ord \<equiv> rp_order plan" and "d' \<equiv> snd (submit_receipt_commit receipt plan d)"
  assumes r: "lookup r_id (o_reseller_id ord) (resellers d) = Some r"
  shows "fst (submit_receipt_commit receipt plan d) =
      (if credit_exceeded plan r
       then Inl (OrderInsufficientCreditError (o_id ord) (o_reseller_id ord) (order_code ord))
       else Inr (lookup o_id (o_id ord) (orders d')))" (is ?result)
    and "orders d' = orders (mark_receipt plan receipt (receipt_status plan r) d)" (is ?orders)
    and "lookup r_id (o_reseller_id ord) (resellers d') =
       Some (if rp_is_test plan \<or> credit_exceeded plan r then r else
         r\<lparr>wallet_credit_balance := store (dec (wallet_credit_balance r) - rp_commission plan)\<rparr>)"
      (is ?reseller)
    and "ledger_of (o_reseller_id ord) d' = ledger_of (o_reseller_id ord) d +
       (if rp_is_test plan \<or> credit_exceeded plan r then 0 else store (- rp_commission plan))"
      (is ?ledger)
    and "customers d' = customers d" (is ?customers)
proof -
  obtain d1 where d1: "submit_receipt_tx receipt plan d =
       (Inr (credit_exceeded plan r), mark_receipt plan receipt (receipt_status plan r) d1)"
    and same: "same_elsewhere d d1"
    and row: "lookup r_id (o_reseller_id (rp_order plan)) (resellers d1) =
       Some (if rp_is_test plan \<or> credit_exceeded plan r then r else
         r\<lparr>wallet_credit_balance := store (dec (wallet_credit_balance r) - rp_commission plan)\<rparr>)"
    and led: "ledger_of (o_reseller_id (rp_order plan)) d1 =
       ledger_of (o_reseller_id (rp_order plan)) d +
       (if rp_is_test plan \<or> credit_exceeded plan r then 0 else store (- rp_commission plan))"
    by (rule submit_tx_result [OF r [unfolded ord_def]]) assumption
  have d': "d' = mark_receipt plan receipt (receipt_status plan r) d1"
    by (simp add: d'_def submit_receipt_commit_def d1)
  show ?result by (simp add: submit_receipt_commit_def d1 d' ord_def)
  show ?orders using same_elsewhereD(1) [OF same] by (simp add: d' mark_receipt_def)
  show ?customers using same_elsewhereD(2) [OF same] by (simp add: d')
  show ?reseller using row by (simp only: d' ord_def mark_receipt_frame)
  show ?ledger using led by (simp only: d' ord_def mark_receipt_frame)
qed

lemma receipt_plan_for_simps [simp]:
  "rp_order (receipt_plan_for ord r) = ord"
  "rp_is_test (receipt_plan_for ord r) \<longleftrightarrow>
     test_mode_enabled r \<and> test_mode_orders_used r < test_mode_order_limit r"
  "rp_commission (receipt_plan_for ord r) =
     (if test_mode_enabled r \<and> test_mode_orders_used r < test_mode_order_limit r then 0
      else commission_on (package_price ord) (commission_percent r))"
  by (simp_all add: receipt_plan_for_def Let_def)

lemma submit_checks_ok:
  assumes "lookup o_id oid (orders d) = Some ord"
    and "count_pending_orders (o_customer_id ord) d < MAX_PENDING_ORDERS_PER_CUSTOMER cfg"
    and "lookup r_id (o_reseller_id ord) (resellers d) = Some r"
  shows "submit_receipt cfg oid receipt d =
    submit_receipt_commit receipt (receipt_plan_for ord r) d"
  using assms by (simp add: submit_receipt_def submit_receipt_checks_def Let_def)

text \<open>
  Property C4: submitting a receipt, below the pending limit. A test order is put up for
  review free of charge. Otherwise the commission of the reseller on the price of the order
  is charged and the order is put up for review; when that would exceed the reseller's
  negative credit limit, nothing is charged, the order is recorded as failed, and the
  caller is told by an exception. Balance and ledger always tell the same.
\<close>

theorem submit_receipt_charges:
  assumes ord: "lookup o_id oid (orders d) = Some ord"
    and pending: "count_pending_orders (o_customer_id ord) d < MAX_PENDING_ORDERS_PER_CUSTOMER cfg"
    and r: "lookup r_id (o_reseller_id ord) (resellers d) = Some r"
    and submit: "submit_receipt cfg oid receipt d = (res, d')"
    and a: "a = commission_on (package_price ord) (commission_percent r)"
  shows
    "(if test_mode_enabled r \<and> test_mode_orders_used r < test_mode_order_limit r
      then res = Inr (Some (ord\<lparr>o_status := AwaitingReceiptReview, receipt_image := Some receipt,
                               commission_amount := 0, is_test_order := True\<rparr>))
        \<and> balance_of (o_reseller_id ord) d' = wallet_credit_balance r
        \<and> ledger_of (o_reseller_id ord) d' = ledger_of (o_reseller_id ord) d
      else if dec (wallet_credit_balance r) - a < - dec (credit_limit_negative r)
      then res = Inl (OrderInsufficientCreditError oid (o_reseller_id ord) (order_code ord))
        \<and> map_option o_status (lookup o_id oid (orders d')) = Some FailedInsufficientCredit
        \<and> balance_of (o_reseller_id ord) d' = wallet_credit_balance r
        \<and> ledger_of (o_reseller_id ord) d' = ledger_of (o_reseller_id ord) d
      else res = Inr (Some (ord\<lparr>o_status := AwaitingReceiptReview, receipt_image := Some receipt,
                               commission_amount := store a, is_test_order := False\<rparr>))
        \<and> balance_of (o_reseller_id ord) d' = store (dec (wallet_credit_balance r) - a)
        \<and> ledger_of (o_reseller_id ord) d' = ledger_of (o_reseller_id ord) d + store (- a))"
proof -
  have id: "o_id ord = oid" using ord by (auto dest: orders.lookup_SomeD)
  have commit: "submit_receipt_commit receipt (receipt_plan_for ord r) d = (res, d')"
    using submit by (simp add: submit_checks_ok [OF ord pending r])
  note eff = submit_commit_effect [of "receipt_plan_for ord r" d r receipt, unfolded commit fst_conv snd_conv,
      unfolded receipt_plan_for_simps(1), OF r]
  have z: "store 0 = 0" using store_dec [of 0] by (simp add: dec_arith)
  show ?thesis
    using eff(1-4) ord
    by (simp add: id a balance_of_def credit_exceeded_def receipt_status_def mark_receipt_def
        orders.lookup_update_id z)
qed

definition demo_order :: order where
  "demo_order = \<lparr>o_id = 1, order_code = ''AR-240718-1532097QX'', o_reseller_id = 1,
     o_package_id = 1, o_customer_id = 1, o_status = AwaitingPayment, receipt_image = None,
     phone_number = Some ''0912'', package_price = 2000000, commission_amount = 0,
     is_test_order = False, created_at = 1000, confirmed_at = None, activated_at = None,
     paid_from_wallet = False, o_type = PackageOrder, delivered_charge_code = None\<rparr>"

definition demo_package :: package where
  "demo_package = \<lparr>p_id = 1, p_reseller_id = 1, p_category_id = 1, p_name = ''10GB'',
     sale_price = 300, cost_price = None, p_is_active = True\<rparr>"

definition demo_order_db :: db where
  "demo_order_db = demo_topup_db\<lparr>
     packages := \<lparr>trows = [demo_package], auto_inc = 2\<rparr>,
     orders := \<lparr>trows = [demo_order], auto_inc = 2\<rparr>\<rparr>"

lemma demo_order_simps [simp]:
  "o_id demo_order = 1" "o_reseller_id demo_order = 1" "o_customer_id demo_order = 1"
  "package_price demo_order = 2000000" "o_status demo_order = AwaitingPayment"
  "p_id demo_package = 1" "sale_price demo_package = 300"
  by (simp_all add: demo_order_def demo_package_def)

lemma demo_order_db_rows:
  "lookup o_id 1 (orders demo_order_db) = Some demo_order"
  "lookup r_id (o_reseller_id demo_order) (resellers demo_order_db) = Some demo_reseller"
  "lookup c_id 1 (customers demo_order_db) = Some demo_customer"
  "lookup p_id 1 (packages demo_order_db) = Some demo_package"
  "count_pending_orders (o_customer_id demo_order) demo_order_db <
     MAX_PENDING_ORDERS_PER_CUSTOMER default_config"
  by (simp_all add: demo_order_db_def demo_topup_db_def demo_wallet_db_def lookup_def
      count_pending_orders_def count_rows_def default_config_def)

lemma demo_order_db_wf: "wf_db demo_order_db"
  by (simp add: wf_db_def wf_table_def demo_order_db_def demo_topup_db_def demo_wallet_db_def
      empty_db_def empty_table_def)

lemma submit_receipt_charges_witness:
  "balance_of 1 (snd (submit_receipt default_config 1 ''photo'' demo_order_db)) = 50000
   \<and> (\<exists>x. fst (submit_receipt default_config 1 ''photo'' demo_order_db) = Inr (Some x)
        \<and> o_status x = AwaitingReceiptReview \<and> commission_amount x = 50000)"
  using submit_receipt_charges [OF demo_order_db_rows(1,5,2), of "''photo''"
      "fst (submit_receipt default_config 1 ''photo'' demo_order_db)"
      "snd (submit_receipt default_config 1 ''photo'' demo_order_db)"]
  by (simp del: One_nat_def add: demo_commission flip: dec_arith(3,4))

text \<open>
  A receipt can be submitted again. The status of the order is not looked at, so
  when the same order is submitted twice below the pending limit (an album of two photos,
  or a late photo for an order that is already confirmed), the order is put up for review
  again and the reseller pays the commission twice.
\<close>

theorem resubmitted_receipt_charged_again:
  assumes ord: "lookup o_id oid (orders d) = Some ord"
    and r: "lookup r_id (o_reseller_id ord) (resellers d) = Some r"
    and paying: "\<not> test_mode_enabled r"
    and first: "submit_receipt cfg oid photo1 d = (Inr x1, d1)"
    and second: "submit_receipt cfg oid photo2 d1 = (Inr x2, d2)"
  shows "ledger_of (o_reseller_id ord) d2 = ledger_of (o_reseller_id ord) d
      + 2 * store (- commission_on (package_price ord) (commission_percent r))
    \<and> map_option o_status (lookup o_id oid (orders d2)) = Some AwaitingReceiptReview"
proof -
  have id: "o_id ord = oid" using ord by (auto dest: orders.lookup_SomeD)
  have commit1: "submit_receipt_commit photo1 (receipt_plan_for ord r) d = (Inr x1, d1)"
    using first ord r by (simp add: submit_receipt_def submit_receipt_checks_def Let_def split: if_splits)
  note eff1 = submit_commit_effect [of "receipt_plan_for ord r" d r photo1,
      unfolded commit1 fst_conv snd_conv, unfolded receipt_plan_for_simps(1), OF r]
  from eff1(1) have ok1: "\<not> credit_exceeded (receipt_plan_for ord r) r" by (simp split: if_splits)
  obtain ord1 r1 where rows1: "lookup o_id oid (orders d1) = Some ord1"
      "lookup r_id (o_reseller_id ord) (resellers d1) = Some r1"
    and same: "package_price ord1 = package_price ord" "o_reseller_id ord1 = o_reseller_id ord"
      "commission_percent r1 = commission_percent r" "test_mode_enabled r1 = test_mode_enabled r"
    using eff1(2,3) ord id by (auto simp: mark_receipt_def orders.lookup_update_id)
  have id1: "o_id ord1 = oid" using rows1 by (auto dest: orders.lookup_SomeD)
  have commit2: "submit_receipt_commit photo2 (receipt_plan_for ord1 r1) d1 = (Inr x2, d2)"
    using second rows1 same
    by (simp add: submit_receipt_def submit_receipt_checks_def Let_def split: if_splits)
  note eff2 = submit_commit_effect [of "receipt_plan_for ord1 r1" d1 r1 photo2,
      unfolded commit2 fst_conv snd_conv, unfolded receipt_plan_for_simps(1),
      OF rows1(2) [folded same(2)]]
  from eff2(1) have ok2: "\<not> credit_exceeded (receipt_plan_for ord1 r1) r1" by (simp split: if_splits)
  show ?thesis
    using eff1(4) eff2(4) eff2(2) ok1 ok2 paying same rows1(1) id1
    by (simp add: receipt_status_def mark_receipt_def orders.lookup_update_id)
qed

lemma resubmitted_receipt_charged_again_witness:
  "ledger_of 1 (snd (submit_receipt default_config 1 ''b''
     (snd (submit_receipt default_config 1 ''a'' demo_order_db)))) = - 100000"
proof -
  have "ledger_of 1 demo_order_db = 0" by code_simp
  moreover have "\<not> isl (fst (submit_receipt default_config 1 ''a'' demo_order_db))"
    "\<not> isl (fst (submit_receipt default_config 1 ''b''
        (snd (submit_receipt default_config 1 ''a'' demo_order_db))))"
    by code_simp+
  ultimately show ?thesis
    using resubmitted_receipt_charged_again
      [OF demo_order_db_rows(1,2) _ outcome_ok [of "submit_receipt default_config 1 ''a'' demo_order_db"]
        outcome_ok [of "submit_receipt default_config 1 ''b''
          (snd (submit_receipt default_config 1 ''a'' demo_order_db))"]]
    by (simp del: One_nat_def add: demo_commission)
qed

text \<open>Updating one row changes a count by what that row contributes.\<close>

lemma count_pending_mark:
  assumes "wf_db d" and "lookup o_id (o_id (rp_order plan)) (orders d) = Some ord"
  shows "count_pending_orders cid (mark_receipt plan receipt st d) \<le>
    count_pending_orders cid d + (if cid = o_customer_id ord then 1 else 0)"
proof -
  have "int (count_pending_orders cid (mark_receipt plan receipt st d)) \<le>
      int (count_pending_orders cid d) + (if cid = o_customer_id ord then 1 else 0)"
    using assms
    by (simp add: count_pending_orders_def count_rows_sum mark_receipt_def
        orders.sum_update_id wf_dbD)
  then show ?thesis by (simp split: if_splits)
qed

text \<open>
  Property C24: the limit on orders under review. A submission never takes a customer above
  the limit, and one that is refused by it changes nothing: the customers that are within
  the limit stay within it.
\<close>

theorem submit_receipt_keeps_pending_limit:
  assumes "wf_db d" and "count_pending_orders cid d \<le> MAX_PENDING_ORDERS_PER_CUSTOMER cfg"
  shows "count_pending_orders cid (snd (submit_receipt cfg oid receipt d)) \<le>
    MAX_PENDING_ORDERS_PER_CUSTOMER cfg"
proof (cases "submit_receipt_checks cfg oid d")
  case (Inl e)
  with assms show ?thesis by (simp add: submit_receipt_def)
next
  case (Inr plan)
  then obtain ord r where rows: "lookup o_id oid (orders d) = Some ord"
      "lookup r_id (o_reseller_id ord) (resellers d) = Some r" "plan = receipt_plan_for ord r"
    and below: "count_pending_orders (o_customer_id ord) d < MAX_PENDING_ORDERS_PER_CUSTOMER cfg"
    by (auto simp: submit_receipt_checks_def Let_def split: option.splits if_splits)
  have id: "o_id ord = oid" using rows by (auto dest: orders.lookup_SomeD)
  note eff = submit_commit_effect(2) [of plan d r receipt, unfolded rows(3) receipt_plan_for_simps(1),
      OF rows(2)]
  have "count_pending_orders cid (snd (submit_receipt cfg oid receipt d)) =
      count_pending_orders cid (mark_receipt plan receipt (receipt_status plan r) d)"
    using eff by (simp add: submit_receipt_def Inr rows(3) count_pending_orders_def)
  also have "\<dots> \<le> count_pending_orders cid d + (if cid = o_customer_id ord then 1 else 0)"
    using assms(1) rows id by (intro count_pending_mark) simp_all
  finally show ?thesis using below assms(2) by (simp split: if_splits)
qed

lemma submit_receipt_keeps_pending_limit_witness:
  "count_pending_orders 1 (snd (submit_receipt default_config 1 ''a'' demo_order_db)) \<le> 3"
  using submit_receipt_keeps_pending_limit [OF demo_order_db_wf, of 1 default_config 1 "''a''"]
    demo_order_db_rows(5)
  by (simp add: default_config_def)

text \<open>A successful submission of an order that was not under review adds one to the count.\<close>

lemma count_pending_commit:
  assumes wf: "wf_table o_id (orders d)" and ord: "lookup o_id (o_id ord) (orders d) = Some ord"
    and new: "o_status ord \<noteq> AwaitingReceiptReview"
    and r: "lookup r_id (o_reseller_id ord) (resellers d) = Some r"
    and plan: "rp_order plan = ord"
    and commit: "submit_receipt_commit receipt plan d = (Inr x, d')"
  shows "count_pending_orders (o_customer_id ord) d' = count_pending_orders (o_customer_id ord) d + 1"
    and "\<exists>r'. lookup r_id (o_reseller_id ord) (resellers d') = Some r'"
    and "orders d' = orders (mark_receipt plan receipt AwaitingReceiptReview d)"
proof -
  note eff = submit_commit_effect [of plan d r receipt, unfolded commit fst_conv snd_conv plan, OF r]
  from eff(1) have "receipt_status plan r = AwaitingReceiptReview"
    by (simp add: receipt_status_def split: if_splits)
  with eff(2) show ords: "orders d' = orders (mark_receipt plan receipt AwaitingReceiptReview d)"
    by simp
  show "\<exists>r'. lookup r_id (o_reseller_id ord) (resellers d') = Some r'"
    using eff(3) by blast
  have "int (count_pending_orders (o_customer_id ord) d') =
      int (count_pending_orders (o_customer_id ord) d) + 1"
    using wf ord new
    by (simp add: count_pending_orders_def count_rows_sum ords mark_receipt_def plan
        orders.sum_update_id)
  then show "count_pending_orders (o_customer_id ord) d' =
      count_pending_orders (o_customer_id ord) d + 1" by simp
qed

definition demo_busy_db :: db where
  "demo_busy_db = demo_order_db\<lparr>orders := \<lparr>trows =
     [demo_order, demo_order\<lparr>o_id := 2, order_code := ''B'', package_price := 100\<rparr>], auto_inc = 3\<rparr>\<rparr>"

text \<open>
  The limit does not hold under concurrency. The count is read before the
  transaction and not again inside it, so two receipts of one customer for two orders whose
  checks both ran first are both accepted: at the limit minus one, this ends above the limit.
\<close>

theorem overlapping_receipts_exceed_limit:
  assumes wf: "wf_db d"
    and ord1: "lookup o_id oid1 (orders d) = Some ord1" and ord2: "lookup o_id oid2 (orders d) = Some ord2"
    and two: "oid1 \<noteq> oid2" "o_customer_id ord1 = cid" "o_customer_id ord2 = cid"
    and fresh: "o_status ord1 = AwaitingPayment" "o_status ord2 = AwaitingPayment"
    and limit: "count_pending_orders cid d + 1 = MAX_PENDING_ORDERS_PER_CUSTOMER cfg"
    and checks: "submit_receipt_checks cfg oid1 d = Inr plan1"
      "submit_receipt_checks cfg oid2 d = Inr plan2"
    and commit1: "submit_receipt_commit photo1 plan1 d = (Inr x1, d1)"
    and commit2: "submit_receipt_commit photo2 plan2 d1 = (Inr x2, d2)"
    and same: "o_reseller_id ord1 = o_reseller_id ord2"
  shows "count_pending_orders cid d2 = MAX_PENDING_ORDERS_PER_CUSTOMER cfg + 1"
proof -
  have ids: "o_id ord1 = oid1" "o_id ord2 = oid2"
    using ord1 ord2 by (auto dest: orders.lookup_SomeD)
  obtain r where r: "lookup r_id (o_reseller_id ord2) (resellers d) = Some r"
      "plan1 = receipt_plan_for ord1 r" "plan2 = receipt_plan_for ord2 r"
    using checks ord1 ord2 same
    by (auto simp: submit_receipt_checks_def Let_def split: option.splits if_splits)
  note c1 = count_pending_commit [OF wf_dbD(5) [OF wf] _ _ _ _ commit1, of ord1, simplified,
      OF _ _ r(1) [folded same], unfolded r(2) ids, simplified, OF ord1 _, simplified fresh]
  obtain r1 where r1: "lookup r_id (o_reseller_id ord2) (resellers d1) = Some r1"
    using c1(2) same by auto
  have wf1: "wf_table o_id (orders d1)"
    using wf by (simp add: c1(3) mark_receipt_def orders.update_id_wf wf_dbD)
  have ord2': "lookup o_id oid2 (orders d1) = Some ord2"
    using ord2 two by (simp add: c1(3) mark_receipt_def orders.lookup_update_id ids)
  have "count_pending_orders (o_customer_id ord2) d2 = count_pending_orders (o_customer_id ord2) d1 + 1"
    using count_pending_commit(1) [OF wf1 _ _ r1 _ commit2] ord2' fresh ids r(3) by simp
  then show ?thesis using c1(1) two limit by simp
qed

lemma overlapping_receipts_exceed_limit_witness:
  "\<exists>plan1 plan2. submit_receipt_checks (default_config\<lparr>MAX_PENDING_ORDERS_PER_CUSTOMER := 1\<rparr>) 1
       demo_busy_db = Inr plan1
   \<and> submit_receipt_checks (default_config\<lparr>MAX_PENDING_ORDERS_PER_CUSTOMER := 1\<rparr>) 2
       demo_busy_db = Inr plan2
   \<and> count_pending_orders 1 (snd (submit_receipt_commit ''b'' plan2
       (snd (submit_receipt_commit ''a'' plan1 demo_busy_db)))) = 2"
proof -
  let ?cfg = "default_config\<lparr>MAX_PENDING_ORDERS_PER_CUSTOMER := 1\<rparr>"
  let ?o2 = "demo_order\<lparr>o_id := 2, order_code := ''B'', package_price := 100\<rparr>"
  let ?p1 = "receipt_plan_for demo_order demo_reseller" and ?p2 = "receipt_plan_for ?o2 demo_reseller"
  have wf: "wf_db demo_busy_db"
    by (simp add: demo_busy_db_def wf_db_def wf_table_def demo_order_db_def demo_topup_db_def
        demo_wallet_db_def empty_db_def empty_table_def)
  have rows: "lookup o_id 1 (orders demo_busy_db) = Some demo_order"
      "lookup o_id 2 (orders demo_busy_db) = Some ?o2"
    by (simp_all add: demo_busy_db_def lookup_def)
  have r: "lookup r_id 1 (resellers demo_busy_db) = Some demo_reseller"
    using demo_order_db_rows(2) by (simp add: demo_busy_db_def)
  have none: "count_pending_orders 1 demo_busy_db = 0"
    by (simp add: count_pending_orders_def count_rows_def demo_busy_db_def)
  have checks: "submit_receipt_checks ?cfg 1 demo_busy_db = Inr ?p1"
      "submit_receipt_checks ?cfg 2 demo_busy_db = Inr ?p2"
    using rows r none by (simp_all add: submit_receipt_checks_def)
  have ok: "\<not> isl (fst (submit_receipt_commit ''a'' ?p1 demo_busy_db))"
    "\<not> isl (fst (submit_receipt_commit ''b'' ?p2 (snd (submit_receipt_commit ''a'' ?p1 demo_busy_db))))"
    by code_simp+
  have "count_pending_orders 1 (snd (submit_receipt_commit ''b'' ?p2
       (snd (submit_receipt_commit ''a'' ?p1 demo_busy_db)))) = 2"
    using overlapping_receipts_exceed_limit [OF wf rows _ _ _ _ _ _ checks
        outcome_ok [OF ok(1)] outcome_ok [OF ok(2)], of 1] none
    by simp
  with checks show ?thesis by blast
qed


section \<open>The reseller's decisions\<close>

lemma alert_iff:
  "oid \<in> o_id ` set (find_orders_pending_activation_alert t h d) \<longleftrightarrow>
     (\<exists>x \<in> set (trows (orders d)). o_id x = oid \<and> o_status x = Confirmed \<and>
        (case confirmed_at x of None \<Rightarrow> False | Some t0 \<Rightarrow> t0 + h * 3600 < t))"
  by (auto simp: find_orders_pending_activation_alert_def fetch_all_def)

lemma bex_update_id:
  "(\<And>r. key (f r) = key r) \<Longrightarrow> (\<exists>x \<in> set (trows (update_id key i f t)). key x = i \<and> P x) \<longleftrightarrow>
     (\<exists>x \<in> set (trows t). key x = i \<and> P (f x))"
  by (auto simp: update_id_trows)

text \<open>
  The alert. A confirmed order is reported from the second on at which more than
  the given number of hours have passed since its confirmation, and no longer once it is
  activated, whatever the test counter does.
\<close>

theorem activation_alert_exact:
  assumes "lookup o_id oid (orders d) = Some ord"
  shows "(oid \<in> o_id ` set (find_orders_pending_activation_alert t h (confirm_order t0 oid d)) \<longleftrightarrow>
      t0 + h * 3600 < t)
    \<and> oid \<notin> o_id ` set (find_orders_pending_activation_alert t h
        (snd (activate_order t1 oid (confirm_order t0 oid d))))"
proof
  have mem: "\<exists>x \<in> set (trows (orders d)). o_id x = oid"
    using orders.lookup_SomeD [OF assms] by auto
  show "oid \<in> o_id ` set (find_orders_pending_activation_alert t h (confirm_order t0 oid d)) \<longleftrightarrow>
      t0 + h * 3600 < t"
    using mem by (auto simp: alert_iff confirm_order_def bex_update_id)
  have "orders (snd (activate_order t1 oid (confirm_order t0 oid d))) =
      update_id o_id oid (\<lambda>r. r\<lparr>o_status := Activated, activated_at := Some t1\<rparr>)
        (orders (confirm_order t0 oid d))"
    by (simp add: activate_order_def increment_test_counter_if_needed_def upd_reseller_def Let_def
        split: option.split)
  then show "oid \<notin> o_id ` set (find_orders_pending_activation_alert t h
      (snd (activate_order t1 oid (confirm_order t0 oid d))))"
    by (simp add: alert_iff bex_update_id)
qed

lemma activation_alert_exact_witness:
  "1 \<in> o_id ` set (find_orders_pending_activation_alert 30000 6 (confirm_order 1000 1 demo_order_db))"
  using activation_alert_exact [OF demo_order_db_rows(1), of 30000 6 1000] by simp

text \<open>The counter of the test mode after several test orders.\<close>

lemma increment_simps [simp]:
  "r_id (increment_test_counter r) = r_id r"
  "test_mode_order_limit (increment_test_counter r) = test_mode_order_limit r"
  "test_mode_orders_used (increment_test_counter r) = test_mode_orders_used r + 1"
  "test_mode_enabled (increment_test_counter r) \<longleftrightarrow>
     test_mode_enabled r \<and> test_mode_orders_used r + 2 < test_mode_order_limit r"
  by (auto simp: increment_test_counter_def Let_def)

lemma increment_power:
  "test_mode_order_limit ((increment_test_counter ^^ n) r) = test_mode_order_limit r"
  "test_mode_orders_used ((increment_test_counter ^^ n) r) = test_mode_orders_used r + int n"
  by (induction n) simp_all

lemma increment_mode:
  "test_mode_enabled ((increment_test_counter ^^ Suc n) r) \<longleftrightarrow>
     test_mode_enabled r \<and> test_mode_orders_used r + int (Suc n) + 1 < test_mode_order_limit r"
proof (induction n)
  case (Suc n)
  have "test_mode_enabled ((increment_test_counter ^^ Suc (Suc n)) r) \<longleftrightarrow>
      test_mode_enabled ((increment_test_counter ^^ Suc n) r) \<and>
      test_mode_orders_used r + int (Suc n) + 2 < test_mode_order_limit r"
    using increment_power [of "Suc n" r] by simp
  with Suc.IH show ?case by auto
qed auto

fun activate_all :: "time \<Rightarrow> nat list \<Rightarrow> db \<Rightarrow> db" where
  "activate_all t [] d = d"
| "activate_all t (oid # oids) d = activate_all t oids (snd (activate_order t oid d))"

lemma activate_test_order:
  assumes "lookup o_id oid (orders d) = Some ord" and "is_test_order ord"
  shows "resellers (snd (activate_order t oid d)) =
      update_id r_id (o_reseller_id ord) increment_test_counter (resellers d)"
    and "orders (snd (activate_order t oid d)) =
      update_id o_id oid (\<lambda>r. r\<lparr>o_status := Activated, activated_at := Some t\<rparr>) (orders d)"
  using assms
  by (simp_all add: activate_order_def increment_test_counter_if_needed_def Let_def
      orders.lookup_update_id) (simp add: upd_reseller_def)

lemma activate_all_counter:
  assumes "lookup r_id rid (resellers d) = Some r"
    and "\<And>oid. oid \<in> set oids \<Longrightarrow>
      \<exists>ord. lookup o_id oid (orders d) = Some ord \<and> is_test_order ord \<and> o_reseller_id ord = rid"
  shows "lookup r_id rid (resellers (activate_all t oids d)) =
    Some ((increment_test_counter ^^ length oids) r)"
  using assms
proof (induction oids arbitrary: d r)
  case (Cons oid oids)
  let ?d = "snd (activate_order t oid d)"
  from Cons.prems(2) [of oid] obtain ord where ord: "lookup o_id oid (orders d) = Some ord"
      "is_test_order ord" "o_reseller_id ord = rid" by auto
  note act = activate_test_order [OF ord(1,2), of t]
  have "lookup r_id rid (resellers ?d) = Some (increment_test_counter r)"
    using Cons.prems(1) by (simp add: act ord(3) resellers.lookup_update_id)
  moreover have "\<exists>ord'. lookup o_id o' (orders ?d) = Some ord' \<and> is_test_order ord' \<and>
      o_reseller_id ord' = rid" if "o' \<in> set oids" for o'
    using Cons.prems(2) [of o'] that by (auto simp: act orders.lookup_update_id)
  ultimately show ?case
    using Cons.IH [of ?d "increment_test_counter r"] by (simp add: funpow_swap1)
qed simp

text \<open>
  Property C36: leaving the test mode. After \<open>n > 0\<close> presses of the activation button on test
  orders of a reseller (the same order counts again each time) the counter has grown by
  \<open>n\<close>, and the test mode is still on exactly when it was on and \<open>n + 1\<close> more orders would
  still be below the limit: with a limit of \<open>N\<close> and a fresh counter the mode goes off after
  \<open>N - 1\<close> orders, not after \<open>N\<close>, because the statement reads the counter it has just raised.
\<close>

theorem test_mode_exit:
  assumes "lookup r_id rid (resellers d) = Some r" and "oids \<noteq> []"
    and "\<And>oid. oid \<in> set oids \<Longrightarrow>
      \<exists>ord. lookup o_id oid (orders d) = Some ord \<and> is_test_order ord \<and> o_reseller_id ord = rid"
    and "lookup r_id rid (resellers (activate_all t oids d)) = Some r'"
  shows "test_mode_orders_used r' = test_mode_orders_used r + int (length oids)
    \<and> (test_mode_enabled r' \<longleftrightarrow> test_mode_enabled r \<and>
         test_mode_orders_used r + int (length oids) + 1 < test_mode_order_limit r)"
proof -
  obtain n where n: "length oids = Suc n" using assms(2) by (cases oids) auto
  have "r' = (increment_test_counter ^^ Suc n) r"
    using activate_all_counter [OF assms(1,3), of oids t] assms(4) n by simp
  then show ?thesis
    using increment_power(2) [of "Suc n" r] increment_mode [of n r] by (simp only: n)
qed

definition demo_test_db :: db where
  "demo_test_db = demo_order_db\<lparr>
     resellers := \<lparr>trows = [demo_reseller\<lparr>test_mode_enabled := True, test_mode_order_limit := 3,
       test_mode_orders_used := 0\<rparr>], auto_inc = 2\<rparr>,
     orders := \<lparr>trows = [demo_order\<lparr>is_test_order := True\<rparr>,
       demo_order\<lparr>o_id := 2, order_code := ''B'', is_test_order := True\<rparr>], auto_inc = 3\<rparr>\<rparr>"

lemma test_mode_exit_witness:
  "\<exists>r'. lookup r_id 1 (resellers (activate_all 5 [1, 2] demo_test_db)) = Some r'
     \<and> test_mode_orders_used r' = 2 \<and> test_mode_order_limit r' = 3 \<and> \<not> test_mode_enabled r'"
proof -
  let ?r = "demo_reseller\<lparr>test_mode_enabled := True, test_mode_order_limit := 3, test_mode_orders_used := 0\<rparr>"
  have r: "lookup r_id 1 (resellers demo_test_db) = Some ?r"
    by (simp add: demo_test_db_def lookup_def)
  have ords: "\<exists>ord. lookup o_id oid (orders demo_test_db) = Some ord \<and> is_test_order ord
      \<and> o_reseller_id ord = 1" if "oid \<in> set [1, 2]" for oid
    using that by (auto simp: demo_test_db_def lookup_def)
  note after = activate_all_counter [OF r ords, of "[1, 2]" 5, simplified]
  show ?thesis
    using test_mode_exit [OF r _ ords, of "[1, 2]" 5] after increment_power(1) [of 2 ?r]
    by (simp add: numeral_2_eq_2)
qed

end
