(* ===== verification/Promotions.thy ===== *)
theory Promotions
  imports Orders
begin

text \<open>
  Discount codes (\<^verbatim>\<open>services/discount_service.py\<close>, applied to an order by
  \<^verbatim>\<open>apply_discount_code\<close> in \<^verbatim>\<open>handlers/customer/orders.py\<close>) and referrals
  (\<^verbatim>\<open>services/referral_service.py\<close>).
\<close>

section \<open>Discount codes\<close>

definition validate_discount_code :: "time \<Rightarrow> nat \<Rightarrow> string \<Rightarrow> db \<Rightarrow> exn + discount_code" where
  "validate_discount_code t rid code d =
     (case fetch_one (\<lambda>r. dc_reseller_id r = rid \<and> dc_code r = upper (strip code) \<and> dc_is_active r)
             (discount_codes d) of
        None \<Rightarrow> Inl (InvalidDiscountCode CodeNotFound)
      | Some row \<Rightarrow>
          if (case expires_at row of None \<Rightarrow> False | Some e \<Rightarrow> e < t)
          then Inl (InvalidDiscountCode CodeExpired)
          else if usage_limit row \<noteq> 0 \<and> usage_limit row \<le> usage_count row
          then Inl (InvalidDiscountCode UsageLimitReached)
          else Inr row)"

definition apply_discount :: "decimal \<Rightarrow> discount_code \<Rightarrow> int" where
  "apply_discount price row = quantize1 (price * (100 - dec (dc_percent row)) / 100)"

definition upd_discount :: "nat \<Rightarrow> (discount_code \<Rightarrow> discount_code) \<Rightarrow> db \<Rightarrow> db" where
  "upd_discount i f d = d\<lparr>discount_codes := update_id dc_id i f (discount_codes d)\<rparr>"

definition increment_usage :: "nat \<Rightarrow> db \<Rightarrow> db" where
  "increment_usage i = upd_discount i (\<lambda>r. r\<lparr>usage_count := usage_count r + 1\<rparr>)"

text \<open>What the handler does with the order: a new price, and one more use of the code.\<close>

definition discount_order :: "time \<Rightarrow> nat \<Rightarrow> nat \<Rightarrow> string \<Rightarrow> db \<Rightarrow> (db, int) outcome" where
  "discount_order t rid oid code d =
     (case validate_discount_code t rid code d of
        Inl e \<Rightarrow> (Inl e, d)
      | Inr row \<Rightarrow>
          (case lookup o_id oid (orders d) of
             None \<Rightarrow> (Inl TypeError, d)
           | Some ord \<Rightarrow>
               let new_price = apply_discount (dec (package_price ord)) row;
                   d1 = upd_order oid (\<lambda>r. r\<lparr>package_price := store (of_int new_price)\<rparr>) d
               in (Inr new_price, increment_usage (dc_id row) d1)))"

section \<open>Referrals\<close>

definition get_referral_settings :: "nat \<Rightarrow> db \<Rightarrow> (db, referral_row option) outcome" where
  "get_referral_settings rid d =
     (case fetch_one (\<lambda>r. rf_reseller_id r = rid) (referrals d) of
        Some row \<Rightarrow> (Inr (Some row), d)
      | None \<Rightarrow>
          if lookup r_id rid (resellers d) = None then (Inl IntegrityError, d)
          else (let d1 = d\<lparr>referrals := insert_row referral_with_id
                  \<lparr>rf_id = 0, rf_reseller_id = rid, rf_is_enabled = False, profit_percent = 0\<rparr>
                  (referrals d)\<rparr>
                in (Inr (fetch_one (\<lambda>r. rf_reseller_id r = rid) (referrals d1)), d1)))"

definition set_referral_enabled :: "nat \<Rightarrow> bool \<Rightarrow> db \<Rightarrow> (db, unit) outcome" where
  "set_referral_enabled rid enabled d =
     (case get_referral_settings rid d of
        (Inl e, d1) \<Rightarrow> (Inl e, d1)
      | (Inr _, d1) \<Rightarrow> (Inr (), d1\<lparr>referrals := update_rows (\<lambda>r. rf_reseller_id r = rid)
           (\<lambda>r. r\<lparr>rf_is_enabled := enabled\<rparr>) (referrals d1)\<rparr>))"

definition set_referral_profit_percent :: "nat \<Rightarrow> decimal \<Rightarrow> db \<Rightarrow> (db, unit) outcome" where
  "set_referral_profit_percent rid percent d =
     (case get_referral_settings rid d of
        (Inl e, d1) \<Rightarrow> (Inl e, d1)
      | (Inr _, d1) \<Rightarrow> (Inr (), d1\<lparr>referrals := update_rows (\<lambda>r. rf_reseller_id r = rid)
           (\<lambda>r. r\<lparr>profit_percent := store percent\<rparr>) (referrals d1)\<rparr>))"

text \<open>
  \<^verbatim>\<open>INSERT IGNORE\<close>: a row that would break the unique key on the referred customer, or the
  foreign key to the reseller, is silently dropped.
\<close>

definition register_referral :: "nat \<Rightarrow> int \<Rightarrow> nat \<Rightarrow> db \<Rightarrow> db" where
  "register_referral rid referrer referred d =
     (if referrer = int referred then d
      else if fetch_one (\<lambda>l. rl_reseller_id l = rid \<and> referred_customer_id l = referred)
               (referral_links d) \<noteq> None \<or> lookup r_id rid (resellers d) = None
      then d
      else d\<lparr>referral_links := insert_row link_with_id
             \<lparr>rl_id = 0, rl_reseller_id = rid, referrer_customer_id = referrer,
              referred_customer_id = referred\<rparr> (referral_links d)\<rparr>)"

definition get_referrer_customer_id :: "nat \<Rightarrow> nat \<Rightarrow> db \<Rightarrow> int option" where
  "get_referrer_customer_id rid referred d =
     map_option referrer_customer_id
       (fetch_one (\<lambda>l. rl_reseller_id l = rid \<and> referred_customer_id l = referred)
         (referral_links d))"

definition calculate_referral_profit :: "decimal \<Rightarrow> decimal \<Rightarrow> int" where
  "calculate_referral_profit price percent = quantize1 (price * percent / 100)"


section \<open>Elementary facts\<close>

lemma upd_discount_simps [simp]:
  "orders (upd_discount i f d) = orders d" "resellers (upd_discount i f d) = resellers d"
  "discount_codes (upd_discount i f d) = update_id dc_id i f (discount_codes d)"
  by (simp_all add: upd_discount_def)

lemma discount_codes_upd_order [simp]: "discount_codes (upd_order i f d) = discount_codes d"
  by (simp add: upd_order_def)

lemma validate_okD:
  assumes "validate_discount_code t rid code d = Inr row"
  shows "row \<in> set (trows (discount_codes d))" "dc_reseller_id row = rid" "dc_is_active row"
    "dc_code row = upper (strip code)" "usage_limit row = 0 \<or> usage_count row < usage_limit row"
  using assms
  by (auto simp: validate_discount_code_def dest!: fetch_one_Some split: option.splits if_splits)

lemma fetch_one_update:
  assumes "fetch_one P (discount_codes d) = Some row"
    and "\<And>r. P (r\<lparr>usage_count := usage_count r + 1\<rparr>) = P r"
  shows "fetch_one P (update_id dc_id (dc_id row)
      (\<lambda>r. r\<lparr>usage_count := usage_count r + 1\<rparr>) (discount_codes d)) =
    Some (row\<lparr>usage_count := usage_count row + 1\<rparr>)"
proof -
  have "find P (map (\<lambda>r. if dc_id r = dc_id row then r\<lparr>usage_count := usage_count r + 1\<rparr> else r) xs) =
      map_option (\<lambda>r. if dc_id r = dc_id row then r\<lparr>usage_count := usage_count r + 1\<rparr> else r) (find P xs)"
    for xs by (rule find_map_same) (simp add: assms(2))
  with assms(1) show ?thesis by (simp add: fetch_one_def update_id_trows)
qed

section \<open>Properties\<close>

text \<open>
  The discounted price. For a percentage between 0 and 100 and a whole price the
  result is between 0 and the price, at most half a unit away from the exact share, and a
  larger percentage never gives a larger exact share; at 0 percent the price stays and at
  100 percent nothing is left to pay.
\<close>

theorem apply_discount_bounds:
  assumes "0 \<le> n" and "0 \<le> dc_percent row" and "dc_percent row \<le> 10000"
  shows "0 \<le> apply_discount (of_int n) row \<and> apply_discount (of_int n) row \<le> n
    \<and> \<bar>of_int (apply_discount (of_int n) row) - of_int n * (100 - dec (dc_percent row)) / 100\<bar> \<le> 1/2
    \<and> apply_discount (of_int n) (row\<lparr>dc_percent := 0\<rparr>) = n
    \<and> apply_discount (of_int n) (row\<lparr>dc_percent := 10000\<rparr>) = 0"
proof -
  have p: "0 \<le> dec (dc_percent row)" "dec (dc_percent row) \<le> 100"
    using assms(2,3) by (simp_all add: dec_def)
  have n: "(0 :: rat) \<le> of_int n" using assms(1) by simp
  have "0 \<le> of_int n * (100 - dec (dc_percent row)) / 100" using n p by simp
  moreover have "of_int n * (100 - dec (dc_percent row)) / 100 \<le> of_int n"
    using mult_left_mono [OF _ n, of "100 - dec (dc_percent row)" 100] p by simp
  moreover have "apply_discount (of_int n) (row\<lparr>dc_percent := 0\<rparr>) = n"
    "apply_discount (of_int n) (row\<lparr>dc_percent := 10000\<rparr>) = 0"
    using quantize1_of_int [of 0] by (simp_all add: apply_discount_def dec_def)
  moreover have "\<bar>of_int (apply_discount (of_int n) row) -
      of_int n * (100 - dec (dc_percent row)) / 100\<bar> \<le> 1/2"
    unfolding apply_discount_def by (rule quantize1_near)
  ultimately show ?thesis
    by (auto simp: apply_discount_def intro: quantize1_nonneg quantize1_le)
qed

definition demo_discount :: discount_code where
  "demo_discount = \<lparr>dc_id = 1, dc_reseller_id = 1, dc_code = ''HALF'', dc_percent = 5000,
     usage_limit = 0, usage_count = 0, expires_at = None, dc_is_active = True\<rparr>"

lemma apply_discount_bounds_witness:
  "0 \<le> apply_discount (of_int 25) demo_discount \<and> apply_discount (of_int 25) demo_discount \<le> 25"
  using apply_discount_bounds [of 25 demo_discount] by (simp add: demo_discount_def)

text \<open>No limited code is over its limit.\<close>

definition usage_within :: "db \<Rightarrow> bool" where
  "usage_within d \<longleftrightarrow>
     (\<forall>row \<in> set (trows (discount_codes d)). usage_limit row = 0 \<or> usage_count row \<le> usage_limit row)"

text \<open>
  The usage limit. Applying codes to orders, one request after the other, never
  takes a limited code above its limit, and a refused code changes neither order nor counter.
\<close>

theorem discount_usage_limit:
  assumes "wf_db d" and "usage_within d"
  shows "usage_within (snd (discount_order t rid oid code d))
    \<and> (isl (fst (discount_order t rid oid code d)) \<longrightarrow> snd (discount_order t rid oid code d) = d)"
proof (cases "validate_discount_code t rid code d")
  case (Inl e)
  with assms show ?thesis by (simp add: discount_order_def)
next
  case (Inr row)
  note row = validate_okD [OF Inr]
  have uniq: "r = row" if "r \<in> set (trows (discount_codes d))" "dc_id r = dc_id row" for r
    using that row(1) wf_dbD(7) [OF assms(1)] by (auto simp: wf_table_def distinct_map dest: inj_onD)
  show ?thesis
  proof (cases "lookup o_id oid (orders d)")
    case None
    with Inr assms show ?thesis by (simp add: discount_order_def)
  next
    case (Some ord)
    have "\<forall>r \<in> set (trows (discount_codes d)). dc_id r = dc_id row \<longrightarrow>
        usage_limit r = 0 \<or> usage_count r + 1 \<le> usage_limit r"
    proof (intro ballI impI)
      fix r assume "r \<in> set (trows (discount_codes d))" "dc_id r = dc_id row"
      then have "r = row" by (rule uniq)
      with row(5) show "usage_limit r = 0 \<or> usage_count r + 1 \<le> usage_limit r" by auto
    qed
    with Inr Some assms(2) show ?thesis
      by (auto simp: discount_order_def Let_def usage_within_def increment_usage_def update_id_trows)
  qed
qed

definition demo_discount_db :: db where
  "demo_discount_db = demo_order_db\<lparr>discount_codes := \<lparr>trows = [demo_discount], auto_inc = 2\<rparr>\<rparr>"

lemma demo_discount_db_wf: "wf_db demo_discount_db"
  using demo_order_db_wf by (simp add: demo_discount_db_def wf_db_def wf_table_def demo_discount_def)

lemma discount_usage_limit_witness:
  "usage_within (snd (discount_order 5 1 1 '' half'' demo_discount_db))"
  using discount_usage_limit [OF demo_discount_db_wf, of 5 1 1 "'' half''"]
  by (simp add: usage_within_def demo_discount_db_def demo_discount_def)

text \<open>
  One code can be used on one order again and again. Nothing records that an
  order has its discount already, so a code without a limit is accepted a second time and
  discounts the discounted price: two uses of a code over 50 percent leave a quarter.
\<close>

theorem discount_compounds:
  assumes ord: "lookup o_id oid (orders d) = Some ord"
    and valid: "validate_discount_code t rid code d = Inr row"
    and unlimited: "usage_limit row = 0"
    and first: "discount_order t rid oid code d = (res1, d1)"
    and second: "discount_order t rid oid code d1 = (res2, d2)"
  shows "res1 = Inr (apply_discount (dec (package_price ord)) row)
    \<and> res2 = Inr (apply_discount (of_int (apply_discount (dec (package_price ord)) row)) row)
    \<and> map_option package_price (lookup o_id oid (orders d2)) =
        Some (100 * apply_discount (of_int (apply_discount (dec (package_price ord)) row)) row)"
proof -
  have st: "store (of_int n) = 100 * n" for n
    using store_dec [of "100 * n"] by (simp add: dec_def)
  have de: "dec (100 * n) = of_int n" for n by (simp add: dec_def)
  let ?p = "apply_discount (dec (package_price ord)) row"
  have d1: "res1 = Inr ?p" "d1 = increment_usage (dc_id row)
      (upd_order oid (\<lambda>r. r\<lparr>package_price := 100 * ?p\<rparr>) d)"
    using first valid ord by (auto simp: discount_order_def Let_def st)
  let ?row = "row\<lparr>usage_count := usage_count row + 1\<rparr>"
  let ?P = "\<lambda>r. dc_reseller_id r = rid \<and> dc_code r = upper (strip code) \<and> dc_is_active r"
  have fetch: "fetch_one ?P (discount_codes d) = Some row"
    using valid by (auto simp: validate_discount_code_def split: option.splits if_splits)
  have "fetch_one ?P (discount_codes d1) = Some ?row"
    using fetch_one_update [OF fetch] by (simp add: d1 increment_usage_def)
  then have "validate_discount_code t rid code d1 = Inr ?row"
    using valid unlimited by (simp add: validate_discount_code_def fetch split: if_splits option.splits)
  moreover have "lookup o_id oid (orders d1) = Some (ord\<lparr>package_price := 100 * ?p\<rparr>)"
    using ord by (simp add: d1 increment_usage_def orders.lookup_update_id)
  ultimately show ?thesis
    using second d1(1)
    by (auto simp: discount_order_def Let_def st de apply_discount_def increment_usage_def
        orders.lookup_update_id)
qed

lemma discount_compounds_witness:
  "map_option package_price (lookup o_id 1 (orders (snd (discount_order 5 1 1 ''half''
     (snd (discount_order 5 1 1 ''half'' demo_discount_db)))))) = Some 500000"
proof -
  let ?run = "discount_order 5 1 1 ''half''"
  have ord: "lookup o_id 1 (orders demo_discount_db) = Some demo_order"
    using demo_order_db_rows(1) by (simp add: demo_discount_db_def)
  have valid: "validate_discount_code 5 1 ''half'' demo_discount_db = Inr demo_discount"
    by code_simp
  have p: "apply_discount (of_int (apply_discount (dec 2000000) demo_discount)) demo_discount = 5000"
    by code_simp
  show "map_option package_price (lookup o_id 1 (orders (snd (?run (snd (?run demo_discount_db)))))) =
      Some 500000"
    using discount_compounds [OF ord valid _ surjective_pairing surjective_pairing]
    by (simp add: p demo_discount_def [THEN arg_cong [where f = usage_limit]])
qed

text \<open>
  A customer keeps the first referrer. Registering a referral for a customer who
  has one already, or for oneself, changes nothing; otherwise the referrer is recorded, for a
  reseller that exists.
\<close>

theorem first_referrer_stays:
  "get_referrer_customer_id rid x (register_referral rid a x d) =
     (case get_referrer_customer_id rid x d of
        Some r \<Rightarrow> Some r
      | None \<Rightarrow> if a = int x \<or> lookup r_id rid (resellers d) = None then None else Some a)
   \<and> (get_referrer_customer_id rid x d = None \<or> register_referral rid a x d = d)"
  by (auto simp: register_referral_def get_referrer_customer_id_def fetch_one_def insert_row_def
      find_append split: option.splits)

end
