(* ===== verification/ShopSettings.thy ===== *)
theory ShopSettings
  imports Schema
begin

text \<open>
  What a reseller and the super admin set up around the sales: payment cards and the
  Zarinpal merchant (\<^verbatim>\<open>services/payment_methods_service.py\<close>), the price check
  (\<^verbatim>\<open>services/sanity_check.py\<close>), forced channels (\<^verbatim>\<open>services/forced_join_service.py\<close>), and
  the crypto options (\<^verbatim>\<open>services/crypto_service.py\<close>). The locale \<open>owned_edit\<close> is the
  contract of an edit that first checks to whom the row belongs.
\<close>

section \<open>Payment cards\<close>

definition add_card :: "nat \<Rightarrow> string \<Rightarrow> string \<Rightarrow> string option \<Rightarrow> db \<Rightarrow> (db, nat) outcome" where
  "add_card rid number holder bank d =
     (if lookup r_id rid (resellers d) = None then (Inl IntegrityError, d)
      else (Inr (auto_inc (reseller_payment_cards d)),
            d\<lparr>reseller_payment_cards := insert_row card_with_id
                \<lparr>pc_id = 0, pc_reseller_id = rid, card_number = number,
                 card_holder_name = holder, bank_name = bank, pc_is_active = True\<rparr>
                (reseller_payment_cards d)\<rparr>))"

definition list_cards :: "nat \<Rightarrow> bool \<Rightarrow> db \<Rightarrow> card_row list" where
  "list_cards rid only_active d =
     (if only_active
      then sort_key pc_id (fetch_all (\<lambda>c. pc_reseller_id c = rid \<and> pc_is_active c)
             (reseller_payment_cards d))
      else sort_key pc_id (fetch_all (\<lambda>c. pc_reseller_id c = rid) (reseller_payment_cards d)))"

definition owned_card :: "nat \<Rightarrow> nat \<Rightarrow> db \<Rightarrow> card_row option" where
  "owned_card cid rid d =
     fetch_one (\<lambda>c. pc_id c = cid \<and> pc_reseller_id c = rid) (reseller_payment_cards d)"

definition toggle_card :: "nat \<Rightarrow> nat \<Rightarrow> db \<Rightarrow> bool option \<times> db" where
  "toggle_card cid rid d =
     (case owned_card cid rid d of
        None \<Rightarrow> (None, d)
      | Some row \<Rightarrow>
          let new_status = (\<not> pc_is_active row)
          in (Some new_status,
              d\<lparr>reseller_payment_cards := update_id pc_id cid
                  (\<lambda>c. c\<lparr>pc_is_active := new_status\<rparr>) (reseller_payment_cards d)\<rparr>))"

definition remove_card :: "nat \<Rightarrow> nat \<Rightarrow> db \<Rightarrow> bool \<times> db" where
  "remove_card cid rid d =
     (case owned_card cid rid d of
        None \<Rightarrow> (False, d)
      | Some _ \<Rightarrow>
          (True, d\<lparr>reseller_payment_cards :=
             delete_rows (\<lambda>c. pc_id c = cid) (reseller_payment_cards d)\<rparr>))"

definition set_zarinpal_merchant :: "nat \<Rightarrow> string \<Rightarrow> db \<Rightarrow> db" where
  "set_zarinpal_merchant rid merchant d =
     d\<lparr>resellers := update_id r_id rid (\<lambda>r. r\<lparr>zarinpal_merchant_id := Some merchant\<rparr>)
         (resellers d)\<rparr>"

definition get_zarinpal_merchant :: "nat \<Rightarrow> db \<Rightarrow> string option" where
  "get_zarinpal_merchant rid d =
     (case lookup r_id rid (resellers d) of None \<Rightarrow> None | Some r \<Rightarrow> zarinpal_merchant_id r)"

text \<open>
  \<^verbatim>\<open>format_card_number\<close>: groups of four, a blank between them, behind a left-to-right mark
  (code point 8206, hence a list of code points) and inside a \<^verbatim>\<open><code>\<close> element.
\<close>

fun card_groups :: "string \<Rightarrow> string list" where
  "card_groups [] = []"
| "card_groups (c # cs) = take 4 (c # cs) # card_groups (drop 4 (c # cs))"

fun join_with :: "string \<Rightarrow> string list \<Rightarrow> string" where
  "join_with sep [] = []"
| "join_with sep [s] = s"
| "join_with sep (s # t # ss) = s @ sep @ join_with sep (t # ss)"

definition code_points :: "string \<Rightarrow> nat list" where
  "code_points s = map of_char s"

definition format_card_number :: "string \<Rightarrow> nat list" where
  "format_card_number number =
     code_points ''<code>'' @ [8206] @ code_points (join_with '' '' (card_groups number))
       @ code_points ''</code>''"

section \<open>The price check\<close>

definition get_min_sane_price :: "string \<Rightarrow> db \<Rightarrow> decimal option" where
  "get_min_sane_price operator d =
     map_option (\<lambda>r. dec (min_sane_price r))
       (fetch_one (\<lambda>r. pf_operator_name r = operator) (category_price_floors d))"

definition is_price_suspicious :: "string \<Rightarrow> decimal \<Rightarrow> db \<Rightarrow> bool" where
  "is_price_suspicious operator asked_price d =
     (case get_min_sane_price operator d of
        None \<Rightarrow> False
      | Some min_price \<Rightarrow> asked_price < min_price)"

section \<open>Forced channels\<close>

definition get_forced_channels :: "nat \<Rightarrow> db \<Rightarrow> forced_channel list" where
  "get_forced_channels rid d = fetch_all (\<lambda>c. fc_reseller_id c = rid) (forced_join_channels d)"

definition add_forced_channel ::
  "nat \<Rightarrow> string \<Rightarrow> channel_setter \<Rightarrow> db \<Rightarrow> (db, unit) outcome" where
  "add_forced_channel rid channel setter d =
     (if lookup r_id rid (resellers d) = None then (Inl IntegrityError, d)
      else (Inr (), d\<lparr>forced_join_channels := insert_row channel_with_id
             \<lparr>fc_id = 0, fc_reseller_id = rid, channel_id = channel, set_by = setter\<rparr>
             (forced_join_channels d)\<rparr>))"

definition remove_forced_channel :: "nat \<Rightarrow> db \<Rightarrow> db" where
  "remove_forced_channel i d =
     d\<lparr>forced_join_channels := delete_rows (\<lambda>c. fc_id c = i) (forced_join_channels d)\<rparr>"

text \<open>
  \<^verbatim>\<open>bot.get_chat_member\<close> is Telegram: \<open>member channel user\<close> is the status it reports, or
  nothing when the call raises. The loop appends the channels that are missing.
\<close>

fun missing_channels ::
  "(string \<Rightarrow> int \<Rightarrow> string option) \<Rightarrow> int \<Rightarrow> forced_channel list \<Rightarrow> string list" where
  "missing_channels member user [] = []"
| "missing_channels member user (ch # chs) =
     (case member (channel_id ch) user of
        None \<Rightarrow> channel_id ch # missing_channels member user chs
      | Some status \<Rightarrow>
          if status = ''left'' \<or> status = ''kicked''
          then channel_id ch # missing_channels member user chs
          else missing_channels member user chs)"

definition user_has_joined_all ::
  "(string \<Rightarrow> int \<Rightarrow> string option) \<Rightarrow> nat \<Rightarrow> int \<Rightarrow> db \<Rightarrow> bool \<times> string list" where
  "user_has_joined_all member rid user d =
     (let missing = missing_channels member user (get_forced_channels rid d)
      in (length missing = 0, missing))"

section \<open>Crypto options\<close>

definition list_crypto_options :: "db \<Rightarrow> crypto_setting list" where
  "list_crypto_options d = trows (crypto_settings d)"

definition upsert_crypto_setting :: "string \<Rightarrow> string \<Rightarrow> string \<Rightarrow> decimal \<Rightarrow> db \<Rightarrow> db" where
  "upsert_crypto_setting coin addr net price d =
     (case fetch_one (\<lambda>r. coin_name r = coin) (crypto_settings d) of
        Some existing \<Rightarrow> d\<lparr>crypto_settings := update_id cs_id (cs_id existing)
          (\<lambda>r. r\<lparr>address := addr, network := net, coin_price := store price\<rparr>) (crypto_settings d)\<rparr>
      | None \<Rightarrow> d\<lparr>crypto_settings := insert_row crypto_with_id
          \<lparr>cs_id = 0, coin_name = coin, address = addr, network = net,
           coin_price = store price\<rparr> (crypto_settings d)\<rparr>)"

section \<open>Edits that check the owner\<close>

locale owned_edit =
  fixes edit :: "nat \<Rightarrow> nat \<Rightarrow> db \<Rightarrow> 'a \<times> db"
  assumes foreign: "wf_table pc_id (reseller_payment_cards d) \<Longrightarrow>
      lookup pc_id i (reseller_payment_cards d) = Some c \<Longrightarrow> pc_reseller_id c \<noteq> rid \<Longrightarrow>
      snd (edit i rid d) = d"
    and own: "wf_table pc_id (reseller_payment_cards d) \<Longrightarrow> j \<noteq> i \<Longrightarrow>
      lookup pc_id j (reseller_payment_cards (snd (edit i rid d))) =
      lookup pc_id j (reseller_payment_cards d)"
    and edit_wf: "wf_table pc_id (reseller_payment_cards d) \<Longrightarrow>
      wf_table pc_id (reseller_payment_cards (snd (edit i rid d)))"
begin

text \<open>Whatever edits one reseller sends, the cards of the others stay as they are.\<close>

lemma edits_keep_foreign:
  assumes "wf_table pc_id (reseller_payment_cards d)"
    and "lookup pc_id j (reseller_payment_cards d) = Some c" and "pc_reseller_id c \<noteq> rid"
  shows "lookup pc_id j (reseller_payment_cards (fold (\<lambda>i d. snd (edit i rid d)) is d)) = Some c"
  using assms
proof (induction "is" arbitrary: d)
  case (Cons i "is")
  have "lookup pc_id j (reseller_payment_cards (snd (edit i rid d))) = Some c"
    using Cons.prems foreign [of d i c rid] own [of d j i rid] by (cases "i = j") simp_all
  with Cons show ?case by (simp add: edit_wf)
qed simp

end

lemma owned_card_None:
  assumes "wf_table pc_id (reseller_payment_cards d)"
    and "lookup pc_id i (reseller_payment_cards d) = Some c" and "pc_reseller_id c \<noteq> rid"
  shows "owned_card i rid d = None"
proof -
  have "r = c" if "r \<in> set (trows (reseller_payment_cards d))" "pc_id r = i" for r
    using that assms(2) cards.lookup_iff [OF assms(1), of i r] by simp
  with assms(3) show ?thesis by (auto simp: owned_card_def fetch_one_None)
qed

lemma owned_card_Some:
  "owned_card i rid d = Some c \<Longrightarrow> pc_id c = i \<and> pc_reseller_id c = rid"
  by (auto simp: owned_card_def dest: fetch_one_Some)

interpretation toggling: owned_edit toggle_card
  by unfold_locales
    (auto simp: toggle_card_def Let_def owned_card_None cards.lookup_update_id cards.update_id_wf
      split: option.split)

interpretation removing: owned_edit remove_card
  by unfold_locales
    (auto simp: remove_card_def owned_card_None cards.lookup_delete cards.delete_wf
      split: option.splits dest: cards.lookup_SomeD)

section \<open>Properties\<close>

text \<open>
  The cards of a shop are its own. Whatever card numbers the toggle and remove
  buttons of one reseller carry, in any sequence, the cards of every other reseller keep
  their number, holder and state.
\<close>

theorem cards_of_others_untouched:
  assumes "wf_table pc_id (reseller_payment_cards d)"
    and "lookup pc_id j (reseller_payment_cards d) = Some c" and "pc_reseller_id c \<noteq> rid"
  shows "lookup pc_id j (reseller_payment_cards (fold (\<lambda>i d. snd (toggle_card i rid d)) toggles d)) = Some c
    \<and> lookup pc_id j (reseller_payment_cards (fold (\<lambda>i d. snd (remove_card i rid d)) removals d)) = Some c"
  using toggling.edits_keep_foreign [OF assms] removing.edits_keep_foreign [OF assms] by blast

definition demo_cards_db :: db where
  "demo_cards_db = empty_db\<lparr>reseller_payment_cards := \<lparr>trows =
     [\<lparr>pc_id = 1, pc_reseller_id = 1, card_number = ''6037991234567890'', card_holder_name = ''A'',
       bank_name = None, pc_is_active = True\<rparr>,
      \<lparr>pc_id = 2, pc_reseller_id = 2, card_number = ''6104331234567890'', card_holder_name = ''B'',
       bank_name = None, pc_is_active = True\<rparr>], auto_inc = 3\<rparr>\<rparr>"

lemma cards_of_others_untouched_witness:
  "map_option pc_is_active (lookup pc_id 2 (reseller_payment_cards
     (fold (\<lambda>i d. snd (toggle_card i 1 d)) [2, 1, 2] demo_cards_db))) = Some True"
proof -
  let ?c = "trows (reseller_payment_cards demo_cards_db) ! 1"
  have wf: "wf_table pc_id (reseller_payment_cards demo_cards_db)"
    by (simp add: wf_table_def demo_cards_db_def)
  have c: "lookup pc_id 2 (reseller_payment_cards demo_cards_db) = Some ?c"
      "pc_reseller_id ?c \<noteq> 1" "pc_is_active ?c"
    by (simp_all add: demo_cards_db_def lookup_def)
  show ?thesis
    using cards_of_others_untouched [OF wf c(1,2), of "[2, 1, 2]" "[]"] c(3) by simp
qed

text \<open>Grouping a card number.\<close>

lemma concat_card_groups [simp]: "concat (card_groups s) = s"
  by (induction s rule: card_groups.induct) simp_all

lemma card_groups_length: "g \<in> set (card_groups s) \<Longrightarrow> g \<noteq> [] \<and> length g \<le> 4"
  by (induction s rule: card_groups.induct) auto

lemma filter_join: "(\<And>g. g \<in> set ss \<Longrightarrow> CHR '' '' \<notin> set g) \<Longrightarrow>
  filter (\<lambda>c. c \<noteq> CHR '' '') (join_with '' '' ss) = concat ss"
  by (induction "'' ''" ss rule: join_with.induct)
    (auto simp: filter_id_conv)

text \<open>
  A card number is shown in full. Between the opening element with the mark and
  the closing element stands the number in groups of at most four, and leaving the blanks
  out gives the number back, for every number without blanks.
\<close>

theorem format_card_number_roundtrip:
  assumes "CHR '' '' \<notin> set number"
  shows "\<exists>shown. format_card_number number =
       code_points ''<code>'' @ [8206] @ code_points shown @ code_points ''</code>''
    \<and> filter (\<lambda>c. c \<noteq> CHR '' '') shown = number
    \<and> (\<forall>g \<in> set (card_groups number). length g \<le> 4)"
proof -
  have "CHR '' '' \<notin> set g" if "g \<in> set (card_groups number)" for g
    using that assms concat_card_groups [of number] by (metis UN_I set_concat)
  then have "filter (\<lambda>c. c \<noteq> CHR '' '') (join_with '' '' (card_groups number)) = number"
    using filter_join [of "card_groups number"] by simp
  then show ?thesis
    using card_groups_length by (auto simp: format_card_number_def)
qed

lemma format_card_number_roundtrip_witness:
  "\<exists>shown. format_card_number ''6037991234567890'' =
       code_points ''<code>'' @ [8206] @ code_points shown @ code_points ''</code>''
    \<and> filter (\<lambda>c. c \<noteq> CHR '' '') shown = ''6037991234567890''"
  using format_card_number_roundtrip [of "''6037991234567890''"] by auto

text \<open>
  The gate of the forced channels. The customer passes exactly when Telegram
  reports a status for every channel of this reseller and none of them is left or kicked; a
  channel whose check fails counts as missing, and channels of other resellers do not count.
\<close>

theorem forced_join_gate:
  "(fst (user_has_joined_all member user_rid user d) \<longleftrightarrow>
      (\<forall>ch \<in> set (trows (forced_join_channels d)).
         fc_reseller_id ch \<noteq> user_rid \<or>
         (\<exists>status. member (channel_id ch) user = Some status
            \<and> status \<notin> {''left'', ''kicked''})))
   \<and> set (snd (user_has_joined_all member user_rid user d)) =
      channel_id ` {ch \<in> set (trows (forced_join_channels d)). fc_reseller_id ch = user_rid
        \<and> (\<forall>status. member (channel_id ch) user \<noteq> Some status \<or> status \<in> {''left'', ''kicked''})}"
proof -
  have missing: "set (missing_channels member user chs) = channel_id ` {ch \<in> set chs.
      (\<forall>status. member (channel_id ch) user \<noteq> Some status \<or> status \<in> {''left'', ''kicked''})}" for chs
    by (induction chs) (auto split: option.split)
  have "set (snd (user_has_joined_all member user_rid user d)) =
      channel_id ` {ch \<in> set (trows (forced_join_channels d)). fc_reseller_id ch = user_rid
        \<and> (\<forall>status. member (channel_id ch) user \<noteq> Some status \<or> status \<in> {''left'', ''kicked''})}"
    by (auto simp: user_has_joined_all_def Let_def missing get_forced_channels_def fetch_all_def)
  moreover have "fst (user_has_joined_all member user_rid user d) \<longleftrightarrow>
      set (snd (user_has_joined_all member user_rid user d)) = {}"
    by (simp add: user_has_joined_all_def Let_def)
  ultimately show ?thesis by auto
qed

definition demo_channels_db :: db where
  "demo_channels_db = empty_db\<lparr>forced_join_channels := \<lparr>trows =
     [\<lparr>fc_id = 1, fc_reseller_id = 1, channel_id = ''@news'', set_by = SetByReseller\<rparr>,
      \<lparr>fc_id = 2, fc_reseller_id = 2, channel_id = ''@other'', set_by = SetByAdmin\<rparr>],
     auto_inc = 3\<rparr>\<rparr>"

definition demo_member :: "string \<Rightarrow> int \<Rightarrow> string option" where
  "demo_member channel user = (if channel = ''@news'' then Some ''left'' else None)"

lemma forced_join_gate_witness:
  "\<not> fst (user_has_joined_all demo_member 1 900 demo_channels_db)
   \<and> fst (user_has_joined_all demo_member 3 900 demo_channels_db)"
  using forced_join_gate [of demo_member 1 900 demo_channels_db]
    forced_join_gate [of demo_member 3 900 demo_channels_db]
  by (simp add: demo_channels_db_def demo_member_def)

end
