(* ===== verification/Charges.thy ===== *)
theory Charges
  imports Purchases
begin

text \<open>
  Prepaid charge codes (\<^verbatim>\<open>services/charge_service.py\<close>): the stock that the reseller keeps,
  and the instant purchase of one or many codes from the customer's wallet. The locale
  \<open>code_delivery\<close> states what makes a code a sellable good: it is handed out once.
\<close>

section \<open>Order codes\<close>

definition generate_charge_order_code :: "string \<Rightarrow> nat option \<Rightarrow> moment \<Rightarrow> string" where
  "generate_charge_order_code prefix sequence m =
     (let code = prefix @ ''-C-'' @ strftime_ymd (m_clock m) @ ''-'' @ strftime_hms (m_clock m)
                   @ m_suffix m
      in case sequence of None \<Rightarrow> code | Some n \<Rightarrow> code @ zero_pad 3 n)"

section \<open>The stock\<close>

text \<open>The loop that cleans the input: \<open>seen\<close> is the set of the code.\<close>

fun clean_lines :: "string set \<Rightarrow> string list \<Rightarrow> string list" where
  "clean_lines seen [] = []"
| "clean_lines seen (raw_line # rest) =
     (let line = strip raw_line in
      if line = [] \<or> line \<in> seen then clean_lines seen rest
      else line # clean_lines (insert line seen) rest)"

definition insert_code :: "time \<Rightarrow> nat \<Rightarrow> nat \<Rightarrow> string \<Rightarrow> db \<Rightarrow> (db, unit) outcome" where
  "insert_code t rid pid code d =
     (if lookup r_id rid (resellers d) = None \<or> lookup p_id pid (packages d) = None
      then (Inl IntegrityError, d)
      else (Inr (), d\<lparr>charge_codes := insert_row code_with_id
             \<lparr>cc_id = 0, cc_reseller_id = rid, cc_package_id = pid, cc_code = code,
              cc_status = Available, added_at = t, sold_at = None,
              sold_to_customer_id = None, sold_order_id = None\<rparr> (charge_codes d)\<rparr>))"

fun insert_codes :: "time \<Rightarrow> nat \<Rightarrow> nat \<Rightarrow> string list \<Rightarrow> db \<Rightarrow> (db, unit) outcome" where
  "insert_codes t rid pid [] d = (Inr (), d)"
| "insert_codes t rid pid (code # rest) d =
     (case insert_code t rid pid code d of
        (Inl e, d1) \<Rightarrow> (Inl e, d1)
      | (Inr _, d1) \<Rightarrow> insert_codes t rid pid rest d1)"

definition add_charge_codes :: "time \<Rightarrow> nat \<Rightarrow> nat \<Rightarrow> string \<Rightarrow> db \<Rightarrow> (db, nat) outcome" where
  "add_charge_codes t rid pid raw_text d =
     (let cleaned = clean_lines {} (splitlines raw_text)
      in case insert_codes t rid pid cleaned d of
           (Inl e, d1) \<Rightarrow> (Inl e, d1)
         | (Inr _, d1) \<Rightarrow> (Inr (length cleaned), d1))"

definition is_available :: "nat \<Rightarrow> charge_code \<Rightarrow> bool" where
  "is_available pid c \<longleftrightarrow> cc_package_id c = pid \<and> cc_status c = Available"

definition count_available_codes :: "nat \<Rightarrow> db \<Rightarrow> nat" where
  "count_available_codes pid d = count_rows (is_available pid) (charge_codes d)"

text \<open>\<^verbatim>\<open>ORDER BY id ASC LIMIT n\<close> on the codes that are available.\<close>

definition select_available :: "nat \<Rightarrow> nat \<Rightarrow> db \<Rightarrow> charge_code list" where
  "select_available pid n d = take n (sort_key cc_id (fetch_all (is_available pid) (charge_codes d)))"

definition list_available_codes :: "nat \<Rightarrow> nat \<Rightarrow> db \<Rightarrow> (nat \<times> string \<times> time) list" where
  "list_available_codes pid limit d =
     map (\<lambda>c. (cc_id c, cc_code c, added_at c)) (select_available pid limit d)"

text \<open>
  The sold codes, latest first, each with the order and the customer it went to where these
  rows exist (\<^verbatim>\<open>LEFT JOIN\<close>). Codes sold at the same second come in any order in MySQL; here
  they keep the order of the table.
\<close>

definition list_sold_codes ::
  "nat \<Rightarrow> nat \<Rightarrow> db \<Rightarrow> (nat \<times> string \<times> time option \<times> string option \<times> int option) list" where
  "list_sold_codes pid limit d =
     take limit (map
       (\<lambda>c. (cc_id c, cc_code c, sold_at c,
             map_option order_code (Option.bind (sold_order_id c) (\<lambda>i. lookup o_id i (orders d))),
             map_option c_telegram_user_id
               (Option.bind (sold_to_customer_id c) (\<lambda>i. lookup c_id i (customers d)))))
       (sort_key (\<lambda>c. case sold_at c of None \<Rightarrow> 1 | Some t \<Rightarrow> - int t)
         (fetch_all (\<lambda>c. cc_package_id c = pid \<and> cc_status c = Sold) (charge_codes d))))"

definition delete_available_code :: "nat \<Rightarrow> db \<Rightarrow> db" where
  "delete_available_code i d =
     d\<lparr>charge_codes := delete_rows (\<lambda>c. cc_id c = i \<and> cc_status c = Available) (charge_codes d)\<rparr>"

definition clear_available_codes :: "nat \<Rightarrow> db \<Rightarrow> nat \<times> db" where
  "clear_available_codes pid d =
     (count_available_codes pid d,
      d\<lparr>charge_codes := delete_rows (is_available pid) (charge_codes d)\<rparr>)"

section \<open>Purchases\<close>

definition upd_code :: "nat \<Rightarrow> (charge_code \<Rightarrow> charge_code) \<Rightarrow> db \<Rightarrow> db" where
  "upd_code i f d = d\<lparr>charge_codes := update_id cc_id i f (charge_codes d)\<rparr>"

text \<open>What the reads before the transaction found; the prefix is missing with the reseller.\<close>

record charge_plan =
  cp_reseller :: nat
  cp_package :: nat
  cp_customer :: nat
  cp_price :: cents
  cp_prefix :: "string option"

definition charge_checks :: "nat \<Rightarrow> nat \<Rightarrow> nat \<Rightarrow> db \<Rightarrow> exn + charge_plan" where
  "charge_checks rid pid cid d =
     (if customer_blacklisted rid cid d then Inl ChargeCustomerBlacklistedError
      else case lookup p_id pid (packages d) of
        None \<Rightarrow> Inl (ValueError PackageNotFound)
      | Some p \<Rightarrow> Inr \<lparr>cp_reseller = rid, cp_package = pid, cp_customer = cid,
                       cp_price = sale_price p,
                       cp_prefix = map_option order_prefix (lookup r_id rid (resellers d))\<rparr>)"

definition charge_order_row :: "charge_plan \<Rightarrow> time \<Rightarrow> string \<Rightarrow> string \<Rightarrow> order" where
  "charge_order_row plan t code_of_order code_value =
     \<lparr>o_id = 0, order_code = code_of_order, o_reseller_id = cp_reseller plan,
      o_package_id = cp_package plan, o_customer_id = cp_customer plan, o_status = Activated,
      receipt_image = None, phone_number = None, package_price = cp_price plan,
      commission_amount = 0, is_test_order = False, created_at = t, confirmed_at = Some t,
      activated_at = Some t, paid_from_wallet = True, o_type = ChargeOrder,
      delivered_charge_code = Some code_value\<rparr>"

text \<open>
  \<^verbatim>\<open>purchase_charge\<close>: the transaction returns the code it takes; the link from the code to
  its order is written afterwards, in a statement of its own.
\<close>

definition purchase_charge_tx ::
  "time \<Rightarrow> string \<Rightarrow> charge_plan \<Rightarrow> db \<Rightarrow> (db, nat \<times> string) outcome" where
  "purchase_charge_tx t code_of_order plan = transaction (\<lambda>d.
     case lookup c_id (cp_customer plan) (customers d) of
       None \<Rightarrow> (Inl TypeError, d)
     | Some c \<Rightarrow>
         if wallet_balance c < cp_price plan then (Inl ChargeInsufficientBalanceError, d)
         else (case select_available (cp_package plan) 1 d of
                 [] \<Rightarrow> (Inl (ChargeOutOfStockError None), d)
               | code # _ \<Rightarrow>
                   (case insert_order (charge_order_row plan t code_of_order (cc_code code))
                      (upd_customer (cp_customer plan)
                        (\<lambda>c. c\<lparr>wallet_balance := wallet_balance c - cp_price plan\<rparr>) d) of
                      (Inl e, d1) \<Rightarrow> (Inl e, d1)
                    | (Inr _, d1) \<Rightarrow>
                        (Inr (cc_id code, cc_code code), upd_code (cc_id code)
                          (\<lambda>cc. cc\<lparr>cc_status := Sold, sold_at := Some t,
                                  sold_to_customer_id := Some (cp_customer plan)\<rparr>) d1))))"

record charge_delivery =
  cd_order :: order
  cd_code :: string

definition purchase_charge ::
  "moment \<Rightarrow> nat \<Rightarrow> nat \<Rightarrow> nat \<Rightarrow> db \<Rightarrow> (db, charge_delivery) outcome" where
  "purchase_charge m rid pid cid d =
     (case charge_checks rid pid cid d of
        Inl e \<Rightarrow> (Inl e, d)
      | Inr plan \<Rightarrow>
          (case cp_prefix plan of
             None \<Rightarrow> (Inl TypeError, d)
           | Some prefix \<Rightarrow>
               let code_of_order = generate_charge_order_code prefix None m in
               (case purchase_charge_tx (m_now m) code_of_order plan d of
                  (Inl e, d1) \<Rightarrow> (Inl e, d1)
                | (Inr (code_id, code_value), d1) \<Rightarrow>
                    (case fetch_one (\<lambda>r. order_code r = code_of_order) (orders d1) of
                       None \<Rightarrow> (Inl RuntimeError, d1)
                     | Some ord \<Rightarrow>
                         (Inr \<lparr>cd_order = ord, cd_code = code_value\<rparr>,
                          upd_code code_id (\<lambda>cc. cc\<lparr>sold_order_id := Some (o_id ord)\<rparr>) d1)))))"

text \<open>
  \<^verbatim>\<open>purchase_charge_bulk\<close>: the loop over the codes, numbered from 1. Each turn reads the
  clock and draws a suffix anew, so the moments are a function of the number.
\<close>

record delivered_code =
  dl_order_id :: nat
  dl_order_code :: string
  dl_code :: string

fun deliver_codes ::
  "(nat \<Rightarrow> moment) \<Rightarrow> charge_plan \<Rightarrow> nat \<Rightarrow> charge_code list \<Rightarrow> db \<Rightarrow> (db, delivered_code list) outcome"
where
  "deliver_codes ms plan seq [] d = (Inr [], d)"
| "deliver_codes ms plan seq (code # rest) d =
     (case cp_prefix plan of
        None \<Rightarrow> (Inl TypeError, d)
      | Some prefix \<Rightarrow>
          let t = m_now (ms seq);
              code_of_order = generate_charge_order_code prefix (Some seq) (ms seq)
          in (case insert_order (charge_order_row plan t code_of_order (cc_code code)) d of
                (Inl e, d1) \<Rightarrow> (Inl e, d1)
              | (Inr order_id, d1) \<Rightarrow>
                  (case deliver_codes ms plan (Suc seq) rest (upd_code (cc_id code)
                          (\<lambda>cc. cc\<lparr>cc_status := Sold, sold_at := Some t,
                                  sold_to_customer_id := Some (cp_customer plan),
                                  sold_order_id := Some order_id\<rparr>) d1) of
                     (Inl e, d2) \<Rightarrow> (Inl e, d2)
                   | (Inr delivered, d2) \<Rightarrow>
                       (Inr (\<lparr>dl_order_id = order_id, dl_order_code = code_of_order,
                              dl_code = cc_code code\<rparr> # delivered), d2))))"

definition purchase_charge_bulk_tx ::
  "(nat \<Rightarrow> moment) \<Rightarrow> charge_plan \<Rightarrow> nat \<Rightarrow> db \<Rightarrow> (db, nat list \<times> delivered_code list) outcome" where
  "purchase_charge_bulk_tx ms plan quantity = transaction (\<lambda>d.
     let total_price = cp_price plan * int quantity in
     case lookup c_id (cp_customer plan) (customers d) of
       None \<Rightarrow> (Inl TypeError, d)
     | Some c \<Rightarrow>
         if wallet_balance c < total_price then (Inl ChargeInsufficientBalanceError, d)
         else let available_rows = select_available (cp_package plan) quantity d in
           if length available_rows < quantity
           then (Inl (ChargeOutOfStockError (Some (length available_rows))), d)
           else (case deliver_codes ms plan 1 available_rows
                        (upd_customer (cp_customer plan)
                          (\<lambda>c. c\<lparr>wallet_balance := wallet_balance c - total_price\<rparr>) d) of
                   (Inl e, d1) \<Rightarrow> (Inl e, d1)
                 | (Inr delivered, d1) \<Rightarrow> (Inr (map cc_id available_rows, delivered), d1)))"

record bulk_receipt =
  br_orders :: "delivered_code list"
  br_total_price :: cents
  br_unit_price :: cents
  br_quantity :: int

definition purchase_charge_bulk ::
  "(nat \<Rightarrow> moment) \<Rightarrow> nat \<Rightarrow> nat \<Rightarrow> nat \<Rightarrow> int \<Rightarrow> db \<Rightarrow> (db, bulk_receipt) outcome" where
  "purchase_charge_bulk ms rid pid cid quantity d =
     (if quantity < 1 then (Inl (ValueError BadQuantity), d)
      else case charge_checks rid pid cid d of
        Inl e \<Rightarrow> (Inl e, d)
      | Inr plan \<Rightarrow>
          (case purchase_charge_bulk_tx ms plan (nat quantity) d of
             (Inl e, d1) \<Rightarrow> (Inl e, d1)
           | (Inr (_, delivered), d1) \<Rightarrow>
               (Inr \<lparr>br_orders = delivered, br_total_price = cp_price plan * quantity,
                     br_unit_price = cp_price plan, br_quantity = quantity\<rparr>, d1)))"

section \<open>Elementary facts\<close>

lemma upd_code_simps [simp]:
  "resellers (upd_code i f d) = resellers d" "customers (upd_code i f d) = customers d"
  "orders (upd_code i f d) = orders d" "packages (upd_code i f d) = packages d"
  "wallet_transactions (upd_code i f d) = wallet_transactions d"
  "charge_codes (upd_code i f d) = update_id cc_id i f (charge_codes d)"
  "customer_balance cid (upd_code i f d) = customer_balance cid d"
  by (simp_all add: upd_code_def customer_balance_def)

lemma insert_order_frame:
  assumes "insert_order r d = (Inr i, d')"
  shows "charge_codes d' = charge_codes d" "resellers d' = resellers d"
    "customers d' = customers d" "wallet_transactions d' = wallet_transactions d"
    "packages d' = packages d" "trows (orders d') = trows (orders d) @ [r\<lparr>o_id := i\<rparr>]"
    "i = auto_inc (orders d)"
  using assms by (auto simp: insert_order_def insert_row_def split: if_splits)

lemma select_available_mem:
  "c \<in> set (select_available pid n d) \<Longrightarrow> c \<in> set (trows (charge_codes d)) \<and> is_available pid c"
  by (auto simp: select_available_def fetch_all_def dest: in_set_takeD)

lemma select_available_distinct:
  assumes "wf_table cc_id (charge_codes d)"
  shows "distinct (map cc_id (select_available pid n d))"
proof -
  have "distinct (map cc_id (sort_key cc_id (fetch_all (is_available pid) (charge_codes d))))"
    using assms by (simp add: wf_table_def fetch_all_def distinct_map)
      (auto intro: inj_on_subset)
  then show ?thesis by (simp add: select_available_def take_map [symmetric])
qed

text \<open>One turn of the loop of a bulk purchase.\<close>

lemma deliver_codes_Cons:
  assumes "deliver_codes ms plan seq (code # rest) d = (Inr ds, d')"
  obtains prefix i d1 ds' where "cp_prefix plan = Some prefix"
    and "insert_order (charge_order_row plan (m_now (ms seq))
           (generate_charge_order_code prefix (Some seq) (ms seq)) (cc_code code)) d = (Inr i, d1)"
    and "deliver_codes ms plan (Suc seq) rest (upd_code (cc_id code)
           (\<lambda>cc. cc\<lparr>cc_status := Sold, sold_at := Some (m_now (ms seq)),
                   sold_to_customer_id := Some (cp_customer plan),
                   sold_order_id := Some i\<rparr>) d1) = (Inr ds', d')"
    and "ds = \<lparr>dl_order_id = i,
               dl_order_code = generate_charge_order_code prefix (Some seq) (ms seq),
               dl_code = cc_code code\<rparr> # ds'"
  using assms by (auto simp: Let_def split: option.splits prod.splits sum.splits)

lemma deliver_codes_frame:
  assumes "deliver_codes ms plan seq cs d = (Inr ds, d')"
  shows "customers d' = customers d \<and> resellers d' = resellers d
    \<and> wallet_transactions d' = wallet_transactions d \<and> map dl_code ds = map cc_code cs"
  using assms
proof (induction cs arbitrary: seq d ds)
  case (Cons c cs)
  from Cons.prems show ?case
  proof (cases rule: deliver_codes_Cons)
    case (1 prefix i d1 ds')
    from Cons.IH [OF 1(3)] insert_order_frame [OF 1(2)] 1(4) show ?thesis by simp
  qed
qed simp

text \<open>One order per code, each at the unit price.\<close>

lemma deliver_codes_orders:
  assumes "deliver_codes ms plan seq cs d = (Inr ds, d')"
  shows "\<exists>rows. trows (orders d') = trows (orders d) @ rows
    \<and> map o_id rows = map dl_order_id ds \<and> map order_code rows = map dl_order_code ds
    \<and> map delivered_charge_code rows = map (Some \<circ> dl_code) ds
    \<and> map package_price rows = replicate (length cs) (cp_price plan)
    \<and> map o_customer_id rows = replicate (length cs) (cp_customer plan)"
  using assms
proof (induction cs arbitrary: seq d ds)
  case (Cons c cs)
  from Cons.prems show ?case
  proof (cases rule: deliver_codes_Cons)
    case (1 prefix i d1 ds')
    let ?row = "(charge_order_row plan (m_now (ms seq))
        (generate_charge_order_code prefix (Some seq) (ms seq)) (cc_code c))\<lparr>o_id := i\<rparr>"
    from Cons.IH [OF 1(3)] obtain rows where rows:
      "trows (orders d') = trows (orders d1) @ rows"
      "map o_id rows = map dl_order_id ds'" "map order_code rows = map dl_order_code ds'"
      "map delivered_charge_code rows = map (Some \<circ> dl_code) ds'"
      "map package_price rows = replicate (length cs) (cp_price plan)"
      "map o_customer_id rows = replicate (length cs) (cp_customer plan)"
      by auto
    with insert_order_frame [OF 1(2)] 1(4) show ?thesis
      by (intro exI [of _ "?row # rows"]) (simp add: charge_order_row_def)
  qed
qed simp

text \<open>Exactly the codes of the list are sold, to this customer; the others stay as they are.\<close>

definition sold_like :: "nat \<Rightarrow> charge_code \<Rightarrow> charge_code \<Rightarrow> bool" where
  "sold_like cid c c' \<longleftrightarrow>
     cc_status c' = Sold \<and> sold_to_customer_id c' = Some cid \<and> cc_code c' = cc_code c
     \<and> cc_package_id c' = cc_package_id c"

lemma deliver_codes_stock:
  assumes "deliver_codes ms plan seq cs d = (Inr ds, d')"
  shows "map cc_id (trows (charge_codes d')) = map cc_id (trows (charge_codes d))
    \<and> auto_inc (charge_codes d') = auto_inc (charge_codes d)
    \<and> (i \<notin> cc_id ` set cs \<longrightarrow> lookup cc_id i (charge_codes d') = lookup cc_id i (charge_codes d))
    \<and> (\<forall>c. i \<in> cc_id ` set cs \<longrightarrow> lookup cc_id i (charge_codes d) = Some c \<longrightarrow>
         (\<exists>c'. lookup cc_id i (charge_codes d') = Some c' \<and> sold_like (cp_customer plan) c c'))"
  using assms
proof (induction cs arbitrary: seq d ds)
  case (Cons c cs)
  from Cons.prems show ?case
  proof (cases rule: deliver_codes_Cons)
    case (1 prefix oid d1 ds')
    note IH = Cons.IH [OF 1(3)]
    have cc: "charge_codes d1 = charge_codes d" by (rule insert_order_frame [OF 1(2)])
    have ids: "map cc_id (trows (charge_codes d')) = map cc_id (trows (charge_codes d))"
      "auto_inc (charge_codes d') = auto_inc (charge_codes d)"
      using IH by (simp_all add: cc update_id_trows if_distrib [of cc_id] cong: if_cong)
    have out: "lookup cc_id i (charge_codes d') = lookup cc_id i (charge_codes d)"
      if "i \<notin> cc_id ` set (c # cs)"
      using IH that by (simp add: cc codes.lookup_update_id)
    have "\<exists>x'. lookup cc_id i (charge_codes d') = Some x' \<and> sold_like (cp_customer plan) x x'"
      if x: "lookup cc_id i (charge_codes d) = Some x" and i: "i \<in> cc_id ` set (c # cs)" for x
    proof (cases "i \<in> cc_id ` set cs")
      case True
      with IH x show ?thesis
        by (cases "i = cc_id c") (auto simp: cc codes.lookup_update_id sold_like_def)
    next
      case False
      with i have "i = cc_id c" by auto
      with IH x False show ?thesis by (auto simp: cc codes.lookup_update_id sold_like_def)
    qed
    with ids out show ?thesis by blast
  qed
qed simp


section \<open>The two purchases as wallet purchases\<close>

text \<open>The transaction of either purchase; the value is the list of the codes it takes.\<close>

datatype charge_request =
    BuyOne time string charge_plan
  | BuyMany "nat \<Rightarrow> moment" charge_plan nat

fun run_charge_request :: "charge_request \<Rightarrow> db \<Rightarrow> (db, nat list) outcome" where
  "run_charge_request (BuyOne t code_of_order plan) d =
     (case purchase_charge_tx t code_of_order plan d of
        (Inl e, d1) \<Rightarrow> (Inl e, d1)
      | (Inr (code_id, _), d1) \<Rightarrow> (Inr [code_id], d1))"
| "run_charge_request (BuyMany ms plan quantity) d =
     (case purchase_charge_bulk_tx ms plan quantity d of
        (Inl e, d1) \<Rightarrow> (Inl e, d1)
      | (Inr (ids, _), d1) \<Rightarrow> (Inr ids, d1))"

fun charge_buyer :: "charge_request \<Rightarrow> nat" where
  "charge_buyer (BuyOne t code_of_order plan) = cp_customer plan"
| "charge_buyer (BuyMany ms plan quantity) = cp_customer plan"

fun charge_cost :: "charge_request \<Rightarrow> cents" where
  "charge_cost (BuyOne t code_of_order plan) = cp_price plan"
| "charge_cost (BuyMany ms plan quantity) = cp_price plan * int quantity"

lemma charge_tx_InrD:
  assumes "purchase_charge_tx t oc plan d = (Inr (i, v), d')"
  obtains c code rest oid d1 where "lookup c_id (cp_customer plan) (customers d) = Some c"
    and "cp_price plan \<le> wallet_balance c"
    and "select_available (cp_package plan) 1 d = code # rest" and "i = cc_id code" and "v = cc_code code"
    and "insert_order (charge_order_row plan t oc (cc_code code)) (upd_customer (cp_customer plan)
           (\<lambda>c. c\<lparr>wallet_balance := wallet_balance c - cp_price plan\<rparr>) d) = (Inr oid, d1)"
    and "d' = upd_code (cc_id code) (\<lambda>cc. cc\<lparr>cc_status := Sold, sold_at := Some t,
           sold_to_customer_id := Some (cp_customer plan)\<rparr>) d1"
  using assms
  by (auto simp: purchase_charge_tx_def transaction_Inr_iff
      split: option.splits if_splits list.splits prod.splits sum.splits)

lemma charge_bulk_tx_InrD:
  assumes "purchase_charge_bulk_tx ms plan n d = (Inr (ids, ds), d')"
  obtains c where "lookup c_id (cp_customer plan) (customers d) = Some c"
    and "cp_price plan * int n \<le> wallet_balance c"
    and "ids = map cc_id (select_available (cp_package plan) n d)"
    and "length (select_available (cp_package plan) n d) = n"
    and "deliver_codes ms plan 1 (select_available (cp_package plan) n d)
           (upd_customer (cp_customer plan)
             (\<lambda>c. c\<lparr>wallet_balance := wallet_balance c - cp_price plan * int n\<rparr>) d) = (Inr ds, d')"
proof -
  have len: "length (select_available (cp_package plan) n d) \<le> n"
    by (simp add: select_available_def)
  show ?thesis
    using assms len
    by (auto simp: purchase_charge_bulk_tx_def transaction_Inr_iff Let_def
        intro!: that split: option.splits if_splits prod.splits sum.splits)
qed

lemma charge_tx_InlD:
  "purchase_charge_tx t oc plan d = (Inl e, d') \<Longrightarrow> d' = d"
  "purchase_charge_bulk_tx ms plan n d = (Inl e, d') \<Longrightarrow> d' = d"
  by (auto simp: purchase_charge_tx_def purchase_charge_bulk_tx_def transaction_Inl_iff)

text \<open>The account of a customer after the charge of a purchase.\<close>

lemma charged_balance:
  assumes "lookup c_id i (customers d) = Some c"
  shows "customer_balance cid (upd_customer i (\<lambda>c. c\<lparr>wallet_balance := wallet_balance c - a\<rparr>) d) =
    customer_balance cid d - (if cid = i then a else 0)"
  using customer_balance_add [OF assms, of cid "- a"] by simp

lemma request_accepted:
  assumes "run_charge_request q d = (Inr ids, d')"
  shows "charge_cost q \<le> customer_balance (charge_buyer q) d
    \<and> customer_balance cid d' =
        customer_balance cid d - (if cid = charge_buyer q then charge_cost q else 0)
    \<and> resellers d' = resellers d \<and> wallet_transactions d' = wallet_transactions d"
proof (cases q)
  case (BuyOne t oc plan)
  with assms obtain i v where "purchase_charge_tx t oc plan d = (Inr (i, v), d')"
    by (auto split: prod.splits sum.splits)
  then show ?thesis
  proof (cases rule: charge_tx_InrD)
    case (1 c code rest oid d1)
    with BuyOne insert_order_frame [OF 1(6)] charged_balance [OF 1(1), of cid "cp_price plan"]
    show ?thesis by (simp add: customer_balance_def)
  qed
next
  case (BuyMany ms plan n)
  with assms obtain ds where "purchase_charge_bulk_tx ms plan n d = (Inr (ids, ds), d')"
    by (auto split: prod.splits sum.splits)
  then show ?thesis
  proof (cases rule: charge_bulk_tx_InrD)
    case (1 c)
    with BuyMany deliver_codes_frame [OF 1(5)] charged_balance [OF 1(1), of cid "cp_price plan * int n"]
    show ?thesis by (simp add: customer_balance_def)
  qed
qed

interpretation charge_wallet: wallet_purchase run_charge_request charge_buyer charge_cost
proof (unfold_locales, goal_cases)
  case (1 q d e d')
  then show ?case
    by (cases q) (auto dest: charge_tx_InlD split: prod.splits sum.splits)
qed (use request_accepted in blast)+


text \<open>
  Both purchases refuse a blacklisted customer first; a bulk purchase of less than one code
  is refused before that.
\<close>

interpretation charge_guard: guarded_purchase
  "\<lambda>rid cid. purchase_charge m rid pid cid" ChargeCustomerBlacklistedError for m pid
  by unfold_locales (simp add: purchase_charge_def charge_checks_def)

interpretation charge_bulk_guard: guarded_purchase
  "\<lambda>rid cid. purchase_charge_bulk ms rid pid cid (1 + int n)" ChargeCustomerBlacklistedError for ms pid n
  by unfold_locales (simp add: purchase_charge_bulk_def charge_checks_def)

section \<open>A code is delivered once\<close>

text \<open>Everything that writes the stock: purchases, the link to the order, and the reseller.\<close>

datatype stock_event =
    Purchase charge_request
  | LinkOrder nat nat
  | AddCodes time nat nat string
  | DeleteCode nat
  | ClearCodes nat

fun run_stock_event :: "stock_event \<Rightarrow> db \<Rightarrow> (db, nat list) outcome" where
  "run_stock_event (Purchase q) d = run_charge_request q d"
| "run_stock_event (LinkOrder i oid) d = (Inr [], upd_code i (\<lambda>cc. cc\<lparr>sold_order_id := Some oid\<rparr>) d)"
| "run_stock_event (AddCodes t rid pid raw_text) d = (Inr [], snd (add_charge_codes t rid pid raw_text d))"
| "run_stock_event (DeleteCode i) d = (Inr [], delete_available_code i d)"
| "run_stock_event (ClearCodes pid) d = (Inr [], snd (clear_available_codes pid d))"

definition code_state :: "nat \<Rightarrow> db \<Rightarrow> code_status option" where
  "code_state i d = map_option cc_status (lookup cc_id i (charge_codes d))"

definition ids_of :: "(db, nat list) outcome \<Rightarrow> nat list" where
  "ids_of run = (case fst run of Inl e \<Rightarrow> [] | Inr ids \<Rightarrow> ids)"

text \<open>The codes that a sequence of events delivers, in the order of delivery.\<close>

fun delivered_ids :: "('k \<Rightarrow> db \<Rightarrow> (db, nat list) outcome) \<Rightarrow> 'k list \<Rightarrow> db \<Rightarrow> nat list" where
  "delivered_ids deliver [] d = []"
| "delivered_ids deliver (q # qs) d =
     ids_of (deliver q d) @ delivered_ids deliver qs (snd (deliver q d))"

locale code_delivery =
  fixes deliver :: "'k \<Rightarrow> db \<Rightarrow> (db, nat list) outcome"
  assumes deliver_error: "deliver q d = (Inl e, d') \<Longrightarrow> d' = d"
    and deliver_wf: "wf_table cc_id (charge_codes d) \<Longrightarrow> wf_table cc_id (charge_codes (snd (deliver q d)))"
    and deliver_distinct: "wf_table cc_id (charge_codes d) \<Longrightarrow> deliver q d = (Inr ids, d') \<Longrightarrow> distinct ids"
    and deliver_available: "wf_table cc_id (charge_codes d) \<Longrightarrow> deliver q d = (Inr ids, d') \<Longrightarrow>
      i \<in> set ids \<Longrightarrow> code_state i d = Some Available \<and> code_state i d' = Some Sold"
    and sold_stays: "wf_table cc_id (charge_codes d) \<Longrightarrow> code_state i d = Some Sold \<Longrightarrow>
      code_state i (snd (deliver q d)) = Some Sold"
begin

lemma step_ids:
  assumes "wf_table cc_id (charge_codes d)"
  shows "distinct (ids_of (deliver q d))"
    and "i \<in> set (ids_of (deliver q d)) \<Longrightarrow>
      code_state i d = Some Available \<and> code_state i (snd (deliver q d)) = Some Sold"
proof -
  have all: "distinct (ids_of (deliver q d)) \<and> (i \<in> set (ids_of (deliver q d)) \<longrightarrow>
      code_state i d = Some Available \<and> code_state i (snd (deliver q d)) = Some Sold)"
  proof (cases "deliver q d")
    case (Pair res d')
    show ?thesis
    proof (cases res)
      case (Inr ids)
      with Pair deliver_distinct [OF assms, of q ids d'] deliver_available [OF assms, of q ids d' i]
      show ?thesis by (simp add: ids_of_def)
    qed (simp add: Pair ids_of_def)
  qed
  then show "distinct (ids_of (deliver q d))"
    and "i \<in> set (ids_of (deliver q d)) \<Longrightarrow>
      code_state i d = Some Available \<and> code_state i (snd (deliver q d)) = Some Sold"
    by blast+
qed

lemma sold_not_delivered:
  assumes "wf_table cc_id (charge_codes d)" and "code_state i d = Some Sold"
  shows "i \<notin> set (delivered_ids deliver qs d)"
  using assms
proof (induction qs arbitrary: d)
  case (Cons q qs)
  from step_ids(2) [OF Cons.prems(1), of i q] Cons.prems(2)
  have "i \<notin> set (ids_of (deliver q d))" by auto
  with Cons show ?case by (simp add: deliver_wf sold_stays)
qed simp

text \<open>No code is delivered twice.\<close>

lemma delivered_once:
  "wf_table cc_id (charge_codes d) \<Longrightarrow> distinct (delivered_ids deliver qs d)"
proof (induction qs arbitrary: d)
  case (Cons q qs)
  have "i \<notin> set (delivered_ids deliver qs (snd (deliver q d)))"
    if "i \<in> set (ids_of (deliver q d))" for i
    using step_ids(2) [OF Cons.prems that]
    by (intro sold_not_delivered deliver_wf [OF Cons.prems]) simp
  with Cons show ?case by (auto simp: deliver_wf step_ids(1))
qed simp

lemma delivered_stay_sold:
  "wf_table cc_id (charge_codes d) \<Longrightarrow> code_state i d = Some Sold \<Longrightarrow>
   code_state i (run_all deliver qs d) = Some Sold"
  by (induction qs arbitrary: d) (simp_all add: deliver_wf sold_stays)

lemma delivered_are_sold:
  "wf_table cc_id (charge_codes d) \<Longrightarrow> i \<in> set (delivered_ids deliver qs d) \<Longrightarrow>
   code_state i (run_all deliver qs d) = Some Sold"
proof (induction qs arbitrary: d)
  case (Cons q qs)
  show ?case
  proof (cases "i \<in> set (delivered_ids deliver qs (snd (deliver q d)))")
    case True
    with Cons show ?thesis by (simp add: deliver_wf)
  next
    case False
    with Cons.prems have "i \<in> set (ids_of (deliver q d))" by simp
    note step_ids(2) [OF Cons.prems(1) this]
    with Cons.prems(1) show ?thesis by (simp add: deliver_wf delivered_stay_sold)
  qed
qed simp

end


lemma select_available_lookup:
  assumes "wf_table cc_id (charge_codes d)" and "i \<in> cc_id ` set (select_available pid n d)"
  shows "\<exists>c. lookup cc_id i (charge_codes d) = Some c \<and> cc_status c = Available \<and> cc_package_id c = pid"
  using assms select_available_mem [of _ pid n d]
  by (force simp: codes.lookup_iff is_available_def)

lemma insert_codes_effect:
  assumes "wf_table cc_id (charge_codes d)"
  shows "wf_table cc_id (charge_codes (snd (insert_codes t rid pid cs d))) \<and>
    (lookup cc_id i (charge_codes d) = Some c \<longrightarrow>
     lookup cc_id i (charge_codes (snd (insert_codes t rid pid cs d))) = Some c)"
  using assms
proof (induction cs arbitrary: d)
  case (Cons x cs)
  show ?case
  proof (cases "lookup r_id rid (resellers d) = None \<or> lookup p_id pid (packages d) = None")
    case True
    with Cons.prems show ?thesis by (auto simp: insert_code_def)
  next
    case False
    then obtain d1 where d1: "insert_code t rid pid x d = (Inr (), d1)"
      by (simp add: insert_code_def)
    then have codes: "charge_codes d1 = insert_row code_with_id
        \<lparr>cc_id = 0, cc_reseller_id = rid, cc_package_id = pid, cc_code = x,
         cc_status = Available, added_at = t, sold_at = None,
         sold_to_customer_id = None, sold_order_id = None\<rparr> (charge_codes d)"
      using False by (auto simp: insert_code_def)
    have "wf_table cc_id (charge_codes d1)"
      using Cons.prems by (simp add: codes codes.insert_wf del: code_with_id_def)
    moreover have "lookup cc_id i (charge_codes d1) = Some c"
      if "lookup cc_id i (charge_codes d) = Some c"
      using that Cons.prems codes.lookup_fresh [OF Cons.prems, of i]
      by (auto simp: codes codes.lookup_insert simp del: code_with_id_def)
    ultimately show ?thesis using Cons.IH [of d1] d1 by simp
  qed
qed simp

lemma add_charge_codes_state:
  assumes "wf_table cc_id (charge_codes d)"
  shows "wf_table cc_id (charge_codes (snd (add_charge_codes t rid pid s d)))"
    and "code_state i d = Some x \<Longrightarrow> code_state i (snd (add_charge_codes t rid pid s d)) = Some x"
proof -
  have snd: "snd (add_charge_codes t rid pid s d) =
      snd (insert_codes t rid pid (clean_lines {} (splitlines s)) d)"
    by (simp add: add_charge_codes_def Let_def split: prod.split sum.split)
  show "wf_table cc_id (charge_codes (snd (add_charge_codes t rid pid s d)))"
    using insert_codes_effect [OF assms] by (simp add: snd)
  show "code_state i (snd (add_charge_codes t rid pid s d)) = Some x" if "code_state i d = Some x"
    using that insert_codes_effect [OF assms, of t rid pid "clean_lines {} (splitlines s)" i]
    by (auto simp: code_state_def snd)
qed

lemma request_stock:
  assumes wf: "wf_table cc_id (charge_codes d)" and run: "run_charge_request q d = (Inr ids, d')"
  shows "wf_table cc_id (charge_codes d') \<and> distinct ids
    \<and> (i \<in> set ids \<longrightarrow> code_state i d = Some Available \<and> code_state i d' = Some Sold)
    \<and> (i \<notin> set ids \<longrightarrow> lookup cc_id i (charge_codes d') = lookup cc_id i (charge_codes d))"
proof (cases q)
  case (BuyOne t oc plan)
  with run obtain j v where ids: "ids = [j]" and tx: "purchase_charge_tx t oc plan d = (Inr (j, v), d')"
    by (auto split: prod.splits sum.splits)
  from tx show ?thesis
  proof (cases rule: charge_tx_InrD)
    case (1 c code rest oid d1)
    have codes: "charge_codes d' = update_id cc_id j (\<lambda>cc. cc\<lparr>cc_status := Sold, sold_at := Some t,
        sold_to_customer_id := Some (cp_customer plan)\<rparr>) (charge_codes d)"
      using insert_order_frame [OF 1(6)] 1(4,7) by simp
    have "\<exists>x. lookup cc_id j (charge_codes d) = Some x \<and> cc_status x = Available"
      using select_available_lookup [OF wf, of j "cp_package plan" 1] 1(3,4) by auto
    then show ?thesis
      using wf by (auto simp: ids codes code_state_def codes.lookup_update_id codes.update_id_wf)
  qed
next
  case (BuyMany ms plan n)
  with run obtain ds where "purchase_charge_bulk_tx ms plan n d = (Inr (ids, ds), d')"
    by (auto split: prod.splits sum.splits)
  then show ?thesis
  proof (cases rule: charge_bulk_tx_InrD)
    case (1 c)
    note stock = deliver_codes_stock [OF 1(5), of i, simplified]
    have wf': "wf_table cc_id (charge_codes d')" using wf stock by (simp add: wf_table_map)
    have "\<exists>x. lookup cc_id i (charge_codes d) = Some x \<and> cc_status x = Available" if "i \<in> set ids"
      using select_available_lookup [OF wf, of i "cp_package plan" n] that 1(3) by auto
    with stock wf' 1(3) select_available_distinct [OF wf] show ?thesis
      by (auto simp: code_state_def sold_like_def)
  qed
qed

interpretation stock: code_delivery run_stock_event
proof (unfold_locales, goal_cases)
  case (1 q d e d')
  then show ?case by (cases q) (auto intro: charge_wallet.buy_error)
next
  case (2 d q)
  show ?case
  proof (cases q)
    case (Purchase r)
    show ?thesis
    proof (cases "run_charge_request r d")
      case (Pair res d')
      with 2 Purchase charge_wallet.buy_error [of r d _ d'] request_stock [OF 2, of r _ d'] show ?thesis
        by (cases res) auto
    qed
  qed (use 2 in \<open>simp_all add: codes.update_id_wf codes.delete_wf add_charge_codes_state
         delete_available_code_def clear_available_codes_def\<close>)
next
  case (3 d q ids d')
  then show ?case using request_stock [OF 3(1)] by (cases q) auto
next
  case (4 d q ids d' i)
  then show ?case using request_stock [OF 4(1)] by (cases q) auto
next
  case (5 d i q)
  show ?case
  proof (cases q)
    case (Purchase r)
    show ?thesis
    proof (cases "run_charge_request r d")
      case (Pair res d')
      show ?thesis
      proof (cases res)
        case (Inl e)
        with Pair Purchase 5(2) charge_wallet.buy_error [of r d e d'] show ?thesis by simp
      next
        case (Inr ids)
        with Pair have run: "run_charge_request r d = (Inr ids, d')" by simp
        from request_stock [OF 5(1) run, of i] 5(2) show ?thesis
          by (auto simp: Purchase run code_state_def)
      qed
    qed
  qed (use 5 in \<open>auto simp: code_state_def codes.lookup_update_id codes.lookup_delete
         add_charge_codes_state [unfolded code_state_def] is_available_def
         delete_available_code_def clear_available_codes_def\<close>)
qed


section \<open>Properties\<close>

text \<open>
  Property C2: a charge code is delivered at most once. In every sequence of purchases (single
  and bulk, with plans as old as one likes), links to orders, additions and deletions by the
  reseller, no code appears twice among the delivered ones, and whatever was delivered stays
  on record as sold.
\<close>

theorem charge_codes_delivered_once:
  assumes "wf_table cc_id (charge_codes d)"
  shows "distinct (delivered_ids run_stock_event events d)
    \<and> set (delivered_ids run_stock_event events d) \<subseteq>
        {i. code_state i (run_all run_stock_event events d) = Some Sold}"
  using stock.delivered_once [OF assms] stock.delivered_are_sold [OF assms] by blast

definition demo_code :: charge_code where
  "demo_code = \<lparr>cc_id = 1, cc_reseller_id = 1, cc_package_id = 1, cc_code = ''1111'',
     cc_status = Available, added_at = 5, sold_at = None, sold_to_customer_id = None,
     sold_order_id = None\<rparr>"

definition demo_charge_db :: db where
  "demo_charge_db = demo_topup_db\<lparr>
     packages := \<lparr>trows = [\<lparr>p_id = 1, p_reseller_id = 1, p_category_id = 1, p_name = ''top-up'',
       sale_price = 100, cost_price = None, p_is_active = True\<rparr>], auto_inc = 2\<rparr>,
     charge_codes := \<lparr>trows = [demo_code, demo_code\<lparr>cc_id := 2, cc_code := ''2222''\<rparr>,
       demo_code\<lparr>cc_id := 3, cc_code := ''3333''\<rparr>], auto_inc = 4\<rparr>\<rparr>"

definition demo_moments :: "nat \<Rightarrow> moment" where
  "demo_moments n = \<lparr>m_now = 1000 + n,
     m_clock = \<lparr>clk_year = 2024, clk_month = 7, clk_day = 18, clk_hour = 15, clk_minute = 32,
                clk_second = 9\<rparr>, m_suffix = ''7QX''\<rparr>"

definition demo_charge_plan :: charge_plan where
  "demo_charge_plan = \<lparr>cp_reseller = 1, cp_package = 1, cp_customer = 1, cp_price = 100,
     cp_prefix = Some ''AR''\<rparr>"

lemma demo_charge_db_wf: "wf_table cc_id (charge_codes demo_charge_db)"
  by (simp add: wf_table_def demo_charge_db_def demo_code_def)

lemma charge_codes_delivered_once_witness:
  "delivered_ids run_stock_event
     [Purchase (BuyOne 9 ''X'' demo_charge_plan), DeleteCode 1,
      Purchase (BuyMany demo_moments demo_charge_plan 2)] demo_charge_db = [1, 2, 3]
   \<and> distinct (delivered_ids run_stock_event
     [Purchase (BuyOne 9 ''X'' demo_charge_plan), DeleteCode 1,
      Purchase (BuyMany demo_moments demo_charge_plan 2)] demo_charge_db)"
proof
  show "delivered_ids run_stock_event
     [Purchase (BuyOne 9 ''X'' demo_charge_plan), DeleteCode 1,
      Purchase (BuyMany demo_moments demo_charge_plan 2)] demo_charge_db = [1, 2, 3]"
    by code_simp
qed (use charge_codes_delivered_once [OF demo_charge_db_wf] in blast)

text \<open>
  Property C18: charge purchases and wallets under any interleaving. However single and bulk
  purchases with whatever plans follow each other, no wallet is overdrawn and a customer
  loses exactly what the accepted purchases cost; commission accounts are not touched.
\<close>

theorem charge_purchases_interleaved:
  "min 0 (customer_balance cid d) \<le> customer_balance cid (run_all run_charge_request requests d)
   \<and> customer_balance cid (run_all run_charge_request requests d) =
       customer_balance cid d -
       accepted_cost run_charge_request charge_buyer charge_cost cid requests d
   \<and> resellers (run_all run_charge_request requests d) = resellers d
   \<and> wallet_transactions (run_all run_charge_request requests d) = wallet_transactions d"
  using charge_wallet.run_no_overdraft charge_wallet.run_balance charge_wallet.run_keeps_commission
  by blast

text \<open>
  The order codes of charges tell single purchases and the positions within a
  bulk purchase apart, even when clock and random suffix repeat: two codes of one reseller
  agree only when both have no sequence number or the same one.
\<close>

theorem charge_order_code_sequence:
  assumes "valid_moment m" and "valid_moment m'"
    and "generate_charge_order_code prefix sequence m = generate_charge_order_code prefix sequence' m'"
  shows "sequence = sequence'"
proof -
  have valid: "valid_clock (m_clock m)" "valid_clock (m_clock m')"
    and len: "length (m_suffix m) = 3" "length (m_suffix m') = 3"
    using assms by (auto simp: valid_moment_def)
  have pad: "zero_pad 3 n \<noteq> []" for n
    by (simp add: zero_pad_def) (subst show_nat.simps, simp)
  have "m_suffix m @ zero_pad 3 n \<noteq> m_suffix m'" for n
    using len pad [of n] by (auto dest: arg_cong [where f = length])
  moreover have "m_suffix m \<noteq> m_suffix m' @ zero_pad 3 n" for n
    using len pad [of n] by (auto dest: arg_cong [where f = length])
  ultimately show ?thesis
    using assms(3) valid len
    by (cases sequence; cases sequence')
      (auto simp: generate_charge_order_code_def Let_def length_ymd length_hms append_eq_append_conv)
qed

lemma charge_order_code_sequence_witness:
  "generate_charge_order_code ''AR'' (Some 3) (demo_moments 0) \<noteq>
   generate_charge_order_code ''AR'' (Some 4) (demo_moments 0)"
proof -
  have "valid_moment (demo_moments 0)"
    by (simp add: demo_moments_def valid_moment_def valid_clock_def)
  then show ?thesis
    using charge_order_code_sequence [of "demo_moments 0" "demo_moments 0" "''AR''" "Some 3" "Some 4"]
    by auto
qed

text \<open>The purchase of one code, from the successful transaction to the delivery.\<close>

lemma fetch_one_inserted:
  assumes "insert_order r d = (Inr i, d')"
  shows "fetch_one (\<lambda>r'. order_code r' = order_code r) (orders d') = Some (r\<lparr>o_id := i\<rparr>)"
  using assms
  by (auto simp: insert_order_def fetch_one_def insert_row_def find_append split: if_splits)

lemma count_available_update:
  assumes "wf_table cc_id (charge_codes d)" and "lookup cc_id i (charge_codes d) = Some c"
    and "charge_codes d' = update_id cc_id i f (charge_codes d)"
  shows "int (count_available_codes pid d') = int (count_available_codes pid d)
    - (if is_available pid c then 1 else 0) + (if is_available pid (f c) then 1 else 0)"
  using assms by (simp add: count_available_codes_def count_rows_sum codes.sum_update_id)

lemma select_available_1:
  "select_available pid 1 d = c # rest \<Longrightarrow> rest = []"
  by (cases "sort_key cc_id (fetch_all (is_available pid) (charge_codes d))")
    (auto simp: select_available_def)

lemma charge_tx_stock:
  assumes wf: "wf_table cc_id (charge_codes d)"
    and tx: "purchase_charge_tx t oc plan d = (Inr (i, v), d1)"
  obtains code oid where "select_available (cp_package plan) 1 d = [code]"
    and "i = cc_id code" and "v = cc_code code"
    and "fetch_one (\<lambda>r. order_code r = oc) (orders d1) =
           Some ((charge_order_row plan t oc v)\<lparr>o_id := oid\<rparr>)"
    and "trows (orders d1) = trows (orders d) @ [(charge_order_row plan t oc v)\<lparr>o_id := oid\<rparr>]"
    and "lookup cc_id i (charge_codes d1) = Some (code\<lparr>cc_status := Sold,
           sold_at := Some t, sold_to_customer_id := Some (cp_customer plan)\<rparr>)"
    and "count_available_codes (cp_package plan) d = count_available_codes (cp_package plan) d1 + 1"
    and "wf_table cc_id (charge_codes d1)"
  using tx
proof (cases rule: charge_tx_InrD)
  case (1 c code rest oid d0)
  note ins = insert_order_frame [OF 1(6)]
  have sel: "select_available (cp_package plan) 1 d = [code]"
    using 1(3) select_available_1 [OF 1(3)] by simp
  then have mem: "code \<in> set (trows (charge_codes d))" "is_available (cp_package plan) code"
    using select_available_mem [of code "cp_package plan" 1 d] by simp_all
  then have look: "lookup cc_id (cc_id code) (charge_codes d) = Some code"
    using codes.lookup_iff [OF wf] by simp
  have codes: "charge_codes d1 = update_id cc_id i (\<lambda>cc. cc\<lparr>cc_status := Sold,
      sold_at := Some t, sold_to_customer_id := Some (cp_customer plan)\<rparr>) (charge_codes d)"
    using ins 1(4,7) by simp
  have "int (count_available_codes (cp_package plan) d1) =
      int (count_available_codes (cp_package plan) d) - 1"
    using count_available_update [OF wf look codes [unfolded 1(4)]] mem(2)
    by (simp add: is_available_def)
  then show ?thesis
    using sel look wf 1(4,5,7) ins fetch_one_inserted [OF 1(6)]
    by (intro that [of code oid])
      (simp_all add: codes codes.lookup_update_id codes.update_id_wf charge_order_row_def)
qed

lemma link_keeps_stock:
  assumes "wf_table cc_id (charge_codes d)" and "lookup cc_id i (charge_codes d) = Some c"
  shows "count_available_codes pid (upd_code i (\<lambda>cc. cc\<lparr>sold_order_id := x\<rparr>) d) =
    count_available_codes pid d"
proof -
  have "charge_codes (upd_code i (\<lambda>cc. cc\<lparr>sold_order_id := x\<rparr>) d) =
      update_id cc_id i (\<lambda>cc. cc\<lparr>sold_order_id := x\<rparr>) (charge_codes d)" by simp
  from count_available_update [OF assms this, of pid] show ?thesis
    by (simp add: is_available_def)
qed

text \<open>
  Buying one code. Either nothing changes, or the available code with the lowest
  number is delivered: it is marked as sold to this customer and linked to the new order,
  which is complete at once and carries the code; the wallet held the price and loses exactly
  the price, and the stock of the product shrinks by one.
\<close>

theorem purchase_charge_spec:
  assumes wf: "wf_table cc_id (charge_codes d)"
  shows "case purchase_charge m rid pid cid d of
     (Inl e, d') \<Rightarrow> d' = d \<and> e \<noteq> RuntimeError
   | (Inr delivery, d') \<Rightarrow>
       (\<exists>code code'. select_available pid 1 d = [code]
          \<and> cd_code delivery = cc_code code
          \<and> delivered_charge_code (cd_order delivery) = Some (cc_code code)
          \<and> lookup cc_id (cc_id code) (charge_codes d') = Some code'
          \<and> sold_like cid code code' \<and> sold_order_id code' = Some (o_id (cd_order delivery)))
       \<and> trows (orders d') = trows (orders d) @ [cd_order delivery]
       \<and> o_status (cd_order delivery) = Activated \<and> o_type (cd_order delivery) = ChargeOrder
       \<and> map_option sale_price (lookup p_id pid (packages d)) =
           Some (package_price (cd_order delivery))
       \<and> package_price (cd_order delivery) \<le> customer_balance cid d
       \<and> (\<forall>any. customer_balance any d' = customer_balance any d -
            (if any = cid then package_price (cd_order delivery) else 0))
       \<and> count_available_codes pid d = count_available_codes pid d' + 1"
proof (cases "charge_checks rid pid cid d")
  case (Inl e)
  then show ?thesis
    by (auto simp: purchase_charge_def charge_checks_def split: if_splits option.splits)
next
  case (Inr plan)
  then have plan: "cp_package plan = pid" "cp_customer plan = cid" "\<not> customer_blacklisted rid cid d"
      "map_option sale_price (lookup p_id pid (packages d)) = Some (cp_price plan)"
    by (auto simp: charge_checks_def split: if_splits option.splits)
  show ?thesis
  proof (cases "cp_prefix plan")
    case None
    with Inr show ?thesis by (simp add: purchase_charge_def)
  next
    case (Some prefix)
    let ?oc = "generate_charge_order_code prefix None m"
    show ?thesis
    proof (cases "purchase_charge_tx (m_now m) ?oc plan d")
      case (Pair res d1)
      show ?thesis
      proof (cases res)
        case e: (Inl e)
        from Pair e have "e \<noteq> RuntimeError"
          by (auto simp: purchase_charge_tx_def transaction_Inl_iff insert_order_def
              split: option.splits if_splits list.splits prod.splits sum.splits)
        with Inr Some Pair e charge_tx_InlD(1) [of "m_now m" ?oc plan d e d1] show ?thesis
          by (simp add: purchase_charge_def)
      next
        case i: (Inr iv)
        obtain i v where iv: "iv = (i, v)" by (cases iv)
        with Pair i have tx: "purchase_charge_tx (m_now m) ?oc plan d = (Inr (i, v), d1)" by simp
        show ?thesis
        proof (rule charge_tx_stock [OF wf tx])
          fix code oid
          let ?row = "(charge_order_row plan (m_now m) ?oc v)\<lparr>o_id := oid\<rparr>"
          assume stock: "select_available (cp_package plan) 1 d = [code]" "i = cc_id code"
              "v = cc_code code" "trows (orders d1) = trows (orders d) @ [?row]"
            and fetched: "fetch_one (\<lambda>r. order_code r = ?oc) (orders d1) = Some ?row"
            and sold: "lookup cc_id i (charge_codes d1) = Some (code\<lparr>cc_status := Sold,
              sold_at := Some (m_now m), sold_to_customer_id := Some (cp_customer plan)\<rparr>)"
            and count: "count_available_codes (cp_package plan) d =
              count_available_codes (cp_package plan) d1 + 1"
            and wf1: "wf_table cc_id (charge_codes d1)"
          have run: "purchase_charge m rid pid cid d = (Inr \<lparr>cd_order = ?row, cd_code = v\<rparr>,
              upd_code i (\<lambda>cc. cc\<lparr>sold_order_id := Some oid\<rparr>) d1)"
            using Inr Some tx fetched by (simp add: purchase_charge_def charge_order_row_def)
          have req: "run_charge_request (BuyOne (m_now m) ?oc plan) d = (Inr [i], d1)"
            using tx by simp
          show ?thesis
            unfolding run
            using request_accepted [OF req] stock sold count plan link_keeps_stock [OF wf1 sold]
            by (simp add: sold_like_def charge_order_row_def codes.lookup_update_id)
        qed
      qed
    qed
  qed
qed

lemma purchase_charge_spec_witness:
  "\<exists>x d'. purchase_charge (demo_moments 0) 1 1 1 demo_charge_db = (Inr x, d') \<and> cd_code x = ''1111''
     \<and> customer_balance 1 d' = 400 \<and> count_available_codes 1 d' = 2"
proof -
  have "\<not> isl (fst (purchase_charge (demo_moments 0) 1 1 1 demo_charge_db))"
    "cd_code (projr (fst (purchase_charge (demo_moments 0) 1 1 1 demo_charge_db))) = ''1111''"
    "map_option sale_price (lookup p_id 1 (packages demo_charge_db)) = Some 100"
    "count_available_codes 1 demo_charge_db = 3" "customer_balance 1 demo_charge_db = 500"
    by code_simp+
  moreover from this(1) obtain x d' where "purchase_charge (demo_moments 0) 1 1 1 demo_charge_db = (Inr x, d')"
    using outcome_ok by blast
  ultimately show ?thesis
    using purchase_charge_spec [OF demo_charge_db_wf, where m = "demo_moments 0" and rid = 1 and pid = 1 and cid = 1] by auto
qed

text \<open>The stock after a bulk delivery.\<close>

lemma deliver_codes_count:
  assumes "deliver_codes ms plan seq cs d = (Inr ds, d')" and "wf_table cc_id (charge_codes d)"
    and "set cs \<subseteq> set (trows (charge_codes d))" and "distinct (map cc_id cs)"
    and "\<forall>c \<in> set cs. is_available pid c"
  shows "count_available_codes pid d = count_available_codes pid d' + length cs"
  using assms
proof (induction cs arbitrary: seq d ds)
  case (Cons c cs)
  from Cons.prems(1) show ?case
  proof (cases rule: deliver_codes_Cons)
    case (1 prefix oid d1 ds')
    let ?f = "\<lambda>cc. cc\<lparr>cc_status := Sold, sold_at := Some (m_now (ms seq)),
        sold_to_customer_id := Some (cp_customer plan), sold_order_id := Some oid\<rparr>"
    let ?d = "upd_code (cc_id c) ?f d1"
    have codes: "charge_codes ?d = update_id cc_id (cc_id c) ?f (charge_codes d)"
      using insert_order_frame [OF 1(2)] by simp
    have "lookup cc_id (cc_id c) (charge_codes d) = Some c"
      using Cons.prems(2,3) by (simp add: codes.lookup_iff)
    from count_available_update [OF Cons.prems(2) this codes, of pid] Cons.prems(5)
    have "int (count_available_codes pid ?d) = int (count_available_codes pid d) - 1"
      by (simp add: is_available_def)
    moreover have "set cs \<subseteq> set (trows (charge_codes ?d))"
      using Cons.prems(3,4) insert_order_frame(1) [OF 1(2)] by (auto simp: update_id_trows image_iff)
    moreover have "wf_table cc_id (charge_codes ?d)"
      using Cons.prems(2) insert_order_frame(1) [OF 1(2)] by (simp add: codes.update_id_wf)
    ultimately show ?thesis
      using Cons.IH [OF 1(3)] Cons.prems(4,5) by simp
  qed
qed simp

text \<open>
  Property C1: buying several codes is all or nothing. A refused purchase leaves no trace,
  whatever turn of its loop failed. An accepted one delivers the \<open>n\<close> available codes with the
  lowest numbers, one order for each at the unit price, all of them sold to this customer;
  the wallet loses \<open>n\<close> times the price, which it held, and the stock shrinks by \<open>n\<close>.
\<close>

theorem purchase_charge_bulk_spec:
  assumes wf: "wf_table cc_id (charge_codes d)"
  shows "case purchase_charge_bulk ms rid pid cid n d of
     (Inl e, d') \<Rightarrow> d' = d
   | (Inr receipt, d') \<Rightarrow>
       (let codes = select_available pid (nat n) d in
        1 \<le> n \<and> length codes = nat n
        \<and> map dl_code (br_orders receipt) = map cc_code codes
        \<and> cc_id ` set codes \<subseteq> {i. code_state i d' = Some Sold}
        \<and> map_option sale_price (lookup p_id pid (packages d)) = Some (br_unit_price receipt)
        \<and> br_total_price receipt = br_unit_price receipt * n
        \<and> br_total_price receipt \<le> customer_balance cid d
        \<and> (\<forall>any. customer_balance any d' = customer_balance any d -
             (if any = cid then br_total_price receipt else 0))
        \<and> (\<exists>rows. trows (orders d') = trows (orders d) @ rows
             \<and> map order_code rows = map dl_order_code (br_orders receipt)
             \<and> map delivered_charge_code rows = map (Some \<circ> cc_code) codes
             \<and> map package_price rows = replicate (nat n) (br_unit_price receipt))
        \<and> count_available_codes pid d = count_available_codes pid d' + nat n)"
proof (cases "purchase_charge_bulk ms rid pid cid n d")
  case (Pair res d')
  show ?thesis
  proof (cases res)
    case (Inl e)
    with Pair show ?thesis
      by (auto simp: purchase_charge_bulk_def dest: charge_tx_InlD(2)
          split: if_splits sum.splits prod.splits)
  next
    case (Inr receipt)
    with Pair obtain plan ids ds where n: "1 \<le> n" and checks: "charge_checks rid pid cid d = Inr plan"
      and tx: "purchase_charge_bulk_tx ms plan (nat n) d = (Inr (ids, ds), d')"
      and receipt: "receipt = \<lparr>br_orders = ds, br_total_price = cp_price plan * n,
        br_unit_price = cp_price plan, br_quantity = n\<rparr>"
      by (auto simp: purchase_charge_bulk_def split: if_splits sum.splits prod.splits)
    from checks have plan: "cp_package plan = pid" "cp_customer plan = cid"
        "map_option sale_price (lookup p_id pid (packages d)) = Some (cp_price plan)"
      by (auto simp: charge_checks_def split: if_splits option.splits)
    have req: "run_charge_request (BuyMany ms plan (nat n)) d = (Inr ids, d')" using tx by simp
    from tx show ?thesis
    proof (cases rule: charge_bulk_tx_InrD)
      case (1 c)
      let ?codes = "select_available pid (nat n) d"
      have mem: "set ?codes \<subseteq> set (trows (charge_codes d))" "\<forall>c \<in> set ?codes. is_available pid c"
        using select_available_mem [of _ pid "nat n" d] by auto
      have sold: "cc_id ` set ?codes \<subseteq> {i. code_state i d' = Some Sold}"
        using request_stock [OF wf req] 1(3) by (auto simp: plan)
      have "map dl_code ds = map cc_code ?codes" using deliver_codes_frame [OF 1(5)] by (simp add: plan)
      moreover from this have "map (Some \<circ> dl_code) ds = map (Some \<circ> cc_code) ?codes"
        by (simp flip: map_map)
      ultimately show ?thesis
        using n request_accepted [OF req] deliver_codes_orders [OF 1(5)] 1(4) plan sold
          deliver_codes_count [OF 1(5), of pid] wf mem select_available_distinct [OF wf, of pid "nat n"]
        by (auto simp: Pair Inr receipt Let_def count_available_codes_def)
    qed
  qed
qed

lemma purchase_charge_bulk_spec_witness:
  "\<exists>x d'. purchase_charge_bulk demo_moments 1 1 1 2 demo_charge_db = (Inr x, d')
     \<and> map dl_code (br_orders x) = [''1111'', ''2222'']
     \<and> customer_balance 1 d' = 300 \<and> count_available_codes 1 d' = 1"
proof -
  have "\<not> isl (fst (purchase_charge_bulk demo_moments 1 1 1 2 demo_charge_db))"
    "map cc_code (select_available 1 2 demo_charge_db) = [''1111'', ''2222'']"
    "map_option sale_price (lookup p_id 1 (packages demo_charge_db)) = Some 100"
    "count_available_codes 1 demo_charge_db = 3" "customer_balance 1 demo_charge_db = 500"
    by code_simp+
  moreover from this(1) obtain x d'
    where "purchase_charge_bulk demo_moments 1 1 1 2 demo_charge_db = (Inr x, d')"
    using outcome_ok by blast
  ultimately show ?thesis
    using purchase_charge_bulk_spec [OF demo_charge_db_wf, where ms = demo_moments and rid = 1
        and pid = 1 and cid = 1 and n = 2] by (auto simp: Let_def)
qed

section \<open>Adding codes\<close>

text \<open>
  The lines of a text without surrounding white space, each non-empty one at its first place
  only; and the rows of codes that are for sale, with consecutive numbers.
\<close>

definition code_lines :: "string \<Rightarrow> string list" where
  "code_lines raw_text = rev (remdups (rev (filter (\<lambda>l. l \<noteq> []) (map strip (splitlines raw_text)))))"

definition stock_rows :: "time \<Rightarrow> nat \<Rightarrow> nat \<Rightarrow> nat \<Rightarrow> string list \<Rightarrow> charge_code list" where
  "stock_rows t rid pid i cs = map (\<lambda>(i, c).
     \<lparr>cc_id = i, cc_reseller_id = rid, cc_package_id = pid, cc_code = c, cc_status = Available,
      added_at = t, sold_at = None, sold_to_customer_id = None, sold_order_id = None\<rparr>) (enumerate i cs)"

lemma remdups_snoc: "remdups (xs @ [x]) = filter (\<lambda>y. y \<noteq> x) (remdups xs) @ [x]"
  by (induction xs) auto

lemma clean_lines_firsts:
  "clean_lines seen ls =
     filter (\<lambda>l. l \<notin> seen) (rev (remdups (rev (filter (\<lambda>l. l \<noteq> []) (map strip ls)))))"
  by (induction ls arbitrary: seen)
    (auto simp: Let_def remdups_snoc rev_filter intro!: filter_cong)

lemma insert_codes_stock:
  assumes "lookup r_id rid (resellers d) \<noteq> None" and "lookup p_id pid (packages d) \<noteq> None"
  shows "insert_codes t rid pid cs d =
    (Inr (), d\<lparr>charge_codes := \<lparr>trows = trows (charge_codes d) @ stock_rows t rid pid (auto_inc (charge_codes d)) cs,
       auto_inc = auto_inc (charge_codes d) + length cs\<rparr>\<rparr>)"
  using assms
  by (induction cs arbitrary: d) (simp_all add: insert_code_def insert_row_def stock_rows_def)

text \<open>
  Property C35: the stock grows by the lines that were typed. Whatever the text is, one new row per
  distinct non-empty line is appended in the order of the lines, with the line without its
  white space as the code, for the given shop and product, available and not sold; their number is
  reported and nothing else of the database has changed. A code that is in stock already is added
  again. Without the shop or the product a text with a code is refused and changes nothing.
\<close>

theorem added_codes_are_the_lines:
  "add_charge_codes t rid pid raw_text d =
     (let new = code_lines raw_text; stock = charge_codes d
      in if new \<noteq> [] \<and> (lookup r_id rid (resellers d) = None \<or> lookup p_id pid (packages d) = None)
         then (Inl IntegrityError, d)
         else (Inr (length new), d\<lparr>charge_codes :=
           \<lparr>trows = trows stock @ stock_rows t rid pid (auto_inc stock) new,
            auto_inc = auto_inc stock + length new\<rparr>\<rparr>))"
proof -
  have cleaned: "clean_lines {} (splitlines raw_text) = code_lines raw_text"
    by (simp add: clean_lines_firsts code_lines_def)
  show ?thesis
  proof (cases "lookup r_id rid (resellers d) = None \<or> lookup p_id pid (packages d) = None")
    case True
    moreover have "d\<lparr>charge_codes := \<lparr>trows = trows (charge_codes d), auto_inc = auto_inc (charge_codes d)\<rparr>\<rparr> = d" by simp
    ultimately show ?thesis
      by (cases "code_lines raw_text")
        (auto simp: add_charge_codes_def cleaned insert_code_def stock_rows_def Let_def)
  next
    case False
    then show ?thesis by (auto simp: add_charge_codes_def cleaned insert_codes_stock Let_def)
  qed
qed

text \<open>
  The reseller's deletions never touch what was sold. After deleting one code or
  clearing a product, the sold codes of every product are the same, and clearing removes
  exactly as many codes as it reports.
\<close>

theorem deletions_keep_sold_codes:
  "fetch_all (\<lambda>c. cc_status c = Sold) (charge_codes (delete_available_code i d)) =
     fetch_all (\<lambda>c. cc_status c = Sold) (charge_codes d)
   \<and> fetch_all (\<lambda>c. cc_status c = Sold) (charge_codes (snd (clear_available_codes pid d))) =
     fetch_all (\<lambda>c. cc_status c = Sold) (charge_codes d)
   \<and> length (trows (charge_codes (snd (clear_available_codes pid d))))
       + fst (clear_available_codes pid d) = length (trows (charge_codes d))
   \<and> count_available_codes pid (snd (clear_available_codes pid d)) = 0"
proof (intro conjI)
  show "length (trows (charge_codes (snd (clear_available_codes pid d))))
       + fst (clear_available_codes pid d) = length (trows (charge_codes d))"
    using sum_length_filter_compl [of "is_available pid" "trows (charge_codes d)"]
    by (simp add: clear_available_codes_def delete_rows_def count_available_codes_def count_rows_def)
  show "count_available_codes pid (snd (clear_available_codes pid d)) = 0"
    by (simp add: clear_available_codes_def delete_rows_def count_available_codes_def count_rows_def)
qed (auto simp: fetch_all_def delete_available_code_def clear_available_codes_def delete_rows_def
    is_available_def intro: filter_cong)

end
