(* ===== verification/Disputes.thy ===== *)
theory Disputes
  imports Orders Charges
begin

text \<open>
  Disputes (\<^verbatim>\<open>services/dispute_service.py\<close>): the reseller asks for the commission of a fake
  receipt back, the super admin approves or rejects. An approval is a sequence of separate
  commits: the refund, the dispute, the order, and the automatic block of the customer.
\<close>

section \<open>Operations\<close>

definition upd_dispute :: "nat \<Rightarrow> (dispute \<Rightarrow> dispute) \<Rightarrow> db \<Rightarrow> db" where
  "upd_dispute i f d = d\<lparr>disputes := update_id d_id i f (disputes d)\<rparr>"

definition create_dispute :: "nat \<Rightarrow> nat \<Rightarrow> string \<Rightarrow> db \<Rightarrow> (db, nat) outcome" where
  "create_dispute oid rid reason d =
     (let d1 = upd_order oid (\<lambda>r. r\<lparr>o_status := RefundPending\<rparr>) d in
      if lookup o_id oid (orders d1) = None \<or> lookup r_id rid (resellers d1) = None
      then (Inl IntegrityError, d1)
      else (Inr (auto_inc (disputes d1)),
            d1\<lparr>disputes := insert_row dispute_with_id
                \<lparr>d_id = 0, d_order_id = oid, d_reseller_id = rid, d_reason = reason,
                 d_review_status = ReviewPending, refunded_amount = None, reviewed_at = None\<rparr>
                (disputes d1)\<rparr>))"

text \<open>What an approval writes after the refund has been committed.\<close>

definition approve_dispute_record :: "time \<Rightarrow> dispute \<Rightarrow> order \<Rightarrow> db \<Rightarrow> db" where
  "approve_dispute_record t di ord d =
     (let d1 = upd_dispute (d_id di) (\<lambda>x. x\<lparr>d_review_status := ReviewApproved,
                 refunded_amount := Some (commission_amount ord), reviewed_at := Some t\<rparr>) d;
          d2 = upd_order (o_id ord) (\<lambda>r. r\<lparr>o_status := Refunded\<rparr>) d1
      in case lookup c_id (o_customer_id ord) (customers d2) of
           None \<Rightarrow> d2
         | Some c \<Rightarrow> snd (maybe_auto_blacklist (c_telegram_user_id c) d2))"

definition approve_dispute :: "time \<Rightarrow> nat \<Rightarrow> db \<Rightarrow> (db, unit) outcome" where
  "approve_dispute t did d =
     (case lookup d_id did (disputes d) of
        None \<Rightarrow> (Inl (ValueError DisputeNotFound), d)
      | Some di \<Rightarrow>
          (case lookup o_id (d_order_id di) (orders d) of
             None \<Rightarrow> (Inl TypeError, d)
           | Some ord \<Rightarrow>
               (case refund_commission (d_reseller_id di) (dec (commission_amount ord))
                       (order_code ord) d of
                  (Inl e, d1) \<Rightarrow> (Inl e, d1)
                | (Inr _, d1) \<Rightarrow> (Inr (), approve_dispute_record t di ord d1))))"

definition reject_dispute :: "time \<Rightarrow> nat \<Rightarrow> db \<Rightarrow> db" where
  "reject_dispute t did = upd_dispute did (\<lambda>x.
     x\<lparr>d_review_status := ReviewRejected, reviewed_at := Some t\<rparr>)"

section \<open>Elementary facts\<close>

lemma upd_dispute_simps [simp]:
  "resellers (upd_dispute i f d) = resellers d" "orders (upd_dispute i f d) = orders d"
  "customers (upd_dispute i f d) = customers d"
  "wallet_transactions (upd_dispute i f d) = wallet_transactions d"
  "blacklist (upd_dispute i f d) = blacklist d"
  "disputes (upd_dispute i f d) = update_id d_id i f (disputes d)"
  by (simp_all add: upd_dispute_def)

lemma disputes_upd_order [simp]: "disputes (upd_order i f d) = disputes d"
  by (simp add: upd_order_def)

lemma maybe_auto_blacklist_frame [simp]:
  "resellers (snd (maybe_auto_blacklist u d)) = resellers d"
  "orders (snd (maybe_auto_blacklist u d)) = orders d"
  "customers (snd (maybe_auto_blacklist u d)) = customers d"
  "disputes (snd (maybe_auto_blacklist u d)) = disputes d"
  "wallet_transactions (snd (maybe_auto_blacklist u d)) = wallet_transactions d"
  by (simp_all add: maybe_auto_blacklist_def Let_def)

lemma approve_record_frame [simp]:
  "resellers (approve_dispute_record t di ord d) = resellers d"
  "wallet_transactions (approve_dispute_record t di ord d) = wallet_transactions d"
  "customers (approve_dispute_record t di ord d) = customers d"
  "orders (approve_dispute_record t di ord d) =
     update_id o_id (o_id ord) (\<lambda>r. r\<lparr>o_status := Refunded\<rparr>) (orders d)"
  "disputes (approve_dispute_record t di ord d) =
     update_id d_id (d_id di) (\<lambda>x. x\<lparr>d_review_status := ReviewApproved,
       refunded_amount := Some (commission_amount ord), reviewed_at := Some t\<rparr>) (disputes d)"
  by (simp_all add: approve_dispute_record_def Let_def split: option.split)

lemma balance_of_cong: "resellers d' = resellers d \<Longrightarrow> balance_of rid d' = balance_of rid d"
  by (simp add: balance_of_def)

lemma ledger_of_cong:
  "wallet_transactions d' = wallet_transactions d \<Longrightarrow> ledger_of rid d' = ledger_of rid d"
  by (simp add: ledger_of_def)

text \<open>An approval whose rows exist.\<close>

lemma approve_effect:
  assumes di: "lookup d_id did (disputes d) = Some di"
    and ord: "lookup o_id (d_order_id di) (orders d) = Some ord"
    and r: "lookup r_id (d_reseller_id di) (resellers d) = Some r"
  obtains d' where "approve_dispute t did d = (Inr (), d')"
    and "lookup d_id did (disputes d') = Some (di\<lparr>d_review_status := ReviewApproved,
           refunded_amount := Some (commission_amount ord), reviewed_at := Some t\<rparr>)"
    and "lookup o_id (d_order_id di) (orders d') = Some (ord\<lparr>o_status := Refunded\<rparr>)"
    and "lookup r_id (d_reseller_id di) (resellers d') =
           Some (r\<lparr>wallet_credit_balance := wallet_credit_balance r + commission_amount ord\<rparr>)"
    and "ledger_of (d_reseller_id di) d' = ledger_of (d_reseller_id di) d + commission_amount ord"
    and "customers d' = customers d"
    and "balance_of (d_reseller_id di) d' = wallet_credit_balance r + commission_amount ord"
proof -
  have ids: "d_id di = did" "o_id ord = d_order_id di"
    using di ord by (auto dest: disputes.lookup_SomeD orders.lookup_SomeD)
  have b: "store (dec (wallet_credit_balance r) + dec (commission_amount ord)) =
      wallet_credit_balance r + commission_amount ord"
    using store_dec [of "wallet_credit_balance r + commission_amount ord"] by (simp add: dec_arith)
  obtain d1 where d1: "refund_commission (d_reseller_id di) (dec (commission_amount ord))
        (order_code ord) d = (Inr (), d1)"
      "lookup r_id (d_reseller_id di) (resellers d1) =
         Some (r\<lparr>wallet_credit_balance := wallet_credit_balance r + commission_amount ord\<rparr>)"
      "ledger_of (d_reseller_id di) d1 = ledger_of (d_reseller_id di) d + commission_amount ord"
      "same_elsewhere d d1"
    using r b
    by (intro that) (auto simp: refund_commission_def transaction_def Let_def
        resellers.lookup_update_id intro!: prod_eqI)
  show ?thesis
    using di ord ids d1 same_elsewhereD [OF d1(4)]
    by (intro that [of "approve_dispute_record t di ord d1"])
      (simp_all add: approve_dispute_def disputes.lookup_update_id orders.lookup_update_id
        balance_of_def ledger_of_cong [of "approve_dispute_record t di ord d1" d1])
qed

section \<open>Properties\<close>

text \<open>
  Approving a dispute gives the reseller exactly the commission that is stored
  with the order, on the balance and on the ledger, records the amount and marks dispute and
  order. But the status of the dispute is not looked at: a second approval (a second press of
  the button, or an approval after a rejection) pays the commission out again.
\<close>

theorem approve_dispute_pays_each_time:
  assumes di: "lookup d_id did (disputes d) = Some di"
    and ord: "lookup o_id (d_order_id di) (orders d) = Some ord"
    and r: "lookup r_id (d_reseller_id di) (resellers d) = Some r"
    and first: "approve_dispute t1 did d = (res1, d1)"
    and second: "approve_dispute t2 did d1 = (res2, d2)"
  shows "res1 = Inr () \<and> res2 = Inr ()
    \<and> balance_of (d_reseller_id di) d1 = wallet_credit_balance r + commission_amount ord
    \<and> ledger_of (d_reseller_id di) d1 = ledger_of (d_reseller_id di) d + commission_amount ord
    \<and> map_option d_review_status (lookup d_id did (disputes d1)) = Some ReviewApproved
    \<and> map_option refunded_amount (lookup d_id did (disputes d1)) = Some (Some (commission_amount ord))
    \<and> map_option o_status (lookup o_id (d_order_id di) (orders d1)) = Some Refunded
    \<and> balance_of (d_reseller_id di) d2 = wallet_credit_balance r + 2 * commission_amount ord"
proof -
  obtain d1' where 1: "approve_dispute t1 did d = (Inr (), d1')"
    "lookup d_id did (disputes d1') = Some (di\<lparr>d_review_status := ReviewApproved,
       refunded_amount := Some (commission_amount ord), reviewed_at := Some t1\<rparr>)"
    "lookup o_id (d_order_id di) (orders d1') = Some (ord\<lparr>o_status := Refunded\<rparr>)"
    "lookup r_id (d_reseller_id di) (resellers d1') =
       Some (r\<lparr>wallet_credit_balance := wallet_credit_balance r + commission_amount ord\<rparr>)"
    "ledger_of (d_reseller_id di) d1' = ledger_of (d_reseller_id di) d + commission_amount ord"
    by (rule approve_effect [OF di ord r, of t1]) assumption
  have "d1' = d1" using 1(1) first by simp
  note 1 = 1 [unfolded this]
  obtain d2' where 2: "approve_dispute t2 did d1 = (Inr (), d2')"
    "balance_of (d_reseller_id di) d2' =
       wallet_credit_balance r + commission_amount ord + commission_amount ord"
    by (rule approve_effect [OF 1(2), of _ _ t2, simplified, OF 1(3,4)]) simp
  show ?thesis
    using 1 2 first second by (simp add: balance_of_def)
qed

definition demo_dispute_db :: db where
  "demo_dispute_db = demo_order_db\<lparr>
     orders := \<lparr>trows = [demo_order\<lparr>o_status := RefundPending, commission_amount := 50000\<rparr>], auto_inc = 2\<rparr>,
     disputes := \<lparr>trows = [\<lparr>d_id = 1, d_order_id = 1, d_reseller_id = 1, d_reason = ''fake'',
       d_review_status = ReviewPending, refunded_amount = None, reviewed_at = None\<rparr>], auto_inc = 2\<rparr>\<rparr>"

lemma approve_dispute_pays_each_time_witness:
  "balance_of 1 (snd (approve_dispute 5 1 demo_dispute_db)) = 150000
   \<and> balance_of 1 (snd (approve_dispute 6 1 (snd (approve_dispute 5 1 demo_dispute_db)))) = 200000"
proof -
  let ?di = "hd (trows (disputes demo_dispute_db))" and ?o = "hd (trows (orders demo_dispute_db))"
  have rows: "lookup d_id 1 (disputes demo_dispute_db) = Some ?di"
      "lookup o_id (d_order_id ?di) (orders demo_dispute_db) = Some ?o"
      "lookup r_id (d_reseller_id ?di) (resellers demo_dispute_db) = Some demo_reseller"
    using demo_order_db_rows(2) by (simp_all add: demo_dispute_db_def lookup_def)
  have vals: "d_reseller_id ?di = 1" "commission_amount ?o = 50000"
    by (simp_all add: demo_dispute_db_def)
  show ?thesis
    using approve_dispute_pays_each_time [OF rows, of 5 "fst (approve_dispute 5 1 demo_dispute_db)"
        "snd (approve_dispute 5 1 demo_dispute_db)" 6
        "fst (approve_dispute 6 1 (snd (approve_dispute 5 1 demo_dispute_db)))"
        "snd (approve_dispute 6 1 (snd (approve_dispute 5 1 demo_dispute_db)))"] vals
    by (simp del: One_nat_def)
qed

text \<open>
  The way from a receipt to a refund. When a receipt was submitted for an order,
  the commission was charged, and the dispute about the order is then approved, the reseller
  is back at the old balance, up to one hundredth from the two roundings. When instead the
  credit did not suffice and nothing was charged, the same way ends with the reseller above
  the old balance, by the commission that was never paid.
\<close>

theorem charge_then_refund:
  assumes ord: "lookup o_id oid (orders d) = Some ord"
    and r: "lookup r_id (o_reseller_id ord) (resellers d) = Some r"
    and below: "count_pending_orders (o_customer_id ord) d < MAX_PENDING_ORDERS_PER_CUSTOMER cfg"
    and paying: "\<not> test_mode_enabled r"
    and a: "a = commission_on (package_price ord) (commission_percent r)"
    and submit: "d1 = snd (submit_receipt cfg oid photo d)"
    and dispute: "create_dispute oid (o_reseller_id ord) reason d1 = (Inr did, d2)"
    and wf: "wf_db d"
    and approve: "d3 = snd (approve_dispute t did d2)"
  shows "(if dec (wallet_credit_balance r) - a < - dec (credit_limit_negative r)
      then balance_of (o_reseller_id ord) d3 = wallet_credit_balance r + store a
      else \<bar>balance_of (o_reseller_id ord) d3 - wallet_credit_balance r\<bar> \<le> 1)"
proof -
  have id: "o_id ord = oid" using ord by (auto dest: orders.lookup_SomeD)
  let ?plan = "receipt_plan_for ord r"
  have d1: "d1 = snd (submit_receipt_commit photo ?plan d)"
    by (simp add: submit submit_checks_ok [OF ord below r])
  note eff = submit_commit_effect [of ?plan d r photo, unfolded receipt_plan_for_simps(1), OF r,
      folded d1]
  obtain ord1 r1 where rows: "lookup o_id oid (orders d1) = Some ord1"
      "lookup r_id (o_reseller_id ord) (resellers d1) = Some r1"
      "commission_amount ord1 = store a" "wallet_credit_balance r1 =
        (if credit_exceeded ?plan r then wallet_credit_balance r
         else store (dec (wallet_credit_balance r) - a))"
    using eff(2,3) ord id paying a by (auto simp: mark_receipt_def orders.lookup_update_id)
  have "wf_table d_id (disputes d1)"
    using wf d1 submit_receipt_disputes [of cfg oid photo d] submit by (simp add: wf_dbD)
  then have di: "\<exists>di ord2. lookup d_id did (disputes d2) = Some di \<and> d_reseller_id di = o_reseller_id ord
      \<and> d_order_id di = oid
      \<and> lookup o_id (d_order_id di) (orders d2) = Some ord2 \<and> commission_amount ord2 = store a
      \<and> lookup r_id (d_reseller_id di) (resellers d2) = Some r1"
    using dispute rows
    by (auto simp: create_dispute_def Let_def disputes.lookup_insert orders.lookup_update_id
        split: if_splits)
  then obtain di ord2 where di: "lookup d_id did (disputes d2) = Some di"
      "d_reseller_id di = o_reseller_id ord" "lookup o_id (d_order_id di) (orders d2) = Some ord2"
      "commission_amount ord2 = store a" "lookup r_id (d_reseller_id di) (resellers d2) = Some r1"
    by blast
  obtain d3' where "approve_dispute t did d2 = (Inr (), d3')"
      "balance_of (d_reseller_id di) d3' = wallet_credit_balance r1 + commission_amount ord2"
    by (rule approve_effect [OF di(1,3,5), of t]) assumption
  then have final: "balance_of (o_reseller_id ord) d3 = wallet_credit_balance r1 + store a"
    using approve di by simp
  have "\<bar>store (dec (wallet_credit_balance r) - a) + store a - wallet_credit_balance r\<bar> \<le> 1"
    using store_diff_near [of "wallet_credit_balance r" a] by (simp add: store_minus)
  with final rows(4) paying a show ?thesis by (simp add: credit_exceeded_def)
qed

definition demo_disputed_db :: db where
  "demo_disputed_db = snd (submit_receipt default_config 1 ''photo'' demo_order_db)"

lemma charge_then_refund_witness:
  "\<bar>balance_of 1 (snd (approve_dispute 9 1 (snd (create_dispute 1 1 ''fake'' demo_disputed_db)))) - 100000\<bar> \<le> 1"
proof -
  have new: "create_dispute 1 (o_reseller_id demo_order) ''fake'' demo_disputed_db =
      (Inr 1, snd (create_dispute 1 1 ''fake'' demo_disputed_db))"
  proof -
    have "fst (create_dispute 1 1 ''fake'' demo_disputed_db) = Inr 1" by code_simp
    then show ?thesis by (simp add: prod_eq_iff)
  qed
  show ?thesis
    using charge_then_refund [OF demo_order_db_rows(1,2,5) _ refl demo_disputed_db_def new
        demo_order_db_wf refl, of 9]
    by (simp del: One_nat_def add: demo_commission flip: dec_arith(3,4))
qed

text \<open>
  An approval ends in the automatic block. When the third fake receipt of a
  customer is approved, every way to buy is closed to this customer in the shop of the
  order, whatever was on the blacklist before.
\<close>

theorem third_fake_receipt_blocks:
  assumes di: "lookup d_id did (disputes d) = Some di"
    and ord: "lookup o_id (d_order_id di) (orders d) = Some ord"
    and r: "lookup r_id (d_reseller_id di) (resellers d) = Some r"
    and c: "lookup c_id (o_customer_id ord) (customers d) = Some c"
    and d': "d' = snd (approve_dispute t did d)"
    and third: "3 \<le> count_confirmed_fake_receipts (c_telegram_user_id c) d'"
  shows "create_order m rid pid (o_customer_id ord) phone d' = (Inl CustomerBlacklistedError, d')
    \<and> create_order_paid_by_wallet m rid pid (o_customer_id ord) phone d' =
        (Inl CustomerBlacklistedError, d')
    \<and> purchase_charge m rid pid (o_customer_id ord) d' = (Inl ChargeCustomerBlacklistedError, d')"
proof -
  obtain d1 where refund: "refund_commission (d_reseller_id di) (dec (commission_amount ord))
      (order_code ord) d = (Inr (), d1)"
    using r by (auto simp: refund_commission_def transaction_def Let_def)
  have d1: "customers d1 = customers d"
    using refund r by (auto simp: refund_commission_def transaction_def Let_def upd_reseller_def insert_tx_def)
  let ?d2 = "upd_order (o_id ord) (\<lambda>r. r\<lparr>o_status := Refunded\<rparr>) (upd_dispute (d_id di)
      (\<lambda>x. x\<lparr>d_review_status := ReviewApproved, refunded_amount := Some (commission_amount ord),
             reviewed_at := Some t\<rparr>) d1)"
  have d'2: "d' = snd (maybe_auto_blacklist (c_telegram_user_id c) ?d2)"
    using di ord refund c d1 by (simp add: d' approve_dispute_def approve_dispute_record_def Let_def)
  have count: "count_confirmed_fake_receipts u (snd (maybe_auto_blacklist u ?d2)) =
      count_confirmed_fake_receipts u ?d2" for u
    by (simp add: count_confirmed_fake_receipts_def cong: option.case_cong)
  have "is_blacklisted (c_telegram_user_id c) (Some rid) d'"
  proof (cases "is_blacklisted (c_telegram_user_id c) None ?d2")
    case True
    then show ?thesis
      by (auto simp: d'2 maybe_auto_blacklist_def Let_def is_blacklisted_add is_blacklisted_iff)
  next
    case False
    with third [unfolded d'2 count] show ?thesis
      by (simp add: d'2 maybe_auto_blacklist_def AUTO_BLACKLIST_THRESHOLD_def Let_def
          is_blacklisted_add)
  qed
  moreover have "lookup c_id (o_customer_id ord) (customers d') = Some c"
    using c d1 by (simp add: d'2)
  ultimately have "customer_blacklisted rid (o_customer_id ord) d'"
    by (simp add: customer_blacklisted_def)
  then show ?thesis
    by (simp add: order_guard.guard wallet_order_guard.guard charge_guard.guard)
qed

definition demo_third_db :: db where
  "demo_third_db = demo_dispute_db\<lparr>disputes := \<lparr>trows =
     map (\<lambda>(i, st). \<lparr>d_id = i, d_order_id = 1, d_reseller_id = 1, d_reason = ''fake'',
       d_review_status = st, refunded_amount = None, reviewed_at = None\<rparr>)
     [(1, ReviewPending), (2, ReviewApproved), (3, ReviewApproved)], auto_inc = 4\<rparr>\<rparr>"

lemma third_fake_receipt_blocks_witness:
  "fst (create_order demo_moment 1 1 1 None (snd (approve_dispute 9 1 demo_third_db))) =
     Inl CustomerBlacklistedError"
proof -
  let ?di = "hd (trows (disputes demo_third_db))" and ?o = "hd (trows (orders demo_third_db))"
  have rows: "lookup d_id 1 (disputes demo_third_db) = Some ?di"
      "lookup o_id (d_order_id ?di) (orders demo_third_db) = Some ?o"
      "lookup r_id (d_reseller_id ?di) (resellers demo_third_db) = Some demo_reseller"
      "lookup c_id (o_customer_id ?o) (customers demo_third_db) = Some demo_customer"
      "o_customer_id ?o = 1"
    using demo_order_db_rows(2,3) by (simp_all add: demo_third_db_def demo_dispute_db_def lookup_def)
  have "3 \<le> count_confirmed_fake_receipts (c_telegram_user_id demo_customer)
      (snd (approve_dispute 9 1 demo_third_db))"
    by code_simp
  from third_fake_receipt_blocks [OF rows(1-4) refl this, of demo_moment 1 1 None] rows(5)
  show ?thesis by simp
qed

text \<open>
  Property C34: a global block holds everywhere. Once the super admin has blocked a user
  globally, and whatever is reported afterwards, no customer record of this user can order,
  pay from the wallet or buy charge codes, one or many, in any shop.
\<close>

theorem global_block_closes_every_purchase:
  assumes "lookup c_id cid (customers d) = Some c"
    and "d' = fold (\<lambda>(v, why, rep, g). add_to_blacklist v why rep g) reports
           (add_to_blacklist (c_telegram_user_id c) reason reporter True d)"
  shows "create_order m rid pid cid phone d' = (Inl CustomerBlacklistedError, d')
    \<and> create_order_paid_by_wallet m rid pid cid phone d' = (Inl CustomerBlacklistedError, d')
    \<and> purchase_charge m rid pid cid d' = (Inl ChargeCustomerBlacklistedError, d')
    \<and> purchase_charge_bulk ms rid pid cid (1 + int n) d' = (Inl ChargeCustomerBlacklistedError, d')"
  using order_guard.refused_after_global_block [OF assms]
    wallet_order_guard.refused_after_global_block [OF assms]
    charge_guard.refused_after_global_block [OF assms]
    charge_bulk_guard.refused_after_global_block [OF assms]
  by blast

lemma global_block_closes_every_purchase_witness:
  "fst (create_order demo_moment 1 1 1 None
     (add_to_blacklist (c_telegram_user_id demo_customer) ''fraud'' None True demo_order_db)) =
   Inl CustomerBlacklistedError"
  using global_block_closes_every_purchase [OF demo_order_db_rows(3), of _ "[]" "''fraud''" None]
  by simp

end
