(* ===== verification/Access.thy ===== *)
theory Access
  imports Disputes
begin

text \<open>
  Who may act on orders: the middleware \<^verbatim>\<open>core/permissions_middleware.py\<close>, the owner and
  operator checks of \<^verbatim>\<open>handlers/reseller/start.py\<close> and \<^verbatim>\<open>handlers/operator/orders.py\<close>, and
  the actions of \<^verbatim>\<open>handlers/reseller/orders.py\<close> that run behind the middleware. The
  messages to Telegram are left out; what remains of an action is what it does to the
  database and whether an exception leaves it.
\<close>

section \<open>The checks\<close>

definition is_reseller_owner :: "int \<Rightarrow> nat \<Rightarrow> db \<Rightarrow> bool" where
  "is_reseller_owner user rid d \<longleftrightarrow>
     fetch_one (\<lambda>r. r_id r = rid \<and> telegram_numeric_id r = user) (resellers d) \<noteq> None"

definition is_active_operator :: "nat \<Rightarrow> int \<Rightarrow> db \<Rightarrow> bool" where
  "is_active_operator rid user d \<longleftrightarrow>
     fetch_one (\<lambda>r. op_reseller_id r = rid \<and> op_telegram_user_id r = user
       \<and> op_status r = OperatorActive) (reseller_operators d) \<noteq> None"

text \<open>
  \<^verbatim>\<open>OrderActionPermissionMiddleware.__call__\<close>: the handler runs for the owner and for active
  operators; for everybody else the event is answered and dropped (\<open>None\<close>).
\<close>

definition order_action_permission ::
  "nat \<Rightarrow> int \<Rightarrow> (db \<Rightarrow> (db, 'a) outcome) \<Rightarrow> db \<Rightarrow> (db, 'a option) outcome" where
  "order_action_permission rid user handler d =
     (let run = (case handler d of (Inl e, d1) \<Rightarrow> (Inl e, d1) | (Inr x, d1) \<Rightarrow> (Inr (Some x), d1))
      in if (case lookup r_id rid (resellers d) of
               None \<Rightarrow> False | Some r \<Rightarrow> telegram_numeric_id r = user)
         then run
         else if fetch_one (\<lambda>r. op_reseller_id r = rid \<and> op_telegram_user_id r = user
                \<and> op_status r = OperatorActive) (reseller_operators d) \<noteq> None
         then run
         else (Inr None, d))"

text \<open>
  The operator's list \<^verbatim>\<open>/pending_orders\<close>. When the user is no active operator and the
  reseller row is missing, \<^verbatim>\<open>.get\<close> of \<^verbatim>\<open>None\<close> raises.
\<close>

definition list_pending_orders :: "nat \<Rightarrow> int \<Rightarrow> db \<Rightarrow> exn + order list option" where
  "list_pending_orders rid user d =
     (if is_active_operator rid user d
      then Inr (Some (fetch_all (\<lambda>r. o_reseller_id r = rid \<and> o_status r = AwaitingReceiptReview) (orders d)))
      else case lookup r_id rid (resellers d) of
        None \<Rightarrow> Inl AttributeError
      | Some r \<Rightarrow>
          if telegram_numeric_id r = user
          then Inr (Some (fetch_all (\<lambda>r. o_reseller_id r = rid \<and> o_status r = AwaitingReceiptReview) (orders d)))
          else Inr None)"

text \<open>
  The reseller's panel: receipts to review, and confirmed orders without an activation. The
  joins drop an order whose package or category row is missing.
\<close>

definition joined_order :: "db \<Rightarrow> order \<Rightarrow> bool" where
  "joined_order d r \<longleftrightarrow>
     (case lookup p_id (o_package_id r) (packages d) of
        None \<Rightarrow> False
      | Some p \<Rightarrow> lookup cat_id (p_category_id p) (categories d) \<noteq> None)"

definition order_panel :: "nat \<Rightarrow> db \<Rightarrow> order list \<times> order list" where
  "order_panel rid d =
     (fetch_all (\<lambda>r. joined_order d r \<and> o_reseller_id r = rid
        \<and> o_status r = AwaitingReceiptReview) (orders d),
      fetch_all (\<lambda>r. joined_order d r \<and> o_reseller_id r = rid
        \<and> o_status r = Confirmed \<and> activated_at r = None) (orders d))"

section \<open>The actions of the order panel\<close>

text \<open>The buttons of the panel, with the number from their callback data.\<close>

datatype order_action =
    ApproveReceipt nat
  | RejectReceipt nat
  | ActivateOrder nat
  | ConfirmWalletTopup nat
  | RejectWalletTopup nat

text \<open>
  \<^verbatim>\<open>activate\<close> reads the message of the reseller of the order after the activation, which
  raises when that row is missing; \<^verbatim>\<open>confirm_wallet_topup\<close> catches the errors it expects.
\<close>

fun perform_action :: "time \<Rightarrow> order_action \<Rightarrow> db \<Rightarrow> (db, unit) outcome" where
  "perform_action t (ApproveReceipt oid) d = (Inr (), confirm_order t oid d)"
| "perform_action t (RejectReceipt oid) d = (Inr (), reject_order oid d)"
| "perform_action t (ActivateOrder oid) d =
     (case activate_order t oid d of
        (Inl e, d1) \<Rightarrow> (Inl e, d1)
      | (Inr None, d1) \<Rightarrow> (Inl TypeError, d1)
      | (Inr (Some ord), d1) \<Rightarrow>
          if lookup r_id (o_reseller_id ord) (resellers d1) = None then (Inl TypeError, d1)
          else (Inr (), d1))"
| "perform_action t (ConfirmWalletTopup tid) d =
     (case confirm_customer_topup t tid d of
        (Inl e, d1) \<Rightarrow>
          (case e of
             ValueError _ \<Rightarrow> (Inr (), d1)
           | WalletTopupInsufficientCreditError _ _ \<Rightarrow> (Inr (), d1)
           | _ \<Rightarrow> (Inl e, d1))
      | (Inr _, d1) \<Rightarrow> (Inr (), d1))"
| "perform_action t (RejectWalletTopup tid) d = (Inr (), reject_customer_topup tid d)"

text \<open>
  The text with the reason of a dispute, which follows the button \<^verbatim>\<open>open_dispute\<close>; the order
  number comes from the data that the button stored.
\<close>

definition submit_dispute_reason :: "nat \<Rightarrow> string \<Rightarrow> db \<Rightarrow> (db, nat) outcome" where
  "submit_dispute_reason oid reason d =
     (case lookup o_id oid (orders d) of
        None \<Rightarrow> (Inl TypeError, d)
      | Some ord \<Rightarrow> create_dispute oid (o_reseller_id ord) reason d)"

text \<open>A press of a button by a user in the bot of a reseller.\<close>

definition press :: "time \<Rightarrow> nat \<Rightarrow> int \<Rightarrow> order_action \<Rightarrow> db \<Rightarrow> (db, unit option) outcome" where
  "press t rid user act d = order_action_permission rid user (perform_action t act) d"

definition may_act :: "nat \<Rightarrow> int \<Rightarrow> db \<Rightarrow> bool" where
  "may_act rid user d \<longleftrightarrow> is_reseller_owner user rid d \<or> is_active_operator rid user d"

section \<open>Elementary facts\<close>

lemma owner_lookup:
  assumes "wf_table r_id (resellers d)"
  shows "is_reseller_owner user rid d \<longleftrightarrow>
    (\<exists>r. lookup r_id rid (resellers d) = Some r \<and> telegram_numeric_id r = user)"
  using resellers.lookup_iff [OF assms, of rid]
  by (auto simp: is_reseller_owner_def fetch_one_None not_None_eq [symmetric] simp del: not_None_eq)

lemma permission_cases:
  assumes "wf_table r_id (resellers d)"
  shows "order_action_permission rid user handler d =
    (if may_act rid user d
     then (case handler d of (Inl e, d1) \<Rightarrow> (Inl e, d1) | (Inr x, d1) \<Rightarrow> (Inr (Some x), d1))
     else (Inr None, d))"
proof -
  have "(case lookup r_id rid (resellers d) of None \<Rightarrow> False
      | Some r \<Rightarrow> telegram_numeric_id r = user) \<longleftrightarrow> is_reseller_owner user rid d"
    by (auto simp: owner_lookup [OF assms] split: option.split)
  then show ?thesis
    by (simp add: order_action_permission_def Let_def may_act_def is_active_operator_def)
qed

section \<open>Properties\<close>

text \<open>
  Only the owner and active operators act. A press by anybody else leaves the
  database as it is, whatever the button; a press by one of them does what the button
  does, and nothing more.
\<close>

theorem press_permission:
  assumes "wf_table r_id (resellers d)"
  shows "(\<not> may_act rid user d \<longrightarrow> press t rid user act d = (Inr None, d))
    \<and> (may_act rid user d \<longrightarrow> snd (press t rid user act d) = snd (perform_action t act d)
        \<and> (isl (fst (press t rid user act d)) \<longleftrightarrow> isl (fst (perform_action t act d))))"
  by (auto simp: press_def permission_cases [OF assms] split: prod.split sum.split)

text \<open>
  The check does not look at the order. The owner or an operator of one reseller
  can press a button with the number of an order of any other reseller: a receipt of the
  other shop is approved.
\<close>

theorem press_crosses_shops:
  assumes "wf_table r_id (resellers d)" and "may_act rid user d"
    and "lookup o_id oid (orders d) = Some ord"
  shows "map_option o_status (lookup o_id oid (orders (snd (press t rid user (ApproveReceipt oid) d)))) =
      Some Confirmed
    \<and> map_option o_reseller_id (lookup o_id oid (orders (snd (press t rid user (ApproveReceipt oid) d)))) =
      Some (o_reseller_id ord)"
  using assms
  by (simp add: press_def permission_cases confirm_order_def orders.lookup_update_id)

definition demo_shops_db :: db where
  "demo_shops_db = demo_order_db\<lparr>
     resellers := \<lparr>trows = [demo_reseller, demo_reseller\<lparr>r_id := 2, telegram_numeric_id := 701\<rparr>], auto_inc = 3\<rparr>,
     reseller_operators := \<lparr>trows = [\<lparr>op_id = 1, op_reseller_id = 2, op_telegram_user_id = 55,
       op_status = OperatorActive\<rparr>], auto_inc = 2\<rparr>\<rparr>"

lemma demo_shops: "wf_table r_id (resellers demo_shops_db)" "may_act 2 55 demo_shops_db"
  "\<not> may_act 1 55 demo_shops_db" "lookup o_id 1 (orders demo_shops_db) = Some demo_order"
proof -
  show "wf_table r_id (resellers demo_shops_db)"
    by (simp add: wf_table_def demo_shops_db_def)
  show "lookup o_id 1 (orders demo_shops_db) = Some demo_order"
    using demo_order_db_rows(1) by (simp add: demo_shops_db_def)
  show "may_act 2 55 demo_shops_db" "\<not> may_act 1 55 demo_shops_db"
    by (simp_all add: may_act_def is_reseller_owner_def is_active_operator_def fetch_one_def
        demo_shops_db_def demo_reseller_def)
qed

lemma press_permission_witness:
  "press 9 1 55 (ActivateOrder 1) demo_shops_db = (Inr None, demo_shops_db)"
  using press_permission [OF demo_shops(1), of 1 55 9 "ActivateOrder 1"] demo_shops(3) by blast

lemma press_crosses_shops_witness:
  "map_option o_status (lookup o_id 1 (orders (snd (press 9 2 55 (ApproveReceipt 1) demo_shops_db)))) =
     Some Confirmed \<and> o_reseller_id demo_order \<noteq> 2"
  using press_crosses_shops [OF demo_shops(1,2,4), of 9] by simp

end
