(* ===== verification/CustomerChat.thy ===== *)
theory CustomerChat
  imports Promotions ShopSettings Access "HOL-Library.AList"
begin

text \<open>
  What the customer's handlers (\<^verbatim>\<open>handlers/customer/\<close>) share: messages and button labels,
  the reply keyboards of \<^verbatim>\<open>utils/keyboards.py\<close>, the states of \<^verbatim>\<open>utils/states.py\<close>, the data
  of the finite-state context, and the parsers of Python that the handlers call on what a
  customer types. Strings are lists of characters below 256.
\<close>

section \<open>Texts\<close>

text \<open>The fixed labels \<^verbatim>\<open>CUSTOMER_..._BUTTON_TEXT\<close>. They are different and contain no digit.\<close>

datatype button =
    CatalogButton | SupportButton | WalletButton | BackButton | BackToMenuButton
  | TopupButton | TopupCardButton | TopupZarinpalButton | BuyButton
  | ChargeButton | BuyChargeButton | SharePhoneButton

text \<open>
  A text is a fixed label, a label that the code builds from a name, or anything else. The
  built labels begin with a symbol of their own (a closed folder, an open folder, a parcel, a
  battery), and the price stands behind the last dash, so equality of texts is equality here.
\<close>

datatype msg_text =
    Label button
  | OperatorLabel string
  | FolderLabel string
  | PackageLabel string int
  | ProductLabel string int
  | Typed string

datatype content = Text msg_text | Photo string | Contact string | OtherContent

fun text_of :: "content \<Rightarrow> msg_text option" where
  "text_of (Text t) = Some t"
| "text_of _ = None"

definition starts_with :: "string \<Rightarrow> msg_text option \<Rightarrow> bool" where
  "starts_with p t = (case t of Some (Typed s) \<Rightarrow> take (length p) s = p | _ \<Rightarrow> False)"

text \<open>\<^verbatim>\<open>f"{price:,.0f}"\<close>: the whole number that is shown, before the thousands separators.\<close>

definition shown_price :: "cents \<Rightarrow> int" where
  "shown_price p = quantize1 (dec p)"

section \<open>Keyboards\<close>

datatype keyboard = Keys "msg_text list list" | RemoveKeyboard | InlineMenu

definition customer_main_reply_keyboard :: "bool \<Rightarrow> keyboard" where
  "customer_main_reply_keyboard has_support_contact = Keys
     ([[Label CatalogButton], [Label ChargeButton], [Label WalletButton]]
      @ (if has_support_contact then [[Label SupportButton]] else []))"

definition customer_folder_reply_keyboard :: "msg_text list \<Rightarrow> button \<Rightarrow> keyboard" where
  "customer_folder_reply_keyboard item_names back_text = Keys
     (map (\<lambda>name. [name]) item_names @ [[Label back_text]])"

definition customer_package_detail_keyboard :: keyboard where
  "customer_package_detail_keyboard = Keys [[Label BuyButton], [Label BackButton]]"

definition customer_charge_detail_keyboard :: keyboard where
  "customer_charge_detail_keyboard = Keys [[Label BuyChargeButton], [Label BackButton]]"

definition customer_charge_quantity_keyboard :: keyboard where
  "customer_charge_quantity_keyboard = Keys [[Label BackButton]]"

definition customer_phone_number_keyboard :: keyboard where
  "customer_phone_number_keyboard = Keys [[Label SharePhoneButton], [Label BackButton]]"

definition customer_wallet_menu_keyboard :: keyboard where
  "customer_wallet_menu_keyboard = Keys [[Label TopupButton], [Label BackToMenuButton]]"

definition customer_topup_method_keyboard :: "bool \<Rightarrow> bool \<Rightarrow> keyboard" where
  "customer_topup_method_keyboard has_card has_zarinpal = Keys
     ((if has_card then [[Label TopupCardButton]] else [])
      @ (if has_zarinpal then [[Label TopupZarinpalButton]] else [])
      @ [[Label BackButton]])"

fun buttons_of :: "keyboard \<Rightarrow> msg_text list" where
  "buttons_of (Keys rows) = concat rows"
| "buttons_of RemoveKeyboard = []"
| "buttons_of InlineMenu = []"

section \<open>States and their data\<close>

datatype fsm_state =
    OrderChoosingPackage | OrderWaitingReceipt
  | CatalogBrowsingOperators | CatalogBrowsingSubcategories | CatalogBrowsingPackages
  | CatalogPackageSelected | CatalogEnteringPhoneNumber
  | ChargeBrowsingOperators | ChargeBrowsingSubcategories | ChargeBrowsingProducts
  | ChargeProductSelected | ChargeEnteringQuantity
  | WalletChoosingMethod | WalletEnteringAmount | WalletUploadingReceipt

text \<open>
  A dictionary from labels to ids, in insertion order: a label that comes twice keeps its
  place and gets the later id.
\<close>

type_synonym menu = "(msg_text \<times> nat) list"

definition menu_of :: "(msg_text \<times> nat) list \<Rightarrow> menu" where
  "menu_of items = fold (\<lambda>(k, v). AList.update k v) items []"

record fsm_data =
  operator_map :: "menu option"
  subcategory_map :: "menu option"
  package_map :: "menu option"
  selected_package_id :: "nat option"
  data_order_id :: "nat option"
  charge_operator_map :: "menu option"
  charge_subcategory_map :: "menu option"
  charge_product_map :: "menu option"
  selected_charge_package_id :: "nat option"
  topup_method :: "pay_method option"
  topup_id :: "nat option"
  topup_amount :: "decimal option"

definition empty_data :: fsm_data where
  "empty_data = \<lparr>operator_map = None, subcategory_map = None, package_map = None,
     selected_package_id = None, data_order_id = None, charge_operator_map = None,
     charge_subcategory_map = None, charge_product_map = None,
     selected_charge_package_id = None, topup_method = None, topup_id = None,
     topup_amount = None\<rparr>"

text \<open>\<^verbatim>\<open>data.get("..._map", {})\<close> and \<^verbatim>\<open>.get(message.text)\<close>.\<close>

definition menu_get :: "menu option \<Rightarrow> menu" where
  "menu_get m = (case m of None \<Rightarrow> [] | Some items \<Rightarrow> items)"

definition pick :: "menu option \<Rightarrow> msg_text option \<Rightarrow> nat option" where
  "pick m t = (case t of None \<Rightarrow> None | Some label \<Rightarrow> map_of (menu_get m) label)"

section \<open>Messages sent\<close>

type_synonym package_label = "(string \<times> string \<times> string) option"

datatype payment_line = CardLine "nat list" string "string option" | OnlineLine

datatype payment_info = NoPaymentMethod | PaymentLines "payment_line list" | NoCard | OnlineOnly

datatype reply =
    NotInProcess | OperationCancelled | Welcome | MainMenu | ContactSupport "string option"
  | JoinChannels catalog_type "string list" | CatalogEmpty catalog_type | ChooseOperator
  | PickFromKeyboard | NoSubfolder catalog_type | ChooseSubfolder | FolderEmpty catalog_type
  | ChooseItem catalog_type | ItemGone catalog_type
  | ItemDetail catalog_type string string string int
  | EnterPhoneNumber | StillSelected | InvalidPhoneNumber
  | OrderRefused | PaidFromWallet string package_label string "string option"
  | OrderPlaced string package_label string int payment_info "string option"
  | DiscountRefused discount_reason | DiscountApplied int
  | TooManyPending nat | ReceiptDelayed | ReceiptReceived string
  | EnterQuantity | PositiveIntegerPlease | TotalPrice int int | PurchaseRefused
  | BalanceTooLow | OutOfStock | OnlyAvailable nat
  | CodesDelivered int int "(string \<times> string) list" "string option"
  | WalletBalance int | NoTopupMethod | ChooseTopupMethod | EnterTopupAmount
  | PositiveNumberPlease | PayAndSendReceipt int payment_info | TopupRequested
  | ResellerPanel | ResellerProcessCancelled
  | OperatorsOnly | NoPendingOrders | PendingOrderRow string int int
  | ErrorMessage

datatype notice =
    NewPaidOrder string int package_label string nat
  | ChargeSold int int
  | TopupReceipt "nat option" int string

datatype sent =
    Answer reply "keyboard option"
  | ToReseller int notice
  | InsufficientCreditAlert nat string

record world =
  w_db :: db
  w_state :: "fsm_state option"
  w_data :: fsm_data
  w_sent :: "sent list"

text \<open>
  What a handler is given beside the message: the reseller whose bot received it, the
  configuration, Telegram's answer on memberships, and the moments at which it reads the clock.
\<close>

record env =
  e_reseller :: nat
  e_config :: config
  e_member :: "string \<Rightarrow> int \<Rightarrow> string option"
  e_moment :: "nat \<Rightarrow> moment"

record message =
  from_user :: int
  content :: content

type_synonym handler = "env \<Rightarrow> message \<Rightarrow> world \<Rightarrow> (world, unit) outcome"

abbreviation message_text :: "message \<Rightarrow> msg_text option" where
  "message_text m \<equiv> text_of (content m)"

definition send :: "sent \<Rightarrow> world \<Rightarrow> world" where
  "send s w = w\<lparr>w_sent := w_sent w @ [s]\<rparr>"

definition answer :: "reply \<Rightarrow> keyboard option \<Rightarrow> world \<Rightarrow> world" where
  "answer r k = send (Answer r k)"

definition set_state :: "fsm_state \<Rightarrow> world \<Rightarrow> world" where
  "set_state s w = w\<lparr>w_state := Some s\<rparr>"

definition update_data :: "(fsm_data \<Rightarrow> fsm_data) \<Rightarrow> world \<Rightarrow> world" where
  "update_data f w = w\<lparr>w_data := f (w_data w)\<rparr>"

definition clear_state :: "world \<Rightarrow> world" where
  "clear_state w = w\<lparr>w_state := None, w_data := empty_data\<rparr>"

definition finish :: "world \<Rightarrow> (world, unit) outcome" where
  "finish w = (Inr (), w)"

definition on_db :: "(db \<Rightarrow> (db, 'a) outcome) \<Rightarrow> world \<Rightarrow> (world, 'a) outcome" where
  "on_db f w = (case f (w_db w) of (res, d) \<Rightarrow> (res, w\<lparr>w_db := d\<rparr>))"

lemmas world_defs = send_def answer_def set_state_def update_data_def clear_state_def finish_def
  on_db_def

section \<open>Reads that several handlers share\<close>

text \<open>The truth value of a nullable text, and \<^verbatim>\<open>text or default\<close>.\<close>

definition truthy :: "string option \<Rightarrow> bool" where
  "truthy t = (case t of None \<Rightarrow> False | Some s \<Rightarrow> s \<noteq> [])"

definition non_empty :: "string option \<Rightarrow> string option" where
  "non_empty t = (if truthy t then t else None)"

definition has_support :: "nat \<Rightarrow> db \<Rightarrow> bool" where
  "has_support rid d =
     (case lookup r_id rid (resellers d) of None \<Rightarrow> False | Some r \<Rightarrow> truthy (support_contact r))"

definition back_to_main_menu :: "nat \<Rightarrow> world \<Rightarrow> world" where
  "back_to_main_menu rid w =
     answer MainMenu (Some (customer_main_reply_keyboard (has_support rid (w_db w)))) (clear_state w)"

text \<open>A package joined with its category, and the label of an order.\<close>

definition package_with_category :: "nat \<Rightarrow> db \<Rightarrow> (package \<times> category) option" where
  "package_with_category pid d =
     (case lookup p_id pid (packages d) of
        None \<Rightarrow> None
      | Some p \<Rightarrow> map_option (Pair p) (lookup cat_id (p_category_id p) (categories d)))"

definition label_of_package :: "nat \<Rightarrow> db \<Rightarrow> package_label" where
  "label_of_package pid d =
     map_option (\<lambda>(p, c). (operator_name c, cat_title c, p_name p)) (package_with_category pid d)"

definition card_line :: "card_row \<Rightarrow> payment_line" where
  "card_line c =
     CardLine (format_card_number (card_number c)) (card_holder_name c) (non_empty (bank_name c))"

text \<open>The folders of a catalog.\<close>

definition root_folders :: "nat \<Rightarrow> catalog_type \<Rightarrow> db \<Rightarrow> category list" where
  "root_folders rid kind d =
     fetch_all (\<lambda>c. cat_reseller_id c = rid \<and> parent_category_id c = None \<and> cat_type c = kind)
       (categories d)"

definition sub_folders :: "nat \<Rightarrow> db \<Rightarrow> category list" where
  "sub_folders operator_id d =
     fetch_all (\<lambda>c. parent_category_id c = Some operator_id) (categories d)"

definition active_packages :: "nat \<Rightarrow> db \<Rightarrow> package list" where
  "active_packages category_id d =
     fetch_all (\<lambda>p. p_category_id p = category_id \<and> p_is_active p) (packages d)"

section \<open>Numbers that customers type\<close>

text \<open>
  Digits of \<^verbatim>\<open>str.isdigit\<close> below 256 are the ten digits and the superscripts one, two and
  three; only the ten are digits of \<^verbatim>\<open>int()\<close> and \<^verbatim>\<open>Decimal()\<close>.
\<close>

definition is_decimal :: "char \<Rightarrow> bool" where
  "is_decimal c \<longleftrightarrow> 48 \<le> (of_char c :: nat) \<and> (of_char c :: nat) \<le> 57"

definition is_digit :: "char \<Rightarrow> bool" where
  "is_digit c \<longleftrightarrow> is_decimal c \<or> (of_char c :: nat) \<in> {178, 179, 185}"

text \<open>\<^verbatim>\<open>int(s)\<close>: white space around, a sign, digits with single underscores between them.\<close>

fun int_digits :: "bool \<Rightarrow> nat \<Rightarrow> string \<Rightarrow> nat option" where
  "int_digits after_digit n [] = (if after_digit then Some n else None)"
| "int_digits after_digit n (c # cs) =
     (if is_decimal c then int_digits True (10 * n + digit_value c) cs
      else if c = CHR ''_'' \<and> after_digit then int_digits False n cs
      else None)"

fun parse_sign :: "string \<Rightarrow> bool \<times> string" where
  "parse_sign [] = (False, [])"
| "parse_sign (c # cs) =
     (if c = CHR ''-'' then (True, cs) else if c = CHR ''+'' then (False, cs) else (False, c # cs))"

definition parse_int :: "string \<Rightarrow> int option" where
  "parse_int s =
     (let (negative, digits) = parse_sign (strip s)
      in map_option (\<lambda>n. if negative then - int n else int n) (int_digits False 0 digits))"

text \<open>
  \<^verbatim>\<open>Decimal(s)\<close>: white space around and underscores are dropped; a number with an optional
  fraction and exponent, an infinity or a NaN.
\<close>

datatype decimal_value = Finite decimal | Infinite bool | NotANumber

definition parse_number :: "string \<Rightarrow> decimal option" where
  "parse_number u =
     (let whole = takeWhile is_decimal u;
          rest = dropWhile is_decimal u;
          (frac, rest) = (if take 1 rest = ''.''
                          then (takeWhile is_decimal (tl rest), dropWhile is_decimal (tl rest))
                          else ([], rest));
          coefficient = of_nat (nat_value (whole @ frac)) / 10 ^ length frac
      in if whole @ frac = [] then None
         else case rest of
           [] \<Rightarrow> Some coefficient
         | c # cs \<Rightarrow>
             (let (negative, digits) = parse_sign cs
              in if (c = CHR ''e'' \<or> c = CHR ''E'') \<and> digits \<noteq> [] \<and> list_all is_decimal digits
                 then Some (if negative then coefficient / 10 ^ nat_value digits
                            else coefficient * 10 ^ nat_value digits)
                 else None))"

definition is_nan :: "string \<Rightarrow> bool" where
  "is_nan u =
     (take 3 u = ''NAN'' \<and> list_all is_decimal (drop 3 u)
      \<or> take 4 u = ''SNAN'' \<and> list_all is_decimal (drop 4 u))"

definition parse_decimal :: "string \<Rightarrow> decimal_value option" where
  "parse_decimal s =
     (let (negative, u) = parse_sign (filter (\<lambda>c. c \<noteq> CHR ''_'') (strip s))
      in if upper u = ''INF'' \<or> upper u = ''INFINITY'' then Some (Infinite negative)
         else if is_nan (upper u) then Some NotANumber
         else map_option (\<lambda>x. Finite (if negative then - x else x)) (parse_number u))"

section \<open>Facts about numerals\<close>

lemma is_decimal_not_special:
  "is_decimal c \<Longrightarrow> \<not> is_space c" "is_decimal c \<Longrightarrow> is_digit c"
  "is_decimal c \<Longrightarrow> c \<notin> {CHR ''-'', CHR ''+'', CHR ''_'', CHR '','', CHR ''.'', CHR ''i'', CHR ''n'', CHR ''s'', CHR ''I'', CHR ''N'', CHR ''S''}"
  by (auto simp: is_decimal_def is_digit_def is_space_def)

lemma int_digits_decimal:
  "list_all is_decimal cs \<Longrightarrow> cs \<noteq> [] \<or> b \<Longrightarrow>
   int_digits b n cs = Some (foldl (\<lambda>n c. 10 * n + digit_value c) n cs)"
  by (induction cs arbitrary: b n) simp_all

lemma int_digits_not_decimal:
  "list_all is_digit cs \<Longrightarrow> \<not> list_all is_decimal cs \<Longrightarrow> int_digits b n cs = None"
proof (induction cs arbitrary: b n)
  case (Cons c cs)
  then show ?case by (auto simp: is_digit_def)
qed simp

lemma strip_digits: "list_all is_digit cs \<Longrightarrow> strip cs = cs"
  by (rule strip_no_space) (auto simp: list_all_iff is_digit_def is_decimal_def is_space_def)

lemma parse_sign_digits:
  "list_all is_digit cs \<Longrightarrow> parse_sign cs = (False, cs)"
  by (cases cs) (auto simp: is_digit_def is_decimal_def)

lemma parse_int_digits:
  "list_all is_digit cs \<Longrightarrow> cs \<noteq> [] \<Longrightarrow>
   parse_int cs = (if list_all is_decimal cs then Some (int (nat_value cs)) else None)"
  by (simp add: parse_int_def strip_digits parse_sign_digits int_digits_decimal
      int_digits_not_decimal nat_value_def)

lemma list_all_show_nat: "list_all is_decimal (show_nat n)"
proof (induction n rule: show_nat.induct)
  case (1 n)
  have dig: "is_decimal (digit_char k)" if "k < 10" for k
    using that by (simp add: is_decimal_def digit_char_def)
  show ?case
    by (subst show_nat.simps) (use 1 dig in auto)
qed

lemma show_nat_not_Nil [simp]: "show_nat n \<noteq> []"
  by (subst show_nat.simps) simp

lemma filter_decimal: "list_all is_decimal cs \<Longrightarrow> filter (\<lambda>c. c \<noteq> CHR ''_'') cs = cs"
  by (auto simp: list_all_iff filter_id_conv dest: is_decimal_not_special(3))

lemma parse_number_decimal:
  "list_all is_decimal cs \<Longrightarrow> cs \<noteq> [] \<Longrightarrow> parse_number cs = Some (of_nat (nat_value cs))"
proof -
  assume dec: "list_all is_decimal cs" "cs \<noteq> []"
  then have whole: "takeWhile is_decimal cs = cs" "dropWhile is_decimal cs = []"
    by (auto simp: takeWhile_eq_all_conv dropWhile_eq_Nil_conv list_all_iff)
  with dec(2) show ?thesis by (simp add: parse_number_def Let_def whole)
qed

lemma parse_decimal_numeral:
  assumes "list_all is_decimal cs" and "cs \<noteq> []"
  shows "parse_decimal cs = Some (Finite (of_nat (nat_value cs)))"
proof -
  have dig: "list_all is_digit cs" using assms(1) by (auto simp: list_all_iff is_decimal_not_special)
  from assms(2) obtain c rest where cs: "cs = c # rest" by (cases cs) auto
  with assms(1) have c: "48 \<le> (of_char c :: nat)" "(of_char c :: nat) \<le> 57"
    by (simp_all add: is_decimal_def)
  then have up: "upper_char c = c" by (simp add: upper_char_def Let_def)
  have "upper cs \<noteq> ''INF''" "upper cs \<noteq> ''INFINITY''" "\<not> is_nan (upper cs)"
    using c by (auto simp: cs upper_def up is_nan_def numeral_eq_Suc)
  with dig assms show ?thesis
    by (simp add: parse_decimal_def strip_digits filter_decimal parse_sign_digits parse_number_decimal)
qed

end
