(* ===== verification/CustomerCatalog.thy ===== *)
theory CustomerCatalog
  imports CustomerChat
begin

text \<open>
  The first router of the customer (\<^verbatim>\<open>handlers/customer/orders.py\<close>): the menu, the catalog
  of packages down to one package, the telephone number, the purchase (from the wallet or
  with a receipt), the discount code and the receipt. One definition per handler.
\<close>

section \<open>Leaving and starting\<close>

definition customer_cancel :: handler where
  "customer_cancel e m w =
     (case w_state w of
        None \<Rightarrow> finish (answer NotInProcess None w)
      | Some _ \<Rightarrow>
          finish (answer OperationCancelled
            (Some (customer_main_reply_keyboard (has_support (e_reseller e) (w_db w))))
            (clear_state w)))"

text \<open>\<^verbatim>\<open>message.text.split(maxsplit=1)\<close>: the second part, when there is one.\<close>

definition second_part :: "string \<Rightarrow> string option" where
  "second_part s =
     (case dropWhile is_space (dropWhile (\<lambda>c. \<not> is_space c) (dropWhile is_space s)) of
        [] \<Rightarrow> None
      | rest \<Rightarrow> Some rest)"

definition referrer_of :: "string \<Rightarrow> int option" where
  "referrer_of s =
     (case second_part s of
        None \<Rightarrow> None
      | Some part \<Rightarrow> if take 4 part = ''ref_'' then parse_int (drop 4 part) else None)"

definition customer_start :: handler where
  "customer_start e m w =
     (let rid = e_reseller e; w1 = clear_state w in
      case on_db (get_or_create_customer rid (from_user m)) w1 of
        (Inl x, w2) \<Rightarrow> (Inl x, w2)
      | (Inr found, w2) \<Rightarrow>
          let welcome = (\<lambda>w. finish (answer Welcome
                (Some (customer_main_reply_keyboard (has_support rid (w_db w)))) w))
          in case message_text m of
               Some (Typed s) \<Rightarrow>
                 (case referrer_of s of
                    None \<Rightarrow> welcome w2
                  | Some referrer \<Rightarrow>
                      (case found of
                         None \<Rightarrow> (Inl TypeError, w2)
                       | Some cust \<Rightarrow>
                           welcome (w2\<lparr>w_db := register_referral rid referrer (c_id cust) (w_db w2)\<rparr>)))
             | _ \<Rightarrow> welcome w2)"

definition show_support_from_keyboard :: handler where
  "show_support_from_keyboard e m w =
     finish (answer (ContactSupport (case lookup r_id (e_reseller e) (resellers (w_db w)) of
         None \<Rightarrow> None | Some r \<Rightarrow> non_empty (support_contact r))) None w)"

section \<open>The catalog\<close>

definition show_operators :: "env \<Rightarrow> int \<Rightarrow> world \<Rightarrow> (world, unit) outcome" where
  "show_operators e user w =
     (let (joined, missing) = user_has_joined_all (e_member e) (e_reseller e) user (w_db w) in
      if \<not> joined then finish (answer (JoinChannels PackageCatalog missing) None w)
      else let operators = root_folders (e_reseller e) PackageCatalog (w_db w) in
        if operators = [] then finish (answer (CatalogEmpty PackageCatalog) None w)
        else let items = menu_of (map (\<lambda>op. (OperatorLabel (operator_name op), cat_id op)) operators);
                 w1 = set_state CatalogBrowsingOperators w;
                 w2 = update_data (\<lambda>fd. fd\<lparr>operator_map := Some items\<rparr>) w1
             in finish (answer ChooseOperator
                  (Some (customer_folder_reply_keyboard (map fst items) BackToMenuButton)) w2))"

definition show_catalog_from_keyboard :: handler where
  "show_catalog_from_keyboard e m w = show_operators e (from_user m) w"

definition handle_operator_pick :: handler where
  "handle_operator_pick e m w =
     (if message_text m = Some (Label BackToMenuButton)
      then finish (back_to_main_menu (e_reseller e) w)
      else case pick (operator_map (w_data w)) (message_text m) of
        None \<Rightarrow> finish (answer PickFromKeyboard None w)
      | Some operator_id \<Rightarrow>
          let subcategories = sub_folders operator_id (w_db w) in
          if subcategories = [] then finish (answer (NoSubfolder PackageCatalog) None w)
          else let items = menu_of (map (\<lambda>c. (FolderLabel (cat_title c), cat_id c)) subcategories);
                   w1 = set_state CatalogBrowsingSubcategories w;
                   w2 = update_data (\<lambda>fd. fd\<lparr>subcategory_map := Some items\<rparr>) w1
               in finish (answer ChooseSubfolder
                    (Some (customer_folder_reply_keyboard (map fst items) BackButton)) w2))"

definition handle_subcategory_pick :: handler where
  "handle_subcategory_pick e m w =
     (if message_text m = Some (Label BackButton) then show_operators e (from_user m) w
      else case pick (subcategory_map (w_data w)) (message_text m) of
        None \<Rightarrow> finish (answer PickFromKeyboard None w)
      | Some category_id \<Rightarrow>
          let found = active_packages category_id (w_db w) in
          if found = [] then finish (answer (FolderEmpty PackageCatalog) None w)
          else let items = menu_of (map (\<lambda>p. (PackageLabel (p_name p) (shown_price (sale_price p)), p_id p)) found);
                   w1 = update_data (\<lambda>fd. fd\<lparr>package_map := Some items\<rparr>) w;
                   w2 = set_state CatalogBrowsingPackages w1
               in finish (answer (ChooseItem PackageCatalog)
                    (Some (customer_folder_reply_keyboard (map fst items) BackButton)) w2))"

definition handle_package_pick :: handler where
  "handle_package_pick e m w =
     (if message_text m = Some (Label BackButton)
      then finish (answer ChooseOperator
             (Some (customer_folder_reply_keyboard (map fst (menu_get (operator_map (w_data w)))) BackToMenuButton))
             (set_state CatalogBrowsingOperators w))
      else case pick (package_map (w_data w)) (message_text m) of
        None \<Rightarrow> finish (answer PickFromKeyboard None w)
      | Some pid \<Rightarrow>
          (case package_with_category pid (w_db w) of
             None \<Rightarrow> finish (answer (ItemGone PackageCatalog) None w)
           | Some (p, c) \<Rightarrow>
               let w1 = set_state CatalogPackageSelected w;
                   w2 = update_data (\<lambda>fd. fd\<lparr>selected_package_id := Some pid\<rparr>) w1
               in finish (answer (ItemDetail PackageCatalog (operator_name c) (cat_title c) (p_name p)
                                   (shown_price (sale_price p)))
                    (Some customer_package_detail_keyboard) w2)))"

definition handle_package_detail_back :: handler where
  "handle_package_detail_back e m w =
     finish (answer (ChooseItem PackageCatalog)
       (Some (customer_folder_reply_keyboard (map fst (menu_get (package_map (w_data w)))) BackButton))
       (set_state CatalogBrowsingPackages w))"

section \<open>The telephone number\<close>

definition normalize_phone_number :: "string \<Rightarrow> string option" where
  "normalize_phone_number raw =
     (let digits = filter is_digit raw;
          digits = (if take 4 digits = ''0098'' then ''0'' @ drop 4 digits
                    else if take 2 digits = ''98'' \<and> length digits = 12 then ''0'' @ drop 2 digits
                    else digits)
      in if length digits = 11 \<and> take 2 digits = ''09'' then Some digits else None)"

text \<open>
  The characters of a text that can be digits: the fixed labels have none, a built label has
  those of the name and of the price.
\<close>

fun text_chars :: "msg_text \<Rightarrow> string" where
  "text_chars (Label b) = []"
| "text_chars (OperatorLabel s) = s"
| "text_chars (FolderLabel s) = s"
| "text_chars (PackageLabel s p) = s @ show_nat (nat \<bar>p\<bar>)"
| "text_chars (ProductLabel s p) = s @ show_nat (nat \<bar>p\<bar>)"
| "text_chars (Typed s) = s"

definition handle_buy_button :: handler where
  "handle_buy_button e m w =
     (case selected_package_id (w_data w) of
        None \<Rightarrow> finish (back_to_main_menu (e_reseller e) w)
      | Some _ \<Rightarrow> finish (answer EnterPhoneNumber (Some customer_phone_number_keyboard)
                   (set_state CatalogEnteringPhoneNumber w)))"

definition cancel_phone_number_entry :: handler where
  "cancel_phone_number_entry e m w =
     finish (answer StillSelected (Some customer_package_detail_keyboard)
       (set_state CatalogPackageSelected w))"

section \<open>The telephone number that is accepted\<close>

lemma if_Some_eq: "(if b then Some x else None) = Some y \<longleftrightarrow> b \<and> x = y"
  by simp

lemma is_digit_zero_nine [simp]: "is_digit CHR ''0''" "is_digit CHR ''9''" "is_digit CHR ''8''"
  by (simp_all add: is_digit_def is_decimal_def)

text \<open>
  A number that is accepted has eleven digits and begins with 09, and it is
  accepted again as it is.
\<close>

theorem normalize_phone_sound:
  "case normalize_phone_number raw of
     None \<Rightarrow> True
   | Some p \<Rightarrow> length p = 11 \<and> take 2 p = ''09'' \<and> list_all is_digit p
       \<and> normalize_phone_number p = Some p"
proof (cases "normalize_phone_number raw")
  case (Some p)
  let ?ds = "filter is_digit raw"
  let ?p = "if take 4 ?ds = ''0098'' then ''0'' @ drop 4 ?ds
            else if take 2 ?ds = ''98'' \<and> length ?ds = 12 then ''0'' @ drop 2 ?ds else ?ds"
  have "list_all is_digit ?ds" by (simp add: list_all_iff)
  then have "list_all is_digit ?p"
    by (auto simp: list_all_iff dest: in_set_dropD)
  moreover have "(if length ?p = 11 \<and> take 2 ?p = ''09'' then Some ?p else None) = Some p"
    using Some by (simp only: normalize_phone_number_def Let_def)
  then have "?p = p" "length p = 11" "take 2 p = ''09''"
    by (auto simp only: if_Some_eq)
  ultimately have p: "length p = 11" "take 2 p = ''09''" "list_all is_digit p" by simp_all
  define rest where "rest = drop 2 p"
  with append_take_drop_id [of 2 p] p(2) have rest: "p = CHR ''0'' # CHR ''9'' # rest" by simp
  have "filter is_digit p = p" using p(3) by (simp add: list_all_iff)
  with p rest have "normalize_phone_number p = Some p"
    by (simp add: normalize_phone_number_def numeral_eq_Suc)
  with Some p show ?thesis by simp
qed simp

text \<open>
  The spellings of one number: the national form, the two international
  prefixes, with any characters between the digits, all come to the same number, and the number
  without a prefix is refused.
\<close>

theorem normalize_phone_forms:
  assumes "filter is_digit s = CHR ''9'' # rest" and "length rest = 9"
  shows "normalize_phone_number (''0'' @ s) = Some (''09'' @ rest)
    \<and> normalize_phone_number (''+98'' @ s) = Some (''09'' @ rest)
    \<and> normalize_phone_number (''0098'' @ s) = Some (''09'' @ rest)
    \<and> normalize_phone_number s = None"
proof -
  have "\<not> is_digit CHR ''+''" by (simp add: is_digit_def is_decimal_def)
  with assms show ?thesis
    by (simp add: normalize_phone_number_def numeral_eq_Suc)
qed

lemma normalize_phone_forms_witness:
  "normalize_phone_number ''+98 912 123-4567'' = Some ''09121234567''"
proof -
  have "filter is_digit '' 912 123-4567'' = ''9121234567''" by code_simp
  from normalize_phone_forms [OF this] show ?thesis by simp
qed

text \<open>A superscript digit counts as a digit of a telephone number.\<close>

lemma superscript_in_phone: "normalize_phone_number (''0912123456'' @ [char_of (178 :: nat)]) =
   Some (''0912123456'' @ [char_of (178 :: nat)])"
  by code_simp

end
