(* ===== verification/CustomerPurchase.thy ===== *)
theory CustomerPurchase
  imports CustomerCatalog
begin

text \<open>
  The purchase of a package in the chat (the second half of \<^verbatim>\<open>handlers/customer/orders.py\<close>):
  an attempt to pay from the wallet, else an order that waits for a receipt; the discount code
  and the receipt of such an order.
\<close>

section \<open>The purchase\<close>

definition payment_info_of :: "nat \<Rightarrow> db \<Rightarrow> payment_info" where
  "payment_info_of rid d =
     (let payment_lines = map card_line (list_cards rid True d)
            @ (if truthy (get_zarinpal_merchant rid d) then [OnlineLine] else [])
      in if payment_lines = [] then NoPaymentMethod else PaymentLines payment_lines)"

text \<open>The branch of an order that the wallet paid.\<close>

definition order_paid_by_wallet ::
  "nat \<Rightarrow> package_label \<Rightarrow> string \<Rightarrow> order \<Rightarrow> world \<Rightarrow> (world, unit) outcome" where
  "order_paid_by_wallet rid label phone ord w =
     (let w1 = clear_state w in
      case lookup r_id rid (resellers (w_db w1)) of
        None \<Rightarrow> (Inl TypeError, w1)
      | Some r \<Rightarrow>
          let w2 = answer (PaidFromWallet (order_code ord) label phone (non_empty (support_contact r)))
                     (Some (customer_main_reply_keyboard (truthy (support_contact r)))) w1
          in if telegram_numeric_id r \<noteq> 0
             then finish (send (ToReseller (telegram_numeric_id r)
                    (NewPaidOrder (order_code ord) (shown_price (package_price ord)) label phone (o_id ord))) w2)
             else finish w2)"

text \<open>The branch of an order that waits for a receipt.\<close>

definition order_by_receipt ::
  "nat \<Rightarrow> package_label \<Rightarrow> string \<Rightarrow> order \<Rightarrow> world \<Rightarrow> (world, unit) outcome" where
  "order_by_receipt rid label phone ord w =
     (let w1 = update_data (\<lambda>fd. fd\<lparr>data_order_id := Some (o_id ord)\<rparr>) w;
          w2 = set_state OrderWaitingReceipt w1;
          payment = payment_info_of rid (w_db w2)
      in case lookup r_id rid (resellers (w_db w)) of
           None \<Rightarrow> (Inl TypeError, w2)
         | Some r \<Rightarrow>
             finish (answer (OrderPlaced (order_code ord) label phone (shown_price (package_price ord))
                               payment (non_empty (support_contact r)))
               (Some RemoveKeyboard) w2))"

definition order_refused :: "world \<Rightarrow> (world, unit) outcome" where
  "order_refused w = finish (clear_state (answer OrderRefused None w))"

definition process_purchase :: "env \<Rightarrow> int \<Rightarrow> string \<Rightarrow> world \<Rightarrow> (world, unit) outcome" where
  "process_purchase e user phone w =
     (let rid = e_reseller e in
      case selected_package_id (w_data w) of
        None \<Rightarrow> finish (back_to_main_menu rid w)
      | Some pid \<Rightarrow>
          (case on_db (get_or_create_customer rid user) w of
             (Inl x, w1) \<Rightarrow> (Inl x, w1)
           | (Inr None, w1) \<Rightarrow> (Inl TypeError, w1)
           | (Inr (Some cust), w1) \<Rightarrow>
               let label = label_of_package pid (w_db w1); cid = c_id cust in
               (case on_db (create_order_paid_by_wallet (e_moment e 1) rid pid cid (Some phone)) w1 of
                  (Inr ord, w2) \<Rightarrow> order_paid_by_wallet rid label phone ord w2
                | (Inl x, w2) \<Rightarrow>
                    if x = CustomerBlacklistedError then order_refused w2
                    else if x \<noteq> WalletInsufficientBalanceError then (Inl x, w2)
                    else (case on_db (create_order (e_moment e 2) rid pid cid (Some phone)) w2 of
                            (Inr ord, w3) \<Rightarrow> order_by_receipt rid label phone ord w3
                          | (Inl y, w3) \<Rightarrow>
                              if y = CustomerBlacklistedError then order_refused w3
                              else (Inl y, w3)))))"

definition receive_phone_number_contact :: "env \<Rightarrow> message \<Rightarrow> string \<Rightarrow> world \<Rightarrow> (world, unit) outcome" where
  "receive_phone_number_contact e m phone w = process_purchase e (from_user m) phone w"

definition receive_phone_number_text :: "env \<Rightarrow> message \<Rightarrow> msg_text \<Rightarrow> world \<Rightarrow> (world, unit) outcome" where
  "receive_phone_number_text e m t w =
     (case normalize_phone_number (text_chars t) of
        None \<Rightarrow> finish (answer InvalidPhoneNumber None w)
      | Some phone \<Rightarrow> process_purchase e (from_user m) phone w)"

section \<open>The discount code\<close>

text \<open>The message begins with \<^verbatim>\<open>/discount\<close> and a blank; splitting it leaves what follows.\<close>

definition apply_discount_code :: "env \<Rightarrow> string \<Rightarrow> world \<Rightarrow> (world, unit) outcome" where
  "apply_discount_code e s w =
     (case second_part s of
        None \<Rightarrow> (Inl IndexError, w)
      | Some part \<Rightarrow>
          let code = strip part; t = m_now (e_moment e 0); rid = e_reseller e in
          (case data_order_id (w_data w) of
             None \<Rightarrow>
               (case validate_discount_code t rid code (w_db w) of
                  Inl (InvalidDiscountCode why) \<Rightarrow> finish (answer (DiscountRefused why) None w)
                | _ \<Rightarrow> (Inl TypeError, w))
           | Some oid \<Rightarrow>
               (case on_db (discount_order t rid oid code) w of
                  (Inl (InvalidDiscountCode why), w1) \<Rightarrow> finish (answer (DiscountRefused why) None w1)
                | (Inl x, w1) \<Rightarrow> (Inl x, w1)
                | (Inr new_price, w1) \<Rightarrow> finish (answer (DiscountApplied new_price) None w1))))"

section \<open>The receipt\<close>

definition receive_receipt :: "env \<Rightarrow> string \<Rightarrow> world \<Rightarrow> (world, unit) outcome" where
  "receive_receipt e file w =
     (let rid = e_reseller e;
          main_keyboard = (\<lambda>w. Some (customer_main_reply_keyboard (has_support rid (w_db w))))
      in case data_order_id (w_data w) of
        None \<Rightarrow> (Inl (ValueError OrderNotFound), w)
      | Some oid \<Rightarrow>
          (case on_db (submit_receipt (e_config e) oid file) w of
             (Inl (PendingOrderLimitExceeded n), w1) \<Rightarrow> finish (answer (TooManyPending n) None w1)
           | (Inl (OrderInsufficientCreditError i shop code), w1) \<Rightarrow>
               let w2 = send (InsufficientCreditAlert shop code) w1;
                   w3 = clear_state w2
               in finish (answer ReceiptDelayed (main_keyboard w3) w3)
           | (Inl x, w1) \<Rightarrow> (Inl x, w1)
           | (Inr found, w1) \<Rightarrow>
               let w2 = clear_state w1 in
               (case found of
                  None \<Rightarrow> (Inl TypeError, w2)
                | Some ord \<Rightarrow> finish (answer (ReceiptReceived (order_code ord)) (main_keyboard w2) w2))))"

end
