(* ===== verification/CustomerCharge.thy ===== *)
theory CustomerCharge
  imports CustomerChat
begin

text \<open>
  The second router of the customer (\<^verbatim>\<open>handlers/customer/charge.py\<close>): the catalog of charge
  codes, the quantity, and the purchase, which delivers the codes in its answer.
\<close>

section \<open>The catalog\<close>

definition show_charge_operators :: "env \<Rightarrow> int \<Rightarrow> world \<Rightarrow> (world, unit) outcome" where
  "show_charge_operators e user w =
     (let (joined, missing) = user_has_joined_all (e_member e) (e_reseller e) user (w_db w) in
      if \<not> joined then finish (answer (JoinChannels ChargeCatalog missing) None w)
      else let operators = root_folders (e_reseller e) ChargeCatalog (w_db w) in
        if operators = [] then finish (answer (CatalogEmpty ChargeCatalog) None w)
        else let items = menu_of (map (\<lambda>op. (OperatorLabel (operator_name op), cat_id op)) operators);
                 w1 = set_state ChargeBrowsingOperators w;
                 w2 = update_data (\<lambda>fd. fd\<lparr>charge_operator_map := Some items\<rparr>) w1
             in finish (answer ChooseOperator
                  (Some (customer_folder_reply_keyboard (map fst items) BackToMenuButton)) w2))"

definition show_charge_catalog_from_keyboard :: handler where
  "show_charge_catalog_from_keyboard e m w = show_charge_operators e (from_user m) w"

definition handle_charge_operator_pick :: handler where
  "handle_charge_operator_pick e m w =
     (if message_text m = Some (Label BackToMenuButton)
      then finish (back_to_main_menu (e_reseller e) w)
      else case pick (charge_operator_map (w_data w)) (message_text m) of
        None \<Rightarrow> finish (answer PickFromKeyboard None w)
      | Some operator_id \<Rightarrow>
          let subcategories = sub_folders operator_id (w_db w) in
          if subcategories = [] then finish (answer (NoSubfolder ChargeCatalog) None w)
          else let items = menu_of (map (\<lambda>c. (FolderLabel (cat_title c), cat_id c)) subcategories);
                   w1 = set_state ChargeBrowsingSubcategories w;
                   w2 = update_data (\<lambda>fd. fd\<lparr>charge_subcategory_map := Some items\<rparr>) w1
               in finish (answer ChooseSubfolder
                    (Some (customer_folder_reply_keyboard (map fst items) BackButton)) w2))"

definition handle_charge_subcategory_pick :: handler where
  "handle_charge_subcategory_pick e m w =
     (if message_text m = Some (Label BackButton)
      then finish (answer ChooseOperator
             (Some (customer_folder_reply_keyboard
                (map fst (menu_get (charge_operator_map (w_data w)))) BackToMenuButton))
             (set_state ChargeBrowsingOperators w))
      else case pick (charge_subcategory_map (w_data w)) (message_text m) of
        None \<Rightarrow> finish (answer PickFromKeyboard None w)
      | Some category_id \<Rightarrow>
          let products = active_packages category_id (w_db w) in
          if products = [] then finish (answer (FolderEmpty ChargeCatalog) None w)
          else let items = menu_of (map (\<lambda>p. (ProductLabel (p_name p) (shown_price (sale_price p)), p_id p)) products);
                   w1 = update_data (\<lambda>fd. fd\<lparr>charge_product_map := Some items\<rparr>) w;
                   w2 = set_state ChargeBrowsingProducts w1
               in finish (answer (ChooseItem ChargeCatalog)
                    (Some (customer_folder_reply_keyboard (map fst items) BackButton)) w2))"

definition product_detail :: "package \<Rightarrow> category \<Rightarrow> world \<Rightarrow> world" where
  "product_detail p c =
     answer (ItemDetail ChargeCatalog (operator_name c) (cat_title c) (p_name p) (shown_price (sale_price p)))
       (Some customer_charge_detail_keyboard)"

definition handle_charge_product_pick :: handler where
  "handle_charge_product_pick e m w =
     (if message_text m = Some (Label BackButton)
      then finish (answer ChooseSubfolder
             (Some (customer_folder_reply_keyboard
                (map fst (menu_get (charge_subcategory_map (w_data w)))) BackButton))
             (set_state ChargeBrowsingSubcategories w))
      else case pick (charge_product_map (w_data w)) (message_text m) of
        None \<Rightarrow> finish (answer PickFromKeyboard None w)
      | Some pid \<Rightarrow>
          (case package_with_category pid (w_db w) of
             None \<Rightarrow> finish (answer (ItemGone ChargeCatalog) None w)
           | Some (p, c) \<Rightarrow>
               let w1 = set_state ChargeProductSelected w;
                   w2 = update_data (\<lambda>fd. fd\<lparr>selected_charge_package_id := Some pid\<rparr>) w1
               in finish (product_detail p c w2)))"

definition handle_charge_detail_back :: handler where
  "handle_charge_detail_back e m w =
     finish (answer (ChooseItem ChargeCatalog)
       (Some (customer_folder_reply_keyboard (map fst (menu_get (charge_product_map (w_data w)))) BackButton))
       (set_state ChargeBrowsingProducts w))"

section \<open>The quantity\<close>

definition handle_buy_charge_button :: handler where
  "handle_buy_charge_button e m w =
     (case selected_charge_package_id (w_data w) of
        None \<Rightarrow> finish (back_to_main_menu (e_reseller e) w)
      | Some _ \<Rightarrow> finish (answer EnterQuantity (Some customer_charge_quantity_keyboard)
                   (set_state ChargeEnteringQuantity w)))"

definition show_product_detail :: "nat \<Rightarrow> world \<Rightarrow> bool \<times> world" where
  "show_product_detail pid w =
     (case package_with_category pid (w_db w) of
        None \<Rightarrow> (False, w)
      | Some (p, c) \<Rightarrow> (True, product_detail p c (set_state ChargeProductSelected w)))"

definition handle_charge_quantity_back :: handler where
  "handle_charge_quantity_back e m w =
     (case selected_charge_package_id (w_data w) of
        None \<Rightarrow> finish (back_to_main_menu (e_reseller e) w)
      | Some pid \<Rightarrow>
          (let (shown, w1) = show_product_detail pid w
           in if shown then finish w1 else finish (back_to_main_menu (e_reseller e) w1)))"

text \<open>
  \<^verbatim>\<open>(message.text or "").strip()\<close>, \<^verbatim>\<open>isdigit()\<close> and \<^verbatim>\<open>int()\<close>: labels begin with a symbol
  that is no digit and no white space, so they are refused like any other text; a superscript
  passes \<^verbatim>\<open>isdigit()\<close> and makes \<^verbatim>\<open>int()\<close> raise.
\<close>

datatype quantity_input = NoQuantity | BadNumeral | Quantity int

definition read_quantity :: "msg_text option \<Rightarrow> quantity_input" where
  "read_quantity t =
     (let raw_text = (case t of Some (Typed s) \<Rightarrow> strip s | _ \<Rightarrow> []) in
      if raw_text = [] \<or> \<not> list_all is_digit raw_text then NoQuantity
      else case parse_int raw_text of
        None \<Rightarrow> BadNumeral
      | Some n \<Rightarrow> if n < 1 then NoQuantity else Quantity n)"

section \<open>The purchase\<close>

definition codes_delivered :: "nat \<Rightarrow> int \<Rightarrow> bulk_receipt \<Rightarrow> world \<Rightarrow> (world, unit) outcome" where
  "codes_delivered rid quantity result w =
     (let w1 = clear_state w; total = shown_price (br_total_price result) in
      case lookup r_id rid (resellers (w_db w1)) of
        None \<Rightarrow> (Inl TypeError, w1)
      | Some r \<Rightarrow>
          let w2 = answer (CodesDelivered quantity total
                       (map (\<lambda>l. (dl_order_code l, dl_code l)) (br_orders result))
                       (non_empty (support_contact r)))
                     (Some (customer_main_reply_keyboard (truthy (support_contact r)))) w1
          in if telegram_numeric_id r \<noteq> 0
             then finish (send (ToReseller (telegram_numeric_id r) (ChargeSold quantity total)) w2)
             else finish w2)"

definition buy_charges :: "env \<Rightarrow> int \<Rightarrow> nat \<Rightarrow> int \<Rightarrow> world \<Rightarrow> (world, unit) outcome" where
  "buy_charges e user pid quantity w =
     (let rid = e_reseller e; quantity_keyboard = Some customer_charge_quantity_keyboard in
      case on_db (get_or_create_customer rid user) w of
        (Inl x, w1) \<Rightarrow> (Inl x, w1)
      | (Inr None, w1) \<Rightarrow> (Inl TypeError, w1)
      | (Inr (Some cust), w1) \<Rightarrow>
          (case on_db (purchase_charge_bulk (e_moment e) rid pid (c_id cust) quantity) w1 of
             (Inr result, w2) \<Rightarrow> codes_delivered rid quantity result w2
           | (Inl ChargeCustomerBlacklistedError, w2) \<Rightarrow>
               finish (clear_state (answer PurchaseRefused None w2))
           | (Inl ChargeInsufficientBalanceError, w2) \<Rightarrow> finish (answer BalanceTooLow None w2)
           | (Inl (ChargeOutOfStockError available), w2) \<Rightarrow>
               (case available of
                  None \<Rightarrow> finish (answer OutOfStock quantity_keyboard w2)
                | Some n \<Rightarrow>
                    if n = 0 then finish (answer OutOfStock quantity_keyboard w2)
                    else finish (answer (OnlyAvailable n) quantity_keyboard w2))
           | (Inl x, w2) \<Rightarrow> (Inl x, w2)))"

definition handle_charge_quantity_input :: handler where
  "handle_charge_quantity_input e m w =
     (case selected_charge_package_id (w_data w) of
        None \<Rightarrow> finish (back_to_main_menu (e_reseller e) w)
      | Some pid \<Rightarrow>
          (case read_quantity (message_text m) of
             NoQuantity \<Rightarrow>
               finish (answer PositiveIntegerPlease (Some customer_charge_quantity_keyboard) w)
           | BadNumeral \<Rightarrow> (Inl (ValueError NotAnInteger), w)
           | Quantity quantity \<Rightarrow>
               (case lookup p_id pid (packages (w_db w)) of
                  None \<Rightarrow>
                    finish (back_to_main_menu (e_reseller e) (answer (ItemGone ChargeCatalog) None w))
                | Some p \<Rightarrow>
                    buy_charges e (from_user m) pid quantity
                      (answer (TotalPrice quantity (shown_price (sale_price p * quantity))) None w))))"

section \<open>The quantity that is read\<close>

text \<open>
  The quantity that the handler reads. The stripped text must consist of digits;
  the number they spell is taken when it is positive, and a superscript digit, which
  \<^verbatim>\<open>isdigit\<close> accepts, makes the conversion raise.
\<close>

theorem read_quantity_exact:
  "read_quantity (Some (Typed s)) =
     (let r = strip s in
      if r = [] then NoQuantity
      else if list_all is_decimal r
           then if nat_value r = 0 then NoQuantity else Quantity (int (nat_value r))
      else if list_all is_digit r then BadNumeral
      else NoQuantity)
   \<and> read_quantity (Some (Typed [char_of (178 :: nat)])) = BadNumeral"
proof
  show "read_quantity (Some (Typed [char_of (178 :: nat)])) = BadNumeral" by code_simp
next
  have "list_all is_digit r" if "list_all is_decimal r" for r
    using that by (auto simp: list_all_iff is_digit_def)
  then show "read_quantity (Some (Typed s)) =
     (let r = strip s in
      if r = [] then NoQuantity
      else if list_all is_decimal r
           then if nat_value r = 0 then NoQuantity else Quantity (int (nat_value r))
      else if list_all is_digit r then BadNumeral
      else NoQuantity)"
    by (auto simp: read_quantity_def Let_def parse_int_digits)
qed

end
