(* ===== verification/CustomerTopup.thy ===== *)
theory CustomerTopup
  imports CustomerChat
begin

text \<open>
  The third router of the customer (\<^verbatim>\<open>handlers/customer/wallet.py\<close>): the balance, and the
  request for a top-up with its method, amount and receipt.
\<close>

definition show_wallet :: handler where
  "show_wallet e m w =
     (let w1 = clear_state w in
      case on_db (get_or_create_customer (e_reseller e) (from_user m)) w1 of
        (Inl x, w2) \<Rightarrow> (Inl x, w2)
      | (Inr None, w2) \<Rightarrow> (Inl TypeError, w2)
      | (Inr (Some cust), w2) \<Rightarrow>
          finish (answer (WalletBalance (quantize1 (get_wallet_balance (c_id cust) (w_db w2))))
            (Some customer_wallet_menu_keyboard) w2))"

definition start_topup :: handler where
  "start_topup e m w =
     (let active_cards = list_cards (e_reseller e) True (w_db w);
          zarinpal_merchant = get_zarinpal_merchant (e_reseller e) (w_db w)
      in if active_cards = [] \<and> \<not> truthy zarinpal_merchant
         then finish (answer NoTopupMethod (Some customer_wallet_menu_keyboard) w)
         else finish (answer ChooseTopupMethod
                (Some (customer_topup_method_keyboard (active_cards \<noteq> []) (truthy zarinpal_merchant)))
                (set_state WalletChoosingMethod w)))"

definition choose_topup_method :: handler where
  "choose_topup_method e m w =
     (if message_text m = Some (Label BackButton) then show_wallet e m (clear_state w)
      else if message_text m \<noteq> Some (Label TopupCardButton)
              \<and> message_text m \<noteq> Some (Label TopupZarinpalButton)
      then finish (answer PickFromKeyboard None w)
      else let chosen = (if message_text m = Some (Label TopupCardButton) then Card else Zarinpal);
               w1 = update_data (\<lambda>fd. fd\<lparr>topup_method := Some chosen\<rparr>) w
           in finish (answer EnterTopupAmount None (set_state WalletEnteringAmount w1)))"

text \<open>
  \<^verbatim>\<open>Decimal(message.text.replace(",", "").strip())\<close>. A built label holds a symbol that no
  numeral has. A NaN makes the comparison raise the exception that the handler catches.
\<close>

datatype amount_input = NoText | BadAmount | InfiniteAmount | Amount decimal

definition read_amount :: "msg_text option \<Rightarrow> amount_input" where
  "read_amount t =
     (case t of
        None \<Rightarrow> NoText
      | Some (Typed s) \<Rightarrow>
          (case parse_decimal (strip (filter (\<lambda>c. c \<noteq> CHR '','') s)) of
             Some (Finite x) \<Rightarrow> if x \<le> 0 then BadAmount else Amount x
           | Some (Infinite negative) \<Rightarrow> if negative then BadAmount else InfiniteAmount
           | _ \<Rightarrow> BadAmount)
      | Some _ \<Rightarrow> BadAmount)"

definition topup_payment_info :: "nat \<Rightarrow> pay_method \<Rightarrow> db \<Rightarrow> payment_info" where
  "topup_payment_info rid meth d =
     (if meth = Card
      then (let payment_lines = map card_line (list_cards rid True d)
            in if payment_lines \<noteq> [] then PaymentLines payment_lines else NoCard)
      else OnlineOnly)"

text \<open>An infinite amount is no number of the database: the insertion fails.\<close>

definition receive_topup_amount :: handler where
  "receive_topup_amount e m w =
     (let rid = e_reseller e;
          request = (\<lambda>make reply_amount.
            (case topup_method (w_data w) of
               None \<Rightarrow> (Inl KeyError, w)
             | Some meth \<Rightarrow>
                 let payment = topup_payment_info rid meth (w_db w) in
                 (case on_db (get_or_create_customer rid (from_user m)) w of
                    (Inl x, w1) \<Rightarrow> (Inl x, w1)
                  | (Inr None, w1) \<Rightarrow> (Inl TypeError, w1)
                  | (Inr (Some cust), w1) \<Rightarrow>
                      (case on_db (make (c_id cust) meth) w1 of
                         (Inl x, w2) \<Rightarrow> (Inl x, w2)
                       | (Inr tid, w2) \<Rightarrow>
                           let w3 = update_data (\<lambda>fd. fd\<lparr>topup_id := Some tid,
                                        topup_amount := Some reply_amount\<rparr>) w2
                           in finish (answer (PayAndSendReceipt (quantize1 reply_amount) payment) None
                                (set_state WalletUploadingReceipt w3))))))
      in case read_amount (message_text m) of
           NoText \<Rightarrow> (Inl AttributeError, w)
         | BadAmount \<Rightarrow> finish (answer PositiveNumberPlease None w)
         | InfiniteAmount \<Rightarrow> request (\<lambda>cid meth d. (Inl DatabaseError, d)) 0
         | Amount x \<Rightarrow> request (\<lambda>cid meth. create_topup_request rid cid x meth) x)"

text \<open>
  The receipt. Without an id (\<^verbatim>\<open>UPDATE ... WHERE id = NULL\<close>) no row changes, and the caption
  has no number; \<^verbatim>\<open>data.get('amount', '0')\<close> is read before the context is cleared.
\<close>

definition receive_topup_receipt :: "env \<Rightarrow> string \<Rightarrow> world \<Rightarrow> (world, unit) outcome" where
  "receive_topup_receipt e file w =
     (let rid = e_reseller e;
          amount_sent = (case topup_amount (w_data w) of None \<Rightarrow> 0 | Some x \<Rightarrow> x);
          tid = topup_id (w_data w);
          w1 = (case tid of None \<Rightarrow> w | Some i \<Rightarrow> w\<lparr>w_db := attach_topup_receipt i file (w_db w)\<rparr>);
          found = lookup r_id rid (resellers (w_db w1));
          w2 = clear_state w1;
          w3 = answer TopupRequested
                 (Some (customer_main_reply_keyboard (has_support rid (w_db w1)))) w2
      in case found of
           None \<Rightarrow> finish w3
         | Some r \<Rightarrow>
             if telegram_numeric_id r \<noteq> 0
             then finish (send (ToReseller (telegram_numeric_id r)
                    (TopupReceipt tid (quantize1 amount_sent) file)) w3)
             else finish w3)"

section \<open>The amount that is read\<close>

text \<open>
  A numeral is read as the number it spells, wherever commas are put between its
  digits.
\<close>

theorem read_amount_numeral:
  assumes "filter (\<lambda>c. c \<noteq> CHR '','') s = show_nat n" and "0 < n"
  shows "read_amount (Some (Typed s)) = Amount (of_nat n)"
proof -
  have "list_all is_digit (show_nat n)"
    using list_all_show_nat [of n] by (auto simp: list_all_iff is_decimal_not_special)
  with assms show ?thesis
    by (simp add: read_amount_def parse_decimal_numeral list_all_show_nat strip_digits)
qed

lemma read_amount_numeral_witness:
  "read_amount (Some (Typed ''1,500'')) = Amount 1500"
proof -
  have "filter (\<lambda>c. c \<noteq> CHR '','') ''1,500'' = show_nat 1500"
    by (simp add: show_nat.simps digit_char_def) code_simp
  from read_amount_numeral [OF this] show ?thesis by simp
qed

text \<open>An amount that is accepted is positive, so no top-up of a customer can be negative.\<close>

theorem read_amount_positive:
  "case read_amount t of Amount x \<Rightarrow> 0 < x | _ \<Rightarrow> True"
  by (auto simp: read_amount_def split: option.splits msg_text.splits decimal_value.splits)

end
