(* ===== verification/CustomerBot.thy ===== *)
theory CustomerBot
  imports CustomerPurchase CustomerCharge CustomerTopup
begin

text \<open>
  A customer's messages to a bot: the routers in the order in which \<^verbatim>\<open>handlers/\<close> includes
  them, the error handler of \<^verbatim>\<open>core/error_handler.py\<close>, and what holds of a conversation of any
  length.
\<close>

section \<open>Routing\<close>

text \<open>
  The handlers of the reseller's own router (\<^verbatim>\<open>handlers/reseller/start.py\<close>) come first: their
  filter checks the sender.
\<close>

definition reseller_start :: handler where
  "reseller_start e m w = finish (answer ResellerPanel (Some InlineMenu) w)"

definition reseller_cancel :: handler where
  "reseller_cancel e m w =
     (case w_state w of
        None \<Rightarrow> finish (answer NotInProcess None w)
      | Some _ \<Rightarrow> finish (answer ResellerProcessCancelled (Some InlineMenu) (clear_state w)))"

text \<open>The operator's list (\<^verbatim>\<open>handlers/operator/orders.py\<close>), one message per order.\<close>

definition answer_pending_orders :: handler where
  "answer_pending_orders e m w =
     (case list_pending_orders (e_reseller e) (from_user m) (w_db w) of
        Inl x \<Rightarrow> (Inl x, w)
      | Inr None \<Rightarrow> finish (answer OperatorsOnly None w)
      | Inr (Some found) \<Rightarrow>
          if found = [] then finish (answer NoPendingOrders None w)
          else finish (fold (\<lambda>r. answer (PendingOrderRow (order_code r) (shown_price (package_price r))
                 (shown_price (commission_amount r))) (Some InlineMenu)) found w))"

text \<open>Each router is a partial function: \<open>None\<close> when none of its filters accepts the message.\<close>

definition reseller_start_router :: "env \<Rightarrow> message \<Rightarrow> world \<Rightarrow> (world, unit) outcome option" where
  "reseller_start_router e m w =
     (let owner = is_reseller_owner (from_user m) (e_reseller e) (w_db w) in
      if starts_with ''/start'' (message_text m) \<and> owner then Some (reseller_start e m w)
      else if message_text m = Some (Typed ''/cancel'') \<and> owner then Some (reseller_cancel e m w)
      else None)"

text \<open>
  \<^verbatim>\<open>Command("pending_orders")\<close>, for a text without a mention of the bot; aiogram's filter takes
  \<^verbatim>\<open>/pending_orders@bot\<close> and the caption of a picture as well.
\<close>

definition operator_router :: "env \<Rightarrow> message \<Rightarrow> world \<Rightarrow> (world, unit) outcome option" where
  "operator_router e m w =
     (case message_text m of
        Some (Typed s) \<Rightarrow>
          if takeWhile (\<lambda>c. \<not> is_space c) s = ''/pending_orders''
          then Some (answer_pending_orders e m w) else None
      | _ \<Rightarrow> None)"

definition orders_router :: "env \<Rightarrow> message \<Rightarrow> world \<Rightarrow> (world, unit) outcome option" where
  "orders_router e m w =
     (let t = message_text m in
      if t = Some (Typed ''/cancel'') then Some (customer_cancel e m w)
      else if starts_with ''/start'' t then Some (customer_start e m w)
      else if t = Some (Label SupportButton) then Some (show_support_from_keyboard e m w)
      else if t = Some (Label CatalogButton) then Some (show_catalog_from_keyboard e m w)
      else case w_state w of
        Some CatalogBrowsingOperators \<Rightarrow> Some (handle_operator_pick e m w)
      | Some CatalogBrowsingSubcategories \<Rightarrow> Some (handle_subcategory_pick e m w)
      | Some CatalogBrowsingPackages \<Rightarrow> Some (handle_package_pick e m w)
      | Some CatalogPackageSelected \<Rightarrow>
          if t = Some (Label BackButton) then Some (handle_package_detail_back e m w)
          else if t = Some (Label BuyButton) then Some (handle_buy_button e m w)
          else None
      | Some CatalogEnteringPhoneNumber \<Rightarrow>
          if t = Some (Label BackButton) then Some (cancel_phone_number_entry e m w)
          else (case content m of
                  Contact phone \<Rightarrow> Some (receive_phone_number_contact e m phone w)
                | Text label \<Rightarrow> Some (receive_phone_number_text e m label w)
                | _ \<Rightarrow> None)
      | Some OrderWaitingReceipt \<Rightarrow>
          (case content m of
             Text (Typed s) \<Rightarrow>
               if starts_with ''/discount '' t then Some (apply_discount_code e s w) else None
           | Photo file \<Rightarrow> Some (receive_receipt e file w)
           | _ \<Rightarrow> None)
      | _ \<Rightarrow> None)"

definition charge_router :: "env \<Rightarrow> message \<Rightarrow> world \<Rightarrow> (world, unit) outcome option" where
  "charge_router e m w =
     (let t = message_text m in
      if t = Some (Label ChargeButton) then Some (show_charge_catalog_from_keyboard e m w)
      else case w_state w of
        Some ChargeBrowsingOperators \<Rightarrow> Some (handle_charge_operator_pick e m w)
      | Some ChargeBrowsingSubcategories \<Rightarrow> Some (handle_charge_subcategory_pick e m w)
      | Some ChargeBrowsingProducts \<Rightarrow> Some (handle_charge_product_pick e m w)
      | Some ChargeProductSelected \<Rightarrow>
          if t = Some (Label BackButton) then Some (handle_charge_detail_back e m w)
          else if t = Some (Label BuyChargeButton) then Some (handle_buy_charge_button e m w)
          else None
      | Some ChargeEnteringQuantity \<Rightarrow>
          if t = Some (Label BackButton) then Some (handle_charge_quantity_back e m w)
          else Some (handle_charge_quantity_input e m w)
      | _ \<Rightarrow> None)"

definition wallet_router :: "env \<Rightarrow> message \<Rightarrow> world \<Rightarrow> (world, unit) outcome option" where
  "wallet_router e m w =
     (let t = message_text m in
      if t = Some (Label WalletButton) then Some (show_wallet e m w)
      else if t = Some (Label TopupButton) then Some (start_topup e m w)
      else case w_state w of
        Some WalletChoosingMethod \<Rightarrow> Some (choose_topup_method e m w)
      | Some WalletEnteringAmount \<Rightarrow> Some (receive_topup_amount e m w)
      | Some WalletUploadingReceipt \<Rightarrow>
          (case content m of Photo file \<Rightarrow> Some (receive_topup_receipt e file w) | _ \<Rightarrow> None)
      | _ \<Rightarrow> None)"

definition or_else :: "'a option \<Rightarrow> 'a option \<Rightarrow> 'a option" where
  "or_else a b = (case a of None \<Rightarrow> b | Some x \<Rightarrow> Some x)"

definition dispatch :: "env \<Rightarrow> message \<Rightarrow> world \<Rightarrow> (world, unit) outcome option" where
  "dispatch e m w =
     or_else (reseller_start_router e m w)
       (or_else (operator_router e m w)
         (or_else (orders_router e m w) (or_else (charge_router e m w) (wallet_router e m w))))"

text \<open>
  An update: the error handler answers when a handler raised; a message that no handler
  accepts is dropped.
\<close>

definition handle_update :: "env \<Rightarrow> message \<Rightarrow> world \<Rightarrow> world" where
  "handle_update e m w =
     (case dispatch e m w of
        None \<Rightarrow> w
      | Some (Inl x, w1) \<Rightarrow> answer ErrorMessage None w1
      | Some (Inr _, w1) \<Rightarrow> w1)"

end
