(* ===== verification/Conversations.thy ===== *)
theory Conversations
  imports CustomerBot
begin

text \<open>
  Conversations of any length: one customer's messages, with anything happening to the
  database between them. Every reachable context holds the data that the handlers of its
  state read, and its keyboard offers exactly what they recognise.
\<close>

section \<open>The keyboard on the customer's screen\<close>

text \<open>A reply keyboard stays until another one replaces it; inline buttons do not.\<close>

fun keyboard_after :: "keyboard option \<Rightarrow> sent \<Rightarrow> keyboard option" where
  "keyboard_after old (Answer r (Some InlineMenu)) = old"
| "keyboard_after old (Answer r (Some k)) = Some k"
| "keyboard_after old s = old"

definition reply_keyboard :: "sent list \<Rightarrow> keyboard option" where
  "reply_keyboard = foldl keyboard_after None"

lemma reply_keyboard_simps [simp]:
  "reply_keyboard [] = None"
  "reply_keyboard (xs @ [s]) = keyboard_after (reply_keyboard xs) s"
  by (simp_all add: reply_keyboard_def)

lemma keyboards_replace [simp]:
  "keyboard_after old (Answer r (Some (customer_main_reply_keyboard b))) = Some (customer_main_reply_keyboard b)"
  "keyboard_after old (Answer r (Some (customer_folder_reply_keyboard names back))) =
     Some (customer_folder_reply_keyboard names back)"
  "keyboard_after old (Answer r (Some customer_package_detail_keyboard)) = Some customer_package_detail_keyboard"
  "keyboard_after old (Answer r (Some customer_charge_detail_keyboard)) = Some customer_charge_detail_keyboard"
  "keyboard_after old (Answer r (Some customer_charge_quantity_keyboard)) = Some customer_charge_quantity_keyboard"
  "keyboard_after old (Answer r (Some customer_phone_number_keyboard)) = Some customer_phone_number_keyboard"
  "keyboard_after old (Answer r (Some customer_wallet_menu_keyboard)) = Some customer_wallet_menu_keyboard"
  "keyboard_after old (Answer r (Some (customer_topup_method_keyboard c z))) =
     Some (customer_topup_method_keyboard c z)"
  by (simp_all add: customer_main_reply_keyboard_def customer_folder_reply_keyboard_def
      customer_package_detail_keyboard_def customer_charge_detail_keyboard_def
      customer_charge_quantity_keyboard_def customer_phone_number_keyboard_def
      customer_wallet_menu_keyboard_def customer_topup_method_keyboard_def)

section \<open>Well-formed contexts\<close>

text \<open>The data that each state needs.\<close>

fun session_data :: "fsm_state option \<Rightarrow> fsm_data \<Rightarrow> bool" where
  "session_data None fd = True"
| "session_data (Some OrderChoosingPackage) fd = False"
| "session_data (Some OrderWaitingReceipt) fd = (data_order_id fd \<noteq> None)"
| "session_data (Some CatalogBrowsingOperators) fd = (operator_map fd \<noteq> None)"
| "session_data (Some CatalogBrowsingSubcategories) fd =
     (operator_map fd \<noteq> None \<and> subcategory_map fd \<noteq> None)"
| "session_data (Some CatalogBrowsingPackages) fd = (operator_map fd \<noteq> None \<and> package_map fd \<noteq> None)"
| "session_data (Some CatalogPackageSelected) fd =
     (operator_map fd \<noteq> None \<and> package_map fd \<noteq> None \<and> selected_package_id fd \<noteq> None)"
| "session_data (Some CatalogEnteringPhoneNumber) fd =
     (operator_map fd \<noteq> None \<and> package_map fd \<noteq> None \<and> selected_package_id fd \<noteq> None)"
| "session_data (Some ChargeBrowsingOperators) fd = (charge_operator_map fd \<noteq> None)"
| "session_data (Some ChargeBrowsingSubcategories) fd =
     (charge_operator_map fd \<noteq> None \<and> charge_subcategory_map fd \<noteq> None)"
| "session_data (Some ChargeBrowsingProducts) fd =
     (charge_operator_map fd \<noteq> None \<and> charge_subcategory_map fd \<noteq> None \<and> charge_product_map fd \<noteq> None)"
| "session_data (Some ChargeProductSelected) fd =
     (charge_operator_map fd \<noteq> None \<and> charge_subcategory_map fd \<noteq> None \<and> charge_product_map fd \<noteq> None
      \<and> selected_charge_package_id fd \<noteq> None)"
| "session_data (Some ChargeEnteringQuantity) fd =
     (charge_operator_map fd \<noteq> None \<and> charge_subcategory_map fd \<noteq> None \<and> charge_product_map fd \<noteq> None
      \<and> selected_charge_package_id fd \<noteq> None)"
| "session_data (Some WalletChoosingMethod) fd = True"
| "session_data (Some WalletEnteringAmount) fd = (topup_method fd \<noteq> None)"
| "session_data (Some WalletUploadingReceipt) fd =
     (topup_method fd \<noteq> None \<and> topup_id fd \<noteq> None \<and> topup_amount fd \<noteq> None)"

text \<open>The keyboard on the screen, in the states where the handlers compare texts with it.\<close>

definition folder_keyboard :: "menu option \<Rightarrow> button \<Rightarrow> keyboard option" where
  "folder_keyboard items back = Some (customer_folder_reply_keyboard (map fst (menu_get items)) back)"

fun session_keyboard :: "fsm_state option \<Rightarrow> fsm_data \<Rightarrow> keyboard option \<Rightarrow> bool" where
  "session_keyboard (Some CatalogBrowsingOperators) fd k =
     (k = folder_keyboard (operator_map fd) BackToMenuButton)"
| "session_keyboard (Some CatalogBrowsingSubcategories) fd k =
     (k = folder_keyboard (subcategory_map fd) BackButton)"
| "session_keyboard (Some CatalogBrowsingPackages) fd k =
     (k = folder_keyboard (package_map fd) BackButton)"
| "session_keyboard (Some CatalogEnteringPhoneNumber) fd k = (k = Some customer_phone_number_keyboard)"
| "session_keyboard (Some ChargeBrowsingOperators) fd k =
     (k = folder_keyboard (charge_operator_map fd) BackToMenuButton)"
| "session_keyboard (Some ChargeBrowsingSubcategories) fd k =
     (k = folder_keyboard (charge_subcategory_map fd) BackButton)"
| "session_keyboard (Some ChargeBrowsingProducts) fd k =
     (k = folder_keyboard (charge_product_map fd) BackButton)"
| "session_keyboard (Some ChargeEnteringQuantity) fd k = (k = Some customer_charge_quantity_keyboard)"
| "session_keyboard st fd k = True"

text \<open>The labels of the menus are built from names; none is a fixed label or free text.\<close>

fun built_label :: "msg_text \<Rightarrow> bool" where
  "built_label (Label b) = False"
| "built_label (Typed s) = False"
| "built_label t = True"

definition menus_of :: "fsm_data \<Rightarrow> menu option list" where
  "menus_of fd = [operator_map fd, subcategory_map fd, package_map fd, charge_operator_map fd,
     charge_subcategory_map fd, charge_product_map fd]"

definition built_menu :: "menu option \<Rightarrow> bool" where
  "built_menu m \<longleftrightarrow> (\<forall>k \<in> fst ` set (menu_get m). built_label k)"

definition menus_built :: "fsm_data \<Rightarrow> bool" where
  "menus_built fd \<longleftrightarrow> list_all built_menu (menus_of fd)"

definition in_session :: "world \<Rightarrow> bool" where
  "in_session w \<longleftrightarrow> session_data (w_state w) (w_data w)
     \<and> session_keyboard (w_state w) (w_data w) (reply_keyboard (w_sent w))
     \<and> menus_built (w_data w)"

lemma update_keys: "fst ` set (AList.update k v xs) = insert k (fst ` set xs)"
  by (induction xs) auto

lemma menu_of_keys [simp]: "fst ` set (menu_of xs) = fst ` set xs"
proof -
  have "fst ` set (fold (\<lambda>(k, v). AList.update k v) xs ys) = fst ` set xs \<union> fst ` set ys" for ys
    by (induction xs arbitrary: ys) (simp_all add: update_keys case_prod_unfold)
  then show ?thesis by (simp add: menu_of_def)
qed

lemma built_menu_simps [simp]:
  "built_menu None" "built_menu (Some (menu_of xs)) = (\<forall>x \<in> set xs. built_label (fst x))"
  using menu_of_keys [of xs] by (simp_all only: built_menu_def menu_get_def) simp_all

lemma menus_built_simps [simp]:
  "menus_built empty_data"
  "menus_built (fd\<lparr>selected_package_id := i\<rparr>) = menus_built fd"
  "menus_built (fd\<lparr>data_order_id := i\<rparr>) = menus_built fd"
  "menus_built (fd\<lparr>selected_charge_package_id := i\<rparr>) = menus_built fd"
  "menus_built (fd\<lparr>topup_method := meth\<rparr>) = menus_built fd"
  "menus_built (fd\<lparr>topup_id := i, topup_amount := a\<rparr>) = menus_built fd"
  by (simp_all add: menus_built_def menus_of_def empty_data_def)

lemma menus_built_updates:
  assumes "menus_built fd" and "\<forall>x \<in> set xs. built_label (fst x)"
  shows "menus_built (fd\<lparr>operator_map := Some (menu_of xs)\<rparr>)"
    "menus_built (fd\<lparr>subcategory_map := Some (menu_of xs)\<rparr>)"
    "menus_built (fd\<lparr>package_map := Some (menu_of xs)\<rparr>)"
    "menus_built (fd\<lparr>charge_operator_map := Some (menu_of xs)\<rparr>)"
    "menus_built (fd\<lparr>charge_subcategory_map := Some (menu_of xs)\<rparr>)"
    "menus_built (fd\<lparr>charge_product_map := Some (menu_of xs)\<rparr>)"
  using assms by (simp_all add: menus_built_def menus_of_def)

lemma in_session_db [simp]: "in_session (w\<lparr>w_db := d\<rparr>) = in_session w"
  by (simp add: in_session_def)

lemma in_session_quiet [simp]:
  "in_session (answer r None w) = in_session w"
  "in_session (answer r (Some InlineMenu) w) = in_session w"
  "in_session (send (ToReseller i n) w) = in_session w"
  "in_session (send (InsufficientCreditAlert i c) w) = in_session w"
  by (simp_all add: in_session_def answer_def send_def)

lemma in_session_idle: "w_state w = None \<Longrightarrow> w_data w = empty_data \<Longrightarrow> in_session w"
  by (simp add: in_session_def)

lemma state_simps [simp]:
  "w_state (answer r k w) = w_state w" "w_state (send s w) = w_state w"
  "w_state (clear_state w) = None" "w_state (set_state st w) = Some st"
  "w_state (update_data f w) = w_state w"
  "w_data (answer r k w) = w_data w" "w_data (send s w) = w_data w"
  "w_data (clear_state w) = empty_data" "w_data (set_state st w) = w_data w"
  "w_data (update_data f w) = f (w_data w)"
  "w_db (answer r k w) = w_db w" "w_db (send s w) = w_db w" "w_db (clear_state w) = w_db w"
  "w_db (set_state st w) = w_db w" "w_db (update_data f w) = w_db w"
  "w_sent (answer r k w) = w_sent w @ [Answer r k]" "w_sent (send s w) = w_sent w @ [s]"
  "w_sent (clear_state w) = w_sent w" "w_sent (set_state st w) = w_sent w"
  "w_sent (update_data f w) = w_sent w"
  by (simp_all add: world_defs)

lemma back_to_main_menu_simps [simp]:
  "w_state (back_to_main_menu rid w) = None" "w_data (back_to_main_menu rid w) = empty_data"
  "w_db (back_to_main_menu rid w) = w_db w"
  by (simp_all add: back_to_main_menu_def)

lemma finish_simps [simp]: "snd (finish w) = w" "fst (finish w) = Inr ()"
  by (simp_all add: finish_def)

lemma on_db_cases:
  assumes "on_db f w = (res, w1)"
  obtains d where "f (w_db w) = (res, d)" and "w1 = w\<lparr>w_db := d\<rparr>"
  using assms by (auto simp: on_db_def split: prod.splits)

lemma pick_SomeD: "pick m t = Some i \<Longrightarrow> m \<noteq> None"
  by (auto simp: pick_def menu_get_def split: option.splits)

section \<open>Every handler keeps the context well-formed\<close>

lemmas session_simps = in_session_def menus_built_updates folder_keyboard_def menu_get_def Let_def

lemma session_show_operators:
  "in_session w \<Longrightarrow> in_session (snd (show_operators e u w))"
  "in_session w \<Longrightarrow> in_session (snd (show_charge_operators e u w))"
  by (auto simp: show_operators_def show_charge_operators_def session_simps split: prod.split)

lemma session_package_catalog:
  "in_session w \<Longrightarrow> w_state w = Some CatalogBrowsingOperators \<Longrightarrow> in_session (snd (handle_operator_pick e m w))"
  "in_session w \<Longrightarrow> w_state w = Some CatalogBrowsingSubcategories \<Longrightarrow> in_session (snd (handle_subcategory_pick e m w))"
  "in_session w \<Longrightarrow> w_state w = Some CatalogBrowsingPackages \<Longrightarrow> in_session (snd (handle_package_pick e m w))"
  "in_session w \<Longrightarrow> w_state w = Some CatalogPackageSelected \<Longrightarrow> in_session (snd (handle_package_detail_back e m w))"
  "in_session w \<Longrightarrow> w_state w = Some CatalogPackageSelected \<Longrightarrow> in_session (snd (handle_buy_button e m w))"
  "in_session w \<Longrightarrow> w_state w = Some CatalogEnteringPhoneNumber \<Longrightarrow> in_session (snd (cancel_phone_number_entry e m w))"
  by (auto simp: handle_operator_pick_def handle_subcategory_pick_def handle_package_pick_def
      handle_package_detail_back_def handle_buy_button_def cancel_phone_number_entry_def
      show_operators_def session_simps in_session_idle split: option.split prod.split)

lemma session_charge_catalog:
  "in_session w \<Longrightarrow> w_state w = Some ChargeBrowsingOperators \<Longrightarrow> in_session (snd (handle_charge_operator_pick e m w))"
  "in_session w \<Longrightarrow> w_state w = Some ChargeBrowsingSubcategories \<Longrightarrow> in_session (snd (handle_charge_subcategory_pick e m w))"
  "in_session w \<Longrightarrow> w_state w = Some ChargeBrowsingProducts \<Longrightarrow> in_session (snd (handle_charge_product_pick e m w))"
  "in_session w \<Longrightarrow> w_state w = Some ChargeProductSelected \<Longrightarrow> in_session (snd (handle_charge_detail_back e m w))"
  "in_session w \<Longrightarrow> w_state w = Some ChargeProductSelected \<Longrightarrow> in_session (snd (handle_buy_charge_button e m w))"
  "in_session w \<Longrightarrow> w_state w = Some ChargeEnteringQuantity \<Longrightarrow> in_session (snd (handle_charge_quantity_back e m w))"
  by (auto simp: handle_charge_operator_pick_def handle_charge_subcategory_pick_def
      handle_charge_product_pick_def handle_charge_detail_back_def handle_buy_charge_button_def
      handle_charge_quantity_back_def show_product_detail_def product_detail_def
      session_simps in_session_idle split: option.split)

text \<open>Ends of dialogs: the context is cleared or waits for a receipt.\<close>

lemma session_process_purchase:
  assumes "in_session w"
  shows "in_session (snd (process_purchase e u phone w))"
proof -
  have paid: "in_session (snd (order_paid_by_wallet rid label phone ord w1))" for rid label ord w1
    by (auto simp: order_paid_by_wallet_def Let_def in_session_idle split: option.split)
  have receipt: "in_session w1 \<Longrightarrow> in_session (snd (order_by_receipt rid label phone ord w1))" for rid label ord w1
    by (auto simp: order_by_receipt_def in_session_def Let_def split: option.split)
  have refused: "in_session (snd (order_refused w1))" for w1
    by (simp add: order_refused_def in_session_idle)
  show ?thesis
    using assms
    by (auto simp: process_purchase_def Let_def paid receipt refused in_session_idle
        split: option.split prod.split sum.split elim!: on_db_cases)
qed

lemma session_ask_quantity:
  "in_session w \<Longrightarrow> w_state w = Some ChargeEnteringQuantity \<Longrightarrow>
   in_session (answer r (Some customer_charge_quantity_keyboard) w)"
  by (simp add: in_session_def)

lemma session_buy_charges:
  assumes "in_session w" and "w_state w = Some ChargeEnteringQuantity"
  shows "in_session (snd (buy_charges e u pid n w))"
proof -
  have codes: "in_session (snd (codes_delivered rid n res w1))" for rid res w1
    by (auto simp: codes_delivered_def Let_def in_session_idle split: option.split)
  show ?thesis
    using assms
    by (auto simp: buy_charges_def Let_def codes in_session_idle session_ask_quantity
        split: option.split prod.split sum.split exn.split elim!: on_db_cases)
qed

lemma session_quantity:
  assumes "in_session w" and "w_state w = Some ChargeEnteringQuantity"
  shows "in_session (snd (handle_charge_quantity_input e m w))"
proof -
  have buy: "in_session (snd (buy_charges e (from_user m) pid n (answer r None w)))" for pid n r
    using assms by (intro session_buy_charges) simp_all
  show ?thesis
    using assms
    by (auto simp: handle_charge_quantity_input_def in_session_idle buy session_ask_quantity
        split: option.split quantity_input.split)
qed

lemma session_receipts:
  assumes "in_session w"
  shows "in_session (snd (receive_receipt e file w))" "in_session (snd (apply_discount_code e s w))"
    "in_session (snd (receive_topup_receipt e file w))"
  using assms
  by (auto simp: receive_receipt_def apply_discount_code_def receive_topup_receipt_def Let_def in_session_idle
      split: option.split prod.split sum.split exn.split elim!: on_db_cases)


lemma session_wallet:
  "in_session w \<Longrightarrow> in_session (snd (show_wallet e m w))"
  "in_session w \<Longrightarrow> in_session (snd (choose_topup_method e m w))"
proof -
  show wallet: "in_session (snd (show_wallet e m w))" for w
    by (auto simp: show_wallet_def Let_def in_session_idle split: option.split prod.split sum.split
        elim!: on_db_cases)
  then show "in_session w \<Longrightarrow> in_session (snd (choose_topup_method e m w))"
    by (auto simp: choose_topup_method_def Let_def in_session_def)
qed

lemma session_start: "in_session (snd (customer_start e m w))"
  by (auto simp: customer_start_def Let_def in_session_idle
      split: option.split prod.split sum.split msg_text.split elim!: on_db_cases)

lemma session_amount:
  assumes "in_session w" and "w_state w = Some WalletEnteringAmount"
  shows "in_session (snd (receive_topup_amount e m w))"
  using assms
  by (auto simp: receive_topup_amount_def Let_def in_session_def
      split: amount_input.split option.split prod.split sum.split elim!: on_db_cases)


lemmas session_handlers = session_show_operators session_package_catalog session_charge_catalog
  session_process_purchase session_quantity session_receipts session_wallet
  session_amount

lemma session_orders_router:
  "in_session w \<Longrightarrow> orders_router e m w = Some res \<Longrightarrow> in_session (snd res)"
  by (auto simp: orders_router_def Let_def customer_cancel_def show_support_from_keyboard_def
      show_catalog_from_keyboard_def receive_phone_number_contact_def receive_phone_number_text_def
      session_handlers session_start in_session_idle
      split: option.splits fsm_state.splits if_splits content.splits msg_text.splits)


lemma session_charge_router:
  "in_session w \<Longrightarrow> charge_router e m w = Some res \<Longrightarrow> in_session (snd res)"
  by (auto simp: charge_router_def Let_def show_charge_catalog_from_keyboard_def session_handlers
      split: option.splits fsm_state.splits if_splits)

lemma message_text_Some: "message_text m = Some t \<longleftrightarrow> content m = Text t"
  by (cases "content m") simp_all

lemma topup_button_reaches:
  assumes "content m = Text (Label TopupButton)" and "w_state w = Some st"
    and "orders_router e m w = None" and "charge_router e m w = None"
  shows "st \<in> {OrderChoosingPackage, OrderWaitingReceipt, CatalogPackageSelected,
      ChargeProductSelected, WalletChoosingMethod, WalletEnteringAmount, WalletUploadingReceipt}"
  using assms(3,4)
  by (cases st) (simp_all add: orders_router_def charge_router_def starts_with_def assms(1,2))

lemma session_wallet_router:
  assumes "in_session w" and "orders_router e m w = None" and "charge_router e m w = None"
    and "wallet_router e m w = Some res"
  shows "in_session (snd res)"
proof (cases "message_text m = Some (Label TopupButton)")
  case True
  with assms(2,3) have "in_session (snd (start_topup e m w))"
    using assms(1) topup_button_reaches [of m w _ e]
    by (cases "w_state w") (auto simp: message_text_Some start_topup_def Let_def in_session_def)
  with True assms(4) show ?thesis by (auto simp: wallet_router_def)
next
  case False
  with assms(1,4) show ?thesis
    by (auto simp: wallet_router_def Let_def session_handlers
      split: option.splits fsm_state.splits if_splits content.splits)
qed

lemma session_other_routers:
  assumes "in_session w"
  shows "reseller_start_router e m w = Some res \<Longrightarrow> in_session (snd res)"
    "operator_router e m w = Some res \<Longrightarrow> in_session (snd res)"
proof -
  show "reseller_start_router e m w = Some res \<Longrightarrow> in_session (snd res)"
    using assms by (auto simp: reseller_start_router_def reseller_start_def reseller_cancel_def Let_def
        in_session_idle split: option.splits if_splits)
  have "in_session (fold (\<lambda>r. answer (f r) (Some InlineMenu)) rs w)" for rs :: "order list" and f
    using assms by (induction rs arbitrary: w) simp_all
  then show "operator_router e m w = Some res \<Longrightarrow> in_session (snd res)"
    using assms by (auto simp: operator_router_def answer_pending_orders_def
        split: option.splits msg_text.splits if_splits sum.splits)
qed

lemma in_session_update:
  assumes "in_session w"
  shows "in_session (handle_update e m w)"
proof -
  have "in_session (snd res)" if "dispatch e m w = Some res" for res
    using that assms session_other_routers [OF assms] session_orders_router [OF assms]
      session_charge_router [OF assms] session_wallet_router [OF assms]
    by (auto simp: dispatch_def or_else_def split: option.splits)
  then show ?thesis
    using assms by (fastforce simp: handle_update_def split: option.split prod.split sum.split)
qed

section \<open>Reachable conversations\<close>

text \<open>
  A conversation of a user with the bot of a reseller: the context starts empty; the user's
  messages are handled one after the other, and between them the database changes in any way.
\<close>

inductive conversation :: "nat \<Rightarrow> int \<Rightarrow> world \<Rightarrow> bool" for rid user where
  Start: "conversation rid user \<lparr>w_db = d, w_state = None, w_data = empty_data, w_sent = []\<rparr>"
| Message: "conversation rid user w \<Longrightarrow> e_reseller e = rid \<Longrightarrow> from_user m = user \<Longrightarrow>
    conversation rid user (handle_update e m w)"
| Others: "conversation rid user w \<Longrightarrow> conversation rid user (w\<lparr>w_db := d\<rparr>)"

lemma conversation_in_session: "conversation rid user w \<Longrightarrow> in_session w"
  by (induction rule: conversation.induct) (simp_all add: in_session_idle in_session_update)

section \<open>A shop to talk to\<close>

definition demo_env :: env where
  "demo_env = \<lparr>e_reseller = 1, e_config = default_config, e_member = (\<lambda>channel user. None),
     e_moment = (\<lambda>n. demo_moment\<lparr>m_suffix := ''7QY''\<rparr>)\<rparr>"

definition demo_start :: "db \<Rightarrow> world" where
  "demo_start d = \<lparr>w_db = d, w_state = None, w_data = empty_data, w_sent = []\<rparr>"

fun talk :: "int \<Rightarrow> msg_text list \<Rightarrow> world \<Rightarrow> world" where
  "talk user [] w = w"
| "talk user (t # ts) w = talk user ts (handle_update demo_env \<lparr>from_user = user, content = Text t\<rparr> w)"

lemma talk_conversation: "conversation 1 user w \<Longrightarrow> conversation 1 user (talk user ts w)"
  by (induction ts arbitrary: w) (simp_all add: conversation.Message demo_env_def)

lemma demo_conversation: "conversation 1 user (talk user ts (demo_start d))"
  by (rule talk_conversation) (simp add: demo_start_def conversation.Start)

definition demo_shop_db :: db where
  "demo_shop_db = demo_order_db\<lparr>
     categories := \<lparr>trows =
       [\<lparr>cat_id = 1, cat_reseller_id = 1, operator_name = ''MCI'', parent_category_id = None,
         cat_title = ''MCI'', cat_type = PackageCatalog\<rparr>,
        \<lparr>cat_id = 2, cat_reseller_id = 1, operator_name = ''MCI'', parent_category_id = Some 1,
         cat_title = ''monthly'', cat_type = PackageCatalog\<rparr>,
        \<lparr>cat_id = 3, cat_reseller_id = 1, operator_name = ''MCI'', parent_category_id = None,
         cat_title = ''MCI'', cat_type = ChargeCatalog\<rparr>,
        \<lparr>cat_id = 4, cat_reseller_id = 1, operator_name = ''MCI'', parent_category_id = Some 3,
         cat_title = ''cards'', cat_type = ChargeCatalog\<rparr>], auto_inc = 5\<rparr>,
     packages := \<lparr>trows = [demo_package\<lparr>p_category_id := 2\<rparr>,
        demo_package\<lparr>p_id := 2, p_category_id := 4, p_name := ''card'', sale_price := 20000\<rparr>], auto_inc = 3\<rparr>\<rparr>"

definition demo_operators :: world where
  "demo_operators = talk 900 [Label CatalogButton] (demo_start demo_shop_db)"

definition demo_quantity :: world where
  "demo_quantity = talk 900 [Label ChargeButton, OperatorLabel ''MCI'', FolderLabel ''cards'',
     ProductLabel ''card'' 200, Label BuyChargeButton] (demo_start demo_shop_db)"

section \<open>Properties of conversations\<close>

text \<open>
  In every reachable context the data that the handlers of the state look up is
  present and the screen shows the keyboard of the state, so no handler meets a missing key.
\<close>

theorem conversation_well_formed:
  assumes "conversation rid user w"
  shows "session_data (w_state w) (w_data w)
    \<and> session_keyboard (w_state w) (w_data w) (reply_keyboard (w_sent w))"
  using conversation_in_session [OF assms] by (simp add: in_session_def)

lemma conversation_well_formed_witness:
  "session_data (w_state demo_operators) (w_data demo_operators)"
  using conversation_well_formed [OF demo_conversation [of 900 "[Label CatalogButton]" demo_shop_db]]
  by (simp add: demo_operators_def)

definition browsing :: "fsm_state set" where
  "browsing = {CatalogBrowsingOperators, CatalogBrowsingSubcategories, CatalogBrowsingPackages,
     ChargeBrowsingOperators, ChargeBrowsingSubcategories, ChargeBrowsingProducts}"

lemma folder_buttons:
  "set (buttons_of (customer_folder_reply_keyboard names back)) = insert (Label back) (set names)"
  by (auto simp: customer_folder_reply_keyboard_def)

lemma pick_offered: "t \<in> fst ` set (menu_get menu) \<Longrightarrow> \<exists>i. pick menu (Some t) = Some i"
  by (auto simp: pick_def dest: weak_map_of_SomeI)

lemma built_menuD: "built_menu menu \<Longrightarrow> t \<in> fst ` set (menu_get menu) \<Longrightarrow> built_label t"
  by (auto simp: built_menu_def)

text \<open>A pressed button of a folder keyboard is the way back or picks an item.\<close>

lemma pressed_folder_button:
  assumes "folder_keyboard menu back = Some k" and "b \<in> set (buttons_of k)" and "built_menu menu"
  obtains "b = Label back" | i where "pick menu (Some b) = Some i" and "built_label b"
proof (cases "b = Label back")
  case False
  with assms(1,2) have mem: "b \<in> fst ` set (menu_get menu)"
    by (auto simp: folder_keyboard_def folder_buttons)
  from pick_offered [OF mem] obtain i where "pick menu (Some b) = Some i" by blast
  then show ?thesis using built_menuD [OF assms(3) mem] by (rule that(2))
qed (rule that(1))

lemma built_label_routes:
  assumes "built_label t" and "content m = Text t"
  shows "message_text m \<noteq> Some (Label x)" "message_text m \<noteq> Some (Typed s)"
    "\<not> starts_with p (message_text m)"
    "reseller_start_router e m w = None" "operator_router e m w = None"
  using assms
  by (cases t; simp add: starts_with_def reseller_start_router_def operator_router_def)+

text \<open>The handler answers once, and not with the request to use the keyboard.\<close>

definition serves :: "world \<Rightarrow> (world, unit) outcome \<Rightarrow> bool" where
  "serves w res \<longleftrightarrow> (\<exists>r k. w_sent (snd res) = w_sent w @ [Answer r k] \<and> r \<noteq> PickFromKeyboard)"

lemma serves_answer [simp]:
  "w_sent w1 = w_sent w \<Longrightarrow> serves w (finish (answer r k w1)) \<longleftrightarrow> r \<noteq> PickFromKeyboard"
  by (auto simp: serves_def)

lemma serves_show_operators [simp]: "serves w (show_operators e u w)"
  by (auto simp: show_operators_def Let_def split: prod.split)

lemma serves_pick:
  "pick (operator_map (w_data w)) (message_text m) = Some i \<Longrightarrow> serves w (handle_operator_pick e m w)"
  "pick (subcategory_map (w_data w)) (message_text m) = Some i \<Longrightarrow> serves w (handle_subcategory_pick e m w)"
  "pick (package_map (w_data w)) (message_text m) = Some i \<Longrightarrow> serves w (handle_package_pick e m w)"
  "pick (charge_operator_map (w_data w)) (message_text m) = Some i \<Longrightarrow>
     serves w (handle_charge_operator_pick e m w)"
  "pick (charge_subcategory_map (w_data w)) (message_text m) = Some i \<Longrightarrow>
     serves w (handle_charge_subcategory_pick e m w)"
  "pick (charge_product_map (w_data w)) (message_text m) = Some i \<Longrightarrow>
     serves w (handle_charge_product_pick e m w)"
  by (simp_all add: handle_operator_pick_def handle_package_pick_def handle_subcategory_pick_def
      handle_charge_operator_pick_def handle_charge_subcategory_pick_def product_detail_def
      handle_charge_product_pick_def back_to_main_menu_def Let_def split: option.split)

definition picks :: "env \<Rightarrow> message \<Rightarrow> world \<Rightarrow> bool" where
  "picks e m w = (case dispatch e m w of None \<Rightarrow> False | Some res \<Rightarrow> serves w res)"

lemma label_routes:
  assumes "content m = Text (Label x)"
  shows "reseller_start_router e m w = None" "operator_router e m w = None"
  using assms by (simp_all add: starts_with_def reseller_start_router_def operator_router_def)

text \<open>The menu of a browsing state and its way back.\<close>

fun shown_menu :: "fsm_state \<Rightarrow> fsm_data \<Rightarrow> menu option" where
  "shown_menu CatalogBrowsingOperators fd = operator_map fd"
| "shown_menu CatalogBrowsingSubcategories fd = subcategory_map fd"
| "shown_menu CatalogBrowsingPackages fd = package_map fd"
| "shown_menu ChargeBrowsingOperators fd = charge_operator_map fd"
| "shown_menu ChargeBrowsingSubcategories fd = charge_subcategory_map fd"
| "shown_menu ChargeBrowsingProducts fd = charge_product_map fd"
| "shown_menu st fd = None"

fun back_button :: "fsm_state \<Rightarrow> button" where
  "back_button CatalogBrowsingOperators = BackToMenuButton"
| "back_button ChargeBrowsingOperators = BackToMenuButton"
| "back_button st = BackButton"

lemma shown_menu_ok:
  assumes "in_session w" and "w_state w = Some st" and "st \<in> browsing"
  shows "reply_keyboard (w_sent w) = folder_keyboard (shown_menu st (w_data w)) (back_button st)"
    "built_menu (shown_menu st (w_data w))"
  using assms by (auto simp: in_session_def browsing_def menus_built_def menus_of_def)

lemma offered_button_picks:
  assumes w: "in_session w" and st: "w_state w = Some st" "st \<in> browsing"
    and k: "reply_keyboard (w_sent w) = Some k" and b: "b \<in> set (buttons_of k)"
    and m: "content m = Text b"
  shows "picks e m w"
proof -
  note menu = shown_menu_ok [OF w st]
  from menu(1) [symmetric] have "folder_keyboard (shown_menu st (w_data w)) (back_button st) = Some k"
    by (simp add: k)
  from this b menu(2) show ?thesis
  proof (cases rule: pressed_folder_button)
    case 1
    from 1 m st label_routes [of m "back_button st" e w] show ?thesis
      by (auto simp: browsing_def picks_def dispatch_def or_else_def orders_router_def charge_router_def
          starts_with_def handle_operator_pick_def back_to_main_menu_def handle_package_pick_def
          handle_subcategory_pick_def handle_charge_operator_pick_def
          handle_charge_subcategory_pick_def handle_charge_product_pick_def)
  next
    case (2 i)
    with m st built_label_routes [OF 2(2) m] show ?thesis
      by (auto simp: browsing_def picks_def dispatch_def or_else_def orders_router_def charge_router_def
          serves_pick)
  qed
qed

text \<open>
  Property C16: the keyboard and the handlers agree. At any point of a conversation, whatever
  the database has become, every button on the folder keyboard that the customer sees is served
  by a handler, and none is answered with the request to use the keyboard.
\<close>

theorem offered_buttons_are_recognised:
  assumes "conversation rid user w" and "w_state w = Some st" and "st \<in> browsing"
    and "reply_keyboard (w_sent w) = Some k" and "b \<in> set (buttons_of k)" and "content m = Text b"
  shows "picks e m w"
  using conversation_in_session [OF assms(1)] assms(2-) by (rule offered_button_picks)

lemma offered_buttons_are_recognised_witness:
  "picks demo_env \<lparr>from_user = 900, content = Text (OperatorLabel ''MCI'')\<rparr> demo_operators"
proof -
  have st: "w_state demo_operators = Some CatalogBrowsingOperators"
    and k: "reply_keyboard (w_sent demo_operators) =
       Some (Keys [[OperatorLabel ''MCI''], [Label BackToMenuButton]])"
    by code_simp+
  have conv: "conversation 1 900 demo_operators"
    unfolding demo_operators_def by (rule demo_conversation)
  show ?thesis
    by (rule offered_buttons_are_recognised [OF conv st _ k]) (simp_all add: browsing_def)
qed

text \<open>
  The command \<^verbatim>\<open>/cancel\<close> leaves every dialog of a customer: it empties the state of any context of
  his, also when the owner of the shop is the one who writes, and it touches no table. (In the
  dialog of a dispute in the panel, the command of an operator is read as the reason:
  \<open>PanelPrices\<close>.)
\<close>

theorem cancel_always_escapes:
  "w_state (handle_update e \<lparr>from_user = u, content = Text (Typed ''/cancel'')\<rparr> w) = None
   \<and> w_db (handle_update e \<lparr>from_user = u, content = Text (Typed ''/cancel'')\<rparr> w) = w_db w"
  by (auto simp: handle_update_def dispatch_def or_else_def reseller_start_router_def reseller_cancel_def
      operator_router_def orders_router_def customer_cancel_def starts_with_def finish_def Let_def
      split: option.split)

text \<open>
  The button that leads back from the wallet does nothing. The keyboard of the wallet
  offers the way back to the main menu, the context is empty then, and no handler accepts the
  button: the update is dropped.
\<close>

theorem wallet_back_button_is_dead:
  assumes "show_wallet e m w = (Inr (), w')" and "content m' = Text (Label BackToMenuButton)"
  shows "reply_keyboard (w_sent w') = Some customer_wallet_menu_keyboard
    \<and> Label BackToMenuButton \<in> set (buttons_of customer_wallet_menu_keyboard)
    \<and> dispatch e' m' w' = None \<and> handle_update e' m' w' = w'"
proof -
  from assms(1) have w': "w_state w' = None" "reply_keyboard (w_sent w') = Some customer_wallet_menu_keyboard"
    by (auto simp: show_wallet_def Let_def finish_def split: prod.splits sum.splits option.splits elim!: on_db_cases)
  from assms(2) w'(1) have "dispatch e' m' w' = None"
    by (simp add: dispatch_def or_else_def reseller_start_router_def operator_router_def orders_router_def
        charge_router_def wallet_router_def starts_with_def)
  with w'(2) show ?thesis
    by (simp add: handle_update_def customer_wallet_menu_keyboard_def)
qed

lemma wallet_back_button_is_dead_witness:
  "dispatch demo_env \<lparr>from_user = 900, content = Text (Label BackToMenuButton)\<rparr>
     (snd (show_wallet demo_env \<lparr>from_user = 900, content = Text (Label WalletButton)\<rparr> demo_operators)) = None"
proof -
  let ?w = "show_wallet demo_env \<lparr>from_user = 900, content = Text (Label WalletButton)\<rparr> demo_operators"
  have "fst ?w = Inr ()" by code_simp
  then have "?w = (Inr (), snd ?w)" by (simp add: prod_eq_iff)
  from wallet_back_button_is_dead [OF this] show ?thesis by simp
qed

text \<open>
  A customer whose balance is too low is sent to a button that does not work. The
  answer to a quantity that is too expensive names the wallet button, the context stays, and
  pressing that button is answered with the request for a number.
\<close>

theorem wallet_button_unreachable_from_quantity:
  assumes buy: "handle_charge_quantity_input e m w = (Inr (), w')"
    and low: "last (w_sent w') = Answer BalanceTooLow None"
    and st: "w_state w = Some ChargeEnteringQuantity"
    and press: "content m' = Text (Label WalletButton)"
  shows "w_state w' = Some ChargeEnteringQuantity
    \<and> handle_update e' m' w' = answer PositiveIntegerPlease (Some customer_charge_quantity_keyboard) w'"
proof -
  have keep: "w_state w1 = Some ChargeEnteringQuantity \<and> selected_charge_package_id (w_data w1) =
      selected_charge_package_id (w_data w0)"
    if "buy_charges e u pid n w0 = (Inr (), w1)" "last (w_sent w1) = Answer BalanceTooLow None"
       "w_state w0 = Some ChargeEnteringQuantity" for u pid n w0 w1
    using that
    by (auto simp: buy_charges_def codes_delivered_def Let_def finish_def
        split: prod.splits sum.splits option.splits exn.splits if_splits elim!: on_db_cases)
  obtain pid where pid: "selected_charge_package_id (w_data w) = Some pid"
    using buy low by (cases "selected_charge_package_id (w_data w)")
      (auto simp: handle_charge_quantity_input_def back_to_main_menu_def finish_def)
  have w': "w_state w' = Some ChargeEnteringQuantity" "selected_charge_package_id (w_data w') = Some pid"
    using buy low st pid
    by (auto simp: handle_charge_quantity_input_def back_to_main_menu_def finish_def
        split: quantity_input.splits option.splits dest!: keep)
  with press have "dispatch e' m' w' =
      Some (finish (answer PositiveIntegerPlease (Some customer_charge_quantity_keyboard) w'))"
    by (simp add: dispatch_def or_else_def reseller_start_router_def operator_router_def orders_router_def
        charge_router_def starts_with_def handle_charge_quantity_input_def read_quantity_def)
  with w'(1) show ?thesis by (simp add: handle_update_def finish_def)
qed

lemma wallet_button_unreachable_from_quantity_witness:
  "handle_update demo_env \<lparr>from_user = 900, content = Text (Label WalletButton)\<rparr>
     (snd (handle_charge_quantity_input demo_env \<lparr>from_user = 900, content = Text (Typed ''1'')\<rparr> demo_quantity)) =
   answer PositiveIntegerPlease (Some customer_charge_quantity_keyboard)
     (snd (handle_charge_quantity_input demo_env \<lparr>from_user = 900, content = Text (Typed ''1'')\<rparr> demo_quantity))"
proof -
  let ?m = "\<lparr>from_user = 900, content = Text (Typed ''1'')\<rparr>"
  have low: "last (w_sent (snd (handle_charge_quantity_input demo_env ?m demo_quantity))) = Answer BalanceTooLow None"
    by code_simp
  have "fst (handle_charge_quantity_input demo_env ?m demo_quantity) = Inr ()" by code_simp
  then have buy: "handle_charge_quantity_input demo_env ?m demo_quantity =
      (Inr (), snd (handle_charge_quantity_input demo_env ?m demo_quantity))"
    by (simp add: prod_eq_iff)
  have "w_state demo_quantity = Some ChargeEnteringQuantity" by code_simp
  from wallet_button_unreachable_from_quantity [OF buy low this] show ?thesis by simp
qed

end
