(* ===== verification/CustomerMoney.thy ===== *)
theory CustomerMoney
  imports Conversations
begin

text \<open>
  The money side of a conversation: what one message of a customer can do to the balances of
  all customers, and how a purchase in the chat ends.
\<close>

section \<open>What a message does to the wallets\<close>

definition same_wallets :: "db \<Rightarrow> db \<Rightarrow> bool" where
  "same_wallets d d' \<longleftrightarrow> (\<forall>any. customer_balance any d' = customer_balance any d)"

definition pays :: "nat \<Rightarrow> cents \<Rightarrow> db \<Rightarrow> db \<Rightarrow> bool" where
  "pays cid amount d d' \<longleftrightarrow> amount \<le> customer_balance cid d \<and>
     (\<forall>any. customer_balance any d' = customer_balance any d - (if any = cid then amount else 0))"

lemma same_wallets_refl [simp]: "same_wallets d d"
  by (simp add: same_wallets_def)

lemma same_wallets_trans: "same_wallets d d1 \<Longrightarrow> same_wallets d1 d2 \<Longrightarrow> same_wallets d d2"
  by (simp add: same_wallets_def)

lemma pays_after_same: "same_wallets d d1 \<Longrightarrow> pays cid a d1 d2 \<Longrightarrow> pays cid a d d2"
  by (simp add: same_wallets_def pays_def)

lemma same_wallets_customers: "customers d' = customers d \<Longrightarrow> same_wallets d d'"
  by (simp add: same_wallets_def customer_balance_def)

lemma get_or_create_frame:
  assumes "get_or_create_customer rid user d = (res, d')"
  shows "same_wallets d d'" "packages d' = packages d" "resellers d' = resellers d" "orders d' = orders d"
proof -
  have "lookup c_id i (insert_row customer_with_id c t) =
      (case lookup c_id i t of Some x \<Rightarrow> Some x
       | None \<Rightarrow> if i = auto_inc t then Some (c\<lparr>c_id := i\<rparr>) else None)" for i c and t :: "customer table"
    by (auto simp: lookup_def insert_row_def find_append split: option.split)
  then show "same_wallets d d'"
    using assms
    by (auto simp: get_or_create_customer_def same_wallets_def customer_balance_def Let_def
        split: option.splits if_splits)
  show "packages d' = packages d" "resellers d' = resellers d" "orders d' = orders d"
    using assms by (auto simp: get_or_create_customer_def Let_def split: option.splits if_splits)
qed

lemma service_frames:
  "same_wallets d (snd (create_order m rid pid cid phone d))"
  "same_wallets d (snd (discount_order t rid oid code d))"
  "same_wallets d (snd (submit_receipt cfg oid file d))"
  "same_wallets d (snd (create_topup_request rid cid amount meth d))"
  "same_wallets d (attach_topup_receipt tid file d)"
  "same_wallets d (register_referral rid referrer referred d)"
proof -
  show "same_wallets d (snd (create_order m rid pid cid phone d))"
    by (rule same_wallets_customers)
      (simp add: create_order_def insert_order_def Let_def split: option.split prod.split sum.split)
  show "same_wallets d (snd (submit_receipt cfg oid file d))"
    by (rule same_wallets_customers, rule submit_receipt_frame) (simp_all add: same_elsewhereD)
  show "same_wallets d (snd (discount_order t rid oid code d))"
    by (rule same_wallets_customers)
      (auto simp: discount_order_def increment_usage_def upd_discount_def Let_def split: sum.split option.split)
qed (rule same_wallets_customers;
     auto simp: create_topup_request_def attach_topup_receipt_def register_referral_def upd_topup_def)+

lemma paid_by_wallet_pays:
  "create_order_paid_by_wallet m rid pid cid phone d = (Inr ord, d') \<Longrightarrow>
   \<exists>p. lookup p_id pid (packages d) = Some p \<and> pays cid (sale_price p) d d'"
proof (erule paid_by_wallet_InrD)
  fix p plan
  assume "lookup p_id pid (packages d) = Some p" "wp_customer plan = cid" "wp_price plan = sale_price p"
    and "pay_order_from_wallet (m_now m) plan d = (Inr (auto_inc (orders d)), d')"
  then show "\<exists>p. lookup p_id pid (packages d) = Some p \<and> pays cid (sale_price p) d d'"
    using order_wallet.buy_affordable [of "(m_now m, plan)" d "auto_inc (orders d)" d']
      order_wallet.buy_pays [of "(m_now m, plan)" d "auto_inc (orders d)" d']
    by (auto simp: pays_def)
qed

lemma charge_bulk_pays:
  assumes "purchase_charge_bulk ms rid pid cid n d = (Inr receipt, d')"
  shows "1 \<le> n \<and> (\<exists>p. lookup p_id pid (packages d) = Some p \<and> pays cid (sale_price p * n) d d')"
proof -
  from assms obtain plan ids ds where n: "1 \<le> n" and checks: "charge_checks rid pid cid d = Inr plan"
    and tx: "purchase_charge_bulk_tx ms plan (nat n) d = (Inr (ids, ds), d')"
    by (auto simp: purchase_charge_bulk_def split: if_splits sum.splits prod.splits)
  from checks obtain p where plan: "cp_customer plan = cid" "lookup p_id pid (packages d) = Some p"
      "cp_price plan = sale_price p"
    by (auto simp: charge_checks_def split: if_splits option.splits)
  have req: "run_charge_request (BuyMany ms plan (nat n)) d = (Inr ids, d')" using tx by simp
  show ?thesis
    using charge_wallet.buy_affordable [OF req] charge_wallet.buy_pays [OF req] n plan
    by (auto simp: pays_def)
qed

lemma charge_bulk_refused: "purchase_charge_bulk ms rid pid cid n d = (Inl e, d') \<Longrightarrow> d' = d"
  by (auto simp: purchase_charge_bulk_def dest: charge_tx_InlD(2) split: if_splits sum.splits prod.splits)

definition spends :: "env \<Rightarrow> message \<Rightarrow> world \<Rightarrow> world \<Rightarrow> bool" where
  "spends e m w w' \<longleftrightarrow>
     (\<exists>c d1 pid p n. get_or_create_customer (e_reseller e) (from_user m) (w_db w) = (Inr (Some c), d1)
        \<and> (selected_package_id (w_data w) = Some pid \<and> n = 1
           \<or> selected_charge_package_id (w_data w) = Some pid \<and> 1 \<le> n)
        \<and> lookup p_id pid (packages (w_db w)) = Some p
        \<and> pays (c_id c) (sale_price p * n) (w_db w) (w_db w'))"

definition wallets_ok :: "env \<Rightarrow> message \<Rightarrow> world \<Rightarrow> world \<Rightarrow> bool" where
  "wallets_ok e m w w' \<longleftrightarrow> same_wallets (w_db w) (w_db w') \<or> spends e m w w'"

lemma wallets_same_db: "w_db w' = w_db w \<Longrightarrow> wallets_ok e m w w'"
  by (simp add: wallets_ok_def)

lemma on_db_eq: "on_db f w = (fst (f (w_db w)), w\<lparr>w_db := snd (f (w_db w))\<rparr>)"
  by (simp add: on_db_def split: prod.split)

lemma quiet_db:
  "w_db (snd (show_operators e u w)) = w_db w" "w_db (snd (show_charge_operators e u w)) = w_db w"
  "w_db (snd (handle_operator_pick e m w)) = w_db w" "w_db (snd (handle_subcategory_pick e m w)) = w_db w"
  "w_db (snd (handle_package_pick e m w)) = w_db w" "w_db (snd (handle_package_detail_back e m w)) = w_db w"
  "w_db (snd (handle_buy_button e m w)) = w_db w" "w_db (snd (cancel_phone_number_entry e m w)) = w_db w"
  "w_db (snd (handle_charge_operator_pick e m w)) = w_db w"
  "w_db (snd (handle_charge_subcategory_pick e m w)) = w_db w"
  "w_db (snd (handle_charge_product_pick e m w)) = w_db w"
  "w_db (snd (handle_charge_detail_back e m w)) = w_db w" "w_db (snd (handle_buy_charge_button e m w)) = w_db w"
  "w_db (snd (handle_charge_quantity_back e m w)) = w_db w" "w_db (snd (start_topup e m w)) = w_db w"
  "w_db (snd (customer_cancel e m w)) = w_db w" "w_db (snd (show_support_from_keyboard e m w)) = w_db w"
  "w_db (snd (order_paid_by_wallet rid label phone ord w)) = w_db w"
  "w_db (snd (order_by_receipt rid label phone ord w)) = w_db w"
  "w_db (snd (order_refused w)) = w_db w" "w_db (snd (codes_delivered rid n res w)) = w_db w"
  by (simp_all add: show_operators_def show_charge_operators_def handle_operator_pick_def
      handle_subcategory_pick_def handle_package_pick_def handle_package_detail_back_def
      handle_buy_button_def cancel_phone_number_entry_def handle_charge_operator_pick_def
      handle_charge_subcategory_pick_def handle_charge_product_pick_def handle_charge_detail_back_def
      handle_buy_charge_button_def handle_charge_quantity_back_def show_product_detail_def product_detail_def
      start_topup_def customer_cancel_def show_support_from_keyboard_def order_paid_by_wallet_def
      order_by_receipt_def order_refused_def codes_delivered_def Let_def split: option.split prod.split)

lemma wallets_process_purchase: "wallets_ok e m w (snd (process_purchase e (from_user m) phone w))"
proof (cases "selected_package_id (w_data w)")
  case None
  then show ?thesis by (simp add: process_purchase_def wallets_same_db)
next
  case pid: (Some pid)
  obtain res d1 where goc: "get_or_create_customer (e_reseller e) (from_user m) (w_db w) = (res, d1)"
    by fastforce
  note fr = get_or_create_frame [OF goc]
  show ?thesis
  proof (cases "\<exists>c. res = Inr (Some c)")
    case False
    then have "w_db (snd (process_purchase e (from_user m) phone w)) = d1"
      by (simp add: process_purchase_def pid on_db_eq goc Let_def split: sum.split option.split)
    with fr show ?thesis by (simp add: wallets_ok_def)
  next
    case True
    then obtain c where c: "res = Inr (Some c)" by blast
    obtain r2 d2 where paid: "create_order_paid_by_wallet (e_moment e 1) (e_reseller e) pid (c_id c)
        (Some phone) d1 = (r2, d2)" by fastforce
    show ?thesis
    proof (cases r2)
      case (Inr ord)
      with paid obtain p where p: "lookup p_id pid (packages d1) = Some p" "pays (c_id c) (sale_price p) d1 d2"
        using paid_by_wallet_pays by blast
      have "w_db (snd (process_purchase e (from_user m) phone w)) = d2"
        by (simp add: process_purchase_def pid on_db_eq goc c paid Inr Let_def quiet_db del: One_nat_def)
      moreover have "pays (c_id c) (sale_price p * 1) (w_db w) d2"
        using p(2) pays_after_same [OF fr(1)] by simp
      ultimately have "spends e m w (snd (process_purchase e (from_user m) phone w))"
        using goc c pid p(1) fr(2) unfolding spends_def
        by (intro exI [of _ c] exI [of _ d1] exI [of _ pid] exI [of _ p] exI [of _ 1]) simp
      then show ?thesis by (simp add: wallets_ok_def)
    next
      case (Inl x)
      with paid have "d2 = d1" by (auto dest: paid_by_wallet_InlD)
      with Inl paid have "w_db (snd (process_purchase e (from_user m) phone w)) \<in>
          {d1, snd (create_order (e_moment e 2) (e_reseller e) pid (c_id c) (Some phone) d1)}"
        by (auto simp: process_purchase_def pid on_db_eq goc c Let_def quiet_db simp del: One_nat_def split: sum.split)
      then have "same_wallets d1 (w_db (snd (process_purchase e (from_user m) phone w)))"
        using service_frames(1) by auto
      with fr(1) show ?thesis unfolding wallets_ok_def by (blast intro: same_wallets_trans)
    qed
  qed
qed

lemma wallets_buy_charges:
  assumes "selected_charge_package_id (w_data w) = Some pid" and "w_db w0 = w_db w"
  shows "wallets_ok e m w (snd (buy_charges e (from_user m) pid n w0))"
proof -
  obtain res d1 where goc: "get_or_create_customer (e_reseller e) (from_user m) (w_db w) = (res, d1)"
    by fastforce
  note fr = get_or_create_frame [OF goc]
  show ?thesis
  proof (cases "\<exists>c. res = Inr (Some c)")
    case False
    then have "w_db (snd (buy_charges e (from_user m) pid n w0)) = d1"
      by (simp add: buy_charges_def on_db_eq assms(2) goc Let_def split: sum.split option.split)
    with fr show ?thesis by (simp add: wallets_ok_def)
  next
    case True
    then obtain c where c: "res = Inr (Some c)" by blast
    obtain r2 d2 where buy: "purchase_charge_bulk (e_moment e) (e_reseller e) pid (c_id c) n d1 = (r2, d2)"
      by fastforce
    have db: "w_db (snd (buy_charges e (from_user m) pid n w0)) = d2"
      by (auto simp: buy_charges_def on_db_eq assms(2) goc c buy Let_def quiet_db
          split: sum.split exn.split option.split)
    show ?thesis
    proof (cases r2)
      case (Inr receipt)
      with buy obtain p where p: "1 \<le> n" "lookup p_id pid (packages d1) = Some p"
          "pays (c_id c) (sale_price p * n) d1 d2"
        using charge_bulk_pays by blast
      with pays_after_same [OF fr(1) p(3)] have "spends e m w (snd (buy_charges e (from_user m) pid n w0))"
        using goc c assms(1) fr(2) unfolding spends_def db by auto
      then show ?thesis by (simp add: wallets_ok_def)
    next
      case (Inl x)
      with buy have "d2 = d1" by (simp add: charge_bulk_refused)
      with fr(1) db show ?thesis by (simp add: wallets_ok_def)
    qed
  qed
qed


lemma wallets_quantity:
  "wallets_ok e m w (snd (handle_charge_quantity_input e m w))"
  by (auto simp: handle_charge_quantity_input_def wallets_same_db wallets_buy_charges
      split: option.split quantity_input.split)

lemma wallets_by_service:
  "same_wallets (w_db w) (w_db w') \<Longrightarrow> wallets_ok e m w w'"
  by (simp add: wallets_ok_def)

lemma goc_same: "same_wallets d (snd (get_or_create_customer rid u d))"
  using get_or_create_frame(1) [of rid u d "fst (get_or_create_customer rid u d)"] by simp

lemma wallets_services:
  "same_wallets (w_db w) (w_db (snd (customer_start e m w)))"
  "same_wallets (w_db w) (w_db (snd (apply_discount_code e s w)))"
  "same_wallets (w_db w) (w_db (snd (receive_receipt e file w)))"
  "same_wallets (w_db w) (w_db (snd (show_wallet e m w)))"
  "same_wallets (w_db w) (w_db (snd (choose_topup_method e m w)))"
  "same_wallets (w_db w) (w_db (snd (receive_topup_amount e m w)))"
  "same_wallets (w_db w) (w_db (snd (receive_topup_receipt e file w)))"
proof -
  show wallet: "same_wallets (w_db w) (w_db (snd (show_wallet e m w)))" for w
    by (simp add: show_wallet_def on_db_eq Let_def goc_same split: sum.split option.split)
  show "same_wallets (w_db w) (w_db (snd (choose_topup_method e m w)))"
    using wallet [of "clear_state w"] by (simp add: choose_topup_method_def Let_def)
  show "same_wallets (w_db w) (w_db (snd (customer_start e m w)))"
    by (auto simp: customer_start_def on_db_eq Let_def goc_same
        intro: same_wallets_trans [OF goc_same service_frames(6)]
        split: sum.split option.split msg_text.split)
  show "same_wallets (w_db w) (w_db (snd (apply_discount_code e s w)))"
    by (auto simp: apply_discount_code_def on_db_eq Let_def service_frames
        split: sum.split option.split exn.split)
  show "same_wallets (w_db w) (w_db (snd (receive_receipt e file w)))"
    by (auto simp: receive_receipt_def on_db_eq Let_def service_frames
        split: sum.split option.split exn.split)
  show "same_wallets (w_db w) (w_db (snd (receive_topup_amount e m w)))"
    by (auto simp: receive_topup_amount_def on_db_eq Let_def goc_same
        intro: same_wallets_trans [OF goc_same service_frames(4)]
        split: sum.split option.split amount_input.split)
  show "same_wallets (w_db w) (w_db (snd (receive_topup_receipt e file w)))"
    by (auto simp: receive_topup_receipt_def Let_def service_frames split: option.split)
qed

lemma fold_answers_db: "w_db (fold (\<lambda>r. answer (f r) k) rs w) = w_db w"
  by (induction rs arbitrary: w) simp_all

lemmas wallets_ok_handlers = quiet_db [THEN wallets_same_db] wallets_services [THEN wallets_by_service]
  wallets_process_purchase wallets_quantity

lemma pred_or_else: "pred_option P a \<Longrightarrow> pred_option P b \<Longrightarrow> pred_option P (or_else a b)"
  by (cases a) (simp_all add: or_else_def)

lemma wallets_dispatch: "pred_option (\<lambda>res. wallets_ok e m w (snd res)) (dispatch e m w)"
proof -
  have "pred_option (\<lambda>res. wallets_ok e m w (snd res)) (reseller_start_router e m w)"
    by (simp add: reseller_start_router_def Let_def reseller_start_def reseller_cancel_def wallets_same_db
        split: option.split)
  moreover have "pred_option (\<lambda>res. wallets_ok e m w (snd res)) (operator_router e m w)"
    by (simp add: operator_router_def answer_pending_orders_def fold_answers_db wallets_same_db
        split: option.split msg_text.split sum.split)
  moreover have "pred_option (\<lambda>res. wallets_ok e m w (snd res)) (orders_router e m w)"
    by (simp add: orders_router_def Let_def show_catalog_from_keyboard_def wallets_ok_handlers wallets_same_db
        receive_phone_number_contact_def receive_phone_number_text_def
        split: option.split fsm_state.split content.split msg_text.split)
  moreover have "pred_option (\<lambda>res. wallets_ok e m w (snd res)) (charge_router e m w)"
    by (simp add: charge_router_def Let_def show_charge_catalog_from_keyboard_def wallets_ok_handlers
        split: option.split fsm_state.split)
  moreover have "pred_option (\<lambda>res. wallets_ok e m w (snd res)) (wallet_router e m w)"
    by (simp add: wallet_router_def Let_def wallets_ok_handlers
        split: option.split fsm_state.split content.split)
  ultimately show ?thesis unfolding dispatch_def by (intro pred_or_else)
qed

lemma handle_update_db:
  "w_db (handle_update e m w) = (case dispatch e m w of None \<Rightarrow> w_db w | Some res \<Rightarrow> w_db (snd res))"
  by (simp add: handle_update_def split: option.split prod.split sum.split)

text \<open>
  Property C11: a message of a customer moves no money but its own purchase. Whatever the
  message and the context, either no balance changes, or one balance, that of the sender's own
  row, pays the price of the selected product times a positive quantity, which it held.
\<close>

theorem message_pays_only_own_purchase:
  "same_wallets (w_db w) (w_db (handle_update e m w)) \<or> spends e m w (handle_update e m w)"
  using wallets_dispatch [of e m w]
  by (cases "dispatch e m w") (simp_all add: spends_def wallets_ok_def handle_update_db)

section \<open>How a purchase ends\<close>

lemma wallet_insufficient:
  assumes "create_order_paid_by_wallet m rid pid cid phone d = (Inl WalletInsufficientBalanceError, d')"
    and "lookup p_id pid (packages d) = Some p"
  shows "customer_balance cid d < sale_price p"
proof (cases "wallet_order_checks m rid pid cid phone d")
  case (Inl x)
  with assms have "x = WalletInsufficientBalanceError" by (simp add: create_order_paid_by_wallet_def)
  with Inl assms(2) show ?thesis
    by (auto simp: wallet_order_checks_def customer_balance_def split: if_splits option.splits)
next
  case (Inr plan)
  then have plan: "wp_customer plan = cid" "wp_price plan = sale_price p"
    using assms(2) by (auto simp: wallet_order_checks_def split: if_splits option.splits)
  from Inr assms(1) obtain d1 where "pay_order_from_wallet (m_now m) plan d = (Inl WalletInsufficientBalanceError, d1)"
    by (auto simp: create_order_paid_by_wallet_def fetch_created_order_def
        split: prod.splits sum.splits option.splits)
  with plan show ?thesis
    by (auto simp: pay_order_from_wallet_def transaction_Inl_iff customer_balance_def insert_order_def
        split: option.splits if_splits)
qed

lemma appended_order_found:
  assumes "trows (orders d') = trows (orders d) @ [ord]" and "o_id ord = auto_inc (orders d)"
    and "wf_table o_id (orders d)"
  shows "lookup o_id (o_id ord) (orders d') = Some ord"
  using assms orders.lookup_fresh [OF assms(3), of "o_id ord"]
  by (auto simp: lookup_def find_append split: option.split)

definition placed :: "order \<Rightarrow> nat \<Rightarrow> nat \<Rightarrow> string \<Rightarrow> db \<Rightarrow> bool" where
  "placed ord cid pid phone d \<longleftrightarrow> lookup o_id (o_id ord) (orders d) = Some ord
     \<and> o_customer_id ord = cid \<and> o_package_id ord = pid \<and> phone_number ord = Some phone"

lemma wallet_order_placed:
  assumes run: "create_order_paid_by_wallet m rid pid cid (Some phone) d = (Inr ord, d')"
    and wf: "wf_table o_id (orders d)"
  shows "placed ord cid pid phone d'" "o_status ord = Confirmed" "pays cid (package_price ord) d d'"
proof -
  from run show "placed ord cid pid phone d'"
  proof (cases rule: paid_by_wallet_InrD)
    case (1 p plan)
    have "lookup o_id (o_id ord) (orders d') = Some ord"
      by (rule appended_order_found [OF 1(11) _ wf]) (simp add: 1(10))
    with 1(4,7,8,10) show ?thesis by (simp add: placed_def wallet_order_row_def)
  qed
  from run show "o_status ord = Confirmed"
    by (cases rule: paid_by_wallet_InrD) (simp add: wallet_order_row_def)
  obtain p where "lookup p_id pid (packages d) = Some p" "package_price ord = sale_price p"
    using run by (cases rule: paid_by_wallet_InrD)
  then show "pays cid (package_price ord) d d'"
    using paid_by_wallet_pays [OF run] by simp
qed

lemma receipt_order_placed:
  assumes run: "create_order m rid pid cid (Some phone) d = (Inr ord, d')"
    and wf: "wf_table o_id (orders d)"
  shows "placed ord cid pid phone d'" "o_status ord = AwaitingPayment"
    "map_option sale_price (lookup p_id pid (packages d)) = Some (package_price ord)"
proof -
  from run show "placed ord cid pid phone d'"
  proof (cases rule: create_order_InrD)
    case (1 p r)
    with appended_order_found [OF 1(14) 1(13) wf] show ?thesis by (simp add: placed_def)
  qed
qed (use run in \<open>cases rule: create_order_InrD, simp\<close>)+

lemma blacklist_refusals:
  "create_order_paid_by_wallet m rid pid cid phone d = (Inl CustomerBlacklistedError, d') \<Longrightarrow>
   customer_blacklisted rid cid d"
  "create_order m rid pid cid phone d = (Inl CustomerBlacklistedError, d') \<Longrightarrow>
   customer_blacklisted rid cid d"
proof -
  show "create_order m rid pid cid phone d = (Inl CustomerBlacklistedError, d') \<Longrightarrow>
     customer_blacklisted rid cid d"
    by (auto simp: create_order_def Let_def fetch_created_order_def dest!: insert_order_InlD
        split: if_splits option.splits sum.splits prod.splits)
  show "create_order_paid_by_wallet m rid pid cid phone d = (Inl CustomerBlacklistedError, d') \<Longrightarrow>
     customer_blacklisted rid cid d"
    by (auto simp: create_order_paid_by_wallet_def wallet_order_checks_def fetch_created_order_def
        pay_order_from_wallet_def transaction_Inl_iff insert_order_def
        split: if_splits option.splits sum.splits prod.splits)
qed

text \<open>The runs of the handler, by what the two services answer.\<close>

lemma purchase_cases:
  assumes run: "process_purchase e u phone w = (Inr (), w')"
    and pid: "selected_package_id (w_data w) = Some pid"
  obtains
    (Refused) c d1 where "get_or_create_customer (e_reseller e) u (w_db w) = (Inr (Some c), d1)"
      and "customer_blacklisted (e_reseller e) (c_id c) d1" and "w_state w' = None" and "w_db w' = d1"
  | (Paid) c d1 ord where "get_or_create_customer (e_reseller e) u (w_db w) = (Inr (Some c), d1)"
      and "create_order_paid_by_wallet (e_moment e 1) (e_reseller e) pid (c_id c) (Some phone) d1 = (Inr ord, w_db w')"
      and "w_state w' = None"
  | (Receipt) c d1 ord where "get_or_create_customer (e_reseller e) u (w_db w) = (Inr (Some c), d1)"
      and "create_order_paid_by_wallet (e_moment e 1) (e_reseller e) pid (c_id c) (Some phone) d1 = (Inl WalletInsufficientBalanceError, d1)"
      and "create_order (e_moment e 2) (e_reseller e) pid (c_id c) (Some phone) d1 = (Inr ord, w_db w')"
      and "w_state w' = Some OrderWaitingReceipt" and "data_order_id (w_data w') = Some (o_id ord)"
proof -
  let ?rid = "e_reseller e"
  obtain res d1 where goc: "get_or_create_customer ?rid u (w_db w) = (res, d1)" by fastforce
  from run goc pid obtain c where c: "res = Inr (Some c)"
    by (auto simp: process_purchase_def on_db_eq Let_def split: sum.splits option.splits)
  obtain r2 d2 where paid: "create_order_paid_by_wallet (e_moment e 1) ?rid pid (c_id c) (Some phone) d1 = (r2, d2)"
    by fastforce
  obtain r3 d3 where new: "create_order (e_moment e 2) ?rid pid (c_id c) (Some phone) d2 = (r3, d3)" by fastforce
  have keeps: "d2 = d1" if "r2 = Inl x" for x using paid that by (auto dest: paid_by_wallet_InlD)
  note step = run [unfolded process_purchase_def Let_def, simplified pid on_db_eq option.case]
  note eval = goc c paid new order_paid_by_wallet_def order_refused_def order_by_receipt_def Let_def finish_def
  show thesis
  proof (cases r2)
    case (Inr ord)
    then have "w_state w' = None" "w_db w' = d2"
      using step by (auto simp: eval simp del: One_nat_def split: option.splits if_splits)
    with Paid goc c paid Inr show thesis by auto
  next
    case x: (Inl x)
    show thesis
    proof (cases "x = CustomerBlacklistedError")
      case True
      then have "w_state w' = None" "w_db w' = d1"
        using step x keeps by (auto simp: eval simp del: One_nat_def)
      with Refused goc c paid x True show thesis by (auto dest: blacklist_refusals)
    next
      case False
      with step x have ok: "x = WalletInsufficientBalanceError"
        by (simp add: eval del: One_nat_def split: if_splits)
      show thesis
      proof (cases r3)
        case (Inr ord)
        then have "w_state w' = Some OrderWaitingReceipt" "data_order_id (w_data w') = Some (o_id ord)" "w_db w' = d3"
          using step x ok by (auto simp: eval simp del: One_nat_def split: option.splits)
        with Receipt goc c paid new keeps x ok Inr show thesis by auto
      next
        case (Inl y)
        with step x ok have y: "y = CustomerBlacklistedError" by (simp add: eval del: One_nat_def split: if_splits)
        with step x ok Inl have "w_state w' = None" "w_db w' = d3" by (auto simp: eval simp del: One_nat_def)
        moreover have "d3 = d1" "customer_blacklisted ?rid (c_id c) d1"
          using new Inl y keeps [OF x] by (auto dest: create_order_InlD blacklist_refusals)
        ultimately show thesis using Refused goc c by auto
      qed
    qed
  qed
qed

text \<open>
  Property C9: how a purchase in the chat ends. A run without exception has one of three
  outcomes: the blacklisted customer is refused and nothing is written; a confirmed order was
  placed and its price paid from the wallet, and the dialog is over; or the balance was below
  the price, an order that awaits payment was placed, and the context waits for the receipt
  of this order.
\<close>

theorem purchase_outcomes:
  assumes run: "process_purchase e u phone w = (Inr (), w')"
    and pid: "selected_package_id (w_data w) = Some pid"
    and wf: "wf_table o_id (orders (w_db w))"
  shows "\<exists>c d1. get_or_create_customer (e_reseller e) u (w_db w) = (Inr (Some c), d1) \<and>
    (w_state w' = None \<and> customer_blacklisted (e_reseller e) (c_id c) d1 \<and> w_db w' = d1
     \<or> (\<exists>ord. placed ord (c_id c) pid phone (w_db w')
          \<and> (o_status ord = Confirmed \<and> w_state w' = None
               \<and> pays (c_id c) (package_price ord) d1 (w_db w')
             \<or> o_status ord = AwaitingPayment \<and> w_state w' = Some OrderWaitingReceipt
               \<and> data_order_id (w_data w') = Some (o_id ord) \<and> same_wallets d1 (w_db w')
               \<and> customer_balance (c_id c) d1 < package_price ord)))"
  using run pid
proof (cases rule: purchase_cases)
  case (Refused c d1)
  then show ?thesis by auto
next
  case (Paid c d1 ord)
  have "wf_table o_id (orders d1)" using wf get_or_create_frame [OF Paid(1)] by simp
  from wallet_order_placed [OF Paid(2) this] Paid show ?thesis by auto
next
  case (Receipt c d1 ord)
  have "wf_table o_id (orders d1)" using wf get_or_create_frame [OF Receipt(1)] by simp
  note ord = receipt_order_placed [OF Receipt(3) this]
  have "customer_balance (c_id c) d1 < package_price ord"
    using wallet_insufficient [OF Receipt(2)] ord(3) by fastforce
  moreover have "same_wallets d1 (w_db w')" using service_frames(1) [of d1] Receipt(3) by (metis snd_conv)
  ultimately show ?thesis using ord Receipt by auto
qed

definition demo_phone :: world where
  "demo_phone = talk 900 [Label CatalogButton, OperatorLabel ''MCI'', FolderLabel ''monthly'',
     PackageLabel ''10GB'' 3, Label BuyButton] (demo_start demo_shop_db)"

lemma purchase_outcomes_witness:
  "\<exists>ord. placed ord 1 1 ''09121234567'' (w_db (snd (process_purchase demo_env 900 ''09121234567'' demo_phone)))
     \<and> pays 1 (package_price ord) demo_shop_db
         (w_db (snd (process_purchase demo_env 900 ''09121234567'' demo_phone)))"
proof -
  let ?run = "process_purchase demo_env 900 ''09121234567'' demo_phone"
  have "fst ?run = Inr ()" by code_simp
  then have run: "?run = (Inr (), snd ?run)" by (simp add: prod_eq_iff)
  have pid: "selected_package_id (w_data demo_phone) = Some 1" by code_simp
  have db: "w_db demo_phone = demo_shop_db" by code_simp
  have wf: "wf_table o_id (orders (w_db demo_phone))" by code_simp
  have goc: "get_or_create_customer (e_reseller demo_env) 900 (w_db demo_phone) = (Inr (Some demo_customer), demo_shop_db)"
    by code_simp
  have st: "w_state (snd ?run) = None" "\<not> customer_blacklisted (e_reseller demo_env) 1 demo_shop_db" by code_simp+
  show ?thesis
    using purchase_outcomes [OF run pid wf] goc st by (auto simp: demo_customer_def)
qed

end
