(* ===== verification/StockRefinement.thy ===== *)
theory StockRefinement
  imports Charges
begin

text \<open>
  What \<^verbatim>\<open>services/charge_service.py\<close> promises, without tables: a vault with a purse for each customer
  and a shelf for each product, from whose front the codes are handed out. The transactions of
  the service and the reseller's changes of the stock refine it.
\<close>

section \<open>The vault\<close>

text \<open>
  \<open>shelf\<close> holds the numbers and texts of the codes for sale; \<open>next_number\<close> is the number of the next
  code, and \<open>may_stock\<close> tells which reseller and product exist.
\<close>

record vault =
  purse :: "nat \<Rightarrow> cents option"
  shelf :: "nat \<Rightarrow> (nat \<times> string) list"
  next_number :: nat
  may_stock :: "nat \<Rightarrow> nat \<Rightarrow> bool"

definition sell :: "nat \<Rightarrow> nat \<Rightarrow> cents \<Rightarrow> nat \<Rightarrow> (nat \<Rightarrow> exn) \<Rightarrow> vault \<Rightarrow> (vault, nat list) outcome" where
  "sell buyer product due quantity sold_out v =
     (case purse v buyer of
        None \<Rightarrow> (Inl TypeError, v)
      | Some money \<Rightarrow>
          if money < due then (Inl ChargeInsufficientBalanceError, v)
          else if length (shelf v product) < quantity then (Inl (sold_out (length (shelf v product))), v)
          else (Inr (map fst (take quantity (shelf v product))),
                v\<lparr>purse := (purse v)(buyer \<mapsto> money - due),
                  shelf := (shelf v)(product := drop quantity (shelf v product))\<rparr>))"

definition stock_up :: "nat \<Rightarrow> nat \<Rightarrow> string list \<Rightarrow> vault \<Rightarrow> vault" where
  "stock_up rid product codes v =
     (if codes \<noteq> [] \<and> may_stock v rid product
      then v\<lparr>shelf := (shelf v)(product := shelf v product @ zip [next_number v..<next_number v + length codes] codes),
             next_number := next_number v + length codes\<rparr>
      else v)"

fun vend :: "stock_event \<Rightarrow> vault \<Rightarrow> (vault, nat list) outcome" where
  "vend (Purchase (BuyOne t code_of_order plan)) v =
     sell (cp_customer plan) (cp_package plan) (cp_price plan) 1 (\<lambda>_. ChargeOutOfStockError None) v"
| "vend (Purchase (BuyMany ms plan quantity)) v =
     sell (cp_customer plan) (cp_package plan) (cp_price plan * int quantity) quantity
       (\<lambda>rest. ChargeOutOfStockError (Some rest)) v"
| "vend (LinkOrder i oid) v = (Inr [], v)"
| "vend (AddCodes t rid pid raw_text) v = (Inr [], stock_up rid pid (clean_lines {} (splitlines raw_text)) v)"
| "vend (DeleteCode i) v = (Inr [], v\<lparr>shelf := (\<lambda>p. filter (\<lambda>(n, _). n \<noteq> i) (shelf v p))\<rparr>)"
| "vend (ClearCodes pid) v = (Inr [], v\<lparr>shelf := (shelf v)(pid := [])\<rparr>)"

text \<open>
  The database may still decline a sale the vault would make: a duplicate order code or a missing
  row it refers to, or a reseller without a row, from whom the prefix is read.
\<close>

definition declined :: "(exn + nat list) \<Rightarrow> bool" where
  "declined answer \<longleftrightarrow> answer = Inl IntegrityError \<or> answer = Inl TypeError"

text \<open>The vault after a sequence of answers, if it can give them.\<close>

fun vending :: "stock_event list \<Rightarrow> (exn + nat list) list \<Rightarrow> vault \<Rightarrow> vault option" where
  "vending [] [] v = Some v"
| "vending (e # es) (a # as) v =
     (if fst (vend e v) = a then vending es as (snd (vend e v))
      else if declined a then vending es as v
      else None)"
| "vending _ _ v = None"

section \<open>The vault of the tables\<close>

definition vault_of :: "db \<Rightarrow> vault" where
  "vault_of d = \<lparr>purse = (\<lambda>i. map_option wallet_balance (lookup c_id i (customers d))),
     shelf = (\<lambda>p. map (\<lambda>c. (cc_id c, cc_code c)) (sort_key cc_id (fetch_all (is_available p) (charge_codes d)))),
     next_number = auto_inc (charge_codes d),
     may_stock = (\<lambda>rid pid. lookup r_id rid (resellers d) \<noteq> None \<and> lookup p_id pid (packages d) \<noteq> None)\<rparr>"

fun answers_of :: "stock_event list \<Rightarrow> db \<Rightarrow> (exn + nat list) list" where
  "answers_of [] d = []"
| "answers_of (e # es) d = fst (run_stock_event e d) # answers_of es (snd (run_stock_event e d))"

text \<open>A shelf is the list of its elements in the order of their numbers.\<close>

lemma fst_shelf_sorted: "sorted (map fst (shelf (vault_of d) p))"
  by (simp add: vault_of_def o_def)

lemma fst_shelf_distinct:
  "wf_table cc_id (charge_codes d) \<Longrightarrow> distinct (map fst (shelf (vault_of d) p))"
  by (simp add: vault_of_def o_def wf_table_def fetch_all_def distinct_map)
    (auto intro: inj_on_subset)

lemma mem_shelf:
  "wf_table cc_id (charge_codes d) \<Longrightarrow> (i, s) \<in> set (shelf (vault_of d) p) \<longleftrightarrow>
     (\<exists>c. lookup cc_id i (charge_codes d) = Some c \<and> is_available p c \<and> cc_code c = s)"
  by (auto simp: vault_of_def fetch_all_def codes.lookup_iff)

lemma shelf_unique:
  assumes "sorted (map fst xs)" "distinct (map fst xs)" "sorted (map fst ys)" "distinct (map fst ys)"
    and "\<And>i s. (i, s) \<in> set xs \<longleftrightarrow> (i, s) \<in> set ys"
  shows "xs = (ys :: (nat \<times> string) list)"
proof -
  have "set xs = set ys" using assms(5) by auto
  with assms(1-4) show ?thesis
    by (intro map_sorted_distinct_set_unique [of fst]) (auto simp: distinct_map)
qed

lemma shelf_selects:
  "map fst (take n (shelf (vault_of d) p)) = map cc_id (select_available p n d)"
  "length (select_available p n d) = min (length (shelf (vault_of d) p)) n"
  by (simp_all add: vault_of_def select_available_def take_map o_def)

lemma map_fst_mem: "i \<in> set (map fst xs) \<longleftrightarrow> (\<exists>s. (i, s) \<in> set xs)"
  by force

text \<open>After a sale the shelf of the product is shorter by its front, and the other shelves are the same.\<close>

lemma sold_shelf:
  assumes wf: "wf_table cc_id (charge_codes d)" and run: "run_charge_request q d = (Inr ids, d')"
    and ids: "ids = map fst (take n (shelf (vault_of d) p))"
  shows "shelf (vault_of d') = (shelf (vault_of d))(p := drop n (shelf (vault_of d) p))"
proof (rule ext)
  fix r
  let ?old = "shelf (vault_of d)"
  note stock = request_stock [OF wf run]
  have wf': "wf_table cc_id (charge_codes d')" using stock by blast
  have mem: "(i, s) \<in> set (shelf (vault_of d') r) \<longleftrightarrow> (i, s) \<in> set (?old r) \<and> i \<notin> set ids" for i s
  proof (cases "i \<in> set ids")
    case True
    with stock [of i] have "code_state i d' = Some Sold" by blast
    with True show ?thesis by (auto simp: mem_shelf [OF wf'] code_state_def is_available_def)
  next
    case False
    with stock [of i] show ?thesis by (simp add: mem_shelf [OF wf] mem_shelf [OF wf'])
  qed
  have halves: "distinct (map fst (take n (?old p) @ drop n (?old p)))"
    using fst_shelf_distinct [OF wf, of p] by simp
  have "(i, s) \<in> set (shelf (vault_of d') r) \<longleftrightarrow> (i, s) \<in> set ((?old(p := drop n (?old p))) r)" for i s
  proof (cases "r = p")
    case True
    have "(i, s) \<in> set (?old p) \<longleftrightarrow> (i, s) \<in> set (take n (?old p)) \<or> (i, s) \<in> set (drop n (?old p))"
      by (metis Un_iff append_take_drop_id set_append)
    moreover have "i \<notin> set ids" if "(i, s) \<in> set (drop n (?old p))"
      using that halves unfolding ids map_append distinct_append by force
    moreover have "i \<in> set ids" if "(i, s) \<in> set (take n (?old p))"
      using that unfolding ids by force
    ultimately show ?thesis unfolding mem using True by auto
  next
    case False
    have "i \<notin> set ids" if "(i, s) \<in> set (?old r)"
    proof
      assume "i \<in> set ids"
      then obtain s' where "(i, s') \<in> set (?old p)"
        unfolding ids map_fst_mem by (auto dest: in_set_takeD)
      with that False show False by (auto simp: mem_shelf [OF wf] is_available_def)
    qed
    with False show ?thesis unfolding mem by auto
  qed
  then show "shelf (vault_of d') r = (?old(p := drop n (?old p))) r"
    using fst_shelf_sorted fst_shelf_distinct [OF wf] fst_shelf_distinct [OF wf']
    by (intro shelf_unique) (simp_all add: sorted_wrt_drop flip: drop_map)
qed

text \<open>What a sale does to the purses, and that it leaves the rest of the vault.\<close>

lemma charged_purse:
  assumes "lookup c_id b (customers d) = Some c"
  shows "(\<lambda>i. map_option wallet_balance (lookup c_id i
      (customers (upd_customer b (\<lambda>c. c\<lparr>wallet_balance := wallet_balance c - a\<rparr>) d)))) =
    (\<lambda>i. map_option wallet_balance (lookup c_id i (customers d)))(b \<mapsto> wallet_balance c - a)"
  using assms by (auto simp: upd_customer_def customers.lookup_update_id fun_eq_iff)

lemma deliver_codes_rest:
  assumes "deliver_codes ms plan seq cs d = (Inr ds, d')"
  shows "packages d' = packages d"
  using assms
proof (induction cs arbitrary: seq d ds)
  case (Cons c cs)
  from Cons.prems show ?case
    by (cases rule: deliver_codes_Cons) (use Cons.IH insert_order_frame in force)
qed simp

lemma one_sold:
  assumes wf: "wf_table cc_id (charge_codes d)" and tx: "purchase_charge_tx t oc plan d = (Inr (i, s), d')"
  shows "(Inr [i], vault_of d') = vend (Purchase (BuyOne t oc plan)) (vault_of d)"
  using tx
proof (cases rule: charge_tx_InrD)
  case (1 c code rest oid d1)
  have req: "run_charge_request (BuyOne t oc plan) d = (Inr [i], d')" using tx by simp
  have "length (select_available (cp_package plan) 1 d) = 1" using 1(3) select_available_1 [OF 1(3)] by simp
  then have front: "[i] = map fst (take 1 (shelf (vault_of d) (cp_package plan)))"
      "1 \<le> length (shelf (vault_of d) (cp_package plan))"
    using shelf_selects [where n = 1 and d = d and p = "cp_package plan"] 1(3,4) select_available_1 [OF 1(3)] by auto
  have "purse (vault_of d') = (purse (vault_of d))(cp_customer plan \<mapsto> wallet_balance c - cp_price plan)"
    using charged_purse [OF 1(1)] insert_order_frame [OF 1(6)] 1(7) by (simp add: vault_of_def)
  moreover have "next_number (vault_of d') = next_number (vault_of d)" "may_stock (vault_of d') = may_stock (vault_of d)"
    using insert_order_frame [OF 1(6)] 1(7) by (simp_all add: vault_of_def upd_customer_def)
  moreover note sold_shelf [OF wf req front(1)]
  moreover have "purse (vault_of d) (cp_customer plan) = Some (wallet_balance c)"
    using 1(1) by (simp add: vault_of_def)
  ultimately show ?thesis using front 1(2) by (auto simp: sell_def)
qed

lemma many_sold:
  assumes wf: "wf_table cc_id (charge_codes d)" and tx: "purchase_charge_bulk_tx ms plan n d = (Inr (ids, ds), d')"
  shows "(Inr ids, vault_of d') = vend (Purchase (BuyMany ms plan n)) (vault_of d)"
  using tx
proof (cases rule: charge_bulk_tx_InrD)
  case (1 c)
  have req: "run_charge_request (BuyMany ms plan n) d = (Inr ids, d')" using tx by simp
  have front: "ids = map fst (take n (shelf (vault_of d) (cp_package plan)))"
      "n \<le> length (shelf (vault_of d) (cp_package plan))"
    using shelf_selects [where n = n and d = d and p = "cp_package plan"] 1(3,4) by auto
  have auto_inc: "auto_inc (charge_codes d') = auto_inc (charge_codes d)"
    using deliver_codes_stock [OF 1(5)] by simp
  have "purse (vault_of d') = (purse (vault_of d))(cp_customer plan \<mapsto> wallet_balance c - cp_price plan * int n)"
    using charged_purse [OF 1(1)] deliver_codes_frame [OF 1(5)] by (simp add: vault_of_def)
  moreover have "next_number (vault_of d') = next_number (vault_of d)" "may_stock (vault_of d') = may_stock (vault_of d)"
    using deliver_codes_frame [OF 1(5)] deliver_codes_rest [OF 1(5)] auto_inc
    by (simp_all add: vault_of_def upd_customer_def)
  moreover note sold_shelf [OF wf req front(1)]
  moreover have "purse (vault_of d) (cp_customer plan) = Some (wallet_balance c)"
    using 1(1) by (simp add: vault_of_def)
  ultimately show ?thesis using front 1(3) 1(2) by (auto simp: sell_def)
qed

lemma deliver_codes_error:
  "deliver_codes ms plan seq cs d = (Inl e, d') \<Longrightarrow> e = IntegrityError \<or> e = TypeError"
  by (induction cs arbitrary: seq d)
    (auto simp: Let_def insert_order_def split: option.splits prod.splits sum.splits if_splits)

text \<open>What is refused for lack of money or codes is refused by the vault for the same reason.\<close>

lemma refused:
  assumes "run_charge_request q d = (Inl e, d')"
  shows "d' = d \<and> (e = IntegrityError \<or> e = TypeError \<or> vend (Purchase q) (vault_of d) = (Inl e, vault_of d))"
proof
  show "d' = d" using assms by (rule charge_wallet.buy_error)
  have purse: "purse (vault_of d) b = map_option wallet_balance (lookup c_id b (customers d))" for b
    by (simp add: vault_of_def)
  show "e = IntegrityError \<or> e = TypeError \<or> vend (Purchase q) (vault_of d) = (Inl e, vault_of d)"
  proof (cases q)
    case (BuyOne t oc plan)
    have selected: "select_available (cp_package plan) 1 d = [] \<longleftrightarrow> shelf (vault_of d) (cp_package plan) = []"
      using shelf_selects(2) [where n = 1 and d = d and p = "cp_package plan"] by (auto simp flip: length_0_conv)
    show ?thesis
      using assms selected unfolding BuyOne
      by (auto simp: purchase_charge_tx_def transaction_Inl_iff sell_def purse insert_order_def
          split: option.splits if_splits list.splits prod.splits sum.splits)
  next
    case (BuyMany ms plan n)
    have selected: "length (select_available (cp_package plan) n d) = min (length (shelf (vault_of d) (cp_package plan))) n"
      by (rule shelf_selects)
    show ?thesis
      using assms selected unfolding BuyMany
      by (auto simp: purchase_charge_bulk_tx_def transaction_Inl_iff sell_def purse Let_def
          split: option.splits if_splits prod.splits sum.splits dest: deliver_codes_error)
  qed
qed

section \<open>The changes of the reseller\<close>

lemma mem_shelf_new:
  assumes "wf_table cc_id (charge_codes d)" and "(i, s) \<in> set (shelf (vault_of d) p)"
  shows "i < next_number (vault_of d)"
  using assms by (auto simp: mem_shelf codes.lookup_iff) (auto simp: wf_table_def vault_of_def)

lemma stocked_one:
  assumes wf: "wf_table cc_id (charge_codes d)" and ok: "may_stock (vault_of d) rid pid"
  shows "\<exists>d'. insert_code t rid pid c d = (Inr (), d') \<and> wf_table cc_id (charge_codes d')
    \<and> vault_of d' = stock_up rid pid [c] (vault_of d)"
proof -
  let ?row = "\<lparr>cc_id = 0, cc_reseller_id = rid, cc_package_id = pid, cc_code = c, cc_status = Available,
      added_at = t, sold_at = None, sold_to_customer_id = None, sold_order_id = None\<rparr>"
  let ?d = "d\<lparr>charge_codes := insert_row code_with_id ?row (charge_codes d)\<rparr>"
  let ?old = "shelf (vault_of d)" and ?n = "next_number (vault_of d)"
  have wf': "wf_table cc_id (charge_codes ?d)" using wf by (simp add: codes.insert_wf del: code_with_id_def)
  have n: "?n = auto_inc (charge_codes d)" by (simp add: vault_of_def)
  have "shelf (vault_of ?d) p = (?old(pid := ?old pid @ [(?n, c)])) p" for p
  proof (rule shelf_unique)
    show "sorted (map fst ((?old(pid := ?old pid @ [(?n, c)])) p))"
      "distinct (map fst ((?old(pid := ?old pid @ [(?n, c)])) p))"
      using fst_shelf_sorted [of d] fst_shelf_distinct [OF wf] mem_shelf_new [OF wf]
      by (fastforce simp: sorted_append)+
    show "(i, s) \<in> set (shelf (vault_of ?d) p) \<longleftrightarrow> (i, s) \<in> set ((?old(pid := ?old pid @ [(?n, c)])) p)" for i s
      using codes.lookup_fresh [OF wf, of i] codes.lookup_insert [OF wf, of i ?row]
      by (auto simp: mem_shelf [OF wf'] mem_shelf [OF wf] n is_available_def simp del: code_with_id_def) (auto)
  qed (rule fst_shelf_sorted fst_shelf_distinct [OF wf'])+
  then have "shelf (vault_of ?d) = ?old(pid := ?old pid @ [(?n, c)])" by (rule ext)
  moreover have "purse (vault_of ?d) = purse (vault_of d)" "may_stock (vault_of ?d) = may_stock (vault_of d)"
    "next_number (vault_of ?d) = Suc ?n"
    by (simp_all add: vault_of_def insert_row_def)
  ultimately have "vault_of ?d = stock_up rid pid [c] (vault_of d)"
    using ok by (simp add: stock_up_def)
  moreover have "insert_code t rid pid c d = (Inr (), ?d)"
    using ok by (simp add: insert_code_def vault_of_def)
  ultimately show ?thesis using wf' by blast
qed

lemma stock_up_Cons: "stock_up rid pid cs (stock_up rid pid [c] v) = stock_up rid pid (c # cs) v"
  by (cases cs) (auto simp: stock_up_def upt_conv_Cons simp del: upt_Suc)

lemma stocked:
  "wf_table cc_id (charge_codes d) \<Longrightarrow>
   vault_of (snd (insert_codes t rid pid cs d)) = stock_up rid pid cs (vault_of d)"
proof (induction cs arbitrary: d)
  case (Cons c cs)
  show ?case
  proof (cases "may_stock (vault_of d) rid pid")
    case True
    from stocked_one [OF Cons.prems this] obtain d' where
      "insert_code t rid pid c d = (Inr (), d')" "wf_table cc_id (charge_codes d')"
      "vault_of d' = stock_up rid pid [c] (vault_of d)" by blast
    with Cons.IH [of d'] show ?thesis by (simp add: stock_up_Cons)
  next
    case False
    then show ?thesis by (auto simp: insert_code_def stock_up_def vault_of_def)
  qed
qed (simp add: stock_up_def)

lemma removed_shelf:
  assumes "wf_table cc_id (charge_codes d)"
    and "\<And>i c. lookup cc_id i (charge_codes d) = Some c \<Longrightarrow> is_available p c \<Longrightarrow> P c \<longleftrightarrow> \<not> keep i"
  shows "shelf (vault_of (d\<lparr>charge_codes := delete_rows P (charge_codes d)\<rparr>)) p =
    filter (\<lambda>(n, _). keep n) (shelf (vault_of d) p)"
proof (rule shelf_unique)
  let ?d = "d\<lparr>charge_codes := delete_rows P (charge_codes d)\<rparr>"
  have wf': "wf_table cc_id (charge_codes ?d)" using assms(1) by (simp add: codes.delete_wf)
  show "distinct (map fst (shelf (vault_of ?d) p))" by (rule fst_shelf_distinct [OF wf'])
  show "sorted (map fst (filter (\<lambda>(n, _). keep n) (shelf (vault_of d) p)))"
    using fst_shelf_sorted [of d p] by (simp add: sorted_filter)
  show "distinct (map fst (filter (\<lambda>(n, _). keep n) (shelf (vault_of d) p)))"
    using fst_shelf_distinct [OF assms(1), of p] by (simp add: distinct_map_filter)
  show "(i, s) \<in> set (shelf (vault_of ?d) p) \<longleftrightarrow> (i, s) \<in> set (filter (\<lambda>(n, _). keep n) (shelf (vault_of d) p))" for i s
    using assms(2) [of i]
    by (auto simp: mem_shelf [OF wf'] mem_shelf [OF assms(1)] codes.lookup_delete [OF assms(1)] split: option.splits if_splits)
qed (rule fst_shelf_sorted)

lemma removed_rest:
  "purse (vault_of (d\<lparr>charge_codes := delete_rows P (charge_codes d)\<rparr>)) = purse (vault_of d)"
  "may_stock (vault_of (d\<lparr>charge_codes := delete_rows P (charge_codes d)\<rparr>)) = may_stock (vault_of d)"
  "next_number (vault_of (d\<lparr>charge_codes := delete_rows P (charge_codes d)\<rparr>)) = next_number (vault_of d)"
  by (simp_all add: vault_of_def)

lemma vault_eqI:
  "purse v = purse w \<Longrightarrow> shelf v = shelf w \<Longrightarrow> next_number v = next_number w \<Longrightarrow> may_stock v = may_stock w \<Longrightarrow> v = w"
  for v w :: vault
  by simp

lemma deleted_one:
  assumes "wf_table cc_id (charge_codes d)"
  shows "vault_of (delete_available_code i d) = snd (vend (DeleteCode i) (vault_of d))"
  unfolding delete_available_code_def
  by (rule vault_eqI)
    (auto simp: removed_rest fun_eq_iff is_available_def dest: codes.lookup_SomeD intro!: removed_shelf [OF assms])

lemma cleared:
  assumes wf: "wf_table cc_id (charge_codes d)"
  shows "vault_of (snd (clear_available_codes pid d)) = snd (vend (ClearCodes pid) (vault_of d))"
proof (rule vault_eqI)
  have "shelf (vault_of (d\<lparr>charge_codes := delete_rows (is_available pid) (charge_codes d)\<rparr>)) p =
      filter (\<lambda>(n, _). p \<noteq> pid) (shelf (vault_of d) p)" for p
    by (rule removed_shelf [OF wf]) (auto simp: is_available_def)
  then show "shelf (vault_of (snd (clear_available_codes pid d))) = shelf (snd (vend (ClearCodes pid) (vault_of d)))"
    by (auto simp: clear_available_codes_def fun_eq_iff case_prod_unfold)
qed (simp_all add: clear_available_codes_def removed_rest)

lemma linked:
  assumes wf: "wf_table cc_id (charge_codes d)"
  shows "vault_of (upd_code i (\<lambda>cc. cc\<lparr>sold_order_id := x\<rparr>) d) = vault_of d"
proof (rule vault_eqI)
  let ?d = "upd_code i (\<lambda>cc. cc\<lparr>sold_order_id := x\<rparr>) d"
  have wf': "wf_table cc_id (charge_codes ?d)" using wf by (simp add: codes.update_id_wf)
  show "shelf (vault_of ?d) = shelf (vault_of d)"
  proof (rule ext, rule shelf_unique)
    show "(n, s) \<in> set (shelf (vault_of ?d) p) \<longleftrightarrow> (n, s) \<in> set (shelf (vault_of d) p)" for n s p
      by (auto simp: mem_shelf [OF wf'] mem_shelf [OF wf] codes.lookup_update_id is_available_def)
  qed (rule fst_shelf_sorted fst_shelf_distinct [OF wf'] fst_shelf_distinct [OF wf])+
qed (simp_all add: vault_of_def)

section \<open>The refinement\<close>

lemma vend_error: "isl (fst (vend e v)) \<Longrightarrow> snd (vend e v) = v"
  by (cases "(e, v)" rule: vend.cases) (auto simp: sell_def split: option.splits)

lemma event_wf:
  "wf_table cc_id (charge_codes d) \<Longrightarrow> wf_table cc_id (charge_codes (snd (run_stock_event e d)))"
  by (rule stock.deliver_wf)

lemma event_refines:
  assumes wf: "wf_table cc_id (charge_codes d)"
  shows "(fst (run_stock_event e d), vault_of (snd (run_stock_event e d))) = vend e (vault_of d)
    \<or> declined (fst (run_stock_event e d)) \<and> vault_of (snd (run_stock_event e d)) = vault_of d"
proof (cases e)
  case (Purchase q)
  show ?thesis
  proof (cases "run_charge_request q d")
    case (Pair res d')
    show ?thesis
    proof (cases res)
      case (Inl x)
      with Pair refused [of q d x d'] Purchase show ?thesis by (auto simp: declined_def)
    next
      case (Inr ids)
      with Pair one_sold [OF wf] many_sold [OF wf] show ?thesis
        unfolding Purchase by (cases q) (auto split: prod.splits sum.splits)
    qed
  qed
next
  case (AddCodes t rid pid raw_text)
  have "snd (add_charge_codes t rid pid raw_text d) = snd (insert_codes t rid pid (clean_lines {} (splitlines raw_text)) d)"
    by (simp add: add_charge_codes_def Let_def split: prod.split sum.split)
  with AddCodes stocked [OF wf] show ?thesis by simp
qed (use wf in \<open>simp_all add: linked deleted_one cleared\<close>)

lemma vault_run:
  assumes "wf_table cc_id (charge_codes d)"
  shows "vending es (answers_of es d) (vault_of d) = Some (vault_of (run_all run_stock_event es d))"
  using assms
proof (induction es arbitrary: d)
  case (Cons e es)
  from event_refines [OF Cons.prems, of e] show ?case
  proof (elim disjE conjE)
    assume "(fst (run_stock_event e d), vault_of (snd (run_stock_event e d))) = vend e (vault_of d)"
    from this [symmetric] Cons.IH [OF event_wf [OF Cons.prems, of e]] show ?thesis by simp
  next
    assume *: "declined (fst (run_stock_event e d))" "vault_of (snd (run_stock_event e d)) = vault_of d"
    then have "snd (vend e (vault_of d)) = vault_of d" if "fst (vend e (vault_of d)) = fst (run_stock_event e d)"
      using that by (intro vend_error) (auto simp: declined_def)
    with * Cons.IH [OF event_wf [OF Cons.prems, of e]] show ?thesis by simp
  qed
qed simp

text \<open>
  Property C3: the charge code service is a vault with purses and shelves. Every sequence of
  purchases with plans of any age, links, additions and deletions answers as the vault does, code
  by code and refusal by refusal, except that the database may decline a sale; then nothing has
  changed. The tables at the end are those of the vault at the end.
\<close>

theorem charge_service_refines_vault:
  assumes "wf_table cc_id (charge_codes d)"
  shows "vending es (answers_of es d) (vault_of d) = Some (vault_of (run_all run_stock_event es d))"
  using assms by (rule vault_run)

lemma charge_service_refines_vault_witness:
  "vending [AddCodes 7 1 1 ''77'', Purchase (BuyMany demo_moments demo_charge_plan 4)]
     [Inr [], Inr [1, 2, 3, 4]] (vault_of demo_charge_db)
   = Some (vault_of (run_all run_stock_event
       [AddCodes 7 1 1 ''77'', Purchase (BuyMany demo_moments demo_charge_plan 4)] demo_charge_db))"
proof -
  have "answers_of [AddCodes 7 1 1 ''77'', Purchase (BuyMany demo_moments demo_charge_plan 4)] demo_charge_db
      = [Inr [], Inr [1, 2, 3, 4]]"
    by code_simp
  with charge_service_refines_vault [OF demo_charge_db_wf,
      of "[AddCodes 7 1 1 ''77'', Purchase (BuyMany demo_moments demo_charge_plan 4)]"]
  show ?thesis by (simp only:)
qed

section \<open>First in, first out\<close>

text \<open>What is handed out of one product, in the order of the sales.\<close>

fun sells :: "nat \<Rightarrow> stock_event \<Rightarrow> bool" where
  "sells p (Purchase (BuyOne t code_of_order plan)) \<longleftrightarrow> cp_package plan = p"
| "sells p (Purchase (BuyMany ms plan quantity)) \<longleftrightarrow> cp_package plan = p"
| "sells p _ \<longleftrightarrow> False"

fun handed :: "nat \<Rightarrow> stock_event list \<Rightarrow> (exn + nat list) list \<Rightarrow> nat list" where
  "handed p (e # es) (a # as) =
     (case a of Inl x \<Rightarrow> [] | Inr ids \<Rightarrow> if sells p e then ids else []) @ handed p es as"
| "handed p _ _ = []"

definition in_order :: "nat \<Rightarrow> vault \<Rightarrow> bool" where
  "in_order p v \<longleftrightarrow> sorted_wrt (<) (map fst (shelf v p)) \<and> (\<forall>i \<in> set (map fst (shelf v p)). i < next_number v)"

definition advances :: "nat \<Rightarrow> vault \<Rightarrow> vault \<Rightarrow> bool" where
  "advances p v v' \<longleftrightarrow> in_order p v' \<and> next_number v \<le> next_number v'
     \<and> set (map fst (shelf v' p)) \<subseteq> set (map fst (shelf v p)) \<union> {next_number v..}"

lemma sell_advances: "in_order p v \<Longrightarrow> advances p v (snd (sell b q due n x v))"
  by (auto simp: advances_def sell_def in_order_def drop_map [symmetric] split: option.splits dest: in_set_dropD)

lemma stock_up_advances:
  assumes "in_order p v"
  shows "advances p v (stock_up rid q cs v)"
proof -
  have "map fst (shelf (stock_up rid q cs v) p) = map fst (shelf v p) @
      (if q = p \<and> cs \<noteq> [] \<and> may_stock v rid q then [next_number v..<next_number v + length cs] else [])"
    by (auto simp: stock_up_def)
  moreover have "next_number (stock_up rid q cs v) = next_number v + (if cs \<noteq> [] \<and> may_stock v rid q then length cs else 0)"
    by (simp add: stock_up_def)
  ultimately show ?thesis
    using assms unfolding in_order_def advances_def by (fastforce simp: sorted_wrt_append)
qed

lemma vend_advances:
  assumes "in_order p v"
  shows "advances p v (snd (vend e v))"
proof (cases e)
  case (Purchase q)
  then show ?thesis using sell_advances [OF assms] by (cases q) simp_all
next
  case (AddCodes t rid pid raw_text)
  then show ?thesis using stock_up_advances [OF assms] by simp
next
  case (DeleteCode i)
  have "sorted_wrt (<) (map fst (filter (\<lambda>(n, _). n \<noteq> i) (shelf v p)))"
    using assms by (simp add: in_order_def sorted_wrt_map sorted_wrt_filter)
  then show ?thesis using assms DeleteCode by (auto simp: advances_def in_order_def)
qed (use assms in \<open>auto simp: advances_def in_order_def\<close>)

lemma sell_hands:
  assumes "sell b q due n x v = (Inr ids, v')" and "in_order q v"
  shows "sorted_wrt (<) ids" and "set ids \<subseteq> set (map fst (shelf v q))"
    and "\<forall>i \<in> set ids. \<forall>j \<in> set (map fst (shelf v' q)). i < j"
proof -
  have parts: "ids = take n (map fst (shelf v q))" "map fst (shelf v' q) = drop n (map fst (shelf v q))"
    using assms(1) by (auto simp: sell_def take_map drop_map split: option.splits if_splits)
  have "sorted_wrt (<) (take n (map fst (shelf v q)) @ drop n (map fst (shelf v q)))"
    using assms(2) by (simp add: in_order_def)
  then show "sorted_wrt (<) ids" "\<forall>i \<in> set ids. \<forall>j \<in> set (map fst (shelf v' q)). i < j"
    unfolding parts sorted_wrt_append by blast+
  show "set ids \<subseteq> set (map fst (shelf v q))" unfolding parts by (rule set_take_subset)
qed

lemma vend_hands:
  assumes "vend e v = (Inr ids, v')" and "sells p e" and "in_order p v"
  shows "sorted_wrt (<) ids" and "set ids \<subseteq> set (map fst (shelf v p))"
    and "\<forall>i \<in> set ids. \<forall>j \<in> set (map fst (shelf v' p)). i < j"
proof -
  obtain b due n x where "sell b p due n x v = (Inr ids, v')"
    using assms(1,2) by (cases "(p, e)" rule: sells.cases) auto
  from sell_hands [OF this assms(3)] show "sorted_wrt (<) ids" "set ids \<subseteq> set (map fst (shelf v p))"
    "\<forall>i \<in> set ids. \<forall>j \<in> set (map fst (shelf v' p)). i < j"
    by blast+
qed

lemma handed_in_order:
  assumes "vending es as v = Some v'" and "in_order p v"
  shows "sorted_wrt (<) (handed p es as) \<and> set (handed p es as) \<subseteq> set (map fst (shelf v p)) \<union> {next_number v..}"
  using assms
proof (induction es as v rule: vending.induct)
  case (2 e es a as v)
  let ?v = "snd (vend e v)"
  show ?case
  proof (cases "fst (vend e v) = a")
    case True
    have adv: "advances p v ?v" by (rule vend_advances [OF "2.prems"(2)])
    have rest_run: "vending es as ?v = Some v'" using "2.prems"(1) True by simp
    have "in_order p ?v" using adv by (simp only: advances_def)
    with "2.IH"(1) [OF True rest_run] have rest: "sorted_wrt (<) (handed p es as)"
        "set (handed p es as) \<subseteq> set (map fst (shelf ?v p)) \<union> {next_number ?v..}"
      by blast+
    have ge: "{next_number ?v..} \<subseteq> {next_number v..}" using adv by (simp add: advances_def)
    have up: "set (map fst (shelf ?v p)) \<subseteq> set (map fst (shelf v p)) \<union> {next_number v..}"
      using adv by (simp only: advances_def)
    have low: "set (handed p es as) \<subseteq> set (map fst (shelf v p)) \<union> {next_number v..}"
      by (intro order.trans [OF rest(2)] Un_least up le_supI2 [OF ge])
    show ?thesis
    proof (cases "\<exists>ids. a = Inr ids \<and> sells p e")
      case sold: True
      then obtain ids where ids: "a = Inr ids" "sells p e" by blast
      then have "vend e v = (Inr ids, ?v)" using True by (simp add: prod_eq_iff)
      note hands = vend_hands [OF this ids(2) "2.prems"(2)]
      have "i < j" if "i \<in> set ids" "j \<in> set (handed p es as)" for i j
      proof (cases "j \<in> set (map fst (shelf ?v p))")
        case False
        with that(2) rest(2) have "next_number ?v \<le> j" by blast
        then have "next_number v \<le> j" using adv by (simp add: advances_def)
        moreover have "i < next_number v" using that(1) hands(2) "2.prems"(2) by (auto simp: in_order_def)
        ultimately show ?thesis by simp
      qed (use hands(3) that(1) in blast)
      then have "sorted_wrt (<) (ids @ handed p es as)"
        unfolding sorted_wrt_append using rest(1) hands(1) by blast
      moreover have "handed p (e # es) (a # as) = ids @ handed p es as" using ids by simp
      ultimately show ?thesis using low hands(2) by (simp only: set_append) blast
    next
      case False
      then have "handed p (e # es) (a # as) = handed p es as" by (auto split: sum.split)
      with rest(1) low show ?thesis by (simp only: simp_thms)
    qed
  next
    case False
    with "2.prems"(1) have a: "declined a" and rest_run: "vending es as v = Some v'" by (simp_all split: if_splits)
    then have "handed p (e # es) (a # as) = handed p es as" by (auto simp: declined_def)
    with "2.IH"(2) [OF False a rest_run "2.prems"(2)] show ?thesis by (simp only:)
  qed
qed simp_all

text \<open>
  Property C20: first in, first out. Whatever sequence of purchases and stock changes runs, the codes of
  a product are handed out in the order of their numbers, the order in which they were added.
\<close>

theorem charge_codes_in_order:
  assumes "wf_table cc_id (charge_codes d)"
  shows "sorted_wrt (<) (handed p es (answers_of es d))"
proof -
  have "in_order p (vault_of d)"
    using fst_shelf_sorted [of d p] fst_shelf_distinct [OF assms, of p] mem_shelf_new [OF assms, of _ _ p]
    by (auto simp: in_order_def strict_sorted_iff)
  with vault_run [OF assms] handed_in_order show ?thesis by blast
qed

lemma charge_codes_in_order_witness:
  "handed 1 [Purchase (BuyOne 9 ''X'' demo_charge_plan), AddCodes 7 1 1 ''77'',
       Purchase (BuyMany demo_moments demo_charge_plan 3)]
     (answers_of [Purchase (BuyOne 9 ''X'' demo_charge_plan), AddCodes 7 1 1 ''77'',
       Purchase (BuyMany demo_moments demo_charge_plan 3)] demo_charge_db) = [1, 2, 3, 4]
   \<and> sorted_wrt (<) (handed 1 [Purchase (BuyOne 9 ''X'' demo_charge_plan), AddCodes 7 1 1 ''77'',
       Purchase (BuyMany demo_moments demo_charge_plan 3)]
     (answers_of [Purchase (BuyOne 9 ''X'' demo_charge_plan), AddCodes 7 1 1 ''77'',
       Purchase (BuyMany demo_moments demo_charge_plan 3)] demo_charge_db))"
proof
  show "handed 1 [Purchase (BuyOne 9 ''X'' demo_charge_plan), AddCodes 7 1 1 ''77'',
       Purchase (BuyMany demo_moments demo_charge_plan 3)]
     (answers_of [Purchase (BuyOne 9 ''X'' demo_charge_plan), AddCodes 7 1 1 ''77'',
       Purchase (BuyMany demo_moments demo_charge_plan 3)] demo_charge_db) = [1, 2, 3, 4]"
    by code_simp
qed (rule charge_codes_in_order [OF demo_charge_db_wf])

end
