(* ===== verification/CatalogStore.thy ===== *)
theory CatalogStore
  imports Charges CustomerChat
begin

text \<open>
  What \<^verbatim>\<open>handlers/reseller/catalog.py\<close> does to the tables: the statements that add, rename,
  price, switch and delete the folders and products of a catalog, the counts shown before a
  deletion, and the transactions that delete a folder with what it holds. A folder without a
  parent is an operator, a folder with one a subfolder; products lie in subfolders.
\<close>

section \<open>Foreign keys of the catalog\<close>

text \<open>
  \<^verbatim>\<open>INSERT INTO categories\<close> and \<^verbatim>\<open>INSERT INTO packages\<close>: the parent rows must exist.
\<close>

definition insert_category :: "category \<Rightarrow> db \<Rightarrow> (db, unit) outcome" where
  "insert_category c d =
     (if lookup r_id (cat_reseller_id c) (resellers d) = None
        \<or> (case parent_category_id c of None \<Rightarrow> False
            | Some i \<Rightarrow> lookup cat_id i (categories d) = None)
      then (Inl IntegrityError, d)
      else (Inr (), d\<lparr>categories := insert_row category_with_id c (categories d)\<rparr>))"

definition insert_package :: "package \<Rightarrow> db \<Rightarrow> (db, unit) outcome" where
  "insert_package p d =
     (if lookup r_id (p_reseller_id p) (resellers d) = None
        \<or> lookup cat_id (p_category_id p) (categories d) = None
      then (Inl IntegrityError, d)
      else (Inr (), d\<lparr>packages := insert_row package_with_id p (packages d)\<rparr>))"

text \<open>
  \<^verbatim>\<open>DELETE FROM packages\<close>: a product that an order refers to cannot be deleted, and the
  charge codes of a deleted product go with it. \<^verbatim>\<open>DELETE FROM categories\<close>: the products of a
  deleted folder go with it, under the same condition, and a folder inside it loses its parent.
\<close>

definition delete_packages :: "(package \<Rightarrow> bool) \<Rightarrow> db \<Rightarrow> (db, unit) outcome" where
  "delete_packages P d =
     (let ids = map p_id (fetch_all P (packages d))
      in if fetch_one (\<lambda>r. o_package_id r \<in> set ids) (orders d) \<noteq> None
         then (Inl IntegrityError, d)
         else (Inr (), d\<lparr>packages := delete_rows P (packages d),
                         charge_codes := delete_rows (\<lambda>c. cc_package_id c \<in> set ids) (charge_codes d)\<rparr>))"

definition delete_categories :: "(category \<Rightarrow> bool) \<Rightarrow> db \<Rightarrow> (db, unit) outcome" where
  "delete_categories P d =
     (let ids = map cat_id (fetch_all P (categories d))
      in case delete_packages (\<lambda>p. p_category_id p \<in> set ids) d of
           (Inl x, d1) \<Rightarrow> (Inl x, d)
         | (Inr _, d1) \<Rightarrow>
             (Inr (), d1\<lparr>categories :=
                update_rows (\<lambda>c. parent_category_id c \<in> Some ` set ids)
                  (\<lambda>c. c\<lparr>parent_category_id := None\<rparr>) (delete_rows P (categories d1))\<rparr>))"

section \<open>Statements of the dialogs\<close>

text \<open>
  A number that a dialog stores in a price column: an infinity or a NaN is refused by the
  database.
\<close>

definition stored_amount :: "decimal_value \<Rightarrow> cents option" where
  "stored_amount v = (case v of Finite x \<Rightarrow> Some (store x) | _ \<Rightarrow> None)"

definition add_operator_folder :: "nat \<Rightarrow> catalog_type \<Rightarrow> string \<Rightarrow> db \<Rightarrow> (db, unit) outcome" where
  "add_operator_folder rid kind name =
     insert_category \<lparr>cat_id = 0, cat_reseller_id = rid, operator_name = name,
       parent_category_id = None, cat_title = name, cat_type = kind\<rparr>"

definition add_subfolder ::
  "nat \<Rightarrow> catalog_type \<Rightarrow> string \<Rightarrow> nat \<Rightarrow> string \<Rightarrow> db \<Rightarrow> (db, unit) outcome" where
  "add_subfolder rid kind operator operator_id title =
     insert_category \<lparr>cat_id = 0, cat_reseller_id = rid, operator_name = operator,
       parent_category_id = Some operator_id, cat_title = title, cat_type = kind\<rparr>"

definition add_package ::
  "nat \<Rightarrow> nat \<Rightarrow> string \<Rightarrow> decimal_value \<Rightarrow> decimal_value \<Rightarrow> db \<Rightarrow> (db, unit) outcome" where
  "add_package rid category_id name sale cost d =
     (case (stored_amount sale, stored_amount cost) of
        (Some s, Some k) \<Rightarrow>
          insert_package \<lparr>p_id = 0, p_reseller_id = rid, p_category_id = category_id, p_name = name,
            sale_price = s, cost_price = Some k, p_is_active = True\<rparr> d
      | _ \<Rightarrow> (Inl DatabaseError, d))"

definition upd_category :: "nat \<Rightarrow> (category \<Rightarrow> category) \<Rightarrow> db \<Rightarrow> db" where
  "upd_category i f d = d\<lparr>categories := update_id cat_id i f (categories d)\<rparr>"

definition upd_package :: "nat \<Rightarrow> (package \<Rightarrow> package) \<Rightarrow> db \<Rightarrow> db" where
  "upd_package i f d = d\<lparr>packages := update_id p_id i f (packages d)\<rparr>"

definition rename_operator :: "nat \<Rightarrow> string \<Rightarrow> db \<Rightarrow> db" where
  "rename_operator i name = upd_category i (\<lambda>c. c\<lparr>operator_name := name, cat_title := name\<rparr>)"

definition rename_subfolder :: "nat \<Rightarrow> string \<Rightarrow> db \<Rightarrow> db" where
  "rename_subfolder i title = upd_category i (\<lambda>c. c\<lparr>cat_title := title\<rparr>)"

definition rename_package :: "nat \<Rightarrow> string \<Rightarrow> db \<Rightarrow> db" where
  "rename_package i name = upd_package i (\<lambda>p. p\<lparr>p_name := name\<rparr>)"

definition set_sale_price :: "nat \<Rightarrow> decimal_value \<Rightarrow> db \<Rightarrow> (db, unit) outcome" where
  "set_sale_price i v d =
     (case stored_amount v of
        None \<Rightarrow> (Inl DatabaseError, d)
      | Some s \<Rightarrow> (Inr (), upd_package i (\<lambda>p. p\<lparr>sale_price := s\<rparr>) d))"

definition set_cost_price :: "nat \<Rightarrow> decimal_value \<Rightarrow> db \<Rightarrow> (db, unit) outcome" where
  "set_cost_price i v d =
     (case stored_amount v of
        None \<Rightarrow> (Inl DatabaseError, d)
      | Some s \<Rightarrow> (Inr (), upd_package i (\<lambda>p. p\<lparr>cost_price := Some s\<rparr>) d))"

definition toggle_package :: "nat \<Rightarrow> db \<Rightarrow> db" where
  "toggle_package i = upd_package i (\<lambda>p. p\<lparr>p_is_active := \<not> p_is_active p\<rparr>)"

section \<open>Deletion of folders and products\<close>

text \<open>What is announced before a deletion: subfolders, products, codes that are not sold.\<close>

definition packages_in :: "nat list \<Rightarrow> db \<Rightarrow> nat list" where
  "packages_in folders d = map p_id (fetch_all (\<lambda>p. p_category_id p \<in> set folders) (packages d))"

definition available_codes_of :: "nat list \<Rightarrow> db \<Rightarrow> nat" where
  "available_codes_of ids d =
     count_rows (\<lambda>c. cc_status c = Available \<and> cc_package_id c \<in> set ids) (charge_codes d)"

definition count_operator_deletion_impact :: "nat \<Rightarrow> db \<Rightarrow> nat \<times> nat \<times> nat" where
  "count_operator_deletion_impact operator_id d =
     (let sub_ids = map cat_id (sub_folders operator_id d);
          product_ids = (if sub_ids = [] then [] else packages_in sub_ids d);
          codes = (if product_ids = [] then 0 else available_codes_of product_ids d)
      in (length sub_ids, length product_ids, codes))"

definition count_subcategory_deletion_impact :: "nat \<Rightarrow> db \<Rightarrow> nat \<times> nat" where
  "count_subcategory_deletion_impact subcategory_id d =
     (let product_ids = packages_in [subcategory_id] d;
          codes = (if product_ids = [] then 0 else available_codes_of product_ids d)
      in (length product_ids, codes))"

definition count_package_deletion_impact :: "nat \<Rightarrow> db \<Rightarrow> nat" where
  "count_package_deletion_impact package_id = available_codes_of [package_id]"

text \<open>The statements of a transaction, one after the other.\<close>

definition and_then :: "(db \<Rightarrow> (db, unit) outcome) \<Rightarrow> (db \<Rightarrow> (db, unit) outcome) \<Rightarrow>
    db \<Rightarrow> (db, unit) outcome" where
  "and_then f g d = (case f d of (Inl x, d1) \<Rightarrow> (Inl x, d1) | (Inr _, d1) \<Rightarrow> g d1)"

definition delete_operator_tree :: "nat \<Rightarrow> db \<Rightarrow> (db, unit) outcome" where
  "delete_operator_tree operator_id =
     transaction (\<lambda>d.
       (let sub_ids = map cat_id (sub_folders operator_id d);
            last_step = delete_categories (\<lambda>c. cat_id c = operator_id)
        in if sub_ids = [] then last_step d
           else and_then (delete_packages (\<lambda>p. p_category_id p \<in> set sub_ids))
                  (and_then (delete_categories (\<lambda>c. cat_id c \<in> set sub_ids)) last_step) d))"

definition delete_subcategory_tree :: "nat \<Rightarrow> db \<Rightarrow> (db, unit) outcome" where
  "delete_subcategory_tree subcategory_id =
     transaction (and_then (delete_packages (\<lambda>p. p_category_id p = subcategory_id))
                   (delete_categories (\<lambda>c. cat_id c = subcategory_id)))"

definition delete_package :: "nat \<Rightarrow> db \<Rightarrow> (db, unit) outcome" where
  "delete_package package_id = transaction (delete_packages (\<lambda>p. p_id p = package_id))"

end
