(* ===== verification/Reports.thy ===== *)
theory Reports
  imports CatalogStore "HOL-Library.Multiset"
begin

text \<open>
  What the reports and statistics read from the tables: \<^verbatim>\<open>services/report_service.py\<close> (sales, costs
  and commissions of the activated orders of the last days, for one shop or for the platform, and the
  rows of the Excel sheet) and \<^verbatim>\<open>services/customer_stats_service.py\<close> (best customers, share of
  customers who came back, average order).
\<close>

section \<open>Sales\<close>

definition seconds_per_day :: nat where
  "seconds_per_day = 86400"

text \<open>
  \<^verbatim>\<open>FROM orders o JOIN packages p ON o.package_id = p.id\<close>, the activated orders since
  \<^verbatim>\<open>NOW() - INTERVAL days DAY\<close>. The join drops an order whose product row is missing.
\<close>

definition activated_since :: "(order \<Rightarrow> bool) \<Rightarrow> time \<Rightarrow> nat \<Rightarrow> db \<Rightarrow> (order \<times> package) list" where
  "activated_since P now days d =
     List.map_filter (\<lambda>o1. map_option (Pair o1) (lookup p_id (o_package_id o1) (packages d)))
       (fetch_all (\<lambda>o1. P o1 \<and> o_status o1 = Activated \<and> now \<le> created_at o1 + days * seconds_per_day) (orders d))"

text \<open>\<^verbatim>\<open>Decimal(r["cost_price"] or 0)\<close>.\<close>

definition cost_or_zero :: "package \<Rightarrow> cents" where
  "cost_or_zero p = (case cost_price p of None \<Rightarrow> 0 | Some k \<Rightarrow> k)"

record sales_summary =
  order_count :: nat
  total_sales :: cents
  total_cost :: cents
  total_commission_paid :: cents
  real_profit :: cents
  report_orders :: "order list"

definition reseller_sales_summary :: "time \<Rightarrow> nat \<Rightarrow> nat \<Rightarrow> db \<Rightarrow> sales_summary" where
  "reseller_sales_summary now rid days d =
     (let rows = activated_since (\<lambda>o1. o_reseller_id o1 = rid) now days d;
          sales = (\<Sum>(o1, p) \<leftarrow> rows. package_price o1);
          cost = (\<Sum>(o1, p) \<leftarrow> rows. cost_or_zero p);
          commission = (\<Sum>(o1, p) \<leftarrow> rows. commission_amount o1)
      in \<lparr>order_count = length rows, total_sales = sales, total_cost = cost,
          total_commission_paid = commission, real_profit = sales - cost - commission,
          report_orders = map fst rows\<rparr>)"

record platform_summary =
  platform_order_count :: nat
  platform_sales :: cents
  platform_commission :: cents
  platform_profit :: cents

definition platform_wide_summary :: "time \<Rightarrow> nat \<Rightarrow> db \<Rightarrow> platform_summary" where
  "platform_wide_summary now days d =
     (let rows = activated_since (\<lambda>o1. True) now days d;
          sales = (\<Sum>(o1, p) \<leftarrow> rows. package_price o1);
          commission = (\<Sum>(o1, p) \<leftarrow> rows. commission_amount o1);
          cost = (\<Sum>(o1, p) \<leftarrow> rows. cost_or_zero p)
      in \<lparr>platform_order_count = length rows, platform_sales = sales,
          platform_commission = commission, platform_profit = sales - cost - commission\<rparr>)"

text \<open>
  The rows that \<^verbatim>\<open>build_excel_report\<close> appends under the header of the sheet: code, moment, price,
  commission, status, and whether the order was a test.
\<close>

definition build_excel_report :: "order list \<Rightarrow> (string \<times> time \<times> cents \<times> cents \<times> order_status \<times> bool) list" where
  "build_excel_report found =
     map (\<lambda>o1. (order_code o1, created_at o1, package_price o1, commission_amount o1, o_status o1, is_test_order o1)) found"

section \<open>Customers\<close>

text \<open>\<^verbatim>\<open>JOIN orders o ON o.customer_id = cu.id ... GROUP BY cu.id\<close>: customers with an activated order.\<close>

definition activated_of :: "nat \<Rightarrow> db \<Rightarrow> order list" where
  "activated_of cid d = fetch_all (\<lambda>o1. o_customer_id o1 = cid \<and> o_status o1 = Activated) (orders d)"

definition served_customers :: "nat \<Rightarrow> db \<Rightarrow> customer list" where
  "served_customers rid d = fetch_all (\<lambda>c. c_reseller_id c = rid \<and> activated_of (c_id c) d \<noteq> []) (customers d)"

definition spent :: "nat \<Rightarrow> db \<Rightarrow> cents" where
  "spent cid d = sum_list (map package_price (activated_of cid d))"

text \<open>\<^verbatim>\<open>ORDER BY total_spent DESC LIMIT n\<close>; equal sums stay in the order of the rows.\<close>

definition top_customers :: "nat \<Rightarrow> nat \<Rightarrow> db \<Rightarrow> (int \<times> nat \<times> cents) list" where
  "top_customers rid limit d =
     take limit (sort_key (\<lambda>(user, n, total). - total)
       (map (\<lambda>c. (c_telegram_user_id c, length (activated_of (c_id c) d), spent (c_id c) d)) (served_customers rid d)))"

record repeat_rate =
  total_customers :: nat
  repeat_customers :: nat
  repeat_rate_percent :: decimal

definition repeat_customer_rate :: "nat \<Rightarrow> db \<Rightarrow> repeat_rate" where
  "repeat_customer_rate rid d =
     (let found = served_customers rid d;
          total = length found;
          again = length (filter (\<lambda>c. 1 < length (activated_of (c_id c) d)) found)
      in \<lparr>total_customers = total, repeat_customers = again,
          repeat_rate_percent = (if total = 0 then 0 else of_nat again / of_nat total * 100)\<rparr>)"

text \<open>\<^verbatim>\<open>AVG\<close> of a column with two digits has six, rounded half away from zero; without rows it is \<^verbatim>\<open>NULL\<close>.\<close>

definition average_order_value :: "nat \<Rightarrow> db \<Rightarrow> decimal" where
  "average_order_value rid d =
     (let prices = map package_price (fetch_all (\<lambda>o1. o_reseller_id o1 = rid \<and> o_status o1 = Activated) (orders d))
      in if prices = [] then 0
         else of_int (round_half_away (10000 * of_int (sum_list prices) / of_nat (length prices))) / 1000000)"

section \<open>Properties of the reports\<close>

lemma activated_since_filter:
  "activated_since P now days d = filter (\<lambda>(o1, p). P o1) (activated_since (\<lambda>o1. True) now days d)"
proof -
  have "List.map_filter f (filter (\<lambda>o1. P o1 \<and> Q o1) xs) = filter (\<lambda>(o1, p). P o1) (List.map_filter f (filter Q xs))"
    if "\<And>o1. f o1 = map_option (Pair o1) (g o1)" for f :: "order \<Rightarrow> (order \<times> package) option" and g Q xs
    by (induction xs) (auto simp: List.map_filter_def that)
  then show ?thesis unfolding activated_since_def fetch_all_def by simp
qed

lemma sum_by_key:
  assumes "distinct ks" and "\<And>x. x \<in> set xs \<Longrightarrow> key x \<in> set ks"
  shows "(\<Sum>k \<leftarrow> ks. \<Sum>x \<leftarrow> filter (\<lambda>x. key x = k) xs. f x) = (\<Sum>x \<leftarrow> xs. (f x :: 'a :: comm_monoid_add))"
  using assms(2)
proof (induction xs)
  case (Cons x xs)
  have one: "(\<Sum>k \<leftarrow> ks. if key x = k then f x else 0) = f x"
    using assms(1) Cons.prems [of x] by (simp add: sum_list_distinct_conv_sum_set)
  have "(\<Sum>k \<leftarrow> ks. \<Sum>y \<leftarrow> filter (\<lambda>y. key y = k) (x # xs). f y)
      = (\<Sum>k \<leftarrow> ks. (if key x = k then f x else 0) + (\<Sum>y \<leftarrow> filter (\<lambda>y. key y = k) xs. f y))"
    by (rule arg_cong [where f = sum_list], rule map_cong) auto
  also have "\<dots> = f x + (\<Sum>x \<leftarrow> xs. f x)"
    using Cons one by (simp add: sum_list_addf)
  finally show ?case by simp
qed simp

lemma activated_since_mem:
  "x \<in> set (activated_since P now days d) \<Longrightarrow> fst x \<in> set (trows (orders d)) \<and> P (fst x) \<and> o_status (fst x) = Activated"
  by (auto simp: activated_since_def List.map_filter_def fetch_all_def)

text \<open>
  Property C33: the report of the platform is the sum of the reports of the shops: orders, sales,
  commissions and profits, over the same days.
\<close>

theorem platform_is_sum_of_shops:
  assumes "wf_table r_id (resellers d)"
    and "\<forall>o1 \<in> set (trows (orders d)). lookup r_id (o_reseller_id o1) (resellers d) \<noteq> None"
  shows "platform_wide_summary now days d =
    (let reports = map (\<lambda>r. reseller_sales_summary now (r_id r) days d) (trows (resellers d))
     in \<lparr>platform_order_count = sum_list (map order_count reports),
         platform_sales = sum_list (map total_sales reports),
         platform_commission = sum_list (map total_commission_paid reports),
         platform_profit = sum_list (map real_profit reports)\<rparr>)"
proof -
  let ?rows = "activated_since (\<lambda>o1. True) now days d"
  let ?of = "\<lambda>r. filter (\<lambda>(o1, p). o_reseller_id o1 = r_id r) ?rows"
  have "o_reseller_id (fst x) \<in> set (map r_id (trows (resellers d)))" if "x \<in> set ?rows" for x
    using activated_since_mem [OF that] assms(2) by (force simp: lookup_def dest: find_Some_mem)
  moreover have "distinct (map r_id (trows (resellers d)))" using assms(1) by (simp add: wf_table_def)
  ultimately have parts: "(\<Sum>r \<leftarrow> trows (resellers d). \<Sum>x \<leftarrow> ?of r. f x) = (\<Sum>x \<leftarrow> ?rows. f x)"
    for f :: "order \<times> package \<Rightarrow> 'z :: comm_monoid_add"
    using sum_by_key [of "map r_id (trows (resellers d))" ?rows "\<lambda>x. o_reseller_id (fst x)" f]
    by (simp add: o_def split_def)
  have "(\<Sum>r \<leftarrow> trows (resellers d). length (?of r)) = length ?rows"
    using parts [of "\<lambda>x. 1 :: nat"] by (simp add: sum_list_triv)
  then show ?thesis
    by (simp add: platform_wide_summary_def reseller_sales_summary_def Let_def o_def
        activated_since_filter [of "\<lambda>o1. o_reseller_id o1 = _"] parts sum_list_subtractf)
qed

definition demo_report_db :: db where
  "demo_report_db = demo_order_db\<lparr>orders := \<lparr>trows = [demo_order\<lparr>o_status := Activated\<rparr>,
     demo_order\<lparr>o_id := 2, o_status := Activated, package_price := 500\<rparr>], auto_inc = 3\<rparr>\<rparr>"

lemma platform_is_sum_of_shops_witness:
  "platform_profit (platform_wide_summary 0 30 demo_report_db)
   = real_profit (reseller_sales_summary 0 1 30 demo_report_db)"
proof -
  have "wf_table r_id (resellers demo_report_db)" by code_simp
  moreover have "\<forall>o1 \<in> set (trows (orders demo_report_db)).
      lookup r_id (o_reseller_id o1) (resellers demo_report_db) \<noteq> None" by code_simp
  ultimately have sums: "platform_wide_summary 0 30 demo_report_db =
    (let reports = map (\<lambda>r. reseller_sales_summary 0 (r_id r) 30 demo_report_db) (trows (resellers demo_report_db))
     in \<lparr>platform_order_count = sum_list (map order_count reports),
         platform_sales = sum_list (map total_sales reports),
         platform_commission = sum_list (map total_commission_paid reports),
         platform_profit = sum_list (map real_profit reports)\<rparr>)"
    by (rule platform_is_sum_of_shops)
  have "map r_id (trows (resellers demo_report_db)) = [1]" by code_simp
  then have "map (\<lambda>r. reseller_sales_summary 0 (r_id r) 30 demo_report_db) (trows (resellers demo_report_db))
      = [reseller_sales_summary 0 1 30 demo_report_db]"
    by (auto simp: map_eq_Cons_conv simp del: One_nat_def)
  with sums show ?thesis by (simp add: Let_def)
qed

text \<open>
  The list of the best customers. It names customers of the shop with an activated order,
  at most as many as asked, each with the number and the sum of his activated orders, in the
  order of falling sums; it is the beginning of such a list of all of them, so whoever is left out
  has spent no more than anyone on it.
\<close>

theorem top_customers_are_best:
  "let best = top_customers rid limit d
   in length best = min limit (length (served_customers rid d))
    \<and> (\<exists>rest. mset (best @ rest) = mset (map (\<lambda>c. (c_telegram_user_id c, length (activated_of (c_id c) d),
           spent (c_id c) d)) (served_customers rid d))
         \<and> sorted_wrt (\<lambda>x y. snd (snd y) \<le> snd (snd x)) (best @ rest))"
proof -
  let ?all = "sort_key (\<lambda>(user, n, total). - total) (map (\<lambda>c. (c_telegram_user_id c,
    length (activated_of (c_id c) d), spent (c_id c) d)) (served_customers rid d))"
  have "sorted (map (\<lambda>(user, n, total). - total) ?all)" by (rule sorted_sort_key)
  then have "sorted_wrt (\<lambda>x y. snd (snd y) \<le> snd (snd x)) ?all"
    by (simp add: sorted_wrt_map split_def)
  then show ?thesis
    unfolding Let_def top_customers_def
    by (intro conjI exI [of _ "drop limit ?all"])
      (simp_all only: append_take_drop_id mset_sort length_take length_sort length_map min.commute)
qed

text \<open>
  The report reads today's cost. Orders do not keep the cost of their product, so an edit of
  the cost price changes the profit of orders that were activated before it: by the difference
  for each of them.
\<close>

theorem cost_edit_changes_past_profit:
  assumes "wf_table p_id (packages d)" and "lookup p_id pid (packages d) = Some p"
    and "set_cost_price pid (Finite x) d = (Inr (), d')"
  shows "real_profit (reseller_sales_summary now rid days d')
    = real_profit (reseller_sales_summary now rid days d)
      - (store x - cost_or_zero p) * int (length (filter (\<lambda>o1. o_package_id o1 = pid)
          (report_orders (reseller_sales_summary now rid days d))))"
proof -
  have d': "d' = upd_package pid (\<lambda>p. p\<lparr>cost_price := Some (store x)\<rparr>) d"
    using assms(3) by (simp add: set_cost_price_def stored_amount_def)
  let ?f = "\<lambda>p. p\<lparr>cost_price := Some (store x)\<rparr>"
  have look: "lookup p_id i (packages d') = map_option (\<lambda>p. if i = pid then ?f p else p) (lookup p_id i (packages d))" for i
    using assms(1) by (cases "lookup p_id i (packages d)") (auto simp: d' upd_package_def packages.lookup_update_id)
  have "List.map_filter (\<lambda>o1. map_option (Pair o1) (lookup p_id (o_package_id o1) (packages d'))) xs
      = map (\<lambda>(o1, p). (o1, if o_package_id o1 = pid then ?f p else p))
          (List.map_filter (\<lambda>o1. map_option (Pair o1) (lookup p_id (o_package_id o1) (packages d))) xs)" for xs
    by (induction xs) (auto simp: List.map_filter_def look split: option.split)
  then have rows: "activated_since P now days d' = map (\<lambda>(o1, p). (o1, if o_package_id o1 = pid then ?f p else p))
      (activated_since P now days d)" for P
    by (simp add: activated_since_def d' upd_package_def)
  have costs: "(\<Sum>(o1, q) \<leftarrow> map (\<lambda>(o1, q). (o1, if o_package_id o1 = pid then ?f q else q)) xs. cost_or_zero q)
      = (\<Sum>(o1, q) \<leftarrow> xs. cost_or_zero q)
        + (store x - cost_or_zero p) * int (length (filter (\<lambda>o1. o_package_id o1 = pid) (map fst xs)))"
    if "\<forall>(o1, q) \<in> set xs. lookup p_id (o_package_id o1) (packages d) = Some q" for xs
    using that assms(2) by (induction xs) (auto simp: cost_or_zero_def [of "?f _"] algebra_simps)
  have "\<forall>(o1, q) \<in> set (activated_since P now days d). lookup p_id (o_package_id o1) (packages d) = Some q" for P
    by (auto simp: activated_since_def List.map_filter_def)
  from costs [OF this] show ?thesis
    by (simp add: reseller_sales_summary_def Let_def rows o_def split_def)
qed

lemma cost_edit_changes_past_profit_witness:
  "real_profit (reseller_sales_summary 0 1 30 (snd (set_cost_price 1 (Finite 7) demo_report_db)))
   = real_profit (reseller_sales_summary 0 1 30 demo_report_db) - 1400"
proof -
  let ?d = "demo_report_db"
  have wf: "wf_table p_id (packages ?d)" and p: "lookup p_id 1 (packages ?d) = Some demo_package"
    by (simp_all add: demo_report_db_def demo_order_db_def wf_table_def lookup_def demo_package_def)
  have run: "set_cost_price 1 (Finite 7) ?d = (Inr (), snd (set_cost_price 1 (Finite 7) ?d))"
    by (simp add: set_cost_price_def stored_amount_def)
  have seven: "store 7 = 700" by code_simp
  have "(store 7 - cost_or_zero demo_package) * int (length (filter (\<lambda>o1. o_package_id o1 = 1)
      (report_orders (reseller_sales_summary 0 1 30 ?d)))) = 1400"
    by (simp add: reseller_sales_summary_def activated_since_def List.map_filter_def fetch_all_def demo_report_db_def
        demo_order_db_def demo_order_def demo_package_def lookup_def cost_or_zero_def seven)
  with cost_edit_changes_past_profit [OF wf p run, of 0 1 30] show ?thesis by simp
qed
end
