(* ===== verification/AdminBot.thy ===== *)
theory AdminBot
  imports Reports Disputes
begin

text \<open>
  The bot of the administrator: \<^verbatim>\<open>handlers/admin/reseller_management.py\<close>,
  \<^verbatim>\<open>handlers/admin/features_and_settings.py\<close> and \<^verbatim>\<open>handlers/admin/wallet_and_disputes.py\<close> with their
  keyboards. \<^verbatim>\<open>main.py\<close> registers these routers without a filter or middleware on the sender. The
  dialog of backup and restore is in \<open>Backup\<close>.
\<close>

section \<open>Buttons and keyboards\<close>

datatype admin_button =
    AmenuHome | AmenuResellers | AmenuResellersAdd | AmenuResellersList | AmenuReport
  | AmenuFeatures | FeaturesCrypto | FeaturesBlacklist | BlacklistAddStart | FeaturesBroadcast
  | AmenuWallet | WalletTopups | WalletDisputes | AmenuBackup

datatype admin_callback =
    AMenu admin_button
  | ResellerToggle nat reseller_status
  | ResellerEditCommission nat
  | TopupConfirm nat
  | DisputeApprove nat
  | DisputeReject nat

type_synonym admin_keyboard = "admin_callback list list"

definition admin_main_menu :: admin_keyboard where
  "admin_main_menu =
     [[AMenu AmenuResellers], [AMenu AmenuWallet], [AMenu AmenuFeatures], [AMenu AmenuReport], [AMenu AmenuBackup]]"

definition back_to_admin_menu_button :: admin_keyboard where
  "back_to_admin_menu_button = [[AMenu AmenuHome]]"

definition admin_resellers_submenu :: admin_keyboard where
  "admin_resellers_submenu = [[AMenu AmenuResellersAdd], [AMenu AmenuResellersList], [AMenu AmenuHome]]"

definition reseller_row_buttons :: "nat \<Rightarrow> reseller_status \<Rightarrow> admin_keyboard" where
  "reseller_row_buttons rid status =
     [[ResellerToggle rid (if status = ResellerActive then ResellerSuspended else ResellerActive)],
      [ResellerEditCommission rid]]"

definition admin_wallet_submenu :: admin_keyboard where
  "admin_wallet_submenu = [[AMenu WalletTopups], [AMenu WalletDisputes], [AMenu AmenuHome]]"

definition topup_confirm_button :: "nat \<Rightarrow> admin_keyboard" where
  "topup_confirm_button tid = [[TopupConfirm tid]]"

definition dispute_decision_buttons :: "nat \<Rightarrow> admin_keyboard" where
  "dispute_decision_buttons did = [[DisputeApprove did, DisputeReject did]]"

definition admin_features_submenu :: admin_keyboard where
  "admin_features_submenu =
     [[AMenu FeaturesCrypto], [AMenu FeaturesBlacklist], [AMenu FeaturesBroadcast], [AMenu AmenuHome]]"

definition blacklist_add_button :: admin_keyboard where
  "blacklist_add_button = [[AMenu BlacklistAddStart]]"

section \<open>Context\<close>

datatype admin_state =
    EnteringBotToken | EnteringOwnerId | EnteringCommission | EnteringCreditLimit
  | EnteringOrderPrefix | EnteringNewCommission
  | SettingCoin | SettingAddress | SettingNetwork | SettingPrice
  | BlockingId | BlockingReason | EnteringBroadcast

record admin_data =
  ad_bot_token :: "string option"
  ad_owner_id :: "int option"
  ad_commission :: "decimal_value option"
  ad_credit_limit :: "decimal_value option"
  ad_edit_reseller :: "nat option"
  ad_coin :: "string option"
  ad_address :: "string option"
  ad_network :: "string option"
  ad_block_id :: "int option"

definition empty_admin_data :: admin_data where
  "empty_admin_data = \<lparr>ad_bot_token = None, ad_owner_id = None, ad_commission = None,
     ad_credit_limit = None, ad_edit_reseller = None, ad_coin = None, ad_address = None,
     ad_network = None, ad_block_id = None\<rparr>"

datatype admin_reply =
    AdminWelcome | AdminHome | AdminNothingToCancel | AdminCancelled | ResellersTitle
  | AskBotToken | AskOwnerId | BadOwnerId | AskCommission | AdminNumberOnly | AskCreditLimit
  | AskOrderPrefix | BadBotToken | ResellerAdded string | NoResellers
  | ResellerRow nat string reseller_status cents int | ResellerSwitched nat reseller_status
  | AskNewCommission string cents | CommissionOutOfRange | CommissionChanged nat decimal_value
  | PlatformReport nat int int int

datatype settings_answer =
    FeaturesTitle | AskCoinName | AskCoinAddress | AskCoinNetwork | AskCoinPrice | CoinSaved string
  | BlacklistShown "(int \<times> bool \<times> string) list" | AskBlockId | BadBlockId | AskBlockReason
  | UserBlocked int | AskBroadcast | BroadcastSent nat

datatype wallet_answer =
    AdminWalletTitle | NoTopups | TopupRow nat nat int "pay_method option" | TopupDone nat
  | NoDisputes | DisputeRow nat nat nat string | DisputeApprovedText nat | DisputeRejectedText nat

datatype admin_text = InAdmin admin_reply | InFeatures settings_answer | InMoney wallet_answer

datatype admin_sent =
    AdminPosted admin_text "admin_keyboard option"
  | AdminEdited admin_text "admin_keyboard option"
  | ResellerNotFoundAlert
  | Broadcast int "string option"

record admin =
  ad_db :: db
  ad_state :: "admin_state option"
  ad_data :: admin_data
  ad_shown :: "admin_sent list"

text \<open>
  What a handler is given beside the text or the button: the moment, the username of the bot that
  a token belongs to (nothing when Telegram refuses the token), the encryption of tokens, and
  whether a message to a user arrives.
\<close>

record admin_env =
  ae_now :: time
  ae_bot_of :: "string \<Rightarrow> string option"
  ae_encrypt :: "string \<Rightarrow> string"
  ae_arrives :: "int \<Rightarrow> bool"

type_synonym admin_step = "admin \<Rightarrow> (admin, unit) outcome"

definition admin_ok :: "admin \<Rightarrow> (admin, unit) outcome" where
  "admin_ok w = (Inr (), w)"

definition admin_show :: "admin_sent \<Rightarrow> admin \<Rightarrow> admin" where
  "admin_show m w = w\<lparr>ad_shown := ad_shown w @ [m]\<rparr>"

definition admin_post :: "admin_text \<Rightarrow> admin_keyboard option \<Rightarrow> admin \<Rightarrow> admin" where
  "admin_post r k = admin_show (AdminPosted r k)"

definition admin_edit :: "admin_text \<Rightarrow> admin_keyboard option \<Rightarrow> admin \<Rightarrow> admin" where
  "admin_edit r k = admin_show (AdminEdited r k)"

definition admin_enter :: "admin_state \<Rightarrow> admin \<Rightarrow> admin" where
  "admin_enter s w = w\<lparr>ad_state := Some s\<rparr>"

definition admin_remember :: "(admin_data \<Rightarrow> admin_data) \<Rightarrow> admin \<Rightarrow> admin" where
  "admin_remember f w = w\<lparr>ad_data := f (ad_data w)\<rparr>"

definition admin_leave :: "admin \<Rightarrow> admin" where
  "admin_leave w = w\<lparr>ad_state := None, ad_data := empty_admin_data\<rparr>"

definition admin_change :: "(db \<Rightarrow> db) \<Rightarrow> admin \<Rightarrow> admin" where
  "admin_change f w = w\<lparr>ad_db := f (ad_db w)\<rparr>"

lemmas admin_defs = admin_ok_def admin_show_def admin_post_def admin_edit_def admin_enter_def
  admin_remember_def admin_leave_def admin_change_def

definition admin_with_text :: "string option \<Rightarrow> (string \<Rightarrow> admin_step) \<Rightarrow> admin_step" where
  "admin_with_text t f w = (case t of None \<Rightarrow> (Inl AttributeError, w) | Some s \<Rightarrow> f (strip s) w)"

definition admin_with_key :: "(admin_data \<Rightarrow> 'k option) \<Rightarrow> ('k \<Rightarrow> admin_step) \<Rightarrow> admin_step" where
  "admin_with_key key f w = (case key (ad_data w) of None \<Rightarrow> (Inl KeyError, w) | Some x \<Rightarrow> f x w)"

definition admin_with_db :: "(db \<Rightarrow> (db, 'a) outcome) \<Rightarrow> ('a \<Rightarrow> admin_step) \<Rightarrow> admin_step" where
  "admin_with_db f g w =
     (case f (ad_db w) of (Inl x, d) \<Rightarrow> (Inl x, w\<lparr>ad_db := d\<rparr>) | (Inr y, d) \<Rightarrow> g y (w\<lparr>ad_db := d\<rparr>))"

text \<open>\<^verbatim>\<open>Decimal(message.text.strip())\<close>, with the same answer to a text that is no number in two dialogs.\<close>

definition admin_with_decimal :: "string option \<Rightarrow> (decimal_value \<Rightarrow> admin_step) \<Rightarrow> admin_step" where
  "admin_with_decimal t f =
     admin_with_text t (\<lambda>s w. case parse_decimal s of
        None \<Rightarrow> admin_ok (admin_post (InAdmin AdminNumberOnly) None w)
      | Some v \<Rightarrow> f v w)"

text \<open>
  \<^verbatim>\<open>.strip().lstrip("-").isdigit()\<close> and then \<^verbatim>\<open>int(...)\<close>: several signs, or digits that are no
  decimal digits, pass the test and make the conversion raise.
\<close>

definition admin_with_id :: "string option \<Rightarrow> admin_text \<Rightarrow> (int \<Rightarrow> admin_step) \<Rightarrow> admin_step" where
  "admin_with_id t refusal f =
     admin_with_text t (\<lambda>s w.
       let digits = dropWhile (\<lambda>c. c = CHR ''-'') s
       in if \<not> (digits \<noteq> [] \<and> list_all is_digit digits) then admin_ok (admin_post refusal None w)
          else (case parse_int s of
                  None \<Rightarrow> (Inl (ValueError NotAnInteger), w)
                | Some n \<Rightarrow> f n w))"

section \<open>Resellers\<close>

definition admin_start :: admin_step where
  "admin_start w = admin_ok (admin_post (InAdmin AdminWelcome) (Some admin_main_menu) w)"

definition admin_back_home :: admin_step where
  "admin_back_home w = admin_ok (admin_edit (InAdmin AdminHome) (Some admin_main_menu) w)"

definition cancel_any_state :: admin_step where
  "cancel_any_state w =
     (if ad_state w = None then admin_ok (admin_post (InAdmin AdminNothingToCancel) None w)
      else admin_ok (admin_post (InAdmin AdminCancelled) (Some admin_main_menu) (admin_leave w)))"

definition resellers_menu :: admin_step where
  "resellers_menu w = admin_ok (admin_edit (InAdmin ResellersTitle) (Some admin_resellers_submenu) w)"

definition start_add_reseller_cb :: admin_step where
  "start_add_reseller_cb w = admin_ok (admin_post (InAdmin AskBotToken) None (admin_enter EnteringBotToken w))"

definition receive_bot_token :: "string option \<Rightarrow> admin_step" where
  "receive_bot_token t =
     admin_with_text t (\<lambda>token w. admin_ok (admin_post (InAdmin AskOwnerId) None (admin_enter EnteringOwnerId
       (admin_remember (\<lambda>ad. ad\<lparr>ad_bot_token := Some token\<rparr>) w))))"

definition receive_telegram_id :: "string option \<Rightarrow> admin_step" where
  "receive_telegram_id t =
     admin_with_id t (InAdmin BadOwnerId) (\<lambda>n w.
       admin_ok (admin_post (InAdmin AskCommission) None (admin_enter EnteringCommission
         (admin_remember (\<lambda>ad. ad\<lparr>ad_owner_id := Some n\<rparr>) w))))"

definition receive_commission :: "string option \<Rightarrow> admin_step" where
  "receive_commission t =
     admin_with_decimal t (\<lambda>percent w.
       admin_ok (admin_post (InAdmin AskCreditLimit) None (admin_enter EnteringCreditLimit
         (admin_remember (\<lambda>ad. ad\<lparr>ad_commission := Some percent\<rparr>) w))))"

definition receive_credit_limit :: "string option \<Rightarrow> admin_step" where
  "receive_credit_limit t =
     admin_with_decimal t (\<lambda>limit w.
       admin_ok (admin_post (InAdmin AskOrderPrefix) None (admin_enter EnteringOrderPrefix
         (admin_remember (\<lambda>ad. ad\<lparr>ad_credit_limit := Some limit\<rparr>) w))))"

text \<open>\<^verbatim>\<open>INSERT INTO resellers\<close>: the prefix is unique; the other columns have their defaults.\<close>

definition insert_reseller ::
  "string \<Rightarrow> string \<Rightarrow> int \<Rightarrow> decimal_value \<Rightarrow> decimal_value \<Rightarrow> string \<Rightarrow> db \<Rightarrow> (db, unit) outcome" where
  "insert_reseller token username owner commission limit prefix d =
     (case (stored_amount commission, stored_amount limit) of
        (Some percent, Some credit) \<Rightarrow>
          if fetch_one (\<lambda>r. order_prefix r = prefix) (resellers d) \<noteq> None then (Inl IntegrityError, d)
          else (Inr (), d\<lparr>resellers := insert_row reseller_with_id
                 \<lparr>r_id = 0, bot_token_encrypted = token, bot_username = username,
                  telegram_numeric_id = owner, commission_percent = percent, wallet_credit_balance = 0,
                  credit_limit_negative = credit, r_status = ResellerActive, order_prefix = prefix,
                  support_contact = None, zarinpal_merchant_id = None, end_order_message = None,
                  test_mode_enabled = False, test_mode_order_limit = 0, test_mode_orders_used = 0\<rparr>
                 (resellers d)\<rparr>)
      | _ \<Rightarrow> (Inl DatabaseError, d))"

text \<open>A missing token is caught with the errors of Telegram; the other keys are read later.\<close>

definition receive_order_prefix_and_save :: "admin_env \<Rightarrow> string option \<Rightarrow> admin_step" where
  "receive_order_prefix_and_save e t =
     admin_with_text t (\<lambda>s w.
       case Option.bind (ad_bot_token (ad_data w)) (\<lambda>token. map_option (Pair token) (ae_bot_of e token)) of
         None \<Rightarrow> admin_ok (admin_leave (admin_post (InAdmin BadBotToken) None w))
       | Some (token, username) \<Rightarrow>
           admin_with_key ad_owner_id (\<lambda>owner. admin_with_key ad_commission (\<lambda>percent.
             admin_with_key ad_credit_limit (\<lambda>limit.
               admin_with_db (insert_reseller (ae_encrypt e token) username owner percent limit (upper s)) (\<lambda>_ w.
                 admin_ok (admin_leave (admin_post (InAdmin (ResellerAdded username)) (Some admin_main_menu) w)))))) w)"

definition list_resellers_cb :: admin_step where
  "list_resellers_cb w =
     (let rows = trows (resellers (ad_db w))
      in if rows = [] then admin_ok (admin_post (InAdmin NoResellers) (Some back_to_admin_menu_button) w)
         else admin_ok (fold (\<lambda>r. admin_post (InAdmin (ResellerRow (r_id r) (bot_username r) (r_status r)
                (commission_percent r) (shown_price (wallet_credit_balance r))))
              (Some (reseller_row_buttons (r_id r) (r_status r)))) rows w))"

definition toggle_reseller_status :: "nat \<Rightarrow> reseller_status \<Rightarrow> admin_step" where
  "toggle_reseller_status rid status w =
     admin_ok (admin_edit (InAdmin (ResellerSwitched rid status)) None
       (admin_change (upd_reseller rid (\<lambda>r. r\<lparr>r_status := status\<rparr>)) w))"

definition start_edit_commission :: "nat \<Rightarrow> admin_step" where
  "start_edit_commission rid w =
     (case lookup r_id rid (resellers (ad_db w)) of
        None \<Rightarrow> admin_ok (admin_show ResellerNotFoundAlert w)
      | Some r \<Rightarrow>
          admin_ok (admin_post (InAdmin (AskNewCommission (bot_username r) (commission_percent r))) None
            (admin_enter EnteringNewCommission (admin_remember (\<lambda>ad. ad\<lparr>ad_edit_reseller := Some rid\<rparr>) w))))"

text \<open>A NaN cannot be compared and raises.\<close>

definition receive_new_commission_and_save :: "string option \<Rightarrow> admin_step" where
  "receive_new_commission_and_save t =
     admin_with_decimal t (\<lambda>v w. case v of
        NotANumber \<Rightarrow> (Inl InvalidOperation, w)
      | Infinite negative \<Rightarrow> admin_ok (admin_post (InAdmin CommissionOutOfRange) None w)
      | Finite percent \<Rightarrow>
          if percent < 0 \<or> 100 < percent then admin_ok (admin_post (InAdmin CommissionOutOfRange) None w)
          else admin_with_key ad_edit_reseller (\<lambda>rid w.
                 admin_ok (admin_leave (admin_post (InAdmin (CommissionChanged rid v)) (Some admin_main_menu)
                   (admin_change (upd_reseller rid (\<lambda>r. r\<lparr>commission_percent := store percent\<rparr>)) w)))) w)"

definition platform_report_cb :: "admin_env \<Rightarrow> admin_step" where
  "platform_report_cb e w =
     (let s = platform_wide_summary (ae_now e) 30 (ad_db w)
      in admin_ok (admin_post (InAdmin (PlatformReport (platform_order_count s) (shown_price (platform_sales s))
             (shown_price (platform_commission s)) (shown_price (platform_profit s))))
           (Some back_to_admin_menu_button) w))"

section \<open>Features and settings\<close>

definition features_menu :: admin_step where
  "features_menu w = admin_ok (admin_edit (InFeatures FeaturesTitle) (Some admin_features_submenu) w)"

definition start_set_crypto :: admin_step where
  "start_set_crypto w = admin_ok (admin_post (InFeatures AskCoinName) None (admin_enter SettingCoin w))"

definition receive_coin :: "string option \<Rightarrow> admin_step" where
  "receive_coin t =
     admin_with_text t (\<lambda>s w. admin_ok (admin_post (InFeatures AskCoinAddress) None (admin_enter SettingAddress
       (admin_remember (\<lambda>ad. ad\<lparr>ad_coin := Some s\<rparr>) w))))"

definition receive_address :: "string option \<Rightarrow> admin_step" where
  "receive_address t =
     admin_with_text t (\<lambda>s w. admin_ok (admin_post (InFeatures AskCoinNetwork) None (admin_enter SettingNetwork
       (admin_remember (\<lambda>ad. ad\<lparr>ad_address := Some s\<rparr>) w))))"

definition receive_network :: "string option \<Rightarrow> admin_step" where
  "receive_network t =
     admin_with_text t (\<lambda>s w. admin_ok (admin_post (InFeatures AskCoinPrice) None (admin_enter SettingPrice
       (admin_remember (\<lambda>ad. ad\<lparr>ad_network := Some s\<rparr>) w))))"

definition receive_price_and_save :: "string option \<Rightarrow> admin_step" where
  "receive_price_and_save t =
     admin_with_decimal t (\<lambda>v. admin_with_key ad_coin (\<lambda>coin. admin_with_key ad_address (\<lambda>addr.
       admin_with_key ad_network (\<lambda>net w.
         case v of
           Finite price \<Rightarrow>
             admin_ok (admin_leave (admin_post (InFeatures (CoinSaved coin)) (Some back_to_admin_menu_button)
               (admin_change (upsert_crypto_setting coin addr net price) w)))
         | _ \<Rightarrow> (Inl DatabaseError, w)))))"

text \<open>\<^verbatim>\<open>ORDER BY created_at DESC\<close>: rows are inserted in the order of time.\<close>

definition list_blacklist :: "db \<Rightarrow> blacklist_row list" where
  "list_blacklist d = rev (trows (blacklist d))"

definition show_blacklist_cb :: admin_step where
  "show_blacklist_cb w =
     admin_ok (admin_post (InFeatures (BlacklistShown
         (map (\<lambda>b. (b_telegram_user_id b, is_global b, b_reason b)) (list_blacklist (ad_db w)))))
       (Some blacklist_add_button) w)"

definition start_blacklist_add :: admin_step where
  "start_blacklist_add w = admin_ok (admin_post (InFeatures AskBlockId) None (admin_enter BlockingId w))"

definition receive_blacklist_id :: "string option \<Rightarrow> admin_step" where
  "receive_blacklist_id t =
     admin_with_id t (InFeatures BadBlockId) (\<lambda>n w.
       admin_ok (admin_post (InFeatures AskBlockReason) None (admin_enter BlockingReason
         (admin_remember (\<lambda>ad. ad\<lparr>ad_block_id := Some n\<rparr>) w))))"

text \<open>The text for a missing reason is Persian in the source.\<close>

definition receive_blacklist_reason_and_save :: "string option \<Rightarrow> admin_step" where
  "receive_blacklist_reason_and_save t =
     admin_with_text t (\<lambda>s.
       let reason = (if s = ''-'' then ''no reason recorded'' else s)
       in admin_with_key ad_block_id (\<lambda>user w.
            admin_ok (admin_leave (admin_post (InFeatures (UserBlocked user)) (Some back_to_admin_menu_button)
              (admin_change (add_to_blacklist user reason None True) w)))))"

definition start_broadcast :: admin_step where
  "start_broadcast w = admin_ok (admin_post (InFeatures AskBroadcast) None (admin_enter EnteringBroadcast w))"

definition receive_broadcast_text_and_send :: "admin_env \<Rightarrow> string option \<Rightarrow> admin_step" where
  "receive_broadcast_text_and_send e t w =
     (let active = fetch_all (\<lambda>r. r_status r = ResellerActive) (resellers (ad_db w));
          reached = filter (ae_arrives e) (map telegram_numeric_id active)
      in admin_ok (admin_leave (admin_post (InFeatures (BroadcastSent (length reached)))
           (Some back_to_admin_menu_button) (fold (\<lambda>user. admin_show (Broadcast user t)) reached w))))"

section \<open>Wallets and disputes\<close>

definition admin_wallet_menu :: admin_step where
  "admin_wallet_menu w = admin_ok (admin_edit (InMoney AdminWalletTitle) (Some admin_wallet_submenu) w)"

definition list_pending_topups_cb :: admin_step where
  "list_pending_topups_cb w =
     (let rows = fetch_all (\<lambda>t. wt_type t = TxTopup \<and> wt_status t = TxPending) (wallet_transactions (ad_db w))
      in if rows = [] then admin_ok (admin_post (InMoney NoTopups) (Some back_to_admin_menu_button) w)
         else admin_ok (fold (\<lambda>t. admin_post (InMoney (TopupRow (wt_id t) (wt_reseller_id t)
                (shown_price (wt_amount t)) (wt_method t))) (Some (topup_confirm_button (wt_id t)))) rows w))"

definition confirm_topup_cb :: "nat \<Rightarrow> admin_step" where
  "confirm_topup_cb tid =
     admin_with_db (confirm_topup tid) (\<lambda>_ w. admin_ok (admin_edit (InMoney (TopupDone tid)) None w))"

definition list_pending_disputes_cb :: admin_step where
  "list_pending_disputes_cb w =
     (let rows = fetch_all (\<lambda>di. d_review_status di = ReviewPending) (disputes (ad_db w))
      in if rows = [] then admin_ok (admin_post (InMoney NoDisputes) (Some back_to_admin_menu_button) w)
         else admin_ok (fold (\<lambda>di. admin_post (InMoney (DisputeRow (d_id di) (d_order_id di) (d_reseller_id di)
                (d_reason di))) (Some (dispute_decision_buttons (d_id di)))) rows w))"

definition approve_dispute_cb :: "admin_env \<Rightarrow> nat \<Rightarrow> admin_step" where
  "approve_dispute_cb e did =
     admin_with_db (approve_dispute (ae_now e) did)
       (\<lambda>_ w. admin_ok (admin_edit (InMoney (DisputeApprovedText did)) None w))"

definition reject_dispute_cb :: "admin_env \<Rightarrow> nat \<Rightarrow> admin_step" where
  "reject_dispute_cb e did w =
     admin_ok (admin_edit (InMoney (DisputeRejectedText did)) None (admin_change (reject_dispute (ae_now e) did) w))"

section \<open>Routing\<close>

text \<open>The sender is no argument: no router of this bot asks who presses or writes.\<close>

fun admin_press_menu :: "admin_env \<Rightarrow> admin_button \<Rightarrow> admin_step" where
  "admin_press_menu e AmenuHome = admin_back_home"
| "admin_press_menu e AmenuResellers = resellers_menu"
| "admin_press_menu e AmenuResellersAdd = start_add_reseller_cb"
| "admin_press_menu e AmenuResellersList = list_resellers_cb"
| "admin_press_menu e AmenuReport = platform_report_cb e"
| "admin_press_menu e AmenuFeatures = features_menu"
| "admin_press_menu e FeaturesCrypto = start_set_crypto"
| "admin_press_menu e FeaturesBlacklist = show_blacklist_cb"
| "admin_press_menu e BlacklistAddStart = start_blacklist_add"
| "admin_press_menu e FeaturesBroadcast = start_broadcast"
| "admin_press_menu e AmenuWallet = admin_wallet_menu"
| "admin_press_menu e WalletTopups = list_pending_topups_cb"
| "admin_press_menu e WalletDisputes = list_pending_disputes_cb"
| "admin_press_menu e AmenuBackup = admin_ok"

fun admin_press :: "admin_env \<Rightarrow> admin_callback \<Rightarrow> admin_step" where
  "admin_press e (AMenu b) = admin_press_menu e b"
| "admin_press e (ResellerToggle rid status) = toggle_reseller_status rid status"
| "admin_press e (ResellerEditCommission rid) = start_edit_commission rid"
| "admin_press e (TopupConfirm tid) = confirm_topup_cb tid"
| "admin_press e (DisputeApprove did) = approve_dispute_cb e did"
| "admin_press e (DisputeReject did) = reject_dispute_cb e did"

fun admin_receive_in :: "admin_state \<Rightarrow> admin_env \<Rightarrow> string option \<Rightarrow> admin_step" where
  "admin_receive_in EnteringBotToken e t = receive_bot_token t"
| "admin_receive_in EnteringOwnerId e t = receive_telegram_id t"
| "admin_receive_in EnteringCommission e t = receive_commission t"
| "admin_receive_in EnteringCreditLimit e t = receive_credit_limit t"
| "admin_receive_in EnteringOrderPrefix e t = receive_order_prefix_and_save e t"
| "admin_receive_in EnteringNewCommission e t = receive_new_commission_and_save t"
| "admin_receive_in SettingCoin e t = receive_coin t"
| "admin_receive_in SettingAddress e t = receive_address t"
| "admin_receive_in SettingNetwork e t = receive_network t"
| "admin_receive_in SettingPrice e t = receive_price_and_save t"
| "admin_receive_in BlockingId e t = receive_blacklist_id t"
| "admin_receive_in BlockingReason e t = receive_blacklist_reason_and_save t"
| "admin_receive_in EnteringBroadcast e t = receive_broadcast_text_and_send e t"

text \<open>A message: the two commands first, then the handler of the state; without a state it is ignored.\<close>

definition admin_receive :: "admin_env \<Rightarrow> string option \<Rightarrow> admin_step" where
  "admin_receive e t w =
     (if t = Some ''/start'' then admin_start w
      else if t = Some ''/cancel'' then cancel_any_state w
      else case ad_state w of None \<Rightarrow> admin_ok w | Some s \<Rightarrow> admin_receive_in s e t w)"

end
