(* ===== verification/PanelButtons.thy ===== *)
theory PanelButtons
  imports CustomerChat
begin

text \<open>
  The buttons with callback data on the keyboards of \<^verbatim>\<open>utils/keyboards.py\<close> for resellers, and the
  filters that route them to the handlers of \<^verbatim>\<open>handlers/reseller\<close>. A button is a value of
  \<open>callback\<close>; \<open>callback_data\<close> is the string that the keyboards build for it, and
  \<open>route\<close> reads the string back the way the filters and the handlers' first lines do.
\<close>

section \<open>Buttons\<close>

text \<open>
  Buttons without an argument, with an id, with the type of the catalog, with both, with the
  token of a price that waits for confirmation, and those of the stock of codes, which keep the
  action they lead to.
\<close>

datatype menu_button =
    RmenuHome | RmenuOrders | RmenuCatalog | RmenuChargeStock | RmenuWallet
  | WalletTopupCard | WalletTopupZarinpal | WalletTopupCrypto | RmenuSettings
  | ReferralPercent | AddChannel | AddDiscount | SetSupportContact | RmenuReports
  | ReportsExcel | RmenuStats | RmenuPaymentMethods | PmListCards | PmAddCard
  | PmSetZarinpal

datatype id_button =
    ApproveReceiptButton | RejectReceiptButton | ActivateOrderButton | ConfirmTopupButton | RejectTopupButton
  | OpenDisputeButton | CstockClearall | PmToggleCard | PmRemoveCard

datatype kind_button =
    CatalogMenu | CatalogView | AddOperatorButton | AddSubcategoryButton | AddPackageButton
  | CatalogManage

datatype item_button =
    PickOperatorForSub | PickOperatorForPkg | PickCategory | ManageOp | ManageSub
  | ManagePkg | EditOpName | EditSubTitle | EditPkgName | EditPkgPrice | EditPkgCost
  | TogglePkg | DelOp | DelOpYes | DelOpNo | DelSub | DelSubYes | DelSubNo | DelPkg
  | DelPkgYes | DelPkgNo

datatype token_button =
    PriceConfirm | PriceEdit | PkgeditPriceConfirm | PkgeditPriceEdit

datatype stock_action = AddAction | ListAction | RemoveAction | SoldAction

datatype stock_button =
    CstockOp | CstockCat | CstockProd

datatype callback =
    Menu menu_button
  | OnId id_button nat
  | OnKind kind_button catalog_type
  | OnItem item_button catalog_type nat
  | WithToken token_button string
  | CstockPick stock_action
  | OnStock stock_button stock_action nat
  | CstockDelcode nat nat
  | ReferralSet bool

fun kind_word :: "catalog_type \<Rightarrow> string" where
  "kind_word PackageCatalog = ''package''"
| "kind_word ChargeCatalog = ''charge''"

fun action_word :: "stock_action \<Rightarrow> string" where
  "action_word AddAction = ''add''"
| "action_word ListAction = ''list''"
| "action_word RemoveAction = ''remove''"
| "action_word SoldAction = ''sold''"

fun menu_data :: "menu_button \<Rightarrow> string" where
  "menu_data RmenuHome = ''rmenu:home''"
| "menu_data RmenuOrders = ''rmenu:orders''"
| "menu_data RmenuCatalog = ''rmenu:catalog''"
| "menu_data RmenuChargeStock = ''rmenu:charge_stock''"
| "menu_data RmenuWallet = ''rmenu:wallet''"
| "menu_data WalletTopupCard = ''wallet:topup_card''"
| "menu_data WalletTopupZarinpal = ''wallet:topup_zarinpal''"
| "menu_data WalletTopupCrypto = ''wallet:topup_crypto''"
| "menu_data RmenuSettings = ''rmenu:settings''"
| "menu_data ReferralPercent = ''settings:referral_percent''"
| "menu_data AddChannel = ''settings:add_channel''"
| "menu_data AddDiscount = ''settings:add_discount''"
| "menu_data SetSupportContact = ''settings:set_support_contact''"
| "menu_data RmenuReports = ''rmenu:reports''"
| "menu_data ReportsExcel = ''reports:excel''"
| "menu_data RmenuStats = ''rmenu:stats''"
| "menu_data RmenuPaymentMethods = ''rmenu:payment_methods''"
| "menu_data PmListCards = ''pm:list_cards''"
| "menu_data PmAddCard = ''pm:add_card''"
| "menu_data PmSetZarinpal = ''pm:set_zarinpal''"

fun id_prefix :: "id_button \<Rightarrow> string" where
  "id_prefix ApproveReceiptButton = ''approve_receipt:''"
| "id_prefix RejectReceiptButton = ''reject_receipt:''"
| "id_prefix ActivateOrderButton = ''activate_order:''"
| "id_prefix ConfirmTopupButton = ''wallet_topup_confirm:''"
| "id_prefix RejectTopupButton = ''wallet_topup_reject:''"
| "id_prefix OpenDisputeButton = ''open_dispute:''"
| "id_prefix CstockClearall = ''cstock:clearall:''"
| "id_prefix PmToggleCard = ''pm:toggle_card:''"
| "id_prefix PmRemoveCard = ''pm:remove_card:''"

fun kind_prefix :: "kind_button \<Rightarrow> string" where
  "kind_prefix CatalogMenu = ''catalog:menu:''"
| "kind_prefix CatalogView = ''catalog:view:''"
| "kind_prefix AddOperatorButton = ''catalog:add_operator:''"
| "kind_prefix AddSubcategoryButton = ''catalog:add_subcategory:''"
| "kind_prefix AddPackageButton = ''catalog:add_package:''"
| "kind_prefix CatalogManage = ''catalog:manage:''"

fun item_prefix :: "item_button \<Rightarrow> string" where
  "item_prefix PickOperatorForSub = ''catalog:pick_operator_for_sub:''"
| "item_prefix PickOperatorForPkg = ''catalog:pick_operator_for_pkg:''"
| "item_prefix PickCategory = ''catalog:pick_category:''"
| "item_prefix ManageOp = ''catalog:manage_op:''"
| "item_prefix ManageSub = ''catalog:manage_sub:''"
| "item_prefix ManagePkg = ''catalog:manage_pkg:''"
| "item_prefix EditOpName = ''catalog:edit_op_name:''"
| "item_prefix EditSubTitle = ''catalog:edit_sub_title:''"
| "item_prefix EditPkgName = ''catalog:edit_pkg_name:''"
| "item_prefix EditPkgPrice = ''catalog:edit_pkg_price:''"
| "item_prefix EditPkgCost = ''catalog:edit_pkg_cost:''"
| "item_prefix TogglePkg = ''catalog:toggle_pkg:''"
| "item_prefix DelOp = ''catalog:del_op:''"
| "item_prefix DelOpYes = ''catalog:del_op_yes:''"
| "item_prefix DelOpNo = ''catalog:del_op_no:''"
| "item_prefix DelSub = ''catalog:del_sub:''"
| "item_prefix DelSubYes = ''catalog:del_sub_yes:''"
| "item_prefix DelSubNo = ''catalog:del_sub_no:''"
| "item_prefix DelPkg = ''catalog:del_pkg:''"
| "item_prefix DelPkgYes = ''catalog:del_pkg_yes:''"
| "item_prefix DelPkgNo = ''catalog:del_pkg_no:''"

fun token_prefix :: "token_button \<Rightarrow> string" where
  "token_prefix PriceConfirm = ''price_confirm:''"
| "token_prefix PriceEdit = ''price_edit:''"
| "token_prefix PkgeditPriceConfirm = ''pkgedit_price_confirm:''"
| "token_prefix PkgeditPriceEdit = ''pkgedit_price_edit:''"

fun stock_prefix :: "stock_button \<Rightarrow> string" where
  "stock_prefix CstockOp = ''cstock:op:''"
| "stock_prefix CstockCat = ''cstock:cat:''"
| "stock_prefix CstockProd = ''cstock:prod:''"

fun callback_data :: "callback \<Rightarrow> string" where
  "callback_data (Menu b) = menu_data b"
| "callback_data (OnId b i) = id_prefix b @ show_nat i"
| "callback_data (OnKind b kind) = kind_prefix b @ kind_word kind"
| "callback_data (OnItem b kind i) = item_prefix b @ kind_word kind @ '':'' @ show_nat i"
| "callback_data (WithToken b token) = token_prefix b @ token"
| "callback_data (CstockPick action) = ''cstock:pick:'' @ action_word action"
| "callback_data (OnStock b action i) = stock_prefix b @ action_word action @ '':'' @ show_nat i"
| "callback_data (CstockDelcode i pid) = ''cstock:delcode:'' @ show_nat i @ '':'' @ show_nat pid"
| "callback_data (ReferralSet on) = ''settings:referral_set:'' @ (if on then ''on'' else ''off'')"

section \<open>Routing\<close>

text \<open>
  A handler is registered with a filter: the data are equal to a text or start with it. Its first
  lines split the data at the colons and read words and ids; data that cannot be read do not
  occur on a button, and the handler would raise.
\<close>

datatype data_filter = Exactly string | Prefix string

fun begins_with :: "string \<Rightarrow> string \<Rightarrow> bool" where
  "begins_with [] s = True"
| "begins_with (p # ps) [] = False"
| "begins_with (p # ps) (c # cs) = (if p = c then begins_with ps cs else False)"

fun accepts :: "data_filter \<Rightarrow> string \<Rightarrow> bool" where
  "accepts (Exactly t) data = (data = t)"
| "accepts (Prefix p) data = begins_with p data"

definition part :: "nat \<Rightarrow> string list \<Rightarrow> string option" where
  "part n parts = (if n < length parts then Some (parts ! n) else None)"

definition id_at :: "nat \<Rightarrow> string list \<Rightarrow> nat option" where
  "id_at n parts = Option.bind (part n parts) (\<lambda>w. map_option nat (parse_int w))"

definition kind_at :: "nat \<Rightarrow> string list \<Rightarrow> catalog_type option" where
  "kind_at n parts = Option.bind (part n parts) (\<lambda>w.
     if w = ''package'' then Some PackageCatalog
     else if w = ''charge'' then Some ChargeCatalog else None)"

definition action_at :: "nat \<Rightarrow> string list \<Rightarrow> stock_action option" where
  "action_at n parts = Option.bind (part n parts) (\<lambda>w.
     if w = ''add'' then Some AddAction else if w = ''list'' then Some ListAction
     else if w = ''remove'' then Some RemoveAction
     else if w = ''sold'' then Some SoldAction else None)"

text \<open>What the first lines of a handler read from the parts of the data.\<close>

datatype reading =
    ReadMenu menu_button
  | ReadId id_button nat
  | ReadKind kind_button
  | ReadItem item_button
  | ReadToken token_button
  | ReadPick
  | ReadStock stock_button
  | ReadCode
  | ReadReferral

fun read_data :: "reading \<Rightarrow> string list \<Rightarrow> callback option" where
  "read_data (ReadMenu b) parts = Some (Menu b)"
| "read_data (ReadId b n) parts = map_option (OnId b) (id_at n parts)"
| "read_data (ReadKind b) parts = map_option (OnKind b) (kind_at 2 parts)"
| "read_data (ReadItem b) parts =
     Option.bind (kind_at 2 parts) (\<lambda>kind. map_option (OnItem b kind) (id_at 3 parts))"
| "read_data (ReadToken b) parts = map_option (WithToken b) (part 1 parts)"
| "read_data ReadPick parts = map_option CstockPick (action_at 2 parts)"
| "read_data (ReadStock b) parts =
     Option.bind (action_at 2 parts) (\<lambda>action. map_option (OnStock b action) (id_at 3 parts))"
| "read_data ReadCode parts =
     Option.bind (id_at 2 parts) (\<lambda>i. map_option (CstockDelcode i) (id_at 3 parts))"
| "read_data ReadReferral parts = map_option (\<lambda>w. ReferralSet (w = ''on'')) (part 2 parts)"

text \<open>
  The handlers of callback data, a list for every router in the order of registration; the
  handlers of \<^verbatim>\<open>catalog.py\<close> come in two lists, those that add and those that manage.
\<close>

definition start_routes :: "(data_filter \<times> reading) list" where
  "start_routes = [
     (Exactly ''rmenu:home'', ReadMenu RmenuHome)]"

definition orders_routes :: "(data_filter \<times> reading) list" where
  "orders_routes = [
     (Exactly ''rmenu:orders'', ReadMenu RmenuOrders),
     (Prefix ''approve_receipt:'', ReadId ApproveReceiptButton 1),
     (Prefix ''reject_receipt:'', ReadId RejectReceiptButton 1),
     (Prefix ''activate_order:'', ReadId ActivateOrderButton 1),
     (Prefix ''wallet_topup_confirm:'', ReadId ConfirmTopupButton 1),
     (Prefix ''wallet_topup_reject:'', ReadId RejectTopupButton 1),
     (Prefix ''open_dispute:'', ReadId OpenDisputeButton 1)]"

definition catalog_adding_routes :: "(data_filter \<times> reading) list" where
  "catalog_adding_routes = [
     (Exactly ''rmenu:catalog'', ReadMenu RmenuCatalog),
     (Prefix ''catalog:menu:'', ReadKind CatalogMenu),
     (Prefix ''catalog:view:'', ReadKind CatalogView),
     (Prefix ''catalog:add_operator:'', ReadKind AddOperatorButton),
     (Prefix ''catalog:add_subcategory:'', ReadKind AddSubcategoryButton),
     (Prefix ''catalog:pick_operator_for_sub:'', ReadItem PickOperatorForSub),
     (Prefix ''catalog:add_package:'', ReadKind AddPackageButton),
     (Prefix ''catalog:pick_operator_for_pkg:'', ReadItem PickOperatorForPkg),
     (Prefix ''catalog:pick_category:'', ReadItem PickCategory),
     (Prefix ''price_confirm:'', ReadToken PriceConfirm),
     (Prefix ''price_edit:'', ReadToken PriceEdit)]"

definition catalog_managing_routes :: "(data_filter \<times> reading) list" where
  "catalog_managing_routes = [
     (Prefix ''catalog:manage:'', ReadKind CatalogManage),
     (Prefix ''catalog:manage_op:'', ReadItem ManageOp),
     (Prefix ''catalog:manage_sub:'', ReadItem ManageSub),
     (Prefix ''catalog:manage_pkg:'', ReadItem ManagePkg),
     (Prefix ''catalog:edit_op_name:'', ReadItem EditOpName),
     (Prefix ''catalog:edit_sub_title:'', ReadItem EditSubTitle),
     (Prefix ''catalog:edit_pkg_name:'', ReadItem EditPkgName),
     (Prefix ''catalog:edit_pkg_price:'', ReadItem EditPkgPrice),
     (Prefix ''pkgedit_price_confirm:'', ReadToken PkgeditPriceConfirm),
     (Prefix ''pkgedit_price_edit:'', ReadToken PkgeditPriceEdit),
     (Prefix ''catalog:edit_pkg_cost:'', ReadItem EditPkgCost),
     (Prefix ''catalog:toggle_pkg:'', ReadItem TogglePkg),
     (Prefix ''catalog:del_op:'', ReadItem DelOp),
     (Prefix ''catalog:del_op_yes:'', ReadItem DelOpYes),
     (Prefix ''catalog:del_op_no:'', ReadItem DelOpNo),
     (Prefix ''catalog:del_sub:'', ReadItem DelSub),
     (Prefix ''catalog:del_sub_yes:'', ReadItem DelSubYes),
     (Prefix ''catalog:del_sub_no:'', ReadItem DelSubNo),
     (Prefix ''catalog:del_pkg:'', ReadItem DelPkg),
     (Prefix ''catalog:del_pkg_yes:'', ReadItem DelPkgYes),
     (Prefix ''catalog:del_pkg_no:'', ReadItem DelPkgNo)]"

definition charge_stock_routes :: "(data_filter \<times> reading) list" where
  "charge_stock_routes = [
     (Exactly ''rmenu:charge_stock'', ReadMenu RmenuChargeStock),
     (Prefix ''cstock:pick:'', ReadPick),
     (Prefix ''cstock:op:'', ReadStock CstockOp),
     (Prefix ''cstock:cat:'', ReadStock CstockCat),
     (Prefix ''cstock:prod:'', ReadStock CstockProd),
     (Prefix ''cstock:delcode:'', ReadCode),
     (Prefix ''cstock:clearall:'', ReadId CstockClearall 2)]"

definition wallet_routes :: "(data_filter \<times> reading) list" where
  "wallet_routes = [
     (Exactly ''rmenu:wallet'', ReadMenu RmenuWallet),
     (Exactly ''wallet:topup_card'', ReadMenu WalletTopupCard),
     (Exactly ''wallet:topup_zarinpal'', ReadMenu WalletTopupZarinpal),
     (Exactly ''wallet:topup_crypto'', ReadMenu WalletTopupCrypto)]"

definition settings_routes :: "(data_filter \<times> reading) list" where
  "settings_routes = [
     (Exactly ''rmenu:settings'', ReadMenu RmenuSettings),
     (Prefix ''settings:referral_set:'', ReadReferral),
     (Exactly ''settings:referral_percent'', ReadMenu ReferralPercent),
     (Exactly ''settings:add_channel'', ReadMenu AddChannel),
     (Exactly ''settings:add_discount'', ReadMenu AddDiscount),
     (Exactly ''settings:set_support_contact'', ReadMenu SetSupportContact)]"

definition reports_routes :: "(data_filter \<times> reading) list" where
  "reports_routes = [
     (Exactly ''rmenu:reports'', ReadMenu RmenuReports),
     (Exactly ''reports:excel'', ReadMenu ReportsExcel)]"

definition stats_routes :: "(data_filter \<times> reading) list" where
  "stats_routes = [
     (Exactly ''rmenu:stats'', ReadMenu RmenuStats)]"

definition payment_methods_routes :: "(data_filter \<times> reading) list" where
  "payment_methods_routes = [
     (Exactly ''rmenu:payment_methods'', ReadMenu RmenuPaymentMethods),
     (Exactly ''pm:list_cards'', ReadMenu PmListCards),
     (Prefix ''pm:toggle_card:'', ReadId PmToggleCard 2),
     (Prefix ''pm:remove_card:'', ReadId PmRemoveCard 2),
     (Exactly ''pm:add_card'', ReadMenu PmAddCard),
     (Exactly ''pm:set_zarinpal'', ReadMenu PmSetZarinpal)]"

definition route_table :: "(data_filter \<times> reading) list" where
  "route_table =
     start_routes @ orders_routes @ catalog_adding_routes @ catalog_managing_routes
     @ charge_stock_routes @ wallet_routes @ settings_routes
     @ reports_routes @ stats_routes @ payment_methods_routes"

definition route :: "string \<Rightarrow> callback option" where
  "route data =
     (case find (\<lambda>(f, r). accepts f data) route_table of
        None \<Rightarrow> None
      | Some (f, r) \<Rightarrow> read_data r (split_on (CHR '':'') data))"

section \<open>Every button reaches its handler\<close>

lemma show_nat_no_colon: "CHR '':'' \<notin> set (show_nat n)"
  using list_all_show_nat [of n] by (auto simp: list_all_iff is_decimal_def)

lemma parse_int_show_nat: "parse_int (show_nat n) = Some (int n)"
proof -
  have "list_all is_digit (show_nat n)"
    using list_all_show_nat [of n] by (auto simp: list_all_iff is_digit_def)
  then show ?thesis by (simp add: parse_int_digits list_all_show_nat)
qed

lemma split_on_ids:
  "split_on (CHR '':'') (show_nat i @ CHR '':'' # s) = show_nat i # split_on (CHR '':'') s"
  "split_on (CHR '':'') (show_nat i) = [show_nat i]"
  by (simp_all add: split_on_append split_on_none show_nat_no_colon)

text \<open>Two texts compared letter by letter, which stops at the first difference.\<close>

fun same_text :: "string \<Rightarrow> string \<Rightarrow> bool" where
  "same_text [] s = (s = [])"
| "same_text (p # ps) [] = False"
| "same_text (p # ps) (c # cs) = (if p = c then same_text ps cs else False)"

lemma accepts_exactly: "accepts (Exactly t) data = same_text t data"
proof -
  have "same_text t data = (data = t)" by (induction t data rule: same_text.induct) auto
  then show ?thesis by simp
qed

lemmas accepts_texts = accepts_exactly accepts.simps(2)

lemmas reading = part_def id_at_def kind_at_def action_at_def parse_int_show_nat split_on_ids

lemmas routes = start_routes_def
  orders_routes_def
  catalog_adding_routes_def
  catalog_managing_routes_def
  charge_stock_routes_def
  wallet_routes_def
  settings_routes_def
  reports_routes_def
  stats_routes_def
  payment_methods_routes_def

text \<open>The routers are asked one after the other.\<close>

lemma find_table:
  "find P route_table =
     (case find P start_routes of Some x \<Rightarrow> Some x | None \<Rightarrow>
     (case find P orders_routes of Some x \<Rightarrow> Some x | None \<Rightarrow>
     (case find P catalog_adding_routes of Some x \<Rightarrow> Some x | None \<Rightarrow>
     (case find P catalog_managing_routes of Some x \<Rightarrow> Some x | None \<Rightarrow>
     (case find P charge_stock_routes of Some x \<Rightarrow> Some x | None \<Rightarrow>
     (case find P wallet_routes of Some x \<Rightarrow> Some x | None \<Rightarrow>
     (case find P settings_routes of Some x \<Rightarrow> Some x | None \<Rightarrow>
     (case find P reports_routes of Some x \<Rightarrow> Some x | None \<Rightarrow>
     (case find P stats_routes of Some x \<Rightarrow> Some x | None \<Rightarrow>
      find P payment_methods_routes)))))))))"
  by (simp only: route_table_def find_append append_assoc)

lemmas routing = route_def find_table routes accepts_texts reading

declare accepts.simps [simp del]

fun token_of :: "callback \<Rightarrow> string" where
  "token_of (WithToken b token) = token"
| "token_of _ = []"

lemma route_menu: "route (menu_data b) = Some (Menu b)"
  by (cases b) (simp_all add: routing)

lemma route_id: "route (id_prefix b @ show_nat i) = Some (OnId b i)"
  by (cases b) (simp_all add: routing)

lemma route_kind: "route (kind_prefix b @ kind_word kind) = Some (OnKind b kind)"
  by (cases kind; cases b; simp add: routing)

lemma find_item:
  "find (\<lambda>(f, r). accepts f (item_prefix b @ s)) route_table = Some (Prefix (item_prefix b), ReadItem b)"
  by (cases b) (simp_all add: find_table routes accepts_texts)

lemma read_item:
  "read_data (ReadItem b) (split_on (CHR '':'') (item_prefix b @ kind_word kind @ CHR '':'' # show_nat i)) =
     Some (OnItem b kind i)"
  by (cases kind; cases b; simp add: reading)

lemma route_item: "route (item_prefix b @ kind_word kind @ CHR '':'' # show_nat i) = Some (OnItem b kind i)"
  by (simp add: route_def find_item read_item del: read_data.simps)

lemma route_token: "CHR '':'' \<notin> set token \<Longrightarrow> route (token_prefix b @ token) = Some (WithToken b token)"
  by (cases b) (simp_all add: routing split_on_none)

lemma route_stock:
  "route (stock_prefix b @ action_word action @ CHR '':'' # show_nat i) = Some (OnStock b action i)"
  by (cases action; cases b; simp add: routing)

text \<open>
  Property C28: the data of a button are read back as the button: of all the filters, the first that accepts the
  data belongs to the handler that the button was made for, and the handler reads the type, the
  action and the ids that the keyboard wrote. Tokens are hexadecimal numerals; what matters is
  that they hold no colon.
\<close>

theorem buttons_reach_their_handlers:
  assumes "CHR '':'' \<notin> set (token_of cb)"
  shows "route (callback_data cb) = Some cb"
proof (cases cb)
  case (CstockPick action)
  then show ?thesis by (cases action; simp add: routing)
next
  case (CstockDelcode i pid)
  then show ?thesis by (simp add: routing)
next
  case (ReferralSet on)
  then show ?thesis by (cases on; simp add: routing)
qed (use assms in \<open>simp_all add: route_menu route_id route_kind route_item route_token route_stock\<close>)

lemma buttons_reach_their_handlers_witness:
  "route ''pkgedit_price_confirm:1f3a'' = Some (WithToken PkgeditPriceConfirm ''1f3a'')"
  using buttons_reach_their_handlers [of "WithToken PkgeditPriceConfirm ''1f3a''"] by simp

text \<open>
  Telegram takes at most 64 bytes of callback data. With ids of a MySQL \<^verbatim>\<open>INT\<close> and tokens of
  eight digits every button of the panel fits.
\<close>

fun ids_in :: "callback \<Rightarrow> nat list" where
  "ids_in (OnId b i) = [i]"
| "ids_in (OnItem b kind i) = [i]"
| "ids_in (OnStock b action i) = [i]"
| "ids_in (CstockDelcode i pid) = [i, pid]"
| "ids_in _ = []"

lemma length_show_nat: "n < 10 ^ Suc k \<Longrightarrow> length (show_nat n) \<le> Suc k"
proof (induction k arbitrary: n)
  case (Suc k)
  show ?case
  proof (cases "n < 10")
    case False
    have "n div 10 < 10 ^ Suc k" using Suc.prems by (simp add: less_mult_imp_div_less)
    from Suc.IH [OF this] False show ?thesis by (subst show_nat.simps) simp
  qed (subst show_nat.simps; simp)
qed (subst show_nat.simps; simp)

theorem callback_data_fits:
  assumes "\<forall>i \<in> set (ids_in cb). i < 2 ^ 31" and "length (token_of cb) \<le> 8"
  shows "length (callback_data cb) \<le> 64"
proof -
  have id: "length (show_nat i) \<le> 10" if "i < 2 ^ 31" for i
    using length_show_nat [of i 9] that by simp
  have k: "length (kind_word kind) \<le> 7" for kind by (cases kind) simp_all
  have a: "length (action_word action) \<le> 6" for action by (cases action) simp_all
  show ?thesis
  proof (cases cb)
    case (OnId b i)
    with id [of i] assms show ?thesis by (cases b; simp)
  next
    case (OnKind b kind)
    with k [of kind] show ?thesis by (cases b; simp)
  next
    case (OnItem b kind i)
    with id [of i] k [of kind] assms show ?thesis by (cases b; simp)
  next
    case (OnStock b action i)
    with id [of i] a [of action] assms show ?thesis by (cases b; simp)
  next
    case (CstockDelcode i pid)
    with id [of i] id [of pid] assms show ?thesis by simp
  next
    case (Menu b)
    then show ?thesis by (cases b; simp)
  next
    case (WithToken b token)
    with assms show ?thesis by (cases b; simp)
  next
    case (CstockPick action)
    with a [of action] show ?thesis by simp
  next
    case (ReferralSet on)
    then show ?thesis by simp
  qed
qed

lemma callback_data_fits_witness:
  "length (callback_data (OnItem PickOperatorForPkg PackageCatalog 2000000000)) \<le> 64"
  by (rule callback_data_fits) simp_all

end
