(* ===== verification/PanelChat.thy ===== *)
theory PanelChat
  imports PanelButtons CatalogStore
begin

text \<open>
  The context in which the dialogs of the reseller's panel run: the states of
  \<^verbatim>\<open>utils/states.py\<close>, the data that a dialog collects, the prices that wait for confirmation
  (module-level dictionaries of \<^verbatim>\<open>handlers/reseller/catalog.py\<close>), the messages with their
  inline keyboards, and the texts that a reseller types. The Persian wording of a message is a
  constructor with the values that it shows; the caption of a button is kept where it shows
  a value. \<^verbatim>\<open>callback.answer()\<close> without a text shows nothing and is left out.
\<close>

section \<open>States and data\<close>

datatype panel_state =
    EnteringOperatorName | EnteringSubcategoryTitle
  | EnteringName | EnteringPrice | ConfirmingSuspiciousPrice | EnteringCostPrice
  | EditingOperatorName | EditingSubcategoryTitle | EditingPackageName | EditingPackagePrice
  | ConfirmingSuspiciousEditPrice | EditingPackageCostPrice
  | EnteringCodes | EnteringDisputeReason
  | EnteringTopupAmount | EnteringZarinpalAmount
  | EnteringCoin | EnteringTxHash | EnteringCryptoAmount
  | EnteringCardNumber | EnteringCardHolder | EnteringBankName | EnteringZarinpalMerchant
  | EnteringChannelId | EnteringReferralPercent | EnteringDiscountCode
  | EnteringDiscountPercent | EnteringDiscountUsageLimit | EnteringSupportContact

text \<open>The keys of the context, each absent or with a value.\<close>

record panel_data =
  pd_catalog_type :: "catalog_type option"
  pd_operator_name :: "string option"
  pd_parent_operator_id :: "nat option"
  pd_category_id :: "nat option"
  pd_package_name :: "string option"
  pd_sale_price :: "decimal_value option"
  pd_operator_id :: "nat option"
  pd_subcategory_id :: "nat option"
  pd_package_id :: "nat option"
  pd_charge_package_id :: "nat option"
  pd_dispute_order_id :: "nat option"
  pd_coin_name :: "string option"
  pd_tx_hash :: "string option"
  pd_card_number :: "string option"
  pd_card_holder_name :: "string option"
  pd_code :: "string option"
  pd_percent :: "decimal_value option"

definition empty_panel_data :: panel_data where
  "empty_panel_data = \<lparr>pd_catalog_type = None, pd_operator_name = None, pd_parent_operator_id = None,
     pd_category_id = None, pd_package_name = None, pd_sale_price = None, pd_operator_id = None,
     pd_subcategory_id = None, pd_package_id = None, pd_charge_package_id = None,
     pd_dispute_order_id = None, pd_coin_name = None, pd_tx_hash = None, pd_card_number = None,
     pd_card_holder_name = None, pd_code = None, pd_percent = None\<rparr>"

text \<open>What \<^verbatim>\<open>f"{x:,.0f}"\<close> shows of a number.\<close>

datatype shown_amount = Whole int | ShownInfinity bool | ShownNaN

fun shown_value :: "decimal_value \<Rightarrow> shown_amount" where
  "shown_value (Finite x) = Whole (quantize1 x)"
| "shown_value (Infinite negative) = ShownInfinity negative"
| "shown_value NotANumber = ShownNaN"

section \<open>Messages\<close>

datatype caption =
    Fixed | FolderName string | ProductName bool string | SwitchOff | SwitchOn
  | StockOfProduct string int nat | CodeText string

type_synonym inline_keyboard = "(caption \<times> callback) list list"

datatype catalog_reply =
    PanelHome | PanelWelcome | NothingToCancel | ProcessCancelled | CatalogChoice | CatalogTitle catalog_type | NoOperatorYet | OperatorFirst
  | FolderTree string "(string \<times> (string \<times> int \<times> bool) list) list"
  | AskOperatorName | OperatorMade string | ChooseOperatorForSub | AskSubTitle string
  | SubMade string string | ChooseOperatorForPackage | NoSubfolderIn string | ChooseFolder
  | AskPackageName catalog_type | AskPrice | NumberOnly | AskSuspicious shown_amount
  | AskCostPrice | AskPriceAgain | PackageSaved catalog_type

datatype manage_reply =
    ManageTitle catalog_type | OperatorIsGone | OperatorDetail string bool | SubIsGone
  | SubDetail string bool | PackageIsGone
  | PackageDetail catalog_type string int "int option" bool | AskNewOperatorName
  | OperatorRenamed string | AskNewTitle | SubRenamed string | AskNewName catalog_type
  | PackageRenamed string | AskNewPrice | PriceSet shown_amount | AskNewCost
  | CostSet shown_amount | WarnDeleteOperator nat nat nat | WarnDeleteSub nat nat
  | WarnDeletePackage "nat option" | SubDeleted | PackageDeleted

datatype stock_reply =
    StockTitle | NoChargeCatalog | ChooseProductFor stock_action | NoStockSubfolder
  | ChooseStockFolder | NoProduct | ChooseStockProduct | ProductIsGone | AskCodes string
  | NoStock string | StockList string nat "string list" | NothingToRemove string
  | ChooseCodeToRemove string | NothingSold string
  | SoldList string "(string \<times> int option \<times> string option \<times> time option) list"
  | BadCodesText | NoCodeFound | CodesAdded nat | LastCodeDeleted | CodeDeleted
  | StockCleared nat

datatype wallet_reply =
    WalletTitle int int | AskTopupAmount | TopupRequestSent | AskZarinpalAmount
  | ZarinpalFailed | ZarinpalLink int string | NoCryptoOption
  | CryptoOptions "(string \<times> string \<times> string \<times> int) list" | AskCoin
  | AskTxHash | AskCryptoAmount | CryptoRequestSent

datatype settings_reply =
    SettingsTitle bool cents "string list" | ReferralSwitched bool | AskReferralPercent
  | ReferralPercentSet decimal_value | AskChannelId | ChannelAdded string | AskDiscountCode
  | AskDiscountPercent | AskUsageLimit | DiscountAdded string decimal_value
  | AskSupportContact | SupportContactSet string

datatype payment_reply =
    PaymentMethodsTitle | NoCardYet | CardShown nat "nat list" string "string option" bool
  | CardNotFound | CardSwitched nat bool | CardRemoved nat | AskCardNumber | SixteenDigits
  | AskCardHolder | AskBankName | CardAdded nat "nat list" string "string option"
  | AskMerchant "string option" | MerchantSet

datatype order_reply =
    NoOrders | OrderToReview string package_label int int "string option"
  | OrderToActivate string package_label int "string option"
  | ReceiptConfirmed package_label "string option" | ReceiptRejected | OrderActivated string
  | TopupConfirmedCreditLow | TopupConfirmedText | TopupRejectedText | AskDisputeReason
  | DisputeSent

datatype report_reply =
    SalesReport nat int int int int | NothingToReport
  | ExcelSheet "(string \<times> time \<times> cents \<times> cents \<times> order_status \<times> bool) list"
  | CustomerStats nat nat int int "(int \<times> nat \<times> int) list"

datatype panel_reply =
    InCatalog catalog_reply
  | InManage manage_reply
  | InStock stock_reply
  | InWallet wallet_reply
  | InSettings settings_reply
  | InPayment payment_reply
  | InOrders order_reply
  | InReports report_reply

datatype panel_alert =
    Expired | StatusToggled | FolderWasSold | ProductWasSold | OperatorDeletedAlert
  | SubDeletedAlert | PackageDeletedAlert | DeletionCancelled | TopupProblem value_reason
  | NotPermitted

text \<open>Messages to other chats: customers, the owner of a shop, the super admin.\<close>

datatype panel_notice = EndOfOrder "string option" | WalletCharged int int | CommissionNotTaken nat

datatype panel_message =
    Posted panel_reply "inline_keyboard option"
  | Edited panel_reply "inline_keyboard option"
  | Alerted panel_alert
  | Told int panel_notice
  | ToldAdmin nat nat

section \<open>The context\<close>

record panel =
  pn_db :: db
  pn_state :: "panel_state option"
  pn_data :: panel_data
  pn_prices :: "(string \<times> panel_data) list"
  pn_price_edits :: "(string \<times> nat \<times> catalog_type \<times> decimal_value) list"
  pn_shown :: "panel_message list"

text \<open>
  What a handler is given beside the text or the button: the reseller of the bot, a fresh token
  (\<^verbatim>\<open>uuid.uuid4().hex[:8]\<close>), the moment, and the answer of Zarinpal to a request for a
  payment of an amount (a link, or nothing when the request fails).
\<close>

record panel_env =
  pe_reseller :: nat
  pe_token :: string
  pe_now :: time
  pe_payment_link :: "int \<Rightarrow> string option"

type_synonym 'a panel_step = "panel \<Rightarrow> (panel, 'a) outcome"

definition show_message :: "panel_message \<Rightarrow> panel \<Rightarrow> panel" where
  "show_message m w = w\<lparr>pn_shown := pn_shown w @ [m]\<rparr>"

definition post :: "panel_reply \<Rightarrow> inline_keyboard option \<Rightarrow> panel \<Rightarrow> panel" where
  "post r k = show_message (Posted r k)"

definition edit_text :: "panel_reply \<Rightarrow> inline_keyboard option \<Rightarrow> panel \<Rightarrow> panel" where
  "edit_text r k = show_message (Edited r k)"

definition alert :: "panel_alert \<Rightarrow> panel \<Rightarrow> panel" where
  "alert a = show_message (Alerted a)"

definition enter :: "panel_state \<Rightarrow> panel \<Rightarrow> panel" where
  "enter s w = w\<lparr>pn_state := Some s\<rparr>"

definition remember :: "(panel_data \<Rightarrow> panel_data) \<Rightarrow> panel \<Rightarrow> panel" where
  "remember f w = w\<lparr>pn_data := f (pn_data w)\<rparr>"

definition leave :: "panel \<Rightarrow> panel" where
  "leave w = w\<lparr>pn_state := None, pn_data := empty_panel_data\<rparr>"

definition in_db :: "(db \<Rightarrow> (db, 'a) outcome) \<Rightarrow> 'a panel_step" where
  "in_db f w = (case f (pn_db w) of (res, d) \<Rightarrow> (res, w\<lparr>pn_db := d\<rparr>))"

definition change_db :: "(db \<Rightarrow> db) \<Rightarrow> panel \<Rightarrow> panel" where
  "change_db f w = w\<lparr>pn_db := f (pn_db w)\<rparr>"

definition returns :: "panel \<Rightarrow> (panel, unit) outcome" where
  "returns w = (Inr (), w)"

lemmas panel_defs = show_message_def post_def edit_text_def alert_def enter_def remember_def
  leave_def in_db_def change_db_def returns_def

section \<open>Texts\<close>

text \<open>
  \<^verbatim>\<open>Decimal(message.text.replace(",", "").strip())\<close>; a message without a text has no
  \<^verbatim>\<open>replace\<close>.
\<close>

datatype number_text = NoNumberText | BadNumber | Number decimal_value

definition read_number :: "string option \<Rightarrow> number_text" where
  "read_number t =
     (case t of
        None \<Rightarrow> NoNumberText
      | Some s \<Rightarrow>
          (case parse_decimal (strip (filter (\<lambda>c. c \<noteq> CHR '','') s)) of
             None \<Rightarrow> BadNumber
           | Some v \<Rightarrow> Number v))"

text \<open>
  \<^verbatim>\<open>is_price_suspicious\<close> for every number that can be typed: a NaN cannot be compared.
\<close>

definition price_suspicious :: "string \<Rightarrow> decimal_value \<Rightarrow> db \<Rightarrow> exn + bool" where
  "price_suspicious operator v d =
     (case get_min_sane_price operator d of
        None \<Rightarrow> Inr False
      | Some floor_price \<Rightarrow>
          (case v of
             Finite x \<Rightarrow> Inr (is_price_suspicious operator x d)
           | Infinite negative \<Rightarrow> Inr negative
           | NotANumber \<Rightarrow> Inl InvalidOperation))"

section \<open>Keyboards\<close>

abbreviation button :: "callback \<Rightarrow> caption \<times> callback" where
  "button c \<equiv> (Fixed, c)"

definition reseller_main_menu :: inline_keyboard where
  "reseller_main_menu =
     [[button (Menu RmenuCatalog), button (Menu RmenuOrders)],
      [button (Menu RmenuWallet), button (Menu RmenuPaymentMethods)],
      [button (Menu RmenuSettings), button (Menu RmenuReports)],
      [button (Menu RmenuStats), button (Menu RmenuChargeStock)]]"

definition back_to_reseller_menu_button :: inline_keyboard where
  "back_to_reseller_menu_button = [[button (Menu RmenuHome)]]"

definition catalog_type_menu :: inline_keyboard where
  "catalog_type_menu =
     [[button (OnKind CatalogMenu PackageCatalog)], [button (OnKind CatalogMenu ChargeCatalog)],
      [button (Menu RmenuHome)]]"

definition catalog_submenu :: "catalog_type \<Rightarrow> inline_keyboard" where
  "catalog_submenu kind =
     [[button (OnKind CatalogView kind)], [button (OnKind AddOperatorButton kind)],
      [button (OnKind AddSubcategoryButton kind)], [button (OnKind AddPackageButton kind)],
      [button (OnKind CatalogManage kind)], [button (Menu RmenuCatalog)]]"

definition catalog_manage_operator_list_buttons ::
  "category list \<Rightarrow> catalog_type \<Rightarrow> inline_keyboard" where
  "catalog_manage_operator_list_buttons operators kind =
     map (\<lambda>c. [(FolderName (operator_name c), OnItem ManageOp kind (cat_id c))]) operators
     @ [[button (OnKind CatalogMenu kind)]]"

definition catalog_manage_operator_detail_buttons ::
  "catalog_type \<Rightarrow> nat \<Rightarrow> category list \<Rightarrow> inline_keyboard" where
  "catalog_manage_operator_detail_buttons kind operator_id subcategories =
     [[button (OnItem EditOpName kind operator_id), button (OnItem DelOp kind operator_id)]]
     @ map (\<lambda>c. [(FolderName (cat_title c), OnItem ManageSub kind (cat_id c))]) subcategories
     @ [[button (OnKind CatalogManage kind)]]"

definition catalog_manage_subcategory_detail_buttons ::
  "catalog_type \<Rightarrow> nat \<Rightarrow> nat \<Rightarrow> package list \<Rightarrow> inline_keyboard" where
  "catalog_manage_subcategory_detail_buttons kind operator_id subcategory_id products =
     [[button (OnItem EditSubTitle kind subcategory_id), button (OnItem DelSub kind subcategory_id)]]
     @ map (\<lambda>p. [(ProductName (p_is_active p) (p_name p), OnItem ManagePkg kind (p_id p))]) products
     @ [[button (OnItem ManageOp kind operator_id)]]"

definition catalog_manage_package_detail_buttons ::
  "catalog_type \<Rightarrow> nat \<Rightarrow> nat \<Rightarrow> bool \<Rightarrow> inline_keyboard" where
  "catalog_manage_package_detail_buttons kind subcategory_id package_id is_active =
     [[button (OnItem EditPkgName kind package_id), button (OnItem EditPkgPrice kind package_id)],
      [button (OnItem EditPkgCost kind package_id),
       (if is_active then SwitchOff else SwitchOn, OnItem TogglePkg kind package_id)],
      [button (OnItem DelPkg kind package_id)],
      [button (OnItem ManageSub kind subcategory_id)]]"

datatype deletion_target = TargetOp | TargetSub | TargetPkg

fun deletion_yes :: "deletion_target \<Rightarrow> item_button" where
  "deletion_yes TargetOp = DelOpYes" | "deletion_yes TargetSub = DelSubYes"
| "deletion_yes TargetPkg = DelPkgYes"

fun deletion_no :: "deletion_target \<Rightarrow> item_button" where
  "deletion_no TargetOp = DelOpNo" | "deletion_no TargetSub = DelSubNo"
| "deletion_no TargetPkg = DelPkgNo"

definition catalog_delete_confirm_buttons ::
  "catalog_type \<Rightarrow> deletion_target \<Rightarrow> nat \<Rightarrow> inline_keyboard" where
  "catalog_delete_confirm_buttons kind target i =
     [[button (OnItem (deletion_yes target) kind i), button (OnItem (deletion_no target) kind i)]]"

definition sanity_check_confirm_buttons :: "string \<Rightarrow> inline_keyboard" where
  "sanity_check_confirm_buttons token =
     [[button (WithToken PriceConfirm token), button (WithToken PriceEdit token)]]"

definition package_edit_price_confirm_buttons :: "string \<Rightarrow> inline_keyboard" where
  "package_edit_price_confirm_buttons token =
     [[button (WithToken PkgeditPriceConfirm token), button (WithToken PkgeditPriceEdit token)]]"

definition operator_pick_buttons ::
  "category list \<Rightarrow> bool \<Rightarrow> catalog_type \<Rightarrow> inline_keyboard" where
  "operator_pick_buttons operators for_sub kind =
     map (\<lambda>c. [(FolderName (operator_name c),
              OnItem (if for_sub then PickOperatorForSub else PickOperatorForPkg) kind (cat_id c))]) operators
     @ [[button (OnKind CatalogMenu kind)]]"

definition category_pick_buttons :: "category list \<Rightarrow> catalog_type \<Rightarrow> inline_keyboard" where
  "category_pick_buttons folders kind =
     map (\<lambda>c. [(FolderName (cat_title c), OnItem PickCategory kind (cat_id c))]) folders
     @ [[button (OnKind AddPackageButton kind)]]"

definition charge_stock_menu :: inline_keyboard where
  "charge_stock_menu =
     [[button (CstockPick AddAction)], [button (CstockPick ListAction)],
      [button (CstockPick RemoveAction)], [button (CstockPick SoldAction)], [button (Menu RmenuHome)]]"

definition charge_operator_pick_buttons :: "category list \<Rightarrow> stock_action \<Rightarrow> inline_keyboard" where
  "charge_operator_pick_buttons operators action =
     map (\<lambda>c. [(FolderName (operator_name c), OnStock CstockOp action (cat_id c))]) operators
     @ [[button (Menu RmenuChargeStock)]]"

definition charge_category_pick_buttons :: "category list \<Rightarrow> stock_action \<Rightarrow> inline_keyboard" where
  "charge_category_pick_buttons folders action =
     map (\<lambda>c. [(FolderName (cat_title c), OnStock CstockCat action (cat_id c))]) folders
     @ [[button (CstockPick action)]]"

definition charge_product_pick_buttons ::
  "(package \<times> nat) list \<Rightarrow> stock_action \<Rightarrow> inline_keyboard" where
  "charge_product_pick_buttons products action =
     map (\<lambda>(p, n). [(StockOfProduct (p_name p) (shown_price (sale_price p)) n,
                    OnStock CstockProd action (p_id p))]) products
     @ [[button (Menu RmenuChargeStock)]]"

definition charge_code_remove_buttons ::
  "(nat \<times> string \<times> time) list \<Rightarrow> nat \<Rightarrow> inline_keyboard" where
  "charge_code_remove_buttons codes pid =
     map (\<lambda>(i, code, added). [(CodeText code, CstockDelcode i pid)]) codes
     @ [[button (OnId CstockClearall pid)], [button (Menu RmenuChargeStock)]]"

definition wallet_submenu :: inline_keyboard where
  "wallet_submenu =
     [[button (Menu WalletTopupCard)], [button (Menu WalletTopupZarinpal)],
      [button (Menu WalletTopupCrypto)], [button (Menu RmenuHome)]]"

definition payment_methods_submenu :: inline_keyboard where
  "payment_methods_submenu =
     [[button (Menu PmListCards)], [button (Menu PmAddCard)], [button (Menu PmSetZarinpal)],
      [button (Menu RmenuHome)]]"

definition card_row_buttons :: "nat \<Rightarrow> bool \<Rightarrow> inline_keyboard" where
  "card_row_buttons card_id is_active =
     [[(if is_active then SwitchOff else SwitchOn, OnId PmToggleCard card_id),
       button (OnId PmRemoveCard card_id)]]"

definition settings_submenu :: "bool \<Rightarrow> inline_keyboard" where
  "settings_submenu referral_enabled =
     [[(if referral_enabled then SwitchOff else SwitchOn, ReferralSet (\<not> referral_enabled))],
      [button (Menu ReferralPercent)], [button (Menu AddChannel)], [button (Menu AddDiscount)],
      [button (Menu SetSupportContact)], [button (Menu RmenuHome)]]"

definition reports_submenu :: inline_keyboard where
  "reports_submenu = [[button (Menu ReportsExcel)], [button (Menu RmenuHome)]]"

definition orders_refresh_button :: inline_keyboard where
  "orders_refresh_button = [[button (Menu RmenuOrders)], [button (Menu RmenuHome)]]"

definition order_review_buttons :: "nat \<Rightarrow> inline_keyboard" where
  "order_review_buttons i =
     [[button (OnId ApproveReceiptButton i), button (OnId RejectReceiptButton i)]]"

definition activate_order_button :: "nat \<Rightarrow> inline_keyboard" where
  "activate_order_button i = [[button (OnId ActivateOrderButton i)]]"

definition wallet_topup_review_buttons :: "nat \<Rightarrow> inline_keyboard" where
  "wallet_topup_review_buttons i =
     [[button (OnId ConfirmTopupButton i), button (OnId RejectTopupButton i)]]"

definition dispute_button :: "nat \<Rightarrow> inline_keyboard" where
  "dispute_button i = [[button (OnId OpenDisputeButton i)]]"

end
