(* ===== verification/CatalogShape.thy ===== *)
theory CatalogShape
  imports CatalogStore
begin

text \<open>
  The shape that a catalog keeps (two levels of folders, products in subfolders, sold codes of
  ordered products), what the deletions of \<open>CatalogStore\<close> remove and refuse, and the
  invariant over dialogs, purchases and edits of the stock in any order.
\<close>

section \<open>The shape of a catalog\<close>

text \<open>
  Folders are two levels deep and products lie in subfolders; a code that was sold belongs to a
  product that was ordered.
\<close>

definition two_levels :: "db \<Rightarrow> bool" where
  "two_levels d \<longleftrightarrow>
     (\<forall>c \<in> set (trows (categories d)). \<forall>i. parent_category_id c = Some i \<longrightarrow>
        (\<exists>f \<in> set (trows (categories d)). cat_id f = i \<and> parent_category_id f = None))
   \<and> (\<forall>p \<in> set (trows (packages d)).
        \<exists>c \<in> set (trows (categories d)). cat_id c = p_category_id p \<and> parent_category_id c \<noteq> None)"

definition sold_codes_ordered :: "db \<Rightarrow> bool" where
  "sold_codes_ordered d \<longleftrightarrow>
     (\<forall>c \<in> set (trows (charge_codes d)). cc_status c = Sold \<longrightarrow>
        (\<exists>r \<in> set (trows (orders d)). o_package_id r = cc_package_id c))"

definition catalog_ok :: "db \<Rightarrow> bool" where
  "catalog_ok d \<longleftrightarrow>
     wf_table cat_id (categories d) \<and> wf_table p_id (packages d)
     \<and> wf_table cc_id (charge_codes d) \<and> two_levels d \<and> sold_codes_ordered d"

lemma delete_rows_none: "(\<And>r. r \<in> set (trows t) \<Longrightarrow> \<not> P r) \<Longrightarrow> delete_rows P t = t"
  by (simp add: delete_rows_def filter_id_conv)

lemma update_rows_none: "(\<And>r. r \<in> set (trows t) \<Longrightarrow> \<not> P r) \<Longrightarrow> update_rows P f t = t"
  by (simp add: update_rows_def map_idI)

lemma fetch_all_mem [simp]: "r \<in> set (fetch_all P t) \<longleftrightarrow> r \<in> set (trows t) \<and> P r"
  by (simp add: fetch_all_def)

lemma delete_rows_mem [simp]: "r \<in> set (trows (delete_rows P t)) \<longleftrightarrow> r \<in> set (trows t) \<and> \<not> P r"
  by (simp add: delete_rows_def)

lemma delete_rows_cong:
  "(\<And>r. r \<in> set (trows t) \<Longrightarrow> P r = Q r) \<Longrightarrow> delete_rows P t = delete_rows Q t"
  by (simp add: delete_rows_def cong: filter_cong)

lemma wf_same_key:
  "wf_table key t \<Longrightarrow> r \<in> set (trows t) \<Longrightarrow> r' \<in> set (trows t) \<Longrightarrow> key r = key r' \<Longrightarrow> r = r'"
  by (auto simp: wf_table_def distinct_map dest: inj_onD)

lemma key_deleted_iff:
  "wf_table key t \<Longrightarrow> r \<in> set (trows t) \<Longrightarrow> key r \<in> key ` set (fetch_all P t) \<longleftrightarrow> P r"
  by (auto dest: wf_same_key)

lemma delete_packages_none:
  "(\<And>p. p \<in> set (trows (packages d)) \<Longrightarrow> \<not> P p) \<Longrightarrow> delete_packages P d = (Inr (), d)"
  by (simp add: delete_packages_def fetch_all_def filter_empty_conv delete_rows_none fetch_one_def find_None_ball)

lemma delete_categories_leaves:
  assumes "\<And>p c. p \<in> set (trows (packages d)) \<Longrightarrow> c \<in> set (trows (categories d)) \<Longrightarrow> P c \<Longrightarrow>
      p_category_id p \<noteq> cat_id c"
    and "\<And>c f. c \<in> set (trows (categories d)) \<Longrightarrow> f \<in> set (trows (categories d)) \<Longrightarrow> P f \<Longrightarrow> \<not> P c \<Longrightarrow>
      parent_category_id c \<noteq> Some (cat_id f)"
  shows "delete_categories P d = (Inr (), d\<lparr>categories := delete_rows P (categories d)\<rparr>)"
proof -
  have "delete_packages (\<lambda>p. p_category_id p \<in> set (map cat_id (fetch_all P (categories d)))) d = (Inr (), d)"
    by (rule delete_packages_none) (use assms(1) in auto)
  moreover have "update_rows (\<lambda>c. parent_category_id c \<in> Some ` set (map cat_id (fetch_all P (categories d))))
      (\<lambda>c. c\<lparr>parent_category_id := None\<rparr>) (delete_rows P (categories d)) = delete_rows P (categories d)"
    by (rule update_rows_none) (use assms(2) in auto)
  ultimately show ?thesis by (simp add: delete_categories_def Let_def)
qed

text \<open>What is left when folders and products are deleted with the codes of the products.\<close>

definition prune :: "nat list \<Rightarrow> nat list \<Rightarrow> db \<Rightarrow> db" where
  "prune folders products d =
     d\<lparr>categories := delete_rows (\<lambda>c. cat_id c \<in> set folders) (categories d),
       packages := delete_rows (\<lambda>p. p_id p \<in> set products) (packages d),
       charge_codes := delete_rows (\<lambda>c. cc_package_id c \<in> set products) (charge_codes d)\<rparr>"

definition ordered :: "nat list \<Rightarrow> db \<Rightarrow> bool" where
  "ordered products d \<longleftrightarrow> list_ex (\<lambda>r. o_package_id r \<in> set products) (trows (orders d))"

lemma delete_packages_eq:
  assumes "wf_table p_id (packages d)" and "products = map p_id (fetch_all P (packages d))"
  shows "delete_packages P d =
    (if ordered products d then (Inl IntegrityError, d) else (Inr (), prune [] products d))"
proof -
  have "delete_rows P (packages d) = delete_rows (\<lambda>p. p_id p \<in> set products) (packages d)"
    by (rule delete_rows_cong) (use assms in \<open>auto dest: wf_same_key\<close>)
  moreover have "(\<exists>r. fetch_one (\<lambda>r. o_package_id r \<in> set products) (orders d) = Some r) \<longleftrightarrow> ordered products d"
    using fetch_one_None [of "\<lambda>r. o_package_id r \<in> set products" "orders d"]
    by (auto simp: ordered_def list_ex_iff dest: fetch_one_Some)
  moreover have "delete_rows (\<lambda>c. cat_id c \<in> set []) (categories d) = categories d"
    by (rule delete_rows_none) simp
  ultimately show ?thesis by (simp add: delete_packages_def Let_def prune_def assms(2))
qed

lemma subfolder_has_no_child:
  assumes "catalog_ok d" and "c \<in> set (trows (categories d))" and "f \<in> set (trows (categories d))"
    and "parent_category_id f \<noteq> None"
  shows "parent_category_id c \<noteq> Some (cat_id f)"
proof
  assume "parent_category_id c = Some (cat_id f)"
  with assms(1,2) obtain g where "g \<in> set (trows (categories d))" "cat_id g = cat_id f"
      "parent_category_id g = None"
    unfolding catalog_ok_def two_levels_def by blast
  with assms show False using wf_same_key [of cat_id "categories d" g f] by (simp add: catalog_ok_def)
qed

lemma delete_subfolders:
  assumes ok: "catalog_ok d"
    and subs: "\<And>c. c \<in> set (trows (categories d)) \<Longrightarrow> cat_id c \<in> set folders \<Longrightarrow> parent_category_id c \<noteq> None"
    and empty: "\<And>p. p \<in> set (trows (packages d)) \<Longrightarrow> p_category_id p \<in> set folders \<Longrightarrow> p_id p \<in> set products"
  shows "delete_categories (\<lambda>c. cat_id c \<in> set folders) (prune [] products d) =
    (Inr (), prune folders products d)"
proof -
  have cats: "categories (prune [] products d) = categories d"
    by (simp add: prune_def delete_rows_none)
  have "delete_categories (\<lambda>c. cat_id c \<in> set folders) (prune [] products d) =
    (Inr (), (prune [] products d)\<lparr>categories := delete_rows (\<lambda>c. cat_id c \<in> set folders) (categories d)\<rparr>)"
    unfolding cats [symmetric]
  proof (rule delete_categories_leaves, unfold cats)
    fix p c assume "p \<in> set (trows (packages (prune [] products d)))" "c \<in> set (trows (categories d))"
      "cat_id c \<in> set folders"
    with empty show "p_category_id p \<noteq> cat_id c" by (auto simp: prune_def)
  next
    fix c f assume "c \<in> set (trows (categories d))" "f \<in> set (trows (categories d))"
      "cat_id f \<in> set folders"
    with subs [of f] show "parent_category_id c \<noteq> Some (cat_id f)"
      by (intro subfolder_has_no_child [OF ok])
  qed
  then show ?thesis by (simp add: prune_def)
qed

text \<open>
  A deletion of a subfolder. It is refused without a trace when one of its products was ordered,
  and otherwise removes the folder, its products and their codes.
\<close>

lemma prune_Nil [simp]: "prune [] [] d = d"
  by (simp add: prune_def delete_rows_none)

lemma sub_folder_ids:
  assumes "wf_table cat_id (categories d)" and "c \<in> set (trows (categories d))"
  shows "cat_id c \<in> cat_id ` set (sub_folders oid d) \<longleftrightarrow> parent_category_id c = Some oid"
  using assms by (auto simp: sub_folders_def dest: wf_same_key)

lemma ordered_Nil [simp]: "\<not> ordered [] d"
  by (simp add: ordered_def list_ex_iff)

lemma orders_prune [simp]: "orders (prune fs ps d) = orders d"
  by (simp add: prune_def)

theorem delete_subcategory_tree_spec:
  assumes ok: "catalog_ok d"
    and sub: "\<And>c. lookup cat_id sid (categories d) = Some c \<Longrightarrow> parent_category_id c \<noteq> None"
  shows "delete_subcategory_tree sid d =
    (if ordered (packages_in [sid] d) d then (Inl IntegrityError, d)
     else (Inr (), prune [sid] (packages_in [sid] d) d))"
proof -
  let ?ps = "packages_in [sid] d"
  have del: "delete_packages (\<lambda>p. p_category_id p = sid) d =
      (if ordered ?ps d then (Inl IntegrityError, d) else (Inr (), prune [] ?ps d))"
    by (rule delete_packages_eq) (use ok in \<open>simp_all add: catalog_ok_def packages_in_def\<close>)
  have "delete_categories (\<lambda>c. cat_id c \<in> set [sid]) (prune [] ?ps d) = (Inr (), prune [sid] ?ps d)"
  proof (rule delete_subfolders [OF ok])
    fix c assume "c \<in> set (trows (categories d))" "cat_id c \<in> set [sid]"
    with ok have "lookup cat_id sid (categories d) = Some c"
      by (simp add: catalog_ok_def categories.lookup_iff)
    then show "parent_category_id c \<noteq> None" by (rule sub)
  qed (auto simp: packages_in_def)
  with del show ?thesis
    by (simp add: delete_subcategory_tree_def transaction_def and_then_def)
qed

theorem delete_package_spec:
  assumes "catalog_ok d"
  shows "delete_package pid d =
    (if ordered [pid] d \<and> lookup p_id pid (packages d) \<noteq> None then (Inl IntegrityError, d)
     else (Inr (), if lookup p_id pid (packages d) = None then d else prune [] [pid] d))"
proof (cases "lookup p_id pid (packages d)")
  case None
  then have "delete_packages (\<lambda>p. p_id p = pid) d = (Inr (), d)"
    by (intro delete_packages_none) (simp add: lookup_def find_None_ball)
  with None show ?thesis by (simp add: delete_package_def transaction_def)
next
  case (Some p)
  with assms have p: "p \<in> set (trows (packages d))" "p_id p = pid" and wf: "wf_table p_id (packages d)"
    by (auto simp: catalog_ok_def dest: packages.lookup_SomeD)
  have "set (map p_id (fetch_all (\<lambda>p. p_id p = pid) (packages d))) = {pid}"
    using p by auto
  then have eq: "ordered (map p_id (fetch_all (\<lambda>p. p_id p = pid) (packages d))) d = ordered [pid] d"
      "prune [] (map p_id (fetch_all (\<lambda>p. p_id p = pid) (packages d))) d = prune [] [pid] d"
    by (simp_all add: ordered_def prune_def del: set_map)
  show ?thesis
    using delete_packages_eq [OF wf, OF refl, of "\<lambda>p. p_id p = pid"] Some
    by (simp add: delete_package_def transaction_def eq)
qed

theorem delete_operator_tree_spec:
  assumes ok: "catalog_ok d"
    and root: "\<And>c. lookup cat_id oid (categories d) = Some c \<Longrightarrow> parent_category_id c = None"
  shows "delete_operator_tree oid d =
    (let subs = map cat_id (sub_folders oid d); products = packages_in subs d
     in if ordered products d then (Inl IntegrityError, d)
        else (Inr (), prune (oid # subs) products d))"
proof -
  define subs where "subs = map cat_id (sub_folders oid d)"
  let ?ps = "packages_in subs d"
  have sub: "parent_category_id c = Some oid \<longleftrightarrow> cat_id c \<in> set subs" if "c \<in> set (trows (categories d))" for c
    using that ok sub_folder_ids [of d c oid] by (simp add: subs_def catalog_ok_def)
  have del: "delete_packages (\<lambda>p. p_category_id p \<in> set subs) d =
      (if ordered ?ps d then (Inl IntegrityError, d) else (Inr (), prune [] ?ps d))"
    by (rule delete_packages_eq) (use ok in \<open>simp_all add: catalog_ok_def packages_in_def\<close>)
  have subs_gone: "delete_categories (\<lambda>c. cat_id c \<in> set subs) (prune [] ?ps d) = (Inr (), prune subs ?ps d)"
    by (rule delete_subfolders [OF ok]) (use sub in \<open>fastforce simp: packages_in_def\<close>)+
  have "delete_categories (\<lambda>c. cat_id c = oid) (prune subs ?ps d) = (Inr (), (prune subs ?ps d)\<lparr>categories :=
      delete_rows (\<lambda>c. cat_id c = oid) (categories (prune subs ?ps d))\<rparr>)"
  proof (rule delete_categories_leaves)
    fix p c assume "p \<in> set (trows (packages (prune subs ?ps d)))" "c \<in> set (trows (categories (prune subs ?ps d)))"
      "cat_id c = oid"
    then have p: "p \<in> set (trows (packages d))" and c: "c \<in> set (trows (categories d))"
      by (simp_all add: prune_def)
    from c \<open>cat_id c = oid\<close> ok have "parent_category_id c = None"
      by (intro root) (simp add: catalog_ok_def categories.lookup_iff)
    moreover obtain f where f: "f \<in> set (trows (categories d))" "cat_id f = p_category_id p" "parent_category_id f \<noteq> None"
      using p ok by (auto simp: catalog_ok_def two_levels_def)
    ultimately show "p_category_id p \<noteq> cat_id c"
      using wf_same_key [of cat_id "categories d" c f] c ok by (auto simp: catalog_ok_def)
  next
    fix c f assume "c \<in> set (trows (categories (prune subs ?ps d)))" "cat_id f = oid"
    then show "parent_category_id c \<noteq> Some (cat_id f)" using sub by (auto simp: prune_def)
  qed
  moreover have "(prune subs ?ps d)\<lparr>categories := delete_rows (\<lambda>c. cat_id c = oid) (categories (prune subs ?ps d))\<rparr>
      = prune (oid # subs) ?ps d"
    by (simp add: prune_def delete_rows_def conj_commute)
  ultimately have last: "delete_categories (\<lambda>c. cat_id c = oid) (prune subs ?ps d) = (Inr (), prune (oid # subs) ?ps d)"
    by simp
  have none: "prune [] ?ps d = d \<and> ?ps = []" if "subs = []"
    using that by (simp add: packages_in_def fetch_all_def prune_def delete_rows_none)
  have nil: "(map cat_id (sub_folders oid d) = []) = (subs = [])" by (simp add: subs_def)
  show ?thesis
    unfolding delete_operator_tree_def transaction_def Let_def nil subs_def [symmetric]
    using del subs_gone last none by (cases "subs = []") (simp_all add: and_then_def)
qed

section \<open>What was announced is what goes\<close>

lemma length_delete_rows: "length (trows t) = length (trows (delete_rows P t)) + count_rows P t"
  using sum_length_filter_compl [of P "trows t"] by (simp add: delete_rows_def count_rows_def)

lemma count_rows_cong:
  "(\<And>r. r \<in> set (trows t) \<Longrightarrow> P r = Q r) \<Longrightarrow> count_rows P t = count_rows Q t"
  by (simp add: count_rows_def cong: filter_cong)

lemma count_fetched:
  "wf_table key t \<Longrightarrow> count_rows (\<lambda>r. key r \<in> set (map key (fetch_all P t))) t = length (fetch_all P t)"
  using count_rows_cong [of t "\<lambda>r. key r \<in> set (map key (fetch_all P t))" P]
  by (force simp: count_rows_def fetch_all_def dest: wf_same_key)

lemma length_filter_or:
  "(\<And>r. r \<in> set xs \<Longrightarrow> \<not> (P r \<and> Q r)) \<Longrightarrow>
   length (filter (\<lambda>r. P r \<or> Q r) xs) = length (filter P xs) + length (filter Q xs)"
  by (induction xs) auto

lemma count_rows_or:
  "(\<And>r. r \<in> set (trows t) \<Longrightarrow> \<not> (P r \<and> Q r)) \<Longrightarrow>
   count_rows (\<lambda>r. P r \<or> Q r) t = count_rows P t + count_rows Q t"
  unfolding count_rows_def by (rule length_filter_or)

lemma available_codes_all:
  assumes "sold_codes_ordered d" and "\<not> ordered products d"
  shows "count_rows (\<lambda>c. cc_package_id c \<in> set products) (charge_codes d) = available_codes_of products d"
    and "c \<in> set (trows (charge_codes d)) \<Longrightarrow> cc_status c = Sold \<Longrightarrow> cc_package_id c \<notin> set products"
proof -
  have av: "cc_status c = Available" if "c \<in> set (trows (charge_codes d))" "cc_package_id c \<in> set products" for c
    using that assms by (cases "cc_status c") (fastforce simp: sold_codes_ordered_def ordered_def list_ex_iff)+
  then show "c \<in> set (trows (charge_codes d)) \<Longrightarrow> cc_status c = Sold \<Longrightarrow> cc_package_id c \<notin> set products"
    by auto
  from av show "count_rows (\<lambda>c. cc_package_id c \<in> set products) (charge_codes d) = available_codes_of products d"
    unfolding available_codes_of_def by (intro count_rows_cong) auto
qed

lemma count_key:
  "wf_table key t \<Longrightarrow> lookup key i t = Some r \<Longrightarrow> count_rows (\<lambda>r. key r = i) t = 1"
proof -
  assume wf: "wf_table key t" and r: "lookup key i t = Some r"
  then have k: "key r = i" "r \<in> set (trows t)" by (auto simp: lookup_def dest: find_Some_mem)
  then have "set (filter (\<lambda>r. key r = i) (trows t)) = {r}" using wf by (auto dest: wf_same_key)
  moreover have "distinct (filter (\<lambda>r. key r = i) (trows t))"
    using wf by (simp add: wf_table_def distinct_map)
  ultimately show ?thesis unfolding count_rows_def by (metis distinct_card card_1_singleton_iff One_nat_def)
qed

text \<open>
  Property C25: the announcement before an operator is deleted is exact: the subfolders, the products and
  the unsold codes it counts are the rows that disappear beside the folder itself, and no
  code that was sold is among them.
\<close>

theorem deletion_as_announced:
  assumes ok: "catalog_ok d" and f: "lookup cat_id oid (categories d) = Some f" "parent_category_id f = None"
    and announced: "count_operator_deletion_impact oid d = (s, p, k)"
    and run: "delete_operator_tree oid d = (Inr (), d')"
  shows "length (trows (categories d)) = length (trows (categories d')) + 1 + s
    \<and> length (trows (packages d)) = length (trows (packages d')) + p
    \<and> length (trows (charge_codes d)) = length (trows (charge_codes d')) + k
    \<and> filter (\<lambda>c. cc_status c = Sold) (trows (charge_codes d')) =
       filter (\<lambda>c. cc_status c = Sold) (trows (charge_codes d))
    \<and> orders d' = orders d"
proof -
  define subs where "subs = map cat_id (sub_folders oid d)"
  let ?ps = "packages_in subs d"
  have wf: "wf_table cat_id (categories d)" "wf_table p_id (packages d)" and sold: "sold_codes_ordered d"
    using ok by (simp_all add: catalog_ok_def)
  from run delete_operator_tree_spec [OF ok, of oid] f have d': "d' = prune (oid # subs) ?ps d"
    and free: "\<not> ordered ?ps d"
    by (simp_all add: Let_def subs_def [symmetric] split: if_splits)
  have ps: "?ps = []" if "subs = []" using that by (simp add: packages_in_def fetch_all_def)
  have s: "s = length subs" and p: "p = length ?ps"
    and k: "k = available_codes_of ?ps d"
    using announced ps by (auto simp: count_operator_deletion_impact_def Let_def subs_def [symmetric]
        available_codes_of_def count_rows_def simp del: map_is_Nil_conv split: if_splits)
  have "count_rows (\<lambda>c. cat_id c = oid \<or> cat_id c \<in> set subs) (categories d) = 1 + s"
  proof -
    have "count_rows (\<lambda>c. cat_id c \<in> set subs) (categories d) = s"
      using count_fetched [OF wf(1), of "\<lambda>c. parent_category_id c = Some oid"]
      by (simp add: s subs_def sub_folders_def)
    moreover have "\<not> (cat_id c = oid \<and> cat_id c \<in> set subs)" if "c \<in> set (trows (categories d))" for c
      using that f wf sub_folder_ids [of d c oid] by (auto simp: subs_def categories.lookup_iff dest: wf_same_key)
    ultimately show ?thesis using count_key [OF wf(1) f(1)] by (subst count_rows_or) auto
  qed
  moreover have "count_rows (\<lambda>q. p_id q \<in> set ?ps) (packages d) = p"
    using count_fetched [OF wf(2), of "\<lambda>q. p_category_id q \<in> set subs"] by (simp add: p packages_in_def)
  moreover note available_codes_all(1) [OF sold free]
  moreover have "filter (\<lambda>c. cc_package_id c \<notin> set ?ps \<and> cc_status c = Sold) (trows (charge_codes d)) =
      filter (\<lambda>c. cc_status c = Sold) (trows (charge_codes d))"
    by (rule filter_cong) (use available_codes_all(2) [OF sold free] in auto)
  ultimately show ?thesis
    using length_delete_rows [of "categories d" "\<lambda>c. cat_id c = oid \<or> cat_id c \<in> set subs"]
      length_delete_rows [of "packages d" "\<lambda>q. p_id q \<in> set ?ps"]
      length_delete_rows [of "charge_codes d" "\<lambda>c. cc_package_id c \<in> set ?ps"]
    by (auto simp: d' prune_def k delete_rows_def cong: filter_cong)
qed

section \<open>Every operation keeps the shape\<close>

datatype catalog_op =
    AddOperator nat catalog_type string
  | AddSubfolder nat catalog_type string nat string
  | AddPackage nat nat string decimal_value decimal_value
  | RenameOperator nat string | RenameSubfolder nat string | RenamePackage nat string
  | SetSalePrice nat decimal_value | SetCostPrice nat decimal_value | TogglePackage nat
  | DeleteOperator nat | DeleteSubfolder nat | DeletePackage nat

fun run_catalog_op :: "catalog_op \<Rightarrow> db \<Rightarrow> (db, unit) outcome" where
  "run_catalog_op (AddOperator rid kind name) d = add_operator_folder rid kind name d"
| "run_catalog_op (AddSubfolder rid kind operator i title) d = add_subfolder rid kind operator i title d"
| "run_catalog_op (AddPackage rid i name sale cost) d = add_package rid i name sale cost d"
| "run_catalog_op (RenameOperator i name) d = (Inr (), rename_operator i name d)"
| "run_catalog_op (RenameSubfolder i title) d = (Inr (), rename_subfolder i title d)"
| "run_catalog_op (RenamePackage i name) d = (Inr (), rename_package i name d)"
| "run_catalog_op (SetSalePrice i v) d = set_sale_price i v d"
| "run_catalog_op (SetCostPrice i v) d = set_cost_price i v d"
| "run_catalog_op (TogglePackage i) d = (Inr (), toggle_package i d)"
| "run_catalog_op (DeleteOperator i) d = delete_operator_tree i d"
| "run_catalog_op (DeleteSubfolder i) d = delete_subcategory_tree i d"
| "run_catalog_op (DeletePackage i) d = delete_package i d"

text \<open>
  The folders that the buttons name: an operator where a subfolder is added or an operator is
  deleted, a subfolder where a product is added or a subfolder is deleted. The folder may be gone
  when the button is pressed.
\<close>

definition operator_or_gone :: "nat \<Rightarrow> db \<Rightarrow> bool" where
  "operator_or_gone i d \<longleftrightarrow>
     (case lookup cat_id i (categories d) of None \<Rightarrow> True | Some c \<Rightarrow> parent_category_id c = None)"

definition subfolder_or_gone :: "nat \<Rightarrow> db \<Rightarrow> bool" where
  "subfolder_or_gone i d \<longleftrightarrow>
     (case lookup cat_id i (categories d) of None \<Rightarrow> True | Some c \<Rightarrow> parent_category_id c \<noteq> None)"

fun targets_ok :: "catalog_op \<Rightarrow> db \<Rightarrow> bool" where
  "targets_ok (AddSubfolder rid kind operator i title) d = operator_or_gone i d"
| "targets_ok (AddPackage rid i name sale cost) d = subfolder_or_gone i d"
| "targets_ok (DeleteOperator i) d = operator_or_gone i d"
| "targets_ok (DeleteSubfolder i) d = subfolder_or_gone i d"
| "targets_ok _ d = True"

lemma two_levels_update:
  assumes "trows (categories d') = map f (trows (categories d))"
    and "\<And>c. cat_id (f c) = cat_id c \<and> parent_category_id (f c) = parent_category_id c"
    and "\<And>p. p \<in> set (trows (packages d')) \<Longrightarrow> p_category_id p \<in> p_category_id ` set (trows (packages d))"
    and "two_levels d"
  shows "two_levels d'"
  using assms unfolding two_levels_def by fastforce

lemma catalog_ok_upd_category:
  assumes "catalog_ok d" and "\<And>c. cat_id (f c) = cat_id c" "\<And>c. parent_category_id (f c) = parent_category_id c"
  shows "catalog_ok (upd_category i f d)"
proof -
  have "two_levels (upd_category i f d)"
    by (rule two_levels_update [where d = d and f = "\<lambda>c. if cat_id c = i then f c else c"])
      (use assms in \<open>auto simp: upd_category_def update_id_trows catalog_ok_def\<close>)
  with assms show ?thesis
    by (simp add: catalog_ok_def upd_category_def sold_codes_ordered_def categories.update_id_wf)
qed

lemma catalog_ok_upd_package:
  assumes "catalog_ok d" and "\<And>p. p_id (f p) = p_id p" "\<And>p. p_category_id (f p) = p_category_id p"
  shows "catalog_ok (upd_package i f d)"
proof -
  have "two_levels (upd_package i f d)"
    by (rule two_levels_update [where d = d and f = "\<lambda>c. c"])
      (use assms in \<open>auto simp: upd_package_def update_id_trows catalog_ok_def\<close>)
  with assms show ?thesis
    by (simp add: catalog_ok_def upd_package_def sold_codes_ordered_def packages.update_id_wf)
qed

lemma catalog_ok_insert_category:
  assumes ok: "catalog_ok d" and parent: "\<And>i. parent_category_id c = Some i \<Longrightarrow> operator_or_gone i d"
  shows "catalog_ok (snd (insert_category c d))"
proof (cases "lookup r_id (cat_reseller_id c) (resellers d) = None
    \<or> (case parent_category_id c of None \<Rightarrow> False | Some i \<Rightarrow> lookup cat_id i (categories d) = None)")
  case True
  with ok show ?thesis by (simp add: insert_category_def)
next
  case False
  then have d': "snd (insert_category c d) = d\<lparr>categories := insert_row category_with_id c (categories d)\<rparr>"
    by (auto simp: insert_category_def)
  have p: "\<exists>f \<in> set (trows (categories d)). cat_id f = i \<and> parent_category_id f = None"
    if i: "parent_category_id c = Some i" for i
  proof -
    from False i obtain f where "lookup cat_id i (categories d) = Some f" by auto
    with parent [OF i] categories.lookup_SomeD show ?thesis
      by (fastforce simp: operator_or_gone_def)
  qed
  have "two_levels (snd (insert_category c d))"
    using ok p unfolding catalog_ok_def two_levels_def d' by (auto simp: insert_row_def)
  with ok show ?thesis
    by (simp add: catalog_ok_def d' sold_codes_ordered_def categories.insert_wf)
qed

lemma catalog_ok_insert_package:
  assumes ok: "catalog_ok d" and folder: "subfolder_or_gone (p_category_id p) d"
  shows "catalog_ok (snd (insert_package p d))"
proof (cases "fst (insert_package p d)")
  case (Inl x)
  then have "snd (insert_package p d) = d" by (auto simp: insert_package_def split: if_splits)
  with ok show ?thesis by simp
next
  case (Inr u)
  then have d': "snd (insert_package p d) = d\<lparr>packages := insert_row package_with_id p (packages d)\<rparr>"
    and ex: "lookup cat_id (p_category_id p) (categories d) \<noteq> None"
    by (auto simp: insert_package_def split: if_splits)
  have "\<exists>c \<in> set (trows (categories d)). cat_id c = p_category_id p \<and> parent_category_id c \<noteq> None"
    using ex folder by (auto simp: subfolder_or_gone_def dest: categories.lookup_SomeD)
  with ok have "two_levels (snd (insert_package p d))"
    unfolding catalog_ok_def two_levels_def d' by (auto simp: insert_row_def)
  with ok show ?thesis
    by (simp add: catalog_ok_def d' sold_codes_ordered_def packages.insert_wf)
qed

lemma catalog_ok_prune:
  assumes ok: "catalog_ok d"
    and kept: "\<And>c i. c \<in> set (trows (categories d)) \<Longrightarrow> parent_category_id c = Some i \<Longrightarrow> i \<in> set fs \<Longrightarrow>
        cat_id c \<in> set fs"
    and inside: "\<And>p. p \<in> set (trows (packages d)) \<Longrightarrow> p_category_id p \<in> set fs \<Longrightarrow> p_id p \<in> set ps"
  shows "catalog_ok (prune fs ps d)"
proof -
  have lev: "two_levels d" using ok by (simp add: catalog_ok_def)
  have "two_levels (prune fs ps d)"
    unfolding two_levels_def
  proof (intro conjI ballI allI impI)
    fix c i assume "c \<in> set (trows (categories (prune fs ps d)))" and i: "parent_category_id c = Some i"
    then have c: "c \<in> set (trows (categories d))" "cat_id c \<notin> set fs" by (simp_all add: prune_def)
    with lev i obtain f where "f \<in> set (trows (categories d))" "cat_id f = i" "parent_category_id f = None"
      unfolding two_levels_def by blast
    with kept [OF c(1) i] c(2)
    show "\<exists>f \<in> set (trows (categories (prune fs ps d))). cat_id f = i \<and> parent_category_id f = None"
      by (intro bexI [of _ f]) (auto simp: prune_def)
  next
    fix p assume "p \<in> set (trows (packages (prune fs ps d)))"
    then have p: "p \<in> set (trows (packages d))" "p_id p \<notin> set ps" by (simp_all add: prune_def)
    with lev obtain c where "c \<in> set (trows (categories d))" "cat_id c = p_category_id p" "parent_category_id c \<noteq> None"
      unfolding two_levels_def by blast
    with inside [OF p(1)] p(2)
    show "\<exists>c \<in> set (trows (categories (prune fs ps d))). cat_id c = p_category_id p \<and> parent_category_id c \<noteq> None"
      by (intro bexI [of _ c]) (auto simp: prune_def)
  qed
  with ok show ?thesis
    by (simp add: catalog_ok_def prune_def sold_codes_ordered_def categories.delete_wf packages.delete_wf codes.delete_wf)
qed


lemma set_packages_in:
  "i \<in> set (packages_in fs d) \<longleftrightarrow> (\<exists>p \<in> set (trows (packages d)). p_id p = i \<and> p_category_id p \<in> set fs)"
  by (auto simp: packages_in_def)

lemma catalog_ok_deletions:
  assumes ok: "catalog_ok d"
  shows "operator_or_gone i d \<Longrightarrow> catalog_ok (snd (delete_operator_tree i d))"
    and "subfolder_or_gone i d \<Longrightarrow> catalog_ok (snd (delete_subcategory_tree i d))"
    and "catalog_ok (snd (delete_package i d))"
proof -
  let ?subs = "map cat_id (sub_folders i d)"
  have wf: "wf_table cat_id (categories d)" using ok by (simp add: catalog_ok_def)
  assume "operator_or_gone i d"
  then have root: "\<And>c. lookup cat_id i (categories d) = Some c \<Longrightarrow> parent_category_id c = None"
    by (simp add: operator_or_gone_def)
  have "catalog_ok (prune (i # ?subs) (packages_in ?subs d) d)"
  proof (rule catalog_ok_prune [OF ok])
    fix c j assume c: "c \<in> set (trows (categories d))" and j: "parent_category_id c = Some j" "j \<in> set (i # ?subs)"
    show "cat_id c \<in> set (i # ?subs)"
    proof (cases "j = i")
      case True
      with j c sub_folder_ids [OF wf c, of i] show ?thesis by simp
    next
      case False
      with j(2) obtain s where "s \<in> set (trows (categories d))" "cat_id s = j" "parent_category_id s = Some i"
        by (auto simp: sub_folders_def)
      with subfolder_has_no_child [OF ok c, of s] j(1) show ?thesis by simp
    qed
  next
    fix p assume p: "p \<in> set (trows (packages d))" "p_category_id p \<in> set (i # ?subs)"
    then obtain c where "c \<in> set (trows (categories d))" "cat_id c = p_category_id p" "parent_category_id c \<noteq> None"
      using ok by (auto simp: catalog_ok_def two_levels_def)
    with root wf have "p_category_id p \<noteq> i" by (auto simp: categories.lookup_iff)
    with p show "p_id p \<in> set (packages_in ?subs d)" by (auto simp: set_packages_in)
  qed
  with ok delete_operator_tree_spec [OF ok root] show "catalog_ok (snd (delete_operator_tree i d))"
    by (simp add: Let_def)
next
  assume "subfolder_or_gone i d"
  then have sub: "\<And>c. lookup cat_id i (categories d) = Some c \<Longrightarrow> parent_category_id c \<noteq> None"
    by (simp add: subfolder_or_gone_def)
  have "catalog_ok (prune [i] (packages_in [i] d) d)"
  proof (rule catalog_ok_prune [OF ok])
    fix c j assume c: "c \<in> set (trows (categories d))" and j: "parent_category_id c = Some j" "j \<in> set [i]"
    then obtain f where "f \<in> set (trows (categories d))" "cat_id f = i" "parent_category_id f = None"
      using ok by (auto simp: catalog_ok_def two_levels_def)
    with ok have "lookup cat_id i (categories d) = Some f" by (simp add: catalog_ok_def categories.lookup_iff)
    with sub [OF this] \<open>parent_category_id f = None\<close> show "cat_id c \<in> set [i]" by simp
  qed (auto simp: set_packages_in)
  with ok delete_subcategory_tree_spec [OF ok sub] show "catalog_ok (snd (delete_subcategory_tree i d))"
    by simp
next
  have "catalog_ok (prune [] [i] d)" by (rule catalog_ok_prune [OF ok]) auto
  with ok show "catalog_ok (snd (delete_package i d))" by (simp add: delete_package_spec)
qed

lemma catalog_op_shape:
  assumes ok: "catalog_ok d" and targets: "targets_ok op d"
  shows "catalog_ok (snd (run_catalog_op op d))"
  using ok targets
  by (cases op) (auto simp: add_operator_folder_def add_subfolder_def add_package_def rename_operator_def
      rename_subfolder_def rename_package_def set_sale_price_def set_cost_price_def toggle_package_def
      intro!: catalog_ok_insert_category catalog_ok_insert_package catalog_ok_upd_category catalog_ok_upd_package catalog_ok_deletions split: option.split)

section \<open>Purchases keep the shape\<close>

text \<open>
  One delivery: the order of the product is written before its code is marked as sold.
\<close>

lemma sold_codes_delivery:
  assumes "sold_codes_ordered d" and "insert_order row d = (Inr i, d1)"
    and "\<And>c. c \<in> set (trows (charge_codes d)) \<Longrightarrow> cc_id c = j \<Longrightarrow> cc_package_id c = o_package_id row"
    and "\<And>c. cc_package_id (f c) = cc_package_id c"
  shows "sold_codes_ordered (upd_code j f d1)"
  using assms insert_order_frame [OF assms(2)]
  unfolding sold_codes_ordered_def by (fastforce simp: update_id_trows)

definition same_catalog :: "db \<Rightarrow> db \<Rightarrow> bool" where
  "same_catalog d d' \<longleftrightarrow> categories d' = categories d \<and> packages d' = packages d"

lemma insert_order_catalog: "insert_order r d = (Inr i, d') \<Longrightarrow> same_catalog d d'"
  by (auto simp: insert_order_def same_catalog_def split: if_splits)

lemma deliver_codes_shape:
  assumes "deliver_codes ms plan seq cs d = (Inr ds, d')" and "sold_codes_ordered d"
    and "\<And>c x. c \<in> set cs \<Longrightarrow> x \<in> set (trows (charge_codes d)) \<Longrightarrow> cc_id x = cc_id c \<Longrightarrow>
      cc_package_id x = cp_package plan"
  shows "sold_codes_ordered d' \<and> same_catalog d d'"
  using assms
proof (induction cs arbitrary: seq d ds)
  case (Cons c cs)
  from Cons.prems(1) show ?case
  proof (cases rule: deliver_codes_Cons)
    case (1 prefix i d1 ds')
    let ?f = "\<lambda>cc. cc\<lparr>cc_status := Sold, sold_at := Some (m_now (ms seq)),
        sold_to_customer_id := Some (cp_customer plan), sold_order_id := Some i\<rparr>"
    have "cc_package_id x = cp_package plan" if "x \<in> set (trows (charge_codes d))" "cc_id x = cc_id c" for x
      using Cons.prems(3) [of c x] that by simp
    then have "sold_codes_ordered (upd_code (cc_id c) ?f d1)"
      by (intro sold_codes_delivery [OF Cons.prems(2) 1(2)]) (simp_all add: charge_order_row_def)
    moreover have "cc_package_id x = cp_package plan"
      if "b \<in> set cs" "x \<in> set (trows (charge_codes (upd_code (cc_id c) ?f d1)))" "cc_id x = cc_id b" for b x
    proof -
      from that(2) insert_order_frame(1) [OF 1(2)] obtain y where "y \<in> set (trows (charge_codes d))"
          "cc_id y = cc_id x" "cc_package_id y = cc_package_id x"
        by (auto simp: update_id_trows split: if_splits)
      with Cons.prems(3) [of b y] that show ?thesis by simp
    qed
    ultimately have "sold_codes_ordered d' \<and> same_catalog (upd_code (cc_id c) ?f d1) d'"
      by (rule Cons.IH [OF 1(3)])
    then show ?thesis
      using insert_order_catalog [OF 1(2)] unfolding same_catalog_def upd_code_def by simp
  qed
qed (simp add: same_catalog_def)

lemma purchase_shape:
  assumes wf: "wf_table cc_id (charge_codes d)" and sold: "sold_codes_ordered d"
    and run: "run_charge_request q d = (Inr ids, d')"
  shows "sold_codes_ordered d' \<and> same_catalog d d'"
proof -
  have pkg: "cc_package_id x = pid" if "c \<in> set (select_available pid n d)"
      "x \<in> set (trows (charge_codes d))" "cc_id x = cc_id c" for pid n c x
    using that wf_same_key [OF wf, of x c] select_available_mem [of c pid n d] by (auto simp: is_available_def)
  show ?thesis
  proof (cases q)
    case (BuyOne t oc plan)
    with run obtain i v where tx: "purchase_charge_tx t oc plan d = (Inr (i, v), d')"
      by (auto split: prod.splits sum.splits)
    from tx show ?thesis
    proof (cases rule: charge_tx_InrD)
      case (1 c code rest oid d1)
      have "sold_codes_ordered d'"
        unfolding 1(7)
        by (rule sold_codes_delivery [OF _ 1(6)])
          (use sold 1(3) pkg [of code "cp_package plan" 1] in
            \<open>auto simp: sold_codes_ordered_def upd_customer_def charge_order_row_def\<close>)
      moreover have "same_catalog d d'"
        using insert_order_catalog [OF 1(6)] by (simp add: 1(7) same_catalog_def upd_code_def upd_customer_def)
      ultimately show ?thesis by simp
    qed
  next
    case (BuyMany ms plan n)
    with run obtain ds where tx: "purchase_charge_bulk_tx ms plan n d = (Inr (ids, ds), d')"
      by (auto split: prod.splits sum.splits)
    from tx show ?thesis
    proof (cases rule: charge_bulk_tx_InrD)
      case (1 c)
      have "sold_codes_ordered d' \<and> same_catalog (upd_customer (cp_customer plan)
          (\<lambda>c. c\<lparr>wallet_balance := wallet_balance c - cp_price plan * int n\<rparr>) d) d'"
        by (rule deliver_codes_shape [OF 1(5)])
          (use sold pkg in \<open>auto simp: sold_codes_ordered_def upd_customer_def\<close>)
      then show ?thesis by (simp add: same_catalog_def upd_customer_def)
    qed
  qed
qed

lemma insert_codes_shape:
  "sold_codes_ordered d \<Longrightarrow> sold_codes_ordered (snd (insert_codes t rid pid cs d))
     \<and> same_catalog d (snd (insert_codes t rid pid cs d))"
proof (induction cs arbitrary: d)
  case (Cons x cs)
  show ?case
  proof (cases "lookup r_id rid (resellers d) = None \<or> lookup p_id pid (packages d) = None")
    case True
    with Cons.prems show ?thesis by (auto simp: insert_code_def same_catalog_def)
  next
    case False
    then obtain d1 where d1: "insert_code t rid pid x d = (Inr (), d1)"
      by (simp add: insert_code_def)
    with False Cons.prems have "sold_codes_ordered d1" "same_catalog d d1"
      by (auto simp: insert_code_def sold_codes_ordered_def same_catalog_def insert_row_def)
    with Cons.IH [of d1] d1 show ?thesis by (auto simp: same_catalog_def)
  qed
qed (simp add: same_catalog_def)

lemma stock_shape:
  assumes ok: "catalog_ok d"
  shows "catalog_ok (snd (run_stock_event ev d))"
proof -
  have sold: "sold_codes_ordered d" and wf: "wf_table cc_id (charge_codes d)"
    using ok by (simp_all add: catalog_ok_def)
  have "sold_codes_ordered (snd (run_stock_event ev d)) \<and> same_catalog d (snd (run_stock_event ev d))"
  proof (cases ev)
    case (Purchase q)
    show ?thesis
    proof (cases "run_charge_request q d")
      case (Pair res d')
      with sold Purchase charge_wallet.buy_error [of q d _ d'] purchase_shape [OF wf sold, of q _ d'] show ?thesis
        by (cases res) (auto simp: same_catalog_def)
    qed
  next
    case (AddCodes t rid pid s)
    have "snd (add_charge_codes t rid pid s d) = snd (insert_codes t rid pid (clean_lines {} (splitlines s)) d)"
      by (simp add: add_charge_codes_def Let_def split: prod.split sum.split)
    with AddCodes insert_codes_shape [OF sold] show ?thesis by simp
  qed (use sold in \<open>auto simp: sold_codes_ordered_def same_catalog_def upd_code_def update_id_trows
      delete_available_code_def clear_available_codes_def split: if_splits\<close>)
  then show ?thesis
    using ok stock.deliver_wf [OF wf, of ev] by (simp add: catalog_ok_def two_levels_def same_catalog_def)
qed

text \<open>
  Everything that happens to a catalog and its stock, in any order: the dialogs of the reseller,
  purchases of customers, and edits of the stock.
\<close>

inductive catalog_history :: "db \<Rightarrow> db \<Rightarrow> bool" for d0 where
  begin_history: "catalog_history d0 d0"
| edit: "catalog_history d0 d \<Longrightarrow> targets_ok op d \<Longrightarrow> catalog_history d0 (snd (run_catalog_op op d))"
| trade: "catalog_history d0 d \<Longrightarrow> catalog_history d0 (snd (run_stock_event ev d))"

text \<open>
  Property C12: the catalog keeps its shape. In whatever order the statements and deletions of the dialogs, the
  purchases and the edits of the stock run, each on a folder of the kind its button was made for
  or one that is gone, folders stay two levels deep, products stay in subfolders, no subfolder
  becomes an operator, and no code that was sold loses the order of its product.
\<close>

theorem catalog_shape_kept:
  assumes "catalog_history d0 d" and "catalog_ok d0"
  shows "catalog_ok d"
  using assms by (induction rule: catalog_history.induct) (simp_all add: stock_shape catalog_op_shape)

definition demo_folder :: "nat \<Rightarrow> nat option \<Rightarrow> category" where
  "demo_folder i parent = \<lparr>cat_id = i, cat_reseller_id = 1, operator_name = ''MCI'',
     parent_category_id = parent, cat_title = ''Weekly'', cat_type = ChargeCatalog\<rparr>"

definition demo_product :: package where
  "demo_product = \<lparr>p_id = 1, p_reseller_id = 1, p_category_id = 2, p_name = ''Charge'',
     sale_price = 2000000, cost_price = None, p_is_active = True\<rparr>"

definition demo_unsold_code :: charge_code where
  "demo_unsold_code = \<lparr>cc_id = 1, cc_reseller_id = 1, cc_package_id = 1, cc_code = ''A1'',
     cc_status = Available, added_at = 0, sold_at = None, sold_to_customer_id = None, sold_order_id = None\<rparr>"

definition demo_catalog_db :: db where
  "demo_catalog_db = empty_db\<lparr>
     categories := \<lparr>trows = [demo_folder 1 None, demo_folder 2 (Some 1), demo_folder 3 (Some 1)], auto_inc = 4\<rparr>,
     packages := \<lparr>trows = [demo_product], auto_inc = 2\<rparr>,
     charge_codes := \<lparr>trows = [demo_unsold_code], auto_inc = 2\<rparr>\<rparr>"

lemma demo_catalog_ok: "catalog_ok demo_catalog_db"
  by (simp add: catalog_ok_def two_levels_def sold_codes_ordered_def demo_catalog_db_def demo_folder_def
      demo_product_def demo_unsold_code_def wf_table_def empty_db_def)

lemma catalog_shape_kept_witness:
  "catalog_ok (snd (run_catalog_op (DeleteSubfolder 3) demo_catalog_db))"
proof -
  have "targets_ok (DeleteSubfolder 3) demo_catalog_db" by code_simp
  from catalog_shape_kept [OF catalog_history.edit [OF catalog_history.begin_history this] demo_catalog_ok]
  show ?thesis .
qed

lemma deletion_as_announced_witness:
  "length (trows (charge_codes (snd (delete_operator_tree 1 demo_catalog_db)))) = 0"
proof -
  have "lookup cat_id 1 (categories demo_catalog_db) = Some (demo_folder 1 None)"
    and "parent_category_id (demo_folder 1 None) = None"
    and "count_operator_deletion_impact 1 demo_catalog_db = (2, 1, 1)"
    and "fst (delete_operator_tree 1 demo_catalog_db) = Inr ()"
    and "length (trows (charge_codes demo_catalog_db)) = 1"
    by code_simp+
  from deletion_as_announced [OF demo_catalog_ok this(1,2,3), of "snd (delete_operator_tree 1 demo_catalog_db)"]
    this(4,5) show ?thesis by (cases "delete_operator_tree 1 demo_catalog_db") simp
qed

lemma delete_operator_tree_spec_witness:
  "fst (delete_operator_tree 1 (demo_catalog_db\<lparr>orders := \<lparr>trows =
     [(charge_order_row \<lparr>cp_reseller = 1, cp_package = 1, cp_customer = 1, cp_price = 5, cp_prefix = None\<rparr> 0 ''X'' ''A0'')
        \<lparr>o_id := 1\<rparr>], auto_inc = 2\<rparr>\<rparr>)) = Inl IntegrityError"
proof -
  let ?d = "demo_catalog_db\<lparr>orders := \<lparr>trows =
     [(charge_order_row \<lparr>cp_reseller = 1, cp_package = 1, cp_customer = 1, cp_price = 5, cp_prefix = None\<rparr> 0 ''X'' ''A0'')
        \<lparr>o_id := 1\<rparr>], auto_inc = 2\<rparr>\<rparr>"
  have ok: "catalog_ok ?d"
    using demo_catalog_ok by (simp add: catalog_ok_def two_levels_def sold_codes_ordered_def demo_catalog_db_def
        demo_unsold_code_def)
  have "lookup cat_id 1 (categories ?d) = Some (demo_folder 1 None)" by code_simp
  then have root: "\<And>c. lookup cat_id 1 (categories ?d) = Some c \<Longrightarrow> parent_category_id c = None"
    by (simp add: demo_folder_def)
  have "ordered (packages_in (map cat_id (sub_folders 1 ?d)) ?d) ?d" by code_simp
  with delete_operator_tree_spec [OF ok root] show ?thesis by (simp add: Let_def)
qed

section \<open>A new name of an operator\<close>

text \<open>
  The subfolders keep the name that the operator had when they were made: after an operator got a
  new name, the labels of its products, which the orders show, still have the old one, and so
  has the name under which the lowest sane price is looked up.
\<close>

theorem rename_leaves_subfolders:
  assumes ok: "catalog_ok d" and f: "lookup cat_id oid (categories d) = Some f" "parent_category_id f = None"
    and pkg: "package_with_category pid d = Some (p, c)" and sub: "parent_category_id c = Some oid"
  shows "map_option operator_name (lookup cat_id oid (categories (rename_operator oid name d))) = Some name
    \<and> label_of_package pid (rename_operator oid name d) = Some (operator_name c, cat_title c, p_name p)"
proof -
  have c: "lookup cat_id (p_category_id p) (categories d) = Some c"
    using pkg by (auto simp: package_with_category_def split: option.splits)
  with categories.lookup_SomeD [OF c] have "lookup cat_id (cat_id c) (categories d) = Some c" by simp
  with f sub have "cat_id c \<noteq> oid" by auto
  with f pkg show ?thesis
    by (auto simp: rename_operator_def upd_category_def label_of_package_def package_with_category_def
        categories.lookup_update_id split: option.splits dest: categories.lookup_SomeD)
qed

lemma rename_leaves_subfolders_witness:
  "label_of_package 1 (rename_operator 1 ''Rightel'' demo_catalog_db) = Some (''MCI'', ''Weekly'', ''Charge'')"
proof -
  have "lookup cat_id 1 (categories demo_catalog_db) = Some (demo_folder 1 None)"
    and "parent_category_id (demo_folder 1 None) = None"
    and "package_with_category 1 demo_catalog_db = Some (demo_product, demo_folder 2 (Some 1))"
    and "parent_category_id (demo_folder 2 (Some 1)) = Some 1"
    by code_simp+
  from rename_leaves_subfolders [OF demo_catalog_ok this] show ?thesis
    by (simp add: demo_folder_def demo_product_def)
qed

end
