(* ===== verification/PanelCatalog.thy ===== *)
theory PanelCatalog
  imports PanelChat CatalogShape
begin

text \<open>
  The handlers of \<^verbatim>\<open>handlers/reseller/catalog.py\<close>: the views of the catalog, the dialogs that
  add and edit folders and products with the confirmation of suspicious prices, and the
  deletions. A handler for a button takes what the button carries, a handler for a text the
  text of the message; each ends with the context it leaves or with the exception it raises.
\<close>

section \<open>Steps that several handlers share\<close>

text \<open>\<^verbatim>\<open>message.text.strip()\<close>: a message without a text raises.\<close>

definition with_text :: "string option \<Rightarrow> (string \<Rightarrow> unit panel_step) \<Rightarrow> unit panel_step" where
  "with_text t f w = (case t of None \<Rightarrow> (Inl AttributeError, w) | Some s \<Rightarrow> f (strip s) w)"

text \<open>\<^verbatim>\<open>data["..."]\<close>: a key that is missing raises.\<close>

definition with_key :: "(panel_data \<Rightarrow> 'k option) \<Rightarrow> ('k \<Rightarrow> unit panel_step) \<Rightarrow> unit panel_step" where
  "with_key key f w =
     (case key (pn_data w) of None \<Rightarrow> (Inl KeyError, w) | Some x \<Rightarrow> f x w)"

text \<open>A statement, and what follows when it did not raise.\<close>

definition with_db :: "(db \<Rightarrow> (db, 'a) outcome) \<Rightarrow> ('a \<Rightarrow> unit panel_step) \<Rightarrow> unit panel_step" where
  "with_db f g w =
     (case in_db f w of (Inl x, w1) \<Rightarrow> (Inl x, w1) | (Inr y, w1) \<Rightarrow> g y w1)"

text \<open>\<^verbatim>\<open>Decimal(...)\<close> of the text; a text that is no number is answered with a request.\<close>

definition with_number ::
  "string option \<Rightarrow> (decimal_value \<Rightarrow> unit panel_step) \<Rightarrow> unit panel_step" where
  "with_number t f w =
     (case read_number t of
        NoNumberText \<Rightarrow> (Inl AttributeError, w)
      | BadNumber \<Rightarrow> returns (post (InCatalog NumberOnly) None w)
      | Number v \<Rightarrow> f v w)"

text \<open>\<^verbatim>\<open>data.get("catalog_type", "package")\<close>.\<close>

definition catalog_type_or_package :: "panel \<Rightarrow> catalog_type" where
  "catalog_type_or_package w =
     (case pd_catalog_type (pn_data w) of None \<Rightarrow> PackageCatalog | Some kind \<Rightarrow> kind)"

definition folder_by_id :: "nat \<Rightarrow> panel \<Rightarrow> category option" where
  "folder_by_id i w = lookup cat_id i (categories (pn_db w))"

definition products_in :: "nat \<Rightarrow> db \<Rightarrow> package list" where
  "products_in folder d = fetch_all (\<lambda>p. p_category_id p = folder) (packages d)"

section \<open>Menus and the view of a catalog\<close>

definition catalog_type_menu_cb :: "unit panel_step" where
  "catalog_type_menu_cb w = returns (edit_text (InCatalog CatalogChoice) (Some catalog_type_menu) w)"

definition catalog_menu :: "catalog_type \<Rightarrow> unit panel_step" where
  "catalog_menu kind w = returns (edit_text (InCatalog (CatalogTitle kind)) (Some (catalog_submenu kind)) w)"

definition folder_tree :: "db \<Rightarrow> category \<Rightarrow> panel_reply" where
  "folder_tree d op =
     InCatalog (FolderTree (operator_name op)
       (map (\<lambda>sub. (cat_title sub,
              map (\<lambda>p. (p_name p, shown_price (sale_price p), p_is_active p)) (products_in (cat_id sub) d)))
          (sub_folders (cat_id op) d)))"

definition view_catalog :: "panel_env \<Rightarrow> catalog_type \<Rightarrow> unit panel_step" where
  "view_catalog e kind w =
     (let operators = root_folders (pe_reseller e) kind (pn_db w)
      in if operators = [] then returns (post (InCatalog NoOperatorYet) (Some back_to_reseller_menu_button) w)
         else returns (fold (\<lambda>op. post (folder_tree (pn_db w) op) None) operators w))"

section \<open>Adding folders\<close>

definition start_add_operator :: "catalog_type \<Rightarrow> unit panel_step" where
  "start_add_operator kind w =
     returns (post (InCatalog AskOperatorName) None (enter EnteringOperatorName
       (remember (\<lambda>pd. pd\<lparr>pd_catalog_type := Some kind\<rparr>) w)))"

definition receive_operator_name_and_save :: "panel_env \<Rightarrow> string option \<Rightarrow> unit panel_step" where
  "receive_operator_name_and_save e t w =
     (let kind = catalog_type_or_package w
      in with_text t (\<lambda>name.
           with_db (add_operator_folder (pe_reseller e) kind name) (\<lambda>_ w1.
             returns (leave (post (InCatalog (OperatorMade name)) (Some (catalog_submenu kind)) w1)))) w)"

definition start_add_subcategory :: "panel_env \<Rightarrow> catalog_type \<Rightarrow> unit panel_step" where
  "start_add_subcategory e kind w =
     (let operators = root_folders (pe_reseller e) kind (pn_db w)
      in if operators = [] then returns (post (InCatalog OperatorFirst) (Some (catalog_submenu kind)) w)
         else returns (post (InCatalog ChooseOperatorForSub) (Some (operator_pick_buttons operators True kind)) w))"

definition pick_operator_for_sub :: "catalog_type \<Rightarrow> nat \<Rightarrow> unit panel_step" where
  "pick_operator_for_sub kind operator_id w =
     (case folder_by_id operator_id w of
        None \<Rightarrow> (Inl TypeError, w)
      | Some op \<Rightarrow>
          returns (post (InCatalog (AskSubTitle (operator_name op))) None (enter EnteringSubcategoryTitle
            (remember (\<lambda>pd. pd\<lparr>pd_parent_operator_id := Some operator_id,
               pd_operator_name := Some (operator_name op), pd_catalog_type := Some kind\<rparr>) w))))"

definition receive_subcategory_title_and_save :: "panel_env \<Rightarrow> string option \<Rightarrow> unit panel_step" where
  "receive_subcategory_title_and_save e t w =
     (let kind = catalog_type_or_package w
      in with_text t (\<lambda>title. with_key pd_operator_name (\<lambda>operator. with_key pd_parent_operator_id (\<lambda>parent.
           with_db (add_subfolder (pe_reseller e) kind operator parent title) (\<lambda>_ w1.
             returns (leave (post (InCatalog (SubMade operator title)) (Some (catalog_submenu kind)) w1)))))) w)"

section \<open>Adding products\<close>

definition start_add_package :: "panel_env \<Rightarrow> catalog_type \<Rightarrow> unit panel_step" where
  "start_add_package e kind w =
     (let operators = root_folders (pe_reseller e) kind (pn_db w)
      in if operators = [] then returns (post (InCatalog OperatorFirst) (Some (catalog_submenu kind)) w)
         else returns (post (InCatalog ChooseOperatorForPackage) (Some (operator_pick_buttons operators False kind)) w))"

definition pick_operator_for_pkg :: "catalog_type \<Rightarrow> nat \<Rightarrow> unit panel_step" where
  "pick_operator_for_pkg kind operator_id w =
     (let subcategories = sub_folders operator_id (pn_db w)
      in if subcategories = []
         then (case folder_by_id operator_id w of
                 None \<Rightarrow> (Inl TypeError, w)
               | Some op \<Rightarrow>
                   returns (post (InCatalog (NoSubfolderIn (operator_name op))) (Some (catalog_submenu kind)) w))
         else returns (post (InCatalog ChooseFolder) (Some (category_pick_buttons subcategories kind)) w))"

definition pick_category :: "catalog_type \<Rightarrow> nat \<Rightarrow> unit panel_step" where
  "pick_category kind category_id w =
     (case folder_by_id category_id w of
        None \<Rightarrow> (Inl TypeError, w)
      | Some c \<Rightarrow>
          returns (post (InCatalog (AskPackageName kind)) None (enter EnteringName
            (remember (\<lambda>pd. pd\<lparr>pd_category_id := Some category_id,
               pd_operator_name := Some (operator_name c), pd_catalog_type := Some kind\<rparr>) w))))"

definition receive_package_name :: "string option \<Rightarrow> unit panel_step" where
  "receive_package_name t =
     with_text t (\<lambda>name w.
       returns (post (InCatalog AskPrice) None (enter EnteringPrice
         (remember (\<lambda>pd. pd\<lparr>pd_package_name := Some name\<rparr>) w))))"

definition ask_cost_price :: "decimal_value \<Rightarrow> panel \<Rightarrow> panel" where
  "ask_cost_price v w =
     post (InCatalog AskCostPrice) None (enter EnteringCostPrice
       (remember (\<lambda>pd. pd\<lparr>pd_sale_price := Some v\<rparr>) w))"

definition receive_price :: "panel_env \<Rightarrow> string option \<Rightarrow> unit panel_step" where
  "receive_price e t =
     with_number t (\<lambda>v. with_key pd_operator_name (\<lambda>operator w.
       (case price_suspicious operator v (pn_db w) of
          Inl x \<Rightarrow> (Inl x, w)
        | Inr suspicious \<Rightarrow>
            if suspicious
            then returns (post (InCatalog (AskSuspicious (shown_value v)))
                   (Some (sanity_check_confirm_buttons (pe_token e)))
                   (enter ConfirmingSuspiciousPrice
                     (w\<lparr>pn_prices := AList.update (pe_token e)
                          ((pn_data w)\<lparr>pd_sale_price := Some v\<rparr>) (pn_prices w)\<rparr>)))
            else returns (ask_cost_price v w))))"

definition confirm_suspicious_price :: "string \<Rightarrow> unit panel_step" where
  "confirm_suspicious_price token w =
     (case map_of (pn_prices w) token of
        None \<Rightarrow> returns (alert Expired w)
      | Some pending \<Rightarrow>
          let w1 = w\<lparr>pn_prices := AList.delete token (pn_prices w)\<rparr>
          in (case pd_sale_price pending of
                None \<Rightarrow> (Inl KeyError, w1)
              | Some v \<Rightarrow> returns (ask_cost_price v w1)))"

definition edit_suspicious_price :: "string \<Rightarrow> unit panel_step" where
  "edit_suspicious_price token w =
     returns (post (InCatalog AskPriceAgain) None (enter EnteringPrice
       (w\<lparr>pn_prices := AList.delete token (pn_prices w)\<rparr>)))"

definition receive_cost_price_and_save :: "panel_env \<Rightarrow> string option \<Rightarrow> unit panel_step" where
  "receive_cost_price_and_save e t =
     with_number t (\<lambda>cost. with_key pd_category_id (\<lambda>category_id.
       with_key pd_package_name (\<lambda>name. with_key pd_sale_price (\<lambda>sale w.
         let kind = catalog_type_or_package w
         in with_db (add_package (pe_reseller e) category_id name sale cost) (\<lambda>_ w1.
              returns (leave (post (InCatalog (PackageSaved kind)) (Some (catalog_submenu kind)) w1))) w))))"

section \<open>Managing: the views\<close>

definition render_manage_operators :: "catalog_type \<Rightarrow> nat \<Rightarrow> panel \<Rightarrow> panel" where
  "render_manage_operators kind rid w =
     (let operators = root_folders rid kind (pn_db w)
      in if operators = [] then edit_text (InCatalog NoOperatorYet) (Some (catalog_submenu kind)) w
         else edit_text (InManage (ManageTitle kind)) (Some (catalog_manage_operator_list_buttons operators kind)) w)"

definition render_operator_detail :: "catalog_type \<Rightarrow> nat \<Rightarrow> panel \<Rightarrow> panel" where
  "render_operator_detail kind operator_id w =
     (case folder_by_id operator_id w of
        None \<Rightarrow> edit_text (InManage OperatorIsGone) (Some (catalog_submenu kind)) w
      | Some op \<Rightarrow>
          let subcategories = sub_folders operator_id (pn_db w)
          in edit_text (InManage (OperatorDetail (operator_name op) (subcategories = [])))
               (Some (catalog_manage_operator_detail_buttons kind operator_id subcategories)) w)"

text \<open>
  The way back of a subfolder names its operator; a folder without a parent is no subfolder and
  has no such button (the string would hold the word None, which no handler can read).
\<close>

definition parent_or_zero :: "category \<Rightarrow> nat" where
  "parent_or_zero c = (case parent_category_id c of None \<Rightarrow> 0 | Some i \<Rightarrow> i)"

definition render_subcategory_detail :: "catalog_type \<Rightarrow> nat \<Rightarrow> panel \<Rightarrow> panel" where
  "render_subcategory_detail kind subcategory_id w =
     (case folder_by_id subcategory_id w of
        None \<Rightarrow> edit_text (InManage SubIsGone) (Some (catalog_submenu kind)) w
      | Some sub \<Rightarrow>
          let products = products_in subcategory_id (pn_db w)
          in edit_text (InManage (SubDetail (cat_title sub) (products = [])))
               (Some (catalog_manage_subcategory_detail_buttons kind (parent_or_zero sub)
                 subcategory_id products)) w)"

definition render_package_detail :: "catalog_type \<Rightarrow> nat \<Rightarrow> panel \<Rightarrow> panel" where
  "render_package_detail kind package_id w =
     (case lookup p_id package_id (packages (pn_db w)) of
        None \<Rightarrow> edit_text (InManage PackageIsGone) (Some (catalog_submenu kind)) w
      | Some p \<Rightarrow>
          edit_text (InManage (PackageDetail kind (p_name p) (shown_price (sale_price p))
              (map_option shown_price (cost_price p)) (p_is_active p)))
            (Some (catalog_manage_package_detail_buttons kind (p_category_id p) package_id
              (p_is_active p))) w)"

definition manage_operators_cb :: "panel_env \<Rightarrow> catalog_type \<Rightarrow> unit panel_step" where
  "manage_operators_cb e kind w = returns (render_manage_operators kind (pe_reseller e) w)"

definition manage_operator_detail_cb :: "catalog_type \<Rightarrow> nat \<Rightarrow> unit panel_step" where
  "manage_operator_detail_cb kind operator_id w = returns (render_operator_detail kind operator_id w)"

definition manage_subcategory_detail_cb :: "catalog_type \<Rightarrow> nat \<Rightarrow> unit panel_step" where
  "manage_subcategory_detail_cb kind subcategory_id w =
     returns (render_subcategory_detail kind subcategory_id w)"

definition manage_package_detail_cb :: "catalog_type \<Rightarrow> nat \<Rightarrow> unit panel_step" where
  "manage_package_detail_cb kind package_id w = returns (render_package_detail kind package_id w)"

section \<open>Managing: the edits\<close>

definition start_edit_operator_name :: "catalog_type \<Rightarrow> nat \<Rightarrow> unit panel_step" where
  "start_edit_operator_name kind operator_id w =
     returns (post (InManage AskNewOperatorName) None (enter EditingOperatorName
       (remember (\<lambda>pd. pd\<lparr>pd_catalog_type := Some kind, pd_operator_id := Some operator_id\<rparr>) w)))"

text \<open>The menu of the answer is that of \<^verbatim>\<open>data["catalog_type"]\<close>, read after the statement.\<close>

definition answer_and_leave :: "panel_reply \<Rightarrow> unit panel_step" where
  "answer_and_leave r =
     with_key pd_catalog_type (\<lambda>kind w. returns (leave (post r (Some (catalog_submenu kind)) w)))"

definition save_operator_name_edit :: "string option \<Rightarrow> unit panel_step" where
  "save_operator_name_edit t =
     with_text t (\<lambda>name. with_key pd_operator_id (\<lambda>i w.
       answer_and_leave (InManage (OperatorRenamed name)) (change_db (rename_operator i name) w)))"

definition start_edit_subcategory_title :: "catalog_type \<Rightarrow> nat \<Rightarrow> unit panel_step" where
  "start_edit_subcategory_title kind subcategory_id w =
     returns (post (InManage AskNewTitle) None (enter EditingSubcategoryTitle
       (remember (\<lambda>pd. pd\<lparr>pd_catalog_type := Some kind, pd_subcategory_id := Some subcategory_id\<rparr>) w)))"

definition save_subcategory_title_edit :: "string option \<Rightarrow> unit panel_step" where
  "save_subcategory_title_edit t =
     with_text t (\<lambda>title. with_key pd_subcategory_id (\<lambda>i w.
       answer_and_leave (InManage (SubRenamed title)) (change_db (rename_subfolder i title) w)))"

definition start_package_dialog ::
  "panel_state \<Rightarrow> panel_reply \<Rightarrow> catalog_type \<Rightarrow> nat \<Rightarrow> unit panel_step" where
  "start_package_dialog st question kind package_id w =
     returns (post question None (enter st
       (remember (\<lambda>pd. pd\<lparr>pd_catalog_type := Some kind, pd_package_id := Some package_id\<rparr>) w)))"

definition start_edit_package_name :: "catalog_type \<Rightarrow> nat \<Rightarrow> unit panel_step" where
  "start_edit_package_name kind = start_package_dialog EditingPackageName (InManage (AskNewName kind)) kind"

definition save_package_name_edit :: "string option \<Rightarrow> unit panel_step" where
  "save_package_name_edit t =
     with_text t (\<lambda>name. with_key pd_package_id (\<lambda>i w.
       answer_and_leave (InManage (PackageRenamed name)) (change_db (rename_package i name) w)))"

definition start_edit_package_price :: "catalog_type \<Rightarrow> nat \<Rightarrow> unit panel_step" where
  "start_edit_package_price = start_package_dialog EditingPackagePrice (InManage AskNewPrice)"

text \<open>The operator of a product, or the empty name when the product is gone.\<close>

definition operator_of_package :: "nat \<Rightarrow> db \<Rightarrow> string" where
  "operator_of_package pid d =
     (case package_with_category pid d of None \<Rightarrow> [] | Some (p, c) \<Rightarrow> operator_name c)"

definition receive_package_price_edit :: "panel_env \<Rightarrow> string option \<Rightarrow> unit panel_step" where
  "receive_package_price_edit e t =
     with_number t (\<lambda>v. with_key pd_package_id (\<lambda>pid w.
       (case price_suspicious (operator_of_package pid (pn_db w)) v (pn_db w) of
          Inl x \<Rightarrow> (Inl x, w)
        | Inr suspicious \<Rightarrow>
            if suspicious
            then with_key pd_catalog_type (\<lambda>kind w.
                   returns (post (InCatalog (AskSuspicious (shown_value v)))
                     (Some (package_edit_price_confirm_buttons (pe_token e)))
                     (enter ConfirmingSuspiciousEditPrice
                       (w\<lparr>pn_price_edits := AList.update (pe_token e) (pid, kind, v) (pn_price_edits w)\<rparr>)))) w
            else with_db (set_sale_price pid v) (\<lambda>_. answer_and_leave (InManage (PriceSet (shown_value v)))) w)))"

definition confirm_edit_suspicious_price :: "string \<Rightarrow> unit panel_step" where
  "confirm_edit_suspicious_price token w =
     (case map_of (pn_price_edits w) token of
        None \<Rightarrow> returns (alert Expired w)
      | Some (pid, kind, v) \<Rightarrow>
          with_db (set_sale_price pid v) (\<lambda>_ w1.
              returns (leave (post (InManage (PriceSet (shown_value v))) (Some (catalog_submenu kind)) w1)))
            (w\<lparr>pn_price_edits := AList.delete token (pn_price_edits w)\<rparr>))"

definition edit_again_suspicious_price :: "string \<Rightarrow> unit panel_step" where
  "edit_again_suspicious_price token w =
     returns (post (InCatalog AskPriceAgain) None (enter EditingPackagePrice
       (w\<lparr>pn_price_edits := AList.delete token (pn_price_edits w)\<rparr>)))"

definition start_edit_package_cost :: "catalog_type \<Rightarrow> nat \<Rightarrow> unit panel_step" where
  "start_edit_package_cost = start_package_dialog EditingPackageCostPrice (InManage AskNewCost)"

definition save_package_cost_edit :: "string option \<Rightarrow> unit panel_step" where
  "save_package_cost_edit t =
     with_number t (\<lambda>v. with_key pd_package_id (\<lambda>pid.
       with_db (set_cost_price pid v) (\<lambda>_. answer_and_leave (InManage (CostSet (shown_value v))))))"

definition toggle_package_active :: "catalog_type \<Rightarrow> nat \<Rightarrow> unit panel_step" where
  "toggle_package_active kind package_id w =
     returns (render_package_detail kind package_id
       (alert StatusToggled (change_db (toggle_package package_id) w)))"

section \<open>Deletion\<close>

text \<open>\<^verbatim>\<open>except aiomysql.IntegrityError\<close>: what follows a refused deletion.\<close>

definition deleting ::
  "(db \<Rightarrow> (db, unit) outcome) \<Rightarrow> (panel \<Rightarrow> panel) \<Rightarrow> (panel \<Rightarrow> panel) \<Rightarrow> unit panel_step" where
  "deleting f refused done_with w =
     (case in_db f w of
        (Inl IntegrityError, w1) \<Rightarrow> returns (refused w1)
      | (Inl x, w1) \<Rightarrow> (Inl x, w1)
      | (Inr _, w1) \<Rightarrow> returns (done_with w1))"

definition confirm_delete_operator :: "catalog_type \<Rightarrow> nat \<Rightarrow> unit panel_step" where
  "confirm_delete_operator kind operator_id w =
     (let (subs, products, codes) = count_operator_deletion_impact operator_id (pn_db w)
      in returns (edit_text (InManage (WarnDeleteOperator subs products codes))
           (Some (catalog_delete_confirm_buttons kind TargetOp operator_id)) w))"

definition delete_operator_confirmed :: "panel_env \<Rightarrow> catalog_type \<Rightarrow> nat \<Rightarrow> unit panel_step" where
  "delete_operator_confirmed e kind operator_id =
     deleting (delete_operator_tree operator_id)
       (\<lambda>w. render_operator_detail kind operator_id (alert FolderWasSold w))
       (\<lambda>w. render_manage_operators kind (pe_reseller e) (alert OperatorDeletedAlert w))"

definition delete_operator_cancelled :: "catalog_type \<Rightarrow> nat \<Rightarrow> unit panel_step" where
  "delete_operator_cancelled kind operator_id w =
     returns (render_operator_detail kind operator_id (alert DeletionCancelled w))"

definition confirm_delete_subcategory :: "catalog_type \<Rightarrow> nat \<Rightarrow> unit panel_step" where
  "confirm_delete_subcategory kind subcategory_id w =
     (let (products, codes) = count_subcategory_deletion_impact subcategory_id (pn_db w)
      in returns (edit_text (InManage (WarnDeleteSub products codes))
           (Some (catalog_delete_confirm_buttons kind TargetSub subcategory_id)) w))"

definition delete_subcategory_confirmed :: "catalog_type \<Rightarrow> nat \<Rightarrow> unit panel_step" where
  "delete_subcategory_confirmed kind subcategory_id w =
     (let sub = folder_by_id subcategory_id w
      in deleting (delete_subcategory_tree subcategory_id)
           (\<lambda>w. render_subcategory_detail kind subcategory_id (alert FolderWasSold w))
           (\<lambda>w. case Option.bind sub parent_category_id of
                   Some parent \<Rightarrow> render_operator_detail kind parent (alert SubDeletedAlert w)
                 | None \<Rightarrow> edit_text (InManage SubDeleted) (Some (catalog_submenu kind)) (alert SubDeletedAlert w)) w)"

definition delete_subcategory_cancelled :: "catalog_type \<Rightarrow> nat \<Rightarrow> unit panel_step" where
  "delete_subcategory_cancelled kind subcategory_id w =
     returns (render_subcategory_detail kind subcategory_id (alert DeletionCancelled w))"

definition confirm_delete_package :: "catalog_type \<Rightarrow> nat \<Rightarrow> unit panel_step" where
  "confirm_delete_package kind package_id w =
     (let codes = count_package_deletion_impact package_id (pn_db w)
      in returns (edit_text (InManage (WarnDeletePackage (if kind = ChargeCatalog then Some codes else None)))
           (Some (catalog_delete_confirm_buttons kind TargetPkg package_id)) w))"

definition delete_package_confirmed :: "catalog_type \<Rightarrow> nat \<Rightarrow> unit panel_step" where
  "delete_package_confirmed kind package_id w =
     (let pkg = lookup p_id package_id (packages (pn_db w))
      in deleting (delete_package package_id)
           (\<lambda>w. render_package_detail kind package_id (alert ProductWasSold w))
           (\<lambda>w. case pkg of
                   Some p \<Rightarrow> render_subcategory_detail kind (p_category_id p) (alert PackageDeletedAlert w)
                 | None \<Rightarrow> edit_text (InManage PackageDeleted) (Some (catalog_submenu kind)) (alert PackageDeletedAlert w)) w)"

definition delete_package_cancelled :: "catalog_type \<Rightarrow> nat \<Rightarrow> unit panel_step" where
  "delete_package_cancelled kind package_id w =
     returns (render_package_detail kind package_id (alert DeletionCancelled w))"

end
