(* ===== verification/PanelStock.thy ===== *)
theory PanelStock
  imports PanelCatalog
begin

text \<open>
  The handlers of \<^verbatim>\<open>handlers/reseller/charge_stock.py\<close>: the way to a charge product, which is
  the same for its four actions, and what is done there: adding codes, the codes that are left,
  removing codes, the codes that were sold.
\<close>

text \<open>\<^verbatim>\<open>html.escape\<close>.\<close>

definition escape_char :: "char \<Rightarrow> string" where
  "escape_char c =
     (if c = CHR ''&'' then ''&amp;'' else if c = CHR ''<'' then ''&lt;''
      else if c = CHR ''>'' then ''&gt;'' else if c = CHR 0x22 then ''&quot;''
      else if c = CHR 0x27 then ''&#x27;'' else [c])"

definition escape :: "string \<Rightarrow> string" where
  "escape s = concat (map escape_char s)"

text \<open>The limit of the two lists (\<^verbatim>\<open>limit: int = 60\<close>).\<close>

definition shown_codes :: nat where
  "shown_codes = 60"

definition charge_stock_menu_cb :: "unit panel_step" where
  "charge_stock_menu_cb w = returns (edit_text (InStock StockTitle) (Some charge_stock_menu) w)"

definition pick_operator_for_action :: "panel_env \<Rightarrow> stock_action \<Rightarrow> unit panel_step" where
  "pick_operator_for_action e action w =
     (let operators = root_folders (pe_reseller e) ChargeCatalog (pn_db w)
      in if operators = [] then returns (post (InStock NoChargeCatalog) (Some back_to_reseller_menu_button) w)
         else returns (post (InStock (ChooseProductFor action)) (Some (charge_operator_pick_buttons operators action)) w))"

definition pick_category_for_action :: "stock_action \<Rightarrow> nat \<Rightarrow> unit panel_step" where
  "pick_category_for_action action operator_id w =
     (let subcategories = sub_folders operator_id (pn_db w)
      in if subcategories = [] then returns (post (InStock NoStockSubfolder) (Some charge_stock_menu) w)
         else returns (post (InStock ChooseStockFolder) (Some (charge_category_pick_buttons subcategories action)) w))"

definition pick_product_for_action :: "stock_action \<Rightarrow> nat \<Rightarrow> unit panel_step" where
  "pick_product_for_action action category_id w =
     (let products = products_in category_id (pn_db w)
      in if products = [] then returns (post (InStock NoProduct) (Some charge_stock_menu) w)
         else returns (post (InStock ChooseStockProduct)
           (Some (charge_product_pick_buttons
             (map (\<lambda>p. (p, count_available_codes (p_id p) (pn_db w))) products) action)) w))"

definition act_on_product :: "stock_action \<Rightarrow> nat \<Rightarrow> unit panel_step" where
  "act_on_product action package_id w =
     (case lookup p_id package_id (packages (pn_db w)) of
        None \<Rightarrow> returns (post (InStock ProductIsGone) (Some charge_stock_menu) w)
      | Some p \<Rightarrow>
          let codes = list_available_codes package_id shown_codes (pn_db w)
          in (case action of
                AddAction \<Rightarrow>
                  returns (post (InStock (AskCodes (p_name p))) None (enter EnteringCodes
                    (remember (\<lambda>pd. pd\<lparr>pd_charge_package_id := Some package_id\<rparr>) w)))
              | ListAction \<Rightarrow>
                  if codes = [] then returns (post (InStock (NoStock (p_name p))) (Some charge_stock_menu) w)
                  else returns (post (InStock (StockList (p_name p) (count_available_codes package_id (pn_db w))
                         (map (\<lambda>(i, code, added). escape code) codes))) (Some charge_stock_menu) w)
              | RemoveAction \<Rightarrow>
                  if codes = [] then returns (post (InStock (NothingToRemove (p_name p))) (Some charge_stock_menu) w)
                  else returns (post (InStock (ChooseCodeToRemove (p_name p)))
                         (Some (charge_code_remove_buttons codes package_id)) w)
              | SoldAction \<Rightarrow>
                  let sold = list_sold_codes package_id shown_codes (pn_db w)
                  in if sold = [] then returns (post (InStock (NothingSold (p_name p))) (Some charge_stock_menu) w)
                     else returns (post (InStock (SoldList (p_name p)
                            (map (\<lambda>(i, code, time_sold, order_code, buyer).
                               (escape code, buyer, order_code, time_sold)) sold)))
                          (Some charge_stock_menu) w)))"

definition receive_charge_codes :: "panel_env \<Rightarrow> string option \<Rightarrow> unit panel_step" where
  "receive_charge_codes e t w =
     (case (pd_charge_package_id (pn_data w), non_empty t) of
        (Some pid, Some raw_text) \<Rightarrow>
          with_db (add_charge_codes (pe_now e) (pe_reseller e) pid raw_text) (\<lambda>added w1.
            if added = 0 then returns (post (InStock NoCodeFound) None w1)
            else returns (leave (post (InStock (CodesAdded added)) (Some charge_stock_menu) w1))) w
      | _ \<Rightarrow> returns (post (InStock BadCodesText) None w))"

definition delete_single_code :: "nat \<Rightarrow> nat \<Rightarrow> unit panel_step" where
  "delete_single_code code_id package_id w =
     (let w1 = change_db (delete_available_code code_id) w;
          codes = list_available_codes package_id shown_codes (pn_db w1)
      in if codes = [] then returns (edit_text (InStock LastCodeDeleted) None w1)
         else returns (edit_text (InStock CodeDeleted) (Some (charge_code_remove_buttons codes package_id)) w1))"

definition clear_all_codes :: "nat \<Rightarrow> unit panel_step" where
  "clear_all_codes package_id w =
     (let (count, d1) = clear_available_codes package_id (pn_db w)
      in returns (edit_text (InStock (StockCleared count)) None (w\<lparr>pn_db := d1\<rparr>)))"

end
