(* ===== verification/PanelDialogs.thy ===== *)
theory PanelDialogs
  imports PanelStock CommissionWallet Promotions
begin

text \<open>
  The other dialogs of the reseller's panel: \<^verbatim>\<open>handlers/reseller/start.py\<close> (the way home),
  \<^verbatim>\<open>handlers/reseller/wallet.py\<close> (top-ups of the commission wallet by card, Zarinpal and crypto
  currency), \<^verbatim>\<open>handlers/reseller/settings.py\<close> (referral, forced channels, discount codes, support
  contact) and \<^verbatim>\<open>handlers/reseller/payment_methods.py\<close> (cards and the merchant code).
\<close>

definition back_home :: "unit panel_step" where
  "back_home w = returns (edit_text (InCatalog PanelHome) (Some reseller_main_menu) w)"

section \<open>The commission wallet\<close>

definition wallet_menu :: "panel_env \<Rightarrow> unit panel_step" where
  "wallet_menu e w =
     (case lookup r_id (pe_reseller e) (resellers (pn_db w)) of
        None \<Rightarrow> (Inl TypeError, w)
      | Some r \<Rightarrow>
          returns (edit_text (InWallet (WalletTitle (shown_price (wallet_credit_balance r))
            (shown_price (credit_limit_negative r)))) (Some wallet_submenu) w))"

definition start_topup_card :: "unit panel_step" where
  "start_topup_card w = returns (post (InWallet AskTopupAmount) None (enter EnteringTopupAmount w))"

text \<open>A request for a top-up: an infinite amount or a NaN is refused by the database.\<close>

definition request_topup_value ::
  "nat \<Rightarrow> decimal_value \<Rightarrow> pay_method \<Rightarrow> string option \<Rightarrow> db \<Rightarrow> (db, nat) outcome" where
  "request_topup_value rid v meth ref d =
     (case v of Finite x \<Rightarrow> request_topup rid x meth ref d | _ \<Rightarrow> (Inl DatabaseError, d))"

definition receive_card_topup_amount :: "panel_env \<Rightarrow> string option \<Rightarrow> unit panel_step" where
  "receive_card_topup_amount e t =
     with_number t (\<lambda>v. with_db (request_topup_value (pe_reseller e) v Card None) (\<lambda>_ w.
       returns (leave (post (InWallet TopupRequestSent) (Some back_to_reseller_menu_button) w))))"

definition start_topup_zarinpal :: "unit panel_step" where
  "start_topup_zarinpal w = returns (post (InWallet AskZarinpalAmount) None (enter EnteringZarinpalAmount w))"

definition receive_zarinpal_amount :: "panel_env \<Rightarrow> string option \<Rightarrow> unit panel_step" where
  "receive_zarinpal_amount e t w =
     (case t of
        None \<Rightarrow> (Inl AttributeError, w)
      | Some s \<Rightarrow>
          (case parse_int (strip (filter (\<lambda>c. c \<noteq> CHR '','') s)) of
             None \<Rightarrow> returns (post (InCatalog NumberOnly) None w)
           | Some n \<Rightarrow>
               (case pe_payment_link e n of
                  None \<Rightarrow> returns (leave (post (InWallet ZarinpalFailed) (Some back_to_reseller_menu_button) w))
                | Some link \<Rightarrow>
                    returns (leave (post (InWallet (ZarinpalLink n link)) (Some back_to_reseller_menu_button) w)))))"

definition show_crypto_options :: "unit panel_step" where
  "show_crypto_options w =
     (let options = list_crypto_options (pn_db w)
      in if options = [] then returns (post (InWallet NoCryptoOption) (Some back_to_reseller_menu_button) w)
         else returns (post (InWallet AskCoin) None (enter EnteringCoin
           (post (InWallet (CryptoOptions (map (\<lambda>c. (coin_name c, network c, address c, shown_price (coin_price c)))
             options))) None w))))"

definition receive_crypto_coin :: "string option \<Rightarrow> unit panel_step" where
  "receive_crypto_coin t =
     with_text t (\<lambda>coin w. returns (post (InWallet AskTxHash) None (enter EnteringTxHash
       (remember (\<lambda>pd. pd\<lparr>pd_coin_name := Some coin\<rparr>) w))))"

definition receive_crypto_tx_hash :: "string option \<Rightarrow> unit panel_step" where
  "receive_crypto_tx_hash t =
     with_text t (\<lambda>tx_hash w. returns (post (InWallet AskCryptoAmount) None (enter EnteringCryptoAmount
       (remember (\<lambda>pd. pd\<lparr>pd_tx_hash := Some tx_hash\<rparr>) w))))"

text \<open>
  \<^verbatim>\<open>request_crypto_topup\<close> writes the coin and the hash into \<^verbatim>\<open>reference VARCHAR(64)\<close>; MySQL in
  its strict mode, the default, refuses a longer text.
\<close>

definition request_crypto_topup ::
  "nat \<Rightarrow> string \<Rightarrow> string \<Rightarrow> decimal_value \<Rightarrow> db \<Rightarrow> (db, nat) outcome" where
  "request_crypto_topup rid coin tx_hash v d =
     (let ref = coin @ '':'' @ tx_hash
      in if 64 < length ref then (Inl DatabaseError, d)
         else request_topup_value rid v Crypto (Some ref) d)"

definition receive_crypto_amount_and_save :: "panel_env \<Rightarrow> string option \<Rightarrow> unit panel_step" where
  "receive_crypto_amount_and_save e t =
     with_number t (\<lambda>v. with_key pd_coin_name (\<lambda>coin. with_key pd_tx_hash (\<lambda>tx_hash.
       with_db (request_crypto_topup (pe_reseller e) coin tx_hash v) (\<lambda>_ w.
         returns (leave (post (InWallet CryptoRequestSent) (Some back_to_reseller_menu_button) w))))))"

section \<open>Settings\<close>

definition settings_menu :: "panel_env \<Rightarrow> unit panel_step" where
  "settings_menu e =
     with_db (get_referral_settings (pe_reseller e)) (\<lambda>found w.
       (case found of
          None \<Rightarrow> (Inl TypeError, w)
        | Some settings \<Rightarrow>
            returns (edit_text (InSettings (SettingsTitle (rf_is_enabled settings) (profit_percent settings)
                (map channel_id (get_forced_channels (pe_reseller e) (pn_db w)))))
              (Some (settings_submenu (rf_is_enabled settings))) w)))"

definition toggle_referral :: "panel_env \<Rightarrow> bool \<Rightarrow> unit panel_step" where
  "toggle_referral e enable =
     with_db (set_referral_enabled (pe_reseller e) enable) (\<lambda>_.
       with_db (get_referral_settings (pe_reseller e)) (\<lambda>found w.
         (case found of
            None \<Rightarrow> (Inl TypeError, w)
          | Some settings \<Rightarrow>
              returns (edit_text (InSettings (ReferralSwitched enable))
                (Some (settings_submenu (rf_is_enabled settings))) w))))"

definition start_referral_percent :: "unit panel_step" where
  "start_referral_percent w = returns (post (InSettings AskReferralPercent) None (enter EnteringReferralPercent w))"

text \<open>\<^verbatim>\<open>Decimal(message.text.strip())\<close>: here commas are not removed.\<close>

definition with_percent ::
  "string option \<Rightarrow> (decimal_value \<Rightarrow> unit panel_step) \<Rightarrow> unit panel_step" where
  "with_percent t f =
     with_text t (\<lambda>s w. case parse_decimal s of
        None \<Rightarrow> returns (post (InCatalog NumberOnly) None w)
      | Some v \<Rightarrow> f v w)"

definition set_percent_value :: "nat \<Rightarrow> decimal_value \<Rightarrow> db \<Rightarrow> (db, unit) outcome" where
  "set_percent_value rid v d =
     (case v of
        Finite x \<Rightarrow> set_referral_profit_percent rid x d
      | _ \<Rightarrow> (case get_referral_settings rid d of
                (Inl x, d1) \<Rightarrow> (Inl x, d1)
              | (Inr _, d1) \<Rightarrow> (Inl DatabaseError, d1)))"

definition receive_referral_percent :: "panel_env \<Rightarrow> string option \<Rightarrow> unit panel_step" where
  "receive_referral_percent e t =
     with_percent t (\<lambda>v. with_db (set_percent_value (pe_reseller e) v) (\<lambda>_ w.
       returns (leave (post (InSettings (ReferralPercentSet v)) (Some back_to_reseller_menu_button) w))))"

definition start_add_channel :: "unit panel_step" where
  "start_add_channel w = returns (post (InSettings AskChannelId) None (enter EnteringChannelId w))"

definition receive_channel_id :: "panel_env \<Rightarrow> string option \<Rightarrow> unit panel_step" where
  "receive_channel_id e t =
     with_text t (\<lambda>channel. with_db (add_forced_channel (pe_reseller e) channel SetByReseller) (\<lambda>_ w.
       returns (leave (post (InSettings (ChannelAdded channel)) (Some back_to_reseller_menu_button) w))))"

definition start_add_discount :: "unit panel_step" where
  "start_add_discount w = returns (post (InSettings AskDiscountCode) None (enter EnteringDiscountCode w))"

definition receive_discount_code :: "string option \<Rightarrow> unit panel_step" where
  "receive_discount_code t =
     with_text t (\<lambda>code w. returns (post (InSettings AskDiscountPercent) None (enter EnteringDiscountPercent
       (remember (\<lambda>pd. pd\<lparr>pd_code := Some (upper code)\<rparr>) w))))"

definition receive_discount_percent :: "string option \<Rightarrow> unit panel_step" where
  "receive_discount_percent t =
     with_percent t (\<lambda>v w. returns (post (InSettings AskUsageLimit) None (enter EnteringDiscountUsageLimit
       (remember (\<lambda>pd. pd\<lparr>pd_percent := Some v\<rparr>) w))))"

text \<open>
  \<^verbatim>\<open>INSERT INTO discount_codes\<close>: the code is unique in the shop; the other columns have their
  defaults.
\<close>

definition insert_discount_code ::
  "nat \<Rightarrow> string \<Rightarrow> decimal_value \<Rightarrow> int \<Rightarrow> db \<Rightarrow> (db, unit) outcome" where
  "insert_discount_code rid code v limit d =
     (case stored_amount v of
        None \<Rightarrow> (Inl DatabaseError, d)
      | Some percent \<Rightarrow>
          if lookup r_id rid (resellers d) = None
             \<or> fetch_one (\<lambda>r. dc_reseller_id r = rid \<and> dc_code r = code) (discount_codes d) \<noteq> None
          then (Inl IntegrityError, d)
          else (Inr (), d\<lparr>discount_codes := insert_row discount_with_id
                 \<lparr>dc_id = 0, dc_reseller_id = rid, dc_code = code, dc_percent = percent,
                  usage_limit = limit, usage_count = 0, expires_at = None, dc_is_active = True\<rparr>
                 (discount_codes d)\<rparr>))"

definition receive_discount_usage_limit_and_save :: "panel_env \<Rightarrow> string option \<Rightarrow> unit panel_step" where
  "receive_discount_usage_limit_and_save e t =
     with_text t (\<lambda>s w. case parse_int s of
        None \<Rightarrow> returns (post (InCatalog NumberOnly) None w)
      | Some limit \<Rightarrow>
          with_key pd_code (\<lambda>code. with_key pd_percent (\<lambda>v.
            with_db (insert_discount_code (pe_reseller e) code v limit) (\<lambda>_ w.
              returns (leave (post (InSettings (DiscountAdded code v)) (Some back_to_reseller_menu_button) w))))) w)"

definition start_set_support_contact :: "unit panel_step" where
  "start_set_support_contact w = returns (post (InSettings AskSupportContact) None (enter EnteringSupportContact w))"

definition receive_support_contact :: "panel_env \<Rightarrow> string option \<Rightarrow> unit panel_step" where
  "receive_support_contact e t =
     with_text t (\<lambda>contact w.
       returns (leave (post (InSettings (SupportContactSet contact)) (Some back_to_reseller_menu_button)
         (change_db (upd_reseller (pe_reseller e) (\<lambda>r. r\<lparr>support_contact := Some contact\<rparr>)) w))))"

section \<open>Payment methods\<close>

definition payment_methods_menu :: "unit panel_step" where
  "payment_methods_menu w = returns (edit_text (InPayment PaymentMethodsTitle) (Some payment_methods_submenu) w)"

definition list_cards_cb :: "panel_env \<Rightarrow> unit panel_step" where
  "list_cards_cb e w =
     (let cards = list_cards (pe_reseller e) False (pn_db w)
      in if cards = [] then returns (post (InPayment NoCardYet) (Some payment_methods_submenu) w)
         else returns (fold (\<lambda>c. post (InPayment (CardShown (pc_id c) (format_card_number (card_number c))
                  (card_holder_name c) (non_empty (bank_name c)) (pc_is_active c)))
                (Some (card_row_buttons (pc_id c) (pc_is_active c)))) cards w))"

definition toggle_card_cb :: "panel_env \<Rightarrow> nat \<Rightarrow> unit panel_step" where
  "toggle_card_cb e card_id w =
     (let (new_status, d1) = toggle_card card_id (pe_reseller e) (pn_db w); w1 = w\<lparr>pn_db := d1\<rparr>
      in case new_status of
           None \<Rightarrow> returns (edit_text (InPayment CardNotFound) None w1)
         | Some active \<Rightarrow> returns (edit_text (InPayment (CardSwitched card_id active)) None w1))"

definition remove_card_cb :: "panel_env \<Rightarrow> nat \<Rightarrow> unit panel_step" where
  "remove_card_cb e card_id w =
     (let (removed, d1) = remove_card card_id (pe_reseller e) (pn_db w)
      in returns (edit_text (InPayment (if removed then CardRemoved card_id else CardNotFound)) None (w\<lparr>pn_db := d1\<rparr>)))"

definition start_add_card :: "unit panel_step" where
  "start_add_card w = returns (post (InPayment AskCardNumber) None (enter EnteringCardNumber w))"

definition receive_card_number :: "string option \<Rightarrow> unit panel_step" where
  "receive_card_number t w =
     (case t of
        None \<Rightarrow> (Inl AttributeError, w)
      | Some s \<Rightarrow>
          let number = strip (filter (\<lambda>c. c \<noteq> CHR ''-'' \<and> c \<noteq> CHR '' '') s)
          in if number \<noteq> [] \<and> list_all is_digit number \<and> length number = 16
             then returns (post (InPayment AskCardHolder) None (enter EnteringCardHolder
                    (remember (\<lambda>pd. pd\<lparr>pd_card_number := Some number\<rparr>) w)))
             else returns (post (InPayment SixteenDigits) None w))"

definition receive_card_holder :: "string option \<Rightarrow> unit panel_step" where
  "receive_card_holder t =
     with_text t (\<lambda>holder w. returns (post (InPayment AskBankName) None (enter EnteringBankName
       (remember (\<lambda>pd. pd\<lparr>pd_card_holder_name := Some holder\<rparr>) w))))"

definition receive_bank_name_and_save :: "panel_env \<Rightarrow> string option \<Rightarrow> unit panel_step" where
  "receive_bank_name_and_save e t =
     with_text t (\<lambda>s. with_key pd_card_number (\<lambda>number. with_key pd_card_holder_name (\<lambda>holder.
       let bank = (if s = ''-'' then None else Some s)
       in with_db (add_card (pe_reseller e) number holder bank) (\<lambda>card_id w.
            returns (leave (post (InPayment (CardAdded card_id (format_card_number number) holder (non_empty bank)))
              (Some payment_methods_submenu) w))))))"

definition show_zarinpal :: "panel_env \<Rightarrow> unit panel_step" where
  "show_zarinpal e w =
     returns (post (InPayment (AskMerchant (non_empty (get_zarinpal_merchant (pe_reseller e) (pn_db w))))) None
       (enter EnteringZarinpalMerchant w))"

definition receive_zarinpal_merchant :: "panel_env \<Rightarrow> string option \<Rightarrow> unit panel_step" where
  "receive_zarinpal_merchant e t =
     with_text t (\<lambda>merchant w.
       returns (leave (post (InPayment MerchantSet) (Some payment_methods_submenu)
         (change_db (set_zarinpal_merchant (pe_reseller e) merchant) w))))"

end
