(* ===== verification/PanelOrders.thy ===== *)
theory PanelOrders
  imports PanelDialogs
begin

text \<open>
  The handlers of \<^verbatim>\<open>handlers/reseller/orders.py\<close> with the messages they send: the list of the
  orders, the review of receipts and of top-ups of customers, the activation, and the dialog of
  a dispute. What the actions do to the tables is in \<open>Access\<close>; the middleware that guards the
  buttons is applied in \<open>PanelBot\<close>.
\<close>

definition tell :: "int \<Rightarrow> panel_notice \<Rightarrow> panel \<Rightarrow> panel" where
  "tell user n = show_message (Told user n)"

text \<open>A reader in the database that cannot fail, for a row that may be missing.\<close>

definition list_pending_orders_cb :: "panel_env \<Rightarrow> unit panel_step" where
  "list_pending_orders_cb e w =
     (let d = pn_db w; (review_rows, confirmed_rows) = order_panel (pe_reseller e) d;
          w1 = fold (\<lambda>r. post (InOrders (OrderToReview (order_code r) (label_of_package (o_package_id r) d)
                      (shown_price (package_price r)) (shown_price (commission_amount r))
                      (non_empty (phone_number r))))
                    (Some (order_review_buttons (o_id r)))) review_rows w;
          w2 = fold (\<lambda>r. post (InOrders (OrderToActivate (order_code r) (label_of_package (o_package_id r) d)
                      (shown_price (package_price r)) (non_empty (phone_number r))))
                    (Some (activate_order_button (o_id r)))) confirmed_rows w1
      in if review_rows = [] \<and> confirmed_rows = []
         then returns (post (InOrders NoOrders) (Some orders_refresh_button) w)
         else returns w2)"

text \<open>The answer names the product and the line when the joined row is found.\<close>

definition approve_receipt :: "panel_env \<Rightarrow> nat \<Rightarrow> unit panel_step" where
  "approve_receipt e oid w =
     (let w1 = change_db (confirm_order (pe_now e) oid) w; d = pn_db w1;
          found = Option.bind (lookup o_id oid (orders d))
            (\<lambda>r. map_option (Pair r) (label_of_package (o_package_id r) d))
      in returns (post (InOrders (ReceiptConfirmed (map_option snd found)
             (Option.bind found (\<lambda>(r, label). non_empty (phone_number r)))))
           (Some (activate_order_button oid)) w1))"

definition reject_receipt :: "nat \<Rightarrow> unit panel_step" where
  "reject_receipt oid w =
     returns (post (InOrders ReceiptRejected) (Some (dispute_button oid)) (change_db (reject_order oid) w))"

text \<open>
  The end message of the shop, or the default text, goes to the customer when his row is found;
  Telegram's refusal is ignored.
\<close>

definition activate :: "panel_env \<Rightarrow> nat \<Rightarrow> unit panel_step" where
  "activate e oid =
     with_db (activate_order (pe_now e) oid) (\<lambda>found w.
       (case found of
          None \<Rightarrow> (Inl TypeError, w)
        | Some ord \<Rightarrow>
            (case lookup r_id (o_reseller_id ord) (resellers (pn_db w)) of
               None \<Rightarrow> (Inl TypeError, w)
             | Some r \<Rightarrow>
                 let w1 = (case lookup c_id (o_customer_id ord) (customers (pn_db w)) of
                             None \<Rightarrow> w
                           | Some c \<Rightarrow> tell (c_telegram_user_id c)
                                         (EndOfOrder (non_empty (end_order_message r))) w)
                 in returns (post (InOrders (OrderActivated (order_code ord))) None w1))))"

definition notify_customer_wallet_topup_confirmed :: "nat \<Rightarrow> panel \<Rightarrow> panel" where
  "notify_customer_wallet_topup_confirmed tid w =
     (case lookup tu_id tid (customer_wallet_topups (pn_db w)) of
        None \<Rightarrow> w
      | Some t \<Rightarrow>
          (case lookup c_id (tu_customer_id t) (customers (pn_db w)) of
             None \<Rightarrow> w
           | Some c \<Rightarrow> tell (c_telegram_user_id c)
               (WalletCharged (shown_price (tu_amount t)) (shown_price (wallet_balance c))) w))"

text \<open>\<^verbatim>\<open>services/notifications.py\<close>: the owner is told when his row is found, the super admin always.\<close>

definition notify_reseller_wallet_topup_insufficient_credit :: "nat \<Rightarrow> nat \<Rightarrow> panel \<Rightarrow> panel" where
  "notify_reseller_wallet_topup_insufficient_credit rid tid w =
     (case lookup r_id rid (resellers (pn_db w)) of
        None \<Rightarrow> w
      | Some r \<Rightarrow> tell (telegram_numeric_id r) (CommissionNotTaken tid) w)"

definition notify_super_admin_wallet_topup_insufficient_credit :: "nat \<Rightarrow> nat \<Rightarrow> panel \<Rightarrow> panel" where
  "notify_super_admin_wallet_topup_insufficient_credit rid tid = show_message (ToldAdmin rid tid)"

definition confirm_wallet_topup :: "panel_env \<Rightarrow> nat \<Rightarrow> unit panel_step" where
  "confirm_wallet_topup e tid w =
     (case in_db (confirm_customer_topup (pe_now e) tid) w of
        (Inl (ValueError reason), w1) \<Rightarrow> returns (alert (TopupProblem reason) w1)
      | (Inl (WalletTopupInsufficientCreditError i rid), w1) \<Rightarrow>
          returns (post (InOrders TopupConfirmedCreditLow) None
            (notify_customer_wallet_topup_confirmed tid
              (notify_super_admin_wallet_topup_insufficient_credit rid i
                (notify_reseller_wallet_topup_insufficient_credit rid i w1))))
      | (Inl x, w1) \<Rightarrow> (Inl x, w1)
      | (Inr _, w1) \<Rightarrow>
          returns (post (InOrders TopupConfirmedText) None
            (notify_customer_wallet_topup_confirmed tid w1)))"

definition reject_wallet_topup :: "nat \<Rightarrow> unit panel_step" where
  "reject_wallet_topup tid w =
     returns (post (InOrders TopupRejectedText) None (change_db (reject_customer_topup tid) w))"

definition open_dispute :: "nat \<Rightarrow> unit panel_step" where
  "open_dispute oid w =
     returns (post (InOrders AskDisputeReason) None (enter EnteringDisputeReason
       (remember (\<lambda>pd. pd\<lparr>pd_dispute_order_id := Some oid\<rparr>) w)))"

text \<open>
  The reason is the text of the message as it is. Without a text the row of the dispute is
  refused (\<^verbatim>\<open>reason TEXT NOT NULL\<close>) after the status of the order was written.
\<close>

definition create_dispute_of_text :: "nat \<Rightarrow> nat \<Rightarrow> string option \<Rightarrow> db \<Rightarrow> (db, nat) outcome" where
  "create_dispute_of_text oid rid t d =
     (case t of
        Some reason \<Rightarrow> create_dispute oid rid reason d
      | None \<Rightarrow> (Inl IntegrityError, upd_order oid (\<lambda>r. r\<lparr>o_status := RefundPending\<rparr>) d))"

definition receive_dispute_reason :: "string option \<Rightarrow> unit panel_step" where
  "receive_dispute_reason t =
     with_key pd_dispute_order_id (\<lambda>oid w.
       (case lookup o_id oid (orders (pn_db w)) of
          None \<Rightarrow> (Inl TypeError, w)
        | Some ord \<Rightarrow>
            with_db (create_dispute_of_text oid (o_reseller_id ord) t) (\<lambda>_ w1.
              returns (leave (post (InOrders DisputeSent) None w1))) w))"

end
