(* ===== verification/PanelReports.thy ===== *)
theory PanelReports
  imports PanelOrders Reports
begin

text \<open>
  The handlers of \<^verbatim>\<open>handlers/reseller/reports.py\<close> and \<^verbatim>\<open>handlers/reseller/stats.py\<close>: the report of
  the last thirty days, the same as an Excel sheet, and the statistics of the customers.
\<close>

definition show_report_cb :: "panel_env \<Rightarrow> unit panel_step" where
  "show_report_cb e w =
     (let s = reseller_sales_summary (pe_now e) (pe_reseller e) 30 (pn_db w)
      in returns (edit_text (InReports (SalesReport (order_count s) (shown_price (total_sales s))
             (shown_price (total_cost s)) (shown_price (total_commission_paid s)) (shown_price (real_profit s))))
           (Some reports_submenu) w))"

definition export_excel_cb :: "panel_env \<Rightarrow> unit panel_step" where
  "export_excel_cb e w =
     (let s = reseller_sales_summary (pe_now e) (pe_reseller e) 30 (pn_db w)
      in if report_orders s = []
         then returns (post (InReports NothingToReport) (Some back_to_reseller_menu_button) w)
         else returns (post (InReports (ExcelSheet (build_excel_report (report_orders s))))
                (Some back_to_reseller_menu_button) w))"

text \<open>\<^verbatim>\<open>{:.1f}\<close> of the share of customers who came back: tenths of a percent, half to even.\<close>

definition show_stats_cb :: "panel_env \<Rightarrow> unit panel_step" where
  "show_stats_cb e w =
     (let d = pn_db w; again = repeat_customer_rate (pe_reseller e) d;
          avg_value = average_order_value (pe_reseller e) d; top = top_customers (pe_reseller e) 10 d
      in returns (edit_text (InReports (CustomerStats (total_customers again) (repeat_customers again)
             (quantize1 (10 * repeat_rate_percent again)) (quantize1 avg_value)
             (map (\<lambda>(user, n, total). (user, n, shown_price total)) top)))
           (Some back_to_reseller_menu_button) w))"

end
