(* ===== verification/PanelBot.thy ===== *)
theory PanelBot
  imports PanelReports
begin

text \<open>
  Which handler of the panel serves a button or a text: the routers of
  \<^verbatim>\<open>handlers/reseller/__init__.py\<close> in their order, the middleware before the buttons of orders,
  and the commands of \<^verbatim>\<open>handlers/reseller/start.py\<close>, which only the owner reaches.
\<close>

section \<open>Buttons\<close>

fun press_menu :: "panel_env \<Rightarrow> menu_button \<Rightarrow> unit panel_step" where
  "press_menu e RmenuHome = back_home"
| "press_menu e RmenuOrders = list_pending_orders_cb e"
| "press_menu e RmenuCatalog = catalog_type_menu_cb"
| "press_menu e RmenuChargeStock = charge_stock_menu_cb"
| "press_menu e RmenuWallet = wallet_menu e"
| "press_menu e WalletTopupCard = start_topup_card"
| "press_menu e WalletTopupZarinpal = start_topup_zarinpal"
| "press_menu e WalletTopupCrypto = show_crypto_options"
| "press_menu e RmenuSettings = settings_menu e"
| "press_menu e ReferralPercent = start_referral_percent"
| "press_menu e AddChannel = start_add_channel"
| "press_menu e AddDiscount = start_add_discount"
| "press_menu e SetSupportContact = start_set_support_contact"
| "press_menu e RmenuPaymentMethods = payment_methods_menu"
| "press_menu e PmListCards = list_cards_cb e"
| "press_menu e PmAddCard = start_add_card"
| "press_menu e PmSetZarinpal = show_zarinpal e"
| "press_menu e RmenuReports = show_report_cb e"
| "press_menu e ReportsExcel = export_excel_cb e"
| "press_menu e RmenuStats = show_stats_cb e"

fun press_id :: "panel_env \<Rightarrow> id_button \<Rightarrow> nat \<Rightarrow> unit panel_step" where
  "press_id e ApproveReceiptButton i = approve_receipt e i"
| "press_id e RejectReceiptButton i = reject_receipt i"
| "press_id e ActivateOrderButton i = activate e i"
| "press_id e ConfirmTopupButton i = confirm_wallet_topup e i"
| "press_id e RejectTopupButton i = reject_wallet_topup i"
| "press_id e OpenDisputeButton i = open_dispute i"
| "press_id e CstockClearall i = clear_all_codes i"
| "press_id e PmToggleCard i = toggle_card_cb e i"
| "press_id e PmRemoveCard i = remove_card_cb e i"

fun press_kind :: "panel_env \<Rightarrow> kind_button \<Rightarrow> catalog_type \<Rightarrow> unit panel_step" where
  "press_kind e CatalogMenu kind = catalog_menu kind"
| "press_kind e CatalogView kind = view_catalog e kind"
| "press_kind e AddOperatorButton kind = start_add_operator kind"
| "press_kind e AddSubcategoryButton kind = start_add_subcategory e kind"
| "press_kind e AddPackageButton kind = start_add_package e kind"
| "press_kind e CatalogManage kind = manage_operators_cb e kind"

fun press_item :: "panel_env \<Rightarrow> item_button \<Rightarrow> catalog_type \<Rightarrow> nat \<Rightarrow> unit panel_step" where
  "press_item e PickOperatorForSub kind i = pick_operator_for_sub kind i"
| "press_item e PickOperatorForPkg kind i = pick_operator_for_pkg kind i"
| "press_item e PickCategory kind i = pick_category kind i"
| "press_item e ManageOp kind i = manage_operator_detail_cb kind i"
| "press_item e ManageSub kind i = manage_subcategory_detail_cb kind i"
| "press_item e ManagePkg kind i = manage_package_detail_cb kind i"
| "press_item e EditOpName kind i = start_edit_operator_name kind i"
| "press_item e EditSubTitle kind i = start_edit_subcategory_title kind i"
| "press_item e EditPkgName kind i = start_edit_package_name kind i"
| "press_item e EditPkgPrice kind i = start_edit_package_price kind i"
| "press_item e EditPkgCost kind i = start_edit_package_cost kind i"
| "press_item e TogglePkg kind i = toggle_package_active kind i"
| "press_item e DelOp kind i = confirm_delete_operator kind i"
| "press_item e DelOpYes kind i = delete_operator_confirmed e kind i"
| "press_item e DelOpNo kind i = delete_operator_cancelled kind i"
| "press_item e DelSub kind i = confirm_delete_subcategory kind i"
| "press_item e DelSubYes kind i = delete_subcategory_confirmed kind i"
| "press_item e DelSubNo kind i = delete_subcategory_cancelled kind i"
| "press_item e DelPkg kind i = confirm_delete_package kind i"
| "press_item e DelPkgYes kind i = delete_package_confirmed kind i"
| "press_item e DelPkgNo kind i = delete_package_cancelled kind i"

fun press_token :: "token_button \<Rightarrow> string \<Rightarrow> unit panel_step" where
  "press_token PriceConfirm token = confirm_suspicious_price token"
| "press_token PriceEdit token = edit_suspicious_price token"
| "press_token PkgeditPriceConfirm token = confirm_edit_suspicious_price token"
| "press_token PkgeditPriceEdit token = edit_again_suspicious_price token"

fun press_stock :: "stock_button \<Rightarrow> stock_action \<Rightarrow> nat \<Rightarrow> unit panel_step" where
  "press_stock CstockOp action i = pick_category_for_action action i"
| "press_stock CstockCat action i = pick_product_for_action action i"
| "press_stock CstockProd action i = act_on_product action i"

fun handle_callback :: "panel_env \<Rightarrow> callback \<Rightarrow> unit panel_step" where
  "handle_callback e (Menu b) = press_menu e b"
| "handle_callback e (OnId b i) = press_id e b i"
| "handle_callback e (OnKind b kind) = press_kind e b kind"
| "handle_callback e (OnItem b kind i) = press_item e b kind i"
| "handle_callback e (WithToken b token) = press_token b token"
| "handle_callback e (CstockPick action) = pick_operator_for_action e action"
| "handle_callback e (OnStock b action i) = press_stock b action i"
| "handle_callback e (CstockDelcode i pid) = delete_single_code i pid"
| "handle_callback e (ReferralSet on) = toggle_referral e on"

text \<open>The handlers of the router of orders, which run behind the middleware.\<close>

fun guarded_button :: "callback \<Rightarrow> bool" where
  "guarded_button (Menu b) = (b = RmenuOrders)"
| "guarded_button (OnId b i) = (b \<in> {ApproveReceiptButton, RejectReceiptButton, ActivateOrderButton,
     ConfirmTopupButton, RejectTopupButton, OpenDisputeButton})"
| "guarded_button _ = False"

definition press_button :: "panel_env \<Rightarrow> int \<Rightarrow> callback \<Rightarrow> unit panel_step" where
  "press_button e user cb w =
     (if guarded_button cb \<and> \<not> may_act (pe_reseller e) user (pn_db w)
      then returns (alert NotPermitted w)
      else handle_callback e cb w)"

section \<open>Texts\<close>

text \<open>The handler of a state.\<close>

fun receive_in :: "panel_state \<Rightarrow> panel_env \<Rightarrow> string option \<Rightarrow> unit panel_step" where
  "receive_in EnteringDisputeReason e t = receive_dispute_reason t"
| "receive_in EnteringOperatorName e t = receive_operator_name_and_save e t"
| "receive_in EnteringSubcategoryTitle e t = receive_subcategory_title_and_save e t"
| "receive_in EnteringName e t = receive_package_name t"
| "receive_in EnteringPrice e t = receive_price e t"
| "receive_in EnteringCostPrice e t = receive_cost_price_and_save e t"
| "receive_in EditingOperatorName e t = save_operator_name_edit t"
| "receive_in EditingSubcategoryTitle e t = save_subcategory_title_edit t"
| "receive_in EditingPackageName e t = save_package_name_edit t"
| "receive_in EditingPackagePrice e t = receive_package_price_edit e t"
| "receive_in EditingPackageCostPrice e t = save_package_cost_edit t"
| "receive_in EnteringCodes e t = receive_charge_codes e t"
| "receive_in EnteringTopupAmount e t = receive_card_topup_amount e t"
| "receive_in EnteringZarinpalAmount e t = receive_zarinpal_amount e t"
| "receive_in EnteringCoin e t = receive_crypto_coin t"
| "receive_in EnteringTxHash e t = receive_crypto_tx_hash t"
| "receive_in EnteringCryptoAmount e t = receive_crypto_amount_and_save e t"
| "receive_in EnteringReferralPercent e t = receive_referral_percent e t"
| "receive_in EnteringChannelId e t = receive_channel_id e t"
| "receive_in EnteringDiscountCode e t = receive_discount_code t"
| "receive_in EnteringDiscountPercent e t = receive_discount_percent t"
| "receive_in EnteringDiscountUsageLimit e t = receive_discount_usage_limit_and_save e t"
| "receive_in EnteringSupportContact e t = receive_support_contact e t"
| "receive_in EnteringCardNumber e t = receive_card_number t"
| "receive_in EnteringCardHolder e t = receive_card_holder t"
| "receive_in EnteringBankName e t = receive_bank_name_and_save e t"
| "receive_in EnteringZarinpalMerchant e t = receive_zarinpal_merchant e t"
| "receive_in ConfirmingSuspiciousPrice e t = returns"
| "receive_in ConfirmingSuspiciousEditPrice e t = returns"

text \<open>
  The two states that wait for a button have no handler for texts. \<open>None\<close> means that no handler
  of the panel takes the message; it goes on to the routers of operators and customers.
\<close>

definition receive_message :: "panel_env \<Rightarrow> int \<Rightarrow> string option \<Rightarrow> panel \<Rightarrow> (panel, unit) outcome option" where
  "receive_message e user t w =
     (let owner = is_reseller_owner user (pe_reseller e) (pn_db w)
      in if owner \<and> (case t of None \<Rightarrow> False | Some s \<Rightarrow> begins_with ''/start'' s)
         then Some (returns (post (InCatalog PanelWelcome) (Some reseller_main_menu) w))
         else if owner \<and> t = Some ''/cancel''
         then Some (if pn_state w = None then returns (post (InCatalog NothingToCancel) None w)
                    else returns (post (InCatalog ProcessCancelled) (Some reseller_main_menu) (leave w)))
         else (case pn_state w of
                 None \<Rightarrow> None
               | Some s \<Rightarrow>
                   if s \<in> {ConfirmingSuspiciousPrice, ConfirmingSuspiciousEditPrice} then None
                   else Some (receive_in s e t w)))"

end
