(* ===== verification/PanelKeys.thy ===== *)
theory PanelKeys
  imports PanelBot
begin

text \<open>
  Every handler of a dialog reads what an earlier handler wrote under its key
  (\<^verbatim>\<open>data["package_name"]\<close>), and raises when the key is missing. The theory gives the keys that each
  state needs and shows that every handler of the panel keeps the state and the data in step and misses no
  key, as long as the buttons under a question about a suspicious price are pressed in the dialog that
  asked it. \<open>ShopBot\<close> concludes from it for all chats.
\<close>

section \<open>The keys of a state\<close>

definition present :: "'a option \<Rightarrow> bool" where
  "present x \<longleftrightarrow> x \<noteq> None"

fun keys_of :: "panel_state \<Rightarrow> panel_data \<Rightarrow> bool" where
  "keys_of EnteringSubcategoryTitle pd = (present (pd_operator_name pd) \<and> present (pd_parent_operator_id pd))"
| "keys_of EnteringName pd = (present (pd_category_id pd) \<and> present (pd_operator_name pd))"
| "keys_of EnteringPrice pd =
     (present (pd_category_id pd) \<and> present (pd_operator_name pd) \<and> present (pd_package_name pd))"
| "keys_of ConfirmingSuspiciousPrice pd =
     (present (pd_category_id pd) \<and> present (pd_operator_name pd) \<and> present (pd_package_name pd))"
| "keys_of EnteringCostPrice pd =
     (present (pd_category_id pd) \<and> present (pd_package_name pd) \<and> present (pd_sale_price pd))"
| "keys_of EditingOperatorName pd = (present (pd_catalog_type pd) \<and> present (pd_operator_id pd))"
| "keys_of EditingSubcategoryTitle pd = (present (pd_catalog_type pd) \<and> present (pd_subcategory_id pd))"
| "keys_of EditingPackageName pd = (present (pd_catalog_type pd) \<and> present (pd_package_id pd))"
| "keys_of EditingPackagePrice pd = (present (pd_catalog_type pd) \<and> present (pd_package_id pd))"
| "keys_of ConfirmingSuspiciousEditPrice pd = (present (pd_catalog_type pd) \<and> present (pd_package_id pd))"
| "keys_of EditingPackageCostPrice pd = (present (pd_catalog_type pd) \<and> present (pd_package_id pd))"
| "keys_of EnteringDisputeReason pd = present (pd_dispute_order_id pd)"
| "keys_of EnteringCryptoAmount pd = (present (pd_coin_name pd) \<and> present (pd_tx_hash pd))"
| "keys_of EnteringTxHash pd = present (pd_coin_name pd)"
| "keys_of EnteringCardHolder pd = present (pd_card_number pd)"
| "keys_of EnteringBankName pd = (present (pd_card_number pd) \<and> present (pd_card_holder_name pd))"
| "keys_of EnteringDiscountPercent pd = present (pd_code pd)"
| "keys_of EnteringDiscountUsageLimit pd = (present (pd_code pd) \<and> present (pd_percent pd))"
| "keys_of _ pd = True"

definition prices_ok :: "panel \<Rightarrow> bool" where
  "prices_ok w \<longleftrightarrow> list_all (\<lambda>(token, pd). present (pd_sale_price pd)) (pn_prices w)"

definition dialog_ok :: "panel \<Rightarrow> bool" where
  "dialog_ok w \<longleftrightarrow>
     (case pn_state w of None \<Rightarrow> True | Some s \<Rightarrow> keys_of s (pn_data w)) \<and> prices_ok w"

text \<open>A step that keeps the dialog in order and does not miss a key.\<close>

definition keeps :: "(panel, unit) outcome \<Rightarrow> bool" where
  "keeps run \<longleftrightarrow> dialog_ok (snd run) \<and> fst run \<noteq> Inl KeyError"

lemma keeps_Inr [simp]: "keeps (returns w) = dialog_ok w"
  by (simp add: keeps_def returns_def)

lemma keeps_Inl [simp]: "keeps (Inl x, w) = (dialog_ok w \<and> x \<noteq> KeyError)"
  by (simp add: keeps_def)

lemma present_Some [simp]: "present (Some x)" "\<not> present None"
  by (simp_all add: present_def)

lemma panel_data_shown [simp]:
  "pn_data (post r k w) = pn_data w" "pn_data (edit_text r k w) = pn_data w" "pn_data (alert a w) = pn_data w"
  "pn_data (change_db f w) = pn_data w" "pn_data (tell u n w) = pn_data w"
  "pn_data (show_message m w) = pn_data w" "pn_data (enter s w) = pn_data w"
  "pn_data (remember g w) = g (pn_data w)"
  by (simp_all add: panel_defs tell_def)

lemma panel_state_shown [simp]:
  "pn_state (post r k w) = pn_state w" "pn_state (edit_text r k w) = pn_state w" "pn_state (alert a w) = pn_state w"
  "pn_state (change_db f w) = pn_state w" "pn_state (tell u n w) = pn_state w"
  "pn_state (show_message m w) = pn_state w"
  by (simp_all add: panel_defs tell_def)

lemma prices_shown [simp]:
  "prices_ok (post r k w) = prices_ok w" "prices_ok (edit_text r k w) = prices_ok w"
  "prices_ok (alert a w) = prices_ok w" "prices_ok (tell u n w) = prices_ok w"
  "prices_ok (show_message m w) = prices_ok w" "prices_ok (change_db f w) = prices_ok w"
  "prices_ok (w\<lparr>pn_db := d\<rparr>) = prices_ok w" "prices_ok (w\<lparr>pn_price_edits := x\<rparr>) = prices_ok w"
  "prices_ok (enter s w) = prices_ok w" "prices_ok (remember g w) = prices_ok w"
  "prices_ok (leave w) = prices_ok w"
  by (simp_all add: prices_ok_def panel_defs tell_def)

lemma dialog_shown [simp]:
  "dialog_ok (post r k w) = dialog_ok w" "dialog_ok (edit_text r k w) = dialog_ok w"
  "dialog_ok (alert a w) = dialog_ok w" "dialog_ok (tell u n w) = dialog_ok w"
  "dialog_ok (show_message m w) = dialog_ok w" "dialog_ok (change_db f w) = dialog_ok w"
  "dialog_ok (w\<lparr>pn_db := d\<rparr>) = dialog_ok w" "dialog_ok (w\<lparr>pn_price_edits := x\<rparr>) = dialog_ok w"
  by (simp_all add: dialog_ok_def split: option.split)

lemma dialog_enter [simp]: "dialog_ok (enter s w) \<longleftrightarrow> keys_of s (pn_data w) \<and> prices_ok w"
  by (simp add: dialog_ok_def) (simp add: enter_def)

lemma dialog_leave [simp]: "dialog_ok (leave w) = prices_ok w"
  by (simp add: dialog_ok_def) (simp add: leave_def)

lemma dialog_prices [simp]: "dialog_ok w \<Longrightarrow> prices_ok w"
  by (simp add: dialog_ok_def)

lemma fold_post_ok: "(\<And>x w. dialog_ok (f x w) = dialog_ok w) \<Longrightarrow> dialog_ok (fold f xs w) = dialog_ok w"
  by (induction xs arbitrary: w) simp_all

text \<open>What holds of the parts of a handler holds of the handler.\<close>

lemma keeps_with_text: "(\<And>s. t = Some s \<Longrightarrow> keeps (f (strip s) w)) \<Longrightarrow> dialog_ok w \<Longrightarrow> keeps (with_text t f w)"
  by (cases t) (simp_all add: with_text_def)

lemma keeps_with_number:
  "dialog_ok w \<Longrightarrow> (\<And>v. keeps (f v w)) \<Longrightarrow> keeps (with_number t f w)"
  by (cases "read_number t") (simp_all add: with_number_def)

lemma keeps_with_percent:
  "dialog_ok w \<Longrightarrow> (\<And>v. keeps (f v w)) \<Longrightarrow> keeps (with_percent t f w)"
  by (simp add: with_percent_def with_text_def split: option.split)

lemma keeps_with_key:
  "present (key (pn_data w)) \<Longrightarrow> (\<And>x. key (pn_data w) = Some x \<Longrightarrow> keeps (f x w)) \<Longrightarrow> keeps (with_key key f w)"
  by (auto simp: with_key_def present_def)

definition no_key_error :: "(db \<Rightarrow> (db, 'a) outcome) \<Rightarrow> bool" where
  "no_key_error f \<longleftrightarrow> (\<forall>d. fst (f d) \<noteq> Inl KeyError)"

lemma keeps_with_db:
  assumes "dialog_ok w" and "no_key_error f"
    and "\<And>y d. f (pn_db w) = (Inr y, d) \<Longrightarrow> keeps (g y (w\<lparr>pn_db := d\<rparr>))"
  shows "keeps (with_db f g w)"
  using assms
  by (cases "f (pn_db w)"; cases "fst (f (pn_db w))")
    (auto simp: with_db_def in_db_def no_key_error_def, metis fst_conv)

lemma no_key_errors:
  "no_key_error (add_operator_folder rid kind name)"
  "no_key_error (add_subfolder rid kind operator i title)"
  "no_key_error (add_package rid i name sale cost)"
  "no_key_error (set_sale_price i v)" "no_key_error (set_cost_price i v)"
  "no_key_error (request_topup_value rid v meth ref)"
  "no_key_error (request_crypto_topup rid coin tx_hash v)"
  "no_key_error (get_referral_settings rid)" "no_key_error (set_referral_enabled rid on)"
  "no_key_error (set_percent_value rid v)" "no_key_error (add_forced_channel rid ch setter)"
  "no_key_error (insert_discount_code rid code v limit)" "no_key_error (add_card rid number holder bank)"
  "no_key_error (activate_order now oid)"
  "no_key_error (create_dispute_of_text oid rid t)"
  by (auto simp: no_key_error_def add_operator_folder_def add_subfolder_def insert_category_def
      add_package_def insert_package_def set_sale_price_def set_cost_price_def request_topup_value_def
      request_topup_def request_crypto_topup_def Let_def transaction_def get_referral_settings_def
      set_referral_enabled_def set_percent_value_def set_referral_profit_percent_def
      add_forced_channel_def insert_discount_code_def add_card_def activate_order_def
      create_dispute_of_text_def create_dispute_def
      split: option.splits decimal_value.splits prod.splits sum.splits if_splits)

lemma no_key_error_codes: "no_key_error (add_charge_codes now rid pid s)"
proof -
  have "fst (insert_codes now rid pid cs d) \<noteq> Inl KeyError" for cs d
    by (induction cs arbitrary: d) (auto simp: insert_code_def split: prod.splits sum.splits)
  then show ?thesis
    by (auto simp: no_key_error_def add_charge_codes_def Let_def split: prod.splits sum.splits) (metis fst_conv)
qed

lemma settle_no_key_error:
  "settle_commission (deduct_commission_in_tx rid amount ref) f g d \<noteq> (Inl KeyError, d')"
  by (auto simp: settle_commission.simps Let_def deduct_commission_in_tx_def split: option.splits if_splits exn.splits prod.splits sum.splits)

lemma confirm_no_key_error: "fst (confirm_customer_topup now tid d) \<noteq> Inl KeyError"
proof -
  have tx: "confirm_customer_topup_tx now plan d \<noteq> (Inl KeyError, d')" for plan d d'
    by (auto simp: confirm_customer_topup_tx_def Let_def transaction_def settle_no_key_error
        split: prod.split sum.split)
  then show ?thesis
    by (auto simp: confirm_customer_topup_def confirm_customer_topup_checks_def confirm_customer_topup_commit_def
        split: option.split prod.split sum.split)
qed

lemmas keeping_intros = keeps_with_text keeps_with_number keeps_with_percent keeps_with_key keeps_with_db
  no_key_errors no_key_error_codes

text \<open>The dialogs with texts, one group of states after the other.\<close>

lemma keys_add_folder:
  assumes "dialog_ok w" and "keys_of s (pn_data w)" 
  shows "s = EnteringOperatorName \<Longrightarrow> keeps (receive_operator_name_and_save e t w)"
   and "s = EnteringSubcategoryTitle \<Longrightarrow> keeps (receive_subcategory_title_and_save e t w)"
   and "s = EnteringName \<Longrightarrow> keeps (receive_package_name t w)"
   and "s = EnteringCostPrice \<Longrightarrow> keeps (receive_cost_price_and_save e t w)"
  using assms
  by (auto simp: receive_operator_name_and_save_def receive_subcategory_title_and_save_def
      receive_package_name_def receive_cost_price_and_save_def Let_def intro!: keeping_intros)

lemma keys_answer:
  "present (pd_catalog_type (pn_data w)) \<Longrightarrow> prices_ok w \<Longrightarrow> keeps (answer_and_leave r w)"
  by (auto simp: answer_and_leave_def intro!: keeping_intros)

lemma keys_edits:
  assumes "dialog_ok w" and "keys_of s (pn_data w)"
  shows "s = EditingOperatorName \<Longrightarrow> keeps (save_operator_name_edit t w)"
   and "s = EditingSubcategoryTitle \<Longrightarrow> keeps (save_subcategory_title_edit t w)"
   and "s = EditingPackageName \<Longrightarrow> keeps (save_package_name_edit t w)"
   and "s = EditingPackageCostPrice \<Longrightarrow> keeps (save_package_cost_edit t w)"
  using assms
  by (auto simp: save_operator_name_edit_def save_subcategory_title_edit_def save_package_name_edit_def
      save_package_cost_edit_def intro!: keeping_intros keys_answer)

lemma price_suspicious_no_key: "price_suspicious operator v d \<noteq> Inl KeyError"
  by (simp add: price_suspicious_def split: option.split decimal_value.split)

lemma all_updated:
  "list_all (\<lambda>(k, v). P v) xs \<Longrightarrow> P v \<Longrightarrow> list_all (\<lambda>(k, v). P v) (AList.update k v xs)"
  by (induction xs) auto

lemma prices_ok_update [simp]:
  "prices_ok w \<Longrightarrow> present (pd_sale_price pd) \<Longrightarrow> prices_ok (w\<lparr>pn_prices := AList.update k pd (pn_prices w)\<rparr>)"
  by (simp add: prices_ok_def all_updated)

lemma prices_ok_delete [simp]:
  "prices_ok w \<Longrightarrow> prices_ok (w\<lparr>pn_prices := AList.delete k (pn_prices w)\<rparr>)"
  by (auto simp: prices_ok_def list_all_iff AList.delete_eq)

lemma keys_prices:
  assumes "dialog_ok w" and "keys_of s (pn_data w)"
  shows "s = EnteringPrice \<Longrightarrow> keeps (receive_price e t w)"
   and "s = EditingPackagePrice \<Longrightarrow> keeps (receive_package_price_edit e t w)"
  using assms
  by (auto simp: receive_price_def receive_package_price_edit_def ask_cost_price_def price_suspicious_no_key
      intro!: keeping_intros keys_answer split: sum.split)

lemma keys_settings:
  assumes "dialog_ok w" and "keys_of s (pn_data w)"
  shows "s = EnteringReferralPercent \<Longrightarrow> keeps (receive_referral_percent e t w)"
   and "s = EnteringChannelId \<Longrightarrow> keeps (receive_channel_id e t w)"
   and "s = EnteringDiscountCode \<Longrightarrow> keeps (receive_discount_code t w)"
   and "s = EnteringDiscountPercent \<Longrightarrow> keeps (receive_discount_percent t w)"
   and "s = EnteringDiscountUsageLimit \<Longrightarrow> keeps (receive_discount_usage_limit_and_save e t w)"
   and "s = EnteringSupportContact \<Longrightarrow> keeps (receive_support_contact e t w)"
  using assms
  by (auto simp: receive_referral_percent_def receive_channel_id_def receive_discount_code_def
      receive_discount_percent_def receive_discount_usage_limit_and_save_def receive_support_contact_def
      intro!: keeping_intros split: option.split)

lemma keys_payment:
  assumes "dialog_ok w" and "keys_of s (pn_data w)"
  shows "s = EnteringTopupAmount \<Longrightarrow> keeps (receive_card_topup_amount e t w)"
   and "s = EnteringZarinpalAmount \<Longrightarrow> keeps (receive_zarinpal_amount e t w)"
   and "s = EnteringCoin \<Longrightarrow> keeps (receive_crypto_coin t w)"
   and "s = EnteringTxHash \<Longrightarrow> keeps (receive_crypto_tx_hash t w)"
   and "s = EnteringCryptoAmount \<Longrightarrow> keeps (receive_crypto_amount_and_save e t w)"
   and "s = EnteringCardNumber \<Longrightarrow> keeps (receive_card_number t w)"
   and "s = EnteringCardHolder \<Longrightarrow> keeps (receive_card_holder t w)"
   and "s = EnteringBankName \<Longrightarrow> keeps (receive_bank_name_and_save e t w)"
   and "s = EnteringZarinpalMerchant \<Longrightarrow> keeps (receive_zarinpal_merchant e t w)"
  using assms
  by (auto simp: receive_card_topup_amount_def receive_zarinpal_amount_def receive_crypto_coin_def
      receive_crypto_tx_hash_def receive_crypto_amount_and_save_def receive_card_number_def
      receive_card_holder_def receive_bank_name_and_save_def receive_zarinpal_merchant_def Let_def
      intro!: keeping_intros split: option.split)

lemma keys_others:
  assumes "dialog_ok w" and "keys_of s (pn_data w)"
  shows "s = EnteringCodes \<Longrightarrow> keeps (receive_charge_codes e t w)"
   and "s = EnteringDisputeReason \<Longrightarrow> keeps (receive_dispute_reason t w)"
  using assms
  by (auto simp: receive_charge_codes_def receive_dispute_reason_def
      intro!: keeping_intros split: option.split)

lemma keys_texts:
  assumes "dialog_ok w" and "pn_state w = Some s"
  shows "keeps (receive_in s e t w)"
proof -
  have k: "keys_of s (pn_data w)" using assms by (simp add: dialog_ok_def)
  show ?thesis
    by (cases s) (simp_all add: assms(1) keys_add_folder [OF assms(1) k] keys_edits [OF assms(1) k]
      keys_prices [OF assms(1) k] keys_settings [OF assms(1) k] keys_payment [OF assms(1) k]
      keys_others [OF assms(1) k])
qed

lemma keys_message:
  "dialog_ok w \<Longrightarrow> receive_message e user t w = Some run \<Longrightarrow> keeps run"
  by (auto simp: receive_message_def Let_def keys_texts split: if_splits option.splits)

text \<open>Buttons.\<close>

lemma keys_rendered [simp]:
  "dialog_ok (render_manage_operators kind rid w) = dialog_ok w"
  "dialog_ok (render_operator_detail kind i w) = dialog_ok w"
  "dialog_ok (render_subcategory_detail kind i w) = dialog_ok w"
  "dialog_ok (render_package_detail kind i w) = dialog_ok w"
  by (simp_all add: render_manage_operators_def render_operator_detail_def render_subcategory_detail_def
      render_package_detail_def Let_def split: option.split)

lemma no_key_error_compose [intro]:
  "no_key_error f \<Longrightarrow> no_key_error (transaction f)"
  "no_key_error f \<Longrightarrow> no_key_error g \<Longrightarrow> no_key_error (and_then f g)"
  "no_key_error (delete_packages P)" "no_key_error (delete_categories Q)"
  by (auto simp: no_key_error_def transaction_def and_then_def delete_packages_def delete_categories_def Let_def
      split: prod.split sum.split) (metis fst_conv)+

lemma no_key_errors_deletion:
  "no_key_error (delete_operator_tree i)" "no_key_error (delete_subcategory_tree i)" "no_key_error (delete_package i)"
proof -
  have "no_key_error (\<lambda>d. let sub_ids = map cat_id (sub_folders i d);
            last_step = delete_categories (\<lambda>c. cat_id c = i)
        in if sub_ids = [] then last_step d
           else and_then (delete_packages (\<lambda>p. p_category_id p \<in> set sub_ids))
                  (and_then (delete_categories (\<lambda>c. cat_id c \<in> set sub_ids)) last_step) d)"
    using no_key_error_compose(2-4) by (simp add: no_key_error_def Let_def)
  then show "no_key_error (delete_operator_tree i)"
    unfolding delete_operator_tree_def by (rule no_key_error_compose)
  show "no_key_error (delete_subcategory_tree i)" "no_key_error (delete_package i)"
    unfolding delete_subcategory_tree_def delete_package_def by (intro no_key_error_compose)+
qed

lemma keeps_deleting:
  "no_key_error f \<Longrightarrow> dialog_ok w \<Longrightarrow> (\<And>w. dialog_ok w \<Longrightarrow> dialog_ok (refused w)) \<Longrightarrow>
   (\<And>w. dialog_ok w \<Longrightarrow> dialog_ok (g w)) \<Longrightarrow> keeps (deleting f refused g w)"
  apply (auto simp: deleting_def in_db_def no_key_error_def split: prod.split sum.split exn.split)
  by (metis fst_conv)

lemma keys_catalog_buttons:
  assumes "dialog_ok w"
  shows "keeps (press_kind e b1 kind w)" and "keeps (press_item e b2 kind i w)"
proof -
  show "keeps (press_kind e b1 kind w)"
    using assms by (cases b1) (auto simp: catalog_menu_def view_catalog_def start_add_operator_def
      start_add_subcategory_def start_add_package_def manage_operators_cb_def Let_def fold_post_ok)
  show "keeps (press_item e b2 kind i w)"
    using assms
    by (cases b2) (auto simp: pick_operator_for_sub_def pick_operator_for_pkg_def pick_category_def
      manage_operator_detail_cb_def manage_subcategory_detail_cb_def manage_package_detail_cb_def
      start_edit_operator_name_def start_edit_subcategory_title_def start_edit_package_name_def
      start_edit_package_price_def start_edit_package_cost_def start_package_dialog_def toggle_package_active_def
      confirm_delete_operator_def delete_operator_cancelled_def
      confirm_delete_subcategory_def delete_subcategory_cancelled_def
      confirm_delete_package_def delete_package_cancelled_def
      delete_operator_confirmed_def delete_subcategory_confirmed_def delete_package_confirmed_def Let_def
      intro!: keeps_deleting no_key_errors_deletion split: option.split prod.split)
qed

lemma keys_menu_buttons:
  assumes "dialog_ok w"
  shows "keeps (press_menu e b w)"
  using assms
  by (cases b) (auto simp: back_home_def list_pending_orders_cb_def catalog_type_menu_cb_def charge_stock_menu_cb_def
      wallet_menu_def start_topup_card_def start_topup_zarinpal_def show_crypto_options_def settings_menu_def
      start_referral_percent_def start_add_channel_def start_add_discount_def start_set_support_contact_def
      payment_methods_menu_def list_cards_cb_def start_add_card_def show_zarinpal_def
      show_report_cb_def export_excel_cb_def show_stats_cb_def Let_def fold_post_ok
      intro!: keeps_with_db no_key_errors split: option.split prod.split)

lemma keys_topup: "dialog_ok w \<Longrightarrow> keeps (confirm_wallet_topup e i w)"
  using confirm_no_key_error [of "pe_now e" i "pn_db w"]
  by (auto simp: confirm_wallet_topup_def in_db_def notify_customer_wallet_topup_confirmed_def
      notify_reseller_wallet_topup_insufficient_credit_def
      notify_super_admin_wallet_topup_insufficient_credit_def
      split: prod.split sum.split exn.split option.split)

lemma keys_id_buttons:
  assumes "dialog_ok w"
  shows "keeps (press_id e b i w)"
  using assms
  by (cases b) (auto simp: approve_receipt_def reject_receipt_def activate_def reject_wallet_topup_def open_dispute_def
      clear_all_codes_def toggle_card_cb_def remove_card_cb_def Let_def
      intro!: keeps_with_db no_key_errors keys_topup split: option.split prod.split)

lemma keys_stock_buttons:
  assumes "dialog_ok w"
  shows "keeps (press_stock b action i w)" and "keeps (pick_operator_for_action e action w)"
    and "keeps (delete_single_code i pid w)" and "keeps (toggle_referral e on w)"
proof -
  show "keeps (press_stock b action i w)"
    using assms by (cases b; cases action) (auto simp: pick_category_for_action_def pick_product_for_action_def
        act_on_product_def Let_def split: option.split)
  show "keeps (pick_operator_for_action e action w)" "keeps (delete_single_code i pid w)" "keeps (toggle_referral e on w)"
    using assms by (auto simp: pick_operator_for_action_def delete_single_code_def toggle_referral_def Let_def
        intro!: keeps_with_db no_key_errors split: option.split)
qed

text \<open>
  The buttons under a question about a suspicious price belong to the dialog that asked it.
\<close>

fun timely :: "callback \<Rightarrow> panel_state option \<Rightarrow> bool" where
  "timely (WithToken PriceConfirm token) s = (s = Some ConfirmingSuspiciousPrice)"
| "timely (WithToken PriceEdit token) s = (s = Some ConfirmingSuspiciousPrice)"
| "timely (WithToken PkgeditPriceEdit token) s = (s = Some ConfirmingSuspiciousEditPrice)"
| "timely _ s = True"

lemma map_of_prices: "prices_ok w \<Longrightarrow> map_of (pn_prices w) token = Some pd \<Longrightarrow> present (pd_sale_price pd)"
  by (auto simp: prices_ok_def list_all_iff dest: map_of_SomeD)

lemma dialog_keys: "dialog_ok w \<Longrightarrow> pn_state w = Some s \<Longrightarrow> keys_of s (pn_data w)"
  by (simp add: dialog_ok_def)

lemma keys_token_buttons:
  assumes "dialog_ok w" and "timely (WithToken b token) (pn_state w)"
  shows "keeps (press_token b token w)"
  using assms
  by (cases b) (auto simp: confirm_suspicious_price_def edit_suspicious_price_def
    confirm_edit_suspicious_price_def edit_again_suspicious_price_def ask_cost_price_def Let_def
    intro!: keeps_with_db no_key_errors dest: map_of_prices [OF dialog_prices] dialog_keys split: option.split)

lemma keys_buttons:
  assumes "dialog_ok w" and "timely cb (pn_state w)"
  shows "keeps (press_button e user cb w)"
  using assms keys_token_buttons [OF assms(1)]
  by (cases cb) (auto simp: press_button_def keys_catalog_buttons keys_menu_buttons keys_id_buttons
      keys_stock_buttons simp del: press_menu.simps press_id.simps press_kind.simps press_item.simps
      press_token.simps press_stock.simps)

section \<open>A panel to talk to\<close>

definition demo_panel_env :: panel_env where
  "demo_panel_env = \<lparr>pe_reseller = 1, pe_token = ''ab12cd34'', pe_now = 0, pe_payment_link = (\<lambda>n. None)\<rparr>"

definition demo_panel_db :: db where
  "demo_panel_db = demo_catalog_db\<lparr>resellers := \<lparr>trows = [demo_reseller], auto_inc = 2\<rparr>,
     category_price_floors := \<lparr>trows =
       [\<lparr>pf_id = 1, pf_operator_name = ''MCI'', min_sane_price = 1000000\<rparr>], auto_inc = 2\<rparr>\<rparr>"

definition demo_panel :: panel where
  "demo_panel = \<lparr>pn_db = demo_panel_db, pn_state = None, pn_data = empty_panel_data, pn_prices = [],
     pn_price_edits = [], pn_shown = []\<rparr>"

end
