(* ===== verification/PanelPrices.thy ===== *)
theory PanelPrices
  imports PanelKeys
begin

text \<open>
  What whole dialogs of the panel leave behind: a product that is added, and the confirmation of a
  price pressed in another dialog.
\<close>

section \<open>Dialogs as sequences of presses and texts\<close>

datatype panel_event = Press callback | Write string

text \<open>
  The turns of one dialog of the panel. In every state of these dialogs that is not waiting for a button
  the panel takes each plain text (\<open>plain_message\<close>); what it does not take goes on to the routers of the
  customers and is no turn of a dialog here: \<open>message_step\<close> of \<open>ShopBot\<close> follows it, and the prices that wait
  for a button are the subject of \<open>PriceWaits\<close>.
\<close>

fun panel_turn :: "panel_env \<Rightarrow> int \<Rightarrow> panel_event \<Rightarrow> panel \<Rightarrow> panel" where
  "panel_turn e user (Press cb) w = snd (press_button e user cb w)"
| "panel_turn e user (Write t) w =
     (case receive_message e user (Some t) w of None \<Rightarrow> w | Some run \<Rightarrow> snd run)"

definition panel_dialog :: "panel_env \<Rightarrow> int \<Rightarrow> panel_event list \<Rightarrow> panel \<Rightarrow> panel" where
  "panel_dialog e user = fold (panel_turn e user)"

lemma panel_dialog_simps [simp]:
  "panel_dialog e user [] w = w"
  "panel_dialog e user (ev # evs) w = panel_dialog e user evs (panel_turn e user ev w)"
  by (simp_all add: panel_dialog_def)

lemma panel_dialog_append:
  "panel_dialog e user (xs @ ys) w = panel_dialog e user ys (panel_dialog e user xs w)"
  by (simp add: panel_dialog_def)

definition plain_text :: "string \<Rightarrow> bool" where
  "plain_text t \<longleftrightarrow> \<not> begins_with ''/start'' t \<and> t \<noteq> ''/cancel''"

lemma plain_message:
  "plain_text t \<Longrightarrow> pn_state w = Some s \<Longrightarrow> s \<notin> {ConfirmingSuspiciousPrice, ConfirmingSuspiciousEditPrice} \<Longrightarrow>
   receive_message e user (Some t) w = Some (receive_in s e (Some t) w)"
  by (simp add: receive_message_def plain_text_def Let_def)

lemma read_number_strip: "read_number (Some t) = Number v \<Longrightarrow> with_number (Some t) f w = f v w"
  by (simp add: with_number_def)

lemma panel_frame [simp]:
  "pn_state (enter s w) = Some s" "pn_state (remember g w) = pn_state w" "pn_state (leave w) = None"
  "pn_data (leave w) = empty_panel_data"
  "pn_db (post r k w) = pn_db w" "pn_db (enter s w) = pn_db w" "pn_db (remember g w) = pn_db w"
  "pn_db (leave w) = pn_db w"
  "pn_prices (post r k w) = pn_prices w" "pn_prices (enter s w) = pn_prices w"
  "pn_prices (remember g w) = pn_prices w" "pn_prices (leave w) = pn_prices w"
  "pn_shown (post r k w) = pn_shown w @ [Posted r k]" "pn_shown (leave w) = pn_shown w"
  "pn_shown (enter s w) = pn_shown w" "pn_shown (remember g w) = pn_shown w"
  by (simp_all add: panel_defs)

section \<open>Adding a product\<close>

definition product_row :: "nat \<Rightarrow> nat \<Rightarrow> string \<Rightarrow> decimal \<Rightarrow> decimal \<Rightarrow> package" where
  "product_row rid cid name sale cost =
     \<lparr>p_id = 0, p_reseller_id = rid, p_category_id = cid, p_name = name, sale_price = store sale,
      cost_price = Some (store cost), p_is_active = True\<rparr>"

lemma picked_folder:
  assumes "lookup cat_id cid (categories (pn_db w)) = Some c"
  shows "panel_turn e user (Press (OnItem PickCategory kind cid)) w =
    post (InCatalog (AskPackageName kind)) None (enter EnteringName (remember (\<lambda>pd. pd\<lparr>pd_category_id := Some cid,
      pd_operator_name := Some (operator_name c), pd_catalog_type := Some kind\<rparr>) w))"
  using assms by (simp add: press_button_def pick_category_def folder_by_id_def returns_def)

lemma named_product:
  assumes "plain_text t" and "pn_state w = Some EnteringName"
  shows "panel_turn e user (Write t) w =
    post (InCatalog AskPrice) None (enter EnteringPrice (remember (\<lambda>pd. pd\<lparr>pd_package_name := Some (strip t)\<rparr>) w))"
  using assms by (simp add: plain_message receive_package_name_def with_text_def returns_def)

lemma priced_product:
  assumes "plain_text t" and "pn_state w = Some EnteringPrice" and "read_number (Some t) = Number v"
    and "pd_operator_name (pn_data w) = Some operator"
    and "price_suspicious operator v (pn_db w) = Inr suspicious"
  shows "panel_turn e user (Write t) w =
    (if suspicious
     then post (InCatalog (AskSuspicious (shown_value v))) (Some (sanity_check_confirm_buttons (pe_token e)))
       (enter ConfirmingSuspiciousPrice (w\<lparr>pn_prices :=
          AList.update (pe_token e) ((pn_data w)\<lparr>pd_sale_price := Some v\<rparr>) (pn_prices w)\<rparr>))
     else ask_cost_price v w)"
  using assms by (simp add: plain_message receive_price_def with_number_def with_key_def returns_def)

lemma confirmed_price:
  assumes "map_of (pn_prices w) token = Some pending" and "pd_sale_price pending = Some v"
  shows "panel_turn e user (Press (WithToken PriceConfirm token)) w =
    ask_cost_price v (w\<lparr>pn_prices := AList.delete token (pn_prices w)\<rparr>)"
  using assms by (simp add: press_button_def confirm_suspicious_price_def returns_def Let_def)

lemma costed_product:
  assumes "plain_text t" and "pn_state w = Some EnteringCostPrice" and "read_number (Some t) = Number (Finite y)"
    and "pd_category_id (pn_data w) = Some cid" and "pd_package_name (pn_data w) = Some name"
    and "pd_sale_price (pn_data w) = Some (Finite x)"
    and "lookup cat_id cid (categories (pn_db w)) \<noteq> None"
    and "lookup r_id (pe_reseller e) (resellers (pn_db w)) \<noteq> None"
  shows "panel_turn e user (Write t) w =
    leave (post (InCatalog (PackageSaved (catalog_type_or_package w)))
      (Some (catalog_submenu (catalog_type_or_package w)))
      (w\<lparr>pn_db := (pn_db w)\<lparr>packages :=
        insert_row package_with_id (product_row (pe_reseller e) cid name x y) (packages (pn_db w))\<rparr>\<rparr>))"
  using assms by (auto simp: plain_message receive_cost_price_and_save_def with_number_def with_key_def
      with_db_def in_db_def add_package_def insert_package_def stored_amount_def product_row_def returns_def Let_def)

text \<open>
  Property C26: the dialog that adds a product stores what was typed. A folder is picked, the name,
  the price and the cost price are written; a price below the floor of the operator asks for
  one more press and is stored only after it. Then the table of products has one new row with
  exactly these values, nothing else of the database has changed, and the dialog is over.
\<close>

theorem add_product_dialog:
  assumes "lookup cat_id cid (categories (pn_db w)) = Some c"
    and "lookup r_id (pe_reseller e) (resellers (pn_db w)) \<noteq> None"
    and "list_all plain_text [name, price, cost]"
    and "read_number (Some price) = Number (Finite x)" and "read_number (Some cost) = Number (Finite y)"
    and "price_suspicious (operator_name c) (Finite x) (pn_db w) = Inr suspicious"
  shows "let w' = panel_dialog e user
        ([Press (OnItem PickCategory kind cid), Write name, Write price]
         @ (if suspicious then [Press (WithToken PriceConfirm (pe_token e))] else []) @ [Write cost]) w
      in pn_state w' = None
       \<and> pn_db w' = (pn_db w)\<lparr>packages :=
           insert_row package_with_id (product_row (pe_reseller e) cid (strip name) x y) (packages (pn_db w))\<rparr>
       \<and> last (pn_shown w') = Posted (InCatalog (PackageSaved kind)) (Some (catalog_submenu kind))"
  using assms
  by (simp add: Let_def picked_folder named_product priced_product confirmed_price costed_product ask_cost_price_def
      catalog_type_or_package_def update_conv' del: panel_turn.simps)

lemma add_product_dialog_witness:
  "pn_db (panel_dialog demo_panel_env 700 [Press (OnItem PickCategory ChargeCatalog 2), Write ''Small'',
      Write ''500'', Press (WithToken PriceConfirm ''ab12cd34''), Write ''400''] demo_panel)
   = demo_panel_db\<lparr>packages := insert_row package_with_id
       (product_row 1 2 ''Small'' 500 400) (packages demo_panel_db)\<rparr>"
proof -
  have "lookup cat_id 2 (categories (pn_db demo_panel)) = Some (demo_folder 2 (Some 1))"
    "lookup r_id (pe_reseller demo_panel_env) (resellers (pn_db demo_panel)) \<noteq> None"
    "list_all plain_text [''Small'', ''500'', ''400'']"
    "read_number (Some ''500'') = Number (Finite 500)" "read_number (Some ''400'') = Number (Finite 400)"
    "price_suspicious (operator_name (demo_folder 2 (Some 1))) (Finite 500) (pn_db demo_panel) = Inr True"
    by code_simp+
  note run = add_product_dialog [OF this, of 700 ChargeCatalog]
  have "pe_token demo_panel_env = ''ab12cd34''" "pe_reseller demo_panel_env = 1" "pn_db demo_panel = demo_panel_db"
    "strip ''Small'' = ''Small''"
    by code_simp+
  with run show ?thesis by (simp only: Let_def if_True append.simps simp_thms)
qed

section \<open>A confirmation pressed elsewhere\<close>

text \<open>
  A confirmed price goes to whatever product the dialog holds when the button is
  pressed. The pending price remembers the product it was typed for, and the handler ignores it:
  pressed in the dialog of another product, the button gives that product the price, without the
  comparison with the floor of its operator.
\<close>

theorem price_confirmed_for_another_product:
  assumes "map_of (pn_prices w) token = Some pending" and "pd_sale_price pending = Some (Finite x)"
    and "pd_category_id (pn_data w) = Some cid" and "pd_package_name (pn_data w) = Some name"
    and "lookup cat_id cid (categories (pn_db w)) \<noteq> None"
    and "lookup r_id (pe_reseller e) (resellers (pn_db w)) \<noteq> None"
    and "plain_text cost" and "read_number (Some cost) = Number (Finite y)"
  shows "packages (pn_db (panel_dialog e user [Press (WithToken PriceConfirm token), Write cost] w))
    = insert_row package_with_id (product_row (pe_reseller e) cid name x y) (packages (pn_db w))"
  using assms by (simp add: confirmed_price costed_product ask_cost_price_def del: panel_turn.simps)

text \<open>The price of a small product was typed; then the dialog of a big one was opened and its name typed.\<close>

definition demo_pending :: panel_data where
  "demo_pending = empty_panel_data\<lparr>pd_category_id := Some 2, pd_operator_name := Some ''MCI'',
    pd_catalog_type := Some ChargeCatalog, pd_package_name := Some ''Small'', pd_sale_price := Some (Finite 500)\<rparr>"

definition demo_second :: panel where
  "demo_second = demo_panel\<lparr>pn_state := Some EnteringPrice, pn_prices := [(''ab12cd34'', demo_pending)],
     pn_data := empty_panel_data\<lparr>pd_category_id := Some 3, pd_operator_name := Some ''MCI'',
       pd_catalog_type := Some ChargeCatalog, pd_package_name := Some ''Big''\<rparr>\<rparr>"

lemma price_confirmed_for_another_product_witness:
  "packages (pn_db (panel_dialog demo_panel_env 700
     [Press (WithToken PriceConfirm ''ab12cd34''), Write ''400''] demo_second))
   = insert_row package_with_id (product_row 1 3 ''Big'' 500 400) (packages demo_panel_db)
   \<and> pd_package_name demo_pending = Some ''Small''"
proof -
  have p: "map_of (pn_prices demo_second) ''ab12cd34'' = Some demo_pending"
    "pd_sale_price demo_pending = Some (Finite 500)"
    "pd_category_id (pn_data demo_second) = Some 3" "pd_package_name (pn_data demo_second) = Some ''Big''"
    by (simp_all add: demo_second_def demo_pending_def)
  have "lookup cat_id 3 (categories (pn_db demo_second)) \<noteq> None"
    "lookup r_id (pe_reseller demo_panel_env) (resellers (pn_db demo_second)) \<noteq> None"
    "plain_text ''400''" "read_number (Some ''400'') = Number (Finite 400)"
    by code_simp+
  note run = price_confirmed_for_another_product [OF p this, of 700]
  have "pe_reseller demo_panel_env = 1" "pn_db demo_second = demo_panel_db" "pd_package_name demo_pending = Some ''Small''"
    by (simp_all add: demo_panel_env_def demo_second_def demo_panel_def demo_pending_def)
  with run show ?thesis by (simp only: simp_thms)
qed

text \<open>
  Pressed after the dialog was left, the same button leads into a dialog without
  product, and the cost price typed then raises \<^verbatim>\<open>KeyError\<close> and stores nothing; the state stays, so
  every further number raises again until the dialog is cancelled.
\<close>

theorem price_confirmed_after_cancel:
  assumes "map_of (pn_prices w) token = Some pending" and "pd_sale_price pending = Some v"
    and "pn_data w = empty_panel_data"
    and "plain_text cost" and "read_number (Some cost) = Number y"
  shows "let w1 = panel_turn e user (Press (WithToken PriceConfirm token)) w
      in receive_message e user (Some cost) w1 = Some (Inl KeyError, w1)"
  using assms
  by (simp add: confirmed_price ask_cost_price_def Let_def plain_message receive_cost_price_and_save_def
      with_number_def with_key_def del: panel_turn.simps)
    (simp add: empty_panel_data_def)

definition demo_left :: panel where
  "demo_left = demo_panel\<lparr>pn_prices := [(''ab12cd34'', demo_pending)]\<rparr>"

lemma price_confirmed_after_cancel_witness:
  "let w1 = panel_turn demo_panel_env 700 (Press (WithToken PriceConfirm ''ab12cd34'')) demo_left
   in receive_message demo_panel_env 700 (Some ''400'') w1 = Some (Inl KeyError, w1)"
proof (rule price_confirmed_after_cancel)
  show "map_of (pn_prices demo_left) ''ab12cd34'' = Some demo_pending"
    "pd_sale_price demo_pending = Some (Finite 500)" "pn_data demo_left = empty_panel_data"
    by (simp_all add: demo_left_def demo_pending_def demo_panel_def)
  show "plain_text ''400''" "read_number (Some ''400'') = Number (Finite 400)" by code_simp+
qed

section \<open>The other dialogs\<close>

text \<open>
  Whoever is not the owner cannot leave the dialog of a dispute. The command that
  cancels is handled for the owner only, so an operator's \<^verbatim>\<open>/cancel\<close> is taken as the reason and the
  dispute is filed.
\<close>

theorem cancel_of_operator_files_dispute:
  assumes "\<not> is_reseller_owner user (pe_reseller e) (pn_db w)"
    and "pn_state w = Some EnteringDisputeReason" and "pd_dispute_order_id (pn_data w) = Some oid"
    and "lookup o_id oid (orders (pn_db w)) = Some ord"
    and "lookup r_id (o_reseller_id ord) (resellers (pn_db w)) \<noteq> None"
  shows "let d' = pn_db (panel_turn e user (Write ''/cancel'') w)
      in disputes d' = insert_row dispute_with_id
          \<lparr>d_id = 0, d_order_id = oid, d_reseller_id = o_reseller_id ord, d_reason = ''/cancel'',
           d_review_status = ReviewPending, refunded_amount = None, reviewed_at = None\<rparr> (disputes (pn_db w))
       \<and> lookup o_id oid (orders d') = Some (ord\<lparr>o_status := RefundPending\<rparr>)"
  using assms
  by (auto simp: receive_message_def Let_def receive_dispute_reason_def with_key_def with_db_def in_db_def
      create_dispute_of_text_def create_dispute_def returns_def upd_order_def orders.lookup_update_id)

definition demo_dispute_dialog :: panel where
  "demo_dispute_dialog = demo_panel\<lparr>pn_db := demo_order_db\<lparr>orders := \<lparr>trows = [demo_order], auto_inc = 2\<rparr>\<rparr>,
     pn_state := Some EnteringDisputeReason, pn_data := empty_panel_data\<lparr>pd_dispute_order_id := Some 1\<rparr>\<rparr>"

lemma cancel_of_operator_files_dispute_witness:
  "map d_reason (trows (disputes (pn_db (panel_turn demo_panel_env 800 (Write ''/cancel'') demo_dispute_dialog))))
   = [''/cancel'']"
proof -
  have "\<not> is_reseller_owner 800 (pe_reseller demo_panel_env) (pn_db demo_dispute_dialog)"
    "pn_state demo_dispute_dialog = Some EnteringDisputeReason"
    "pd_dispute_order_id (pn_data demo_dispute_dialog) = Some 1"
    "lookup o_id 1 (orders (pn_db demo_dispute_dialog)) = Some demo_order"
    "lookup r_id (o_reseller_id demo_order) (resellers (pn_db demo_dispute_dialog)) \<noteq> None"
    by code_simp+
  note run = cancel_of_operator_files_dispute [OF this]
  have "trows (disputes (pn_db demo_dispute_dialog)) = []" by code_simp
  with run show ?thesis by (simp add: Let_def insert_row_def del: panel_turn.simps)
qed

text \<open>
  A real transaction hash does not fit. The reference of a crypto top-up is the name of
  the coin, a colon and the hash, and its column holds 64 characters; a hash of 64 characters (a
  transaction of Bitcoin or Tron) makes the insertion fail. The handler raises, nothing is
  stored, and the dialog waits for the amount again.
\<close>

theorem long_hash_is_refused:
  assumes "pn_state w = Some EnteringCryptoAmount" and "pd_coin_name (pn_data w) = Some coin"
    and "pd_tx_hash (pn_data w) = Some tx_hash" and "64 \<le> length coin + length tx_hash"
    and "plain_text t" and "read_number (Some t) = Number v"
  shows "receive_message e user (Some t) w = Some (Inl DatabaseError, w)"
  using assms by (simp add: plain_message receive_crypto_amount_and_save_def with_number_def with_key_def
      with_db_def in_db_def request_crypto_topup_def Let_def)

definition demo_paying :: panel where
  "demo_paying = demo_panel\<lparr>pn_state := Some EnteringCryptoAmount, pn_data := empty_panel_data\<lparr>pd_coin_name := Some ''BTC'',
     pd_tx_hash := Some (replicate 64 (CHR ''0''))\<rparr>\<rparr>"

lemma long_hash_is_refused_witness:
  "receive_message demo_panel_env 700 (Some ''500'') demo_paying = Some (Inl DatabaseError, demo_paying)"
proof (rule long_hash_is_refused)
  show "pn_state demo_paying = Some EnteringCryptoAmount" "pd_coin_name (pn_data demo_paying) = Some ''BTC''"
    "pd_tx_hash (pn_data demo_paying) = Some (replicate 64 (CHR ''0''))"
    by (simp_all add: demo_paying_def)
  show "64 \<le> length ''BTC'' + length (replicate 64 (CHR ''0''))" by simp
  show "plain_text ''500''" "read_number (Some ''500'') = Number (Finite 500)" by code_simp+
qed

end
