(* ===== verification/BotManager.thy ===== *)
theory BotManager
  imports Schema
begin

text \<open>
  The manager of the bots (\<^verbatim>\<open>core/bot_manager.py\<close>): one polling task per active reseller,
  synchronised with the database again and again. Starting a bot decrypts its token and
  talks to Telegram, so whether it succeeds is a parameter of the model.
\<close>

section \<open>State\<close>

text \<open>
  The dictionary \<^verbatim>\<open>_running\<close>, in insertion order: for each reseller whether its polling
  task is still alive. A task that ends by itself stays in the dictionary.
\<close>

type_synonym running = "(nat \<times> bool) list"

definition running_ids :: "running \<Rightarrow> nat set" where
  "running_ids run = fst ` set run"

section \<open>Operations\<close>

text \<open>
  \<open>starts row\<close>: decrypting the token, building the bot and setting its commands raise no
  exception.
\<close>

definition start_bot :: "(reseller \<Rightarrow> bool) \<Rightarrow> reseller \<Rightarrow> running \<Rightarrow> (running, unit) outcome" where
  "start_bot starts row run =
     (if r_id row \<in> running_ids run then (Inr (), run)
      else if \<not> starts row then (Inl RuntimeError, run)
      else (Inr (), run @ [(r_id row, True)]))"

definition stop_bot :: "nat \<Rightarrow> running \<Rightarrow> running" where
  "stop_bot rid run = filter (\<lambda>(i, alive). i \<noteq> rid) run"

text \<open>A polling task that fails is logged by \<^verbatim>\<open>_run\<close> and ends.\<close>

definition polling_ends :: "nat \<Rightarrow> running \<Rightarrow> running" where
  "polling_ends rid run = map (\<lambda>(i, alive). (i, alive \<and> i \<noteq> rid)) run"

fun start_new :: "(reseller \<Rightarrow> bool) \<Rightarrow> reseller list \<Rightarrow> running \<Rightarrow> (running, unit) outcome" where
  "start_new starts [] run = (Inr (), run)"
| "start_new starts (row # rows) run =
     (if r_id row \<notin> running_ids run
      then (case start_bot starts row run of
              (Inl e, run1) \<Rightarrow> (Inl e, run1)
            | (Inr _, run1) \<Rightarrow> start_new starts rows run1)
      else start_new starts rows run)"

fun stop_inactive :: "nat set \<Rightarrow> nat list \<Rightarrow> running \<Rightarrow> running" where
  "stop_inactive active [] run = run"
| "stop_inactive active (rid # rids) run =
     stop_inactive active rids (if rid \<notin> active then stop_bot rid run else run)"

definition sync_once :: "(reseller \<Rightarrow> bool) \<Rightarrow> db \<Rightarrow> running \<Rightarrow> (running, unit) outcome" where
  "sync_once starts d run =
     (let active_resellers = fetch_all (\<lambda>r. r_status r = ResellerActive) (resellers d);
          active_ids = r_id ` set active_resellers
      in case start_new starts active_resellers run of
           (Inl e, run1) \<Rightarrow> (Inl e, run1)
         | (Inr _, run1) \<Rightarrow> (Inr (), stop_inactive active_ids (map fst run1) run1))"

text \<open>
  One turn of \<^verbatim>\<open>run_forever\<close> catches every exception of \<open>sync_once\<close>; the loop over the states
  of the database that the turns see is a fold, so that a run of any length is covered.
\<close>

definition run_turn :: "(reseller \<Rightarrow> bool) \<Rightarrow> db \<Rightarrow> running \<Rightarrow> running" where
  "run_turn starts d run = snd (sync_once starts d run)"

definition shutdown :: "running \<Rightarrow> running" where
  "shutdown run = fold stop_bot (map fst run) run"

section \<open>Elementary facts\<close>

lemma running_stop [simp]: "running_ids (stop_bot rid run) = running_ids run - {rid}"
  by (auto simp: running_ids_def stop_bot_def)

lemma running_append [simp]: "running_ids (run @ [(i, b)]) = insert i (running_ids run)"
  by (auto simp: running_ids_def)

lemma running_stop_inactive:
  "running_ids (stop_inactive active rids run) = running_ids run - (set rids - active)"
  by (induction rids arbitrary: run) auto

lemma start_new_ok:
  "(\<And>row. row \<in> set rows \<Longrightarrow> starts row) \<Longrightarrow>
   fst (start_new starts rows run) = Inr () \<and>
   running_ids (snd (start_new starts rows run)) = running_ids run \<union> r_id ` set rows"
proof (induction rows arbitrary: run)
  case (Cons row rows)
  then show ?case
    by (cases "r_id row \<in> running_ids run") (auto simp: start_bot_def)
qed simp

text \<open>Bots that run keep their task through the start of others.\<close>

lemma start_new_keeps:
  "(i, b) \<in> set run \<Longrightarrow> (i, b) \<in> set (snd (start_new starts rows run))"
  by (induction rows arbitrary: run) (auto simp: start_bot_def)

lemma mem_stop [simp]: "(i, b) \<in> set (stop_bot rid run) \<longleftrightarrow> (i, b) \<in> set run \<and> i \<noteq> rid"
  by (auto simp: stop_bot_def)

lemma stop_inactive_keeps:
  "(i, b) \<in> set run \<Longrightarrow> i \<in> active \<Longrightarrow> (i, b) \<in> set (stop_inactive active rids run)"
proof (induction rids arbitrary: run)
  case (Cons a rids)
  then have "(i, b) \<in> set (if a \<notin> active then stop_bot a run else run)" by auto
  from Cons.IH [OF this Cons.prems(2)] show ?case by simp
qed simp

lemma start_new_exact:
  assumes "distinct (map r_id rows)"
  shows "start_new starts rows run =
    (let new = filter (\<lambda>r. r_id r \<notin> running_ids run) rows
     in (if list_all starts new then Inr () else Inl RuntimeError,
         run @ map (\<lambda>r. (r_id r, True)) (takeWhile starts new)))"
  using assms
proof (induction rows arbitrary: run)
  case (Cons row rows)
  have "filter (\<lambda>r. r_id r \<notin> running_ids (run @ [(r_id row, True)])) rows = filter (\<lambda>r. r_id r \<notin> running_ids run) rows"
    using Cons.prems by (intro filter_cong) (auto simp: image_iff dest: sym)
  with Cons.IH [of run] Cons.IH [of "run @ [(r_id row, True)]"] Cons.prems show ?case
    by (auto simp: start_bot_def Let_def)
qed simp

lemma stop_inactive_filter:
  "stop_inactive active rids run = filter (\<lambda>(i, alive). i \<in> set rids \<longrightarrow> i \<in> active) run"
  by (induction rids arbitrary: run) (auto simp: stop_bot_def intro!: filter_cong)

lemma stop_inactive_all: "stop_inactive active (map fst run) run = filter (\<lambda>(i, alive). i \<in> active) run"
  unfolding stop_inactive_filter by (intro filter_cong) force+

section \<open>Properties\<close>

text \<open>
  Property C15: one synchronisation, on every branch. The active resellers without an entry are started in the order
  of the table. When all of them start, the entries of resellers that are not active go, every other entry stays as it
  is, in its place (a task that has ended is not started again), and the new ones follow, one each. When one
  cannot be started, those before it run, and nothing behind it is started and no entry removed.
\<close>

theorem sync_once_spec:
  assumes "wf_table r_id (resellers d)"
  shows "sync_once starts d run =
    (let active = fetch_all (\<lambda>r. r_status r = ResellerActive) (resellers d);
         new = filter (\<lambda>r. r_id r \<notin> running_ids run) active;
         run1 = run @ map (\<lambda>r. (r_id r, True)) (takeWhile starts new)
     in if list_all starts new then (Inr (), filter (\<lambda>(i, alive). i \<in> r_id ` set active) run1)
        else (Inl RuntimeError, run1))"
proof -
  let ?active = "fetch_all (\<lambda>r. r_status r = ResellerActive) (resellers d)"
  have "distinct (map r_id ?active)"
    using assms by (simp add: wf_table_def fetch_all_def distinct_map_filter)
  then have "start_new starts ?active run =
    (let new = filter (\<lambda>r. r_id r \<notin> running_ids run) ?active
     in (if list_all starts new then Inr () else Inl RuntimeError,
         run @ map (\<lambda>r. (r_id r, True)) (takeWhile starts new)))"
    by (rule start_new_exact)
  then show ?thesis by (simp add: sync_once_def Let_def stop_inactive_all del: map_append filter_append)
qed

definition demo_bots_db :: db where
  "demo_bots_db = empty_db\<lparr>resellers := \<lparr>trows = map (\<lambda>(i, st).
     \<lparr>r_id = i, bot_token_encrypted = ''x'', bot_username = ''bot'', telegram_numeric_id = 700,
      commission_percent = 0, wallet_credit_balance = 0, credit_limit_negative = 0, r_status = st,
      order_prefix = ''A'', support_contact = None, zarinpal_merchant_id = None,
      end_order_message = None, test_mode_enabled = False, test_mode_order_limit = 0,
      test_mode_orders_used = 0\<rparr>)
     [(1, ResellerActive), (2, ResellerActive), (3, ResellerSuspended), (4, ResellerActive)],
     auto_inc = 5\<rparr>\<rparr>"

lemma sync_once_spec_witness:
  "sync_once (\<lambda>_. True) demo_bots_db [(3, True), (1, False)] = (Inr (), [(1, False), (2, True), (4, True)])
   \<and> sync_once (\<lambda>r. r_id r \<noteq> 2) demo_bots_db [(3, True)] = (Inl RuntimeError, [(3, True), (1, True)])"
proof -
  have wf: "wf_table r_id (resellers demo_bots_db)" by (simp add: wf_table_def demo_bots_db_def)
  show ?thesis
    by (simp add: sync_once_spec [OF wf] Let_def) (simp add: demo_bots_db_def fetch_all_def running_ids_def)
qed

lemma start_new_append:
  "start_new starts (pre @ rows) run =
     (case start_new starts pre run of
        (Inl e, run1) \<Rightarrow> (Inl e, run1)
      | (Inr _, run1) \<Rightarrow> start_new starts rows run1)"
  by (induction pre arbitrary: run) (auto simp: start_bot_def)

text \<open>
  One reseller whose bot cannot be started (a token that cannot be decrypted, an
  error from Telegram) stops the synchronisation: the resellers behind it in the list are
  not started, and no suspended bot is stopped, in this turn and in every later turn that
  sees the same failure.
\<close>

theorem failing_start_blocks_the_others:
  assumes "fetch_all (\<lambda>r. r_status r = ResellerActive) (resellers d) = pre @ row # post"
    and "\<And>r. r \<in> set pre \<Longrightarrow> starts r" and "\<not> starts row"
    and "r_id row \<notin> running_ids run \<union> r_id ` set pre"
  shows "fst (sync_once starts d run) = Inl RuntimeError
    \<and> running_ids (run_turn starts d run) = running_ids run \<union> r_id ` set pre
    \<and> running_ids ((run_turn starts d ^^ Suc n) run) = running_ids run \<union> r_id ` set pre"
proof -
  have turn: "fst (sync_once starts d q) = Inl RuntimeError
      \<and> running_ids (run_turn starts d q) = running_ids q \<union> r_id ` set pre"
    if "r_id row \<notin> running_ids q \<union> r_id ` set pre" for q
  proof -
    obtain q1 where q1: "start_new starts pre q = (Inr (), q1)"
        "running_ids q1 = running_ids q \<union> r_id ` set pre"
      using start_new_ok [of pre starts q] assms(2) by (cases "start_new starts pre q") auto
    with that assms(3) have "start_new starts (pre @ row # post) q = (Inl RuntimeError, q1)"
      by (simp add: start_new_append start_bot_def)
    with q1 show ?thesis
      by (simp add: run_turn_def sync_once_def Let_def assms(1))
  qed
  have "running_ids ((run_turn starts d ^^ Suc n) run) = running_ids run \<union> r_id ` set pre"
  proof (induction n)
    case 0
    show ?case using turn [OF assms(4)] by simp
  next
    case (Suc n)
    then have "r_id row \<notin> running_ids ((run_turn starts d ^^ Suc n) run) \<union> r_id ` set pre"
      using assms(4) by simp
    from turn [OF this] Suc show ?case by auto
  qed
  with turn [OF assms(4)] show ?thesis by blast
qed

lemma failing_start_blocks_the_others_witness:
  "running_ids ((run_turn (\<lambda>r. r_id r \<noteq> 2) demo_bots_db ^^ Suc 9) [(3, True)]) = {1, 3}"
proof -
  let ?rows = "fetch_all (\<lambda>r. r_status r = ResellerActive) (resellers demo_bots_db)"
  have rows: "?rows = [?rows ! 0] @ ?rows ! 1 # [?rows ! 2]" "r_id (?rows ! 0) = 1" "r_id (?rows ! 1) = 2"
    by (simp_all add: fetch_all_def demo_bots_db_def)
  show ?thesis
    using failing_start_blocks_the_others [OF rows(1), of "\<lambda>r. r_id r \<noteq> 2" "[(3, True)]" 9] rows(2,3)
    by (auto simp: running_ids_def)
qed

text \<open>
  A bot whose polling task has ended by itself is not started again. Its entry
  stays in the dictionary, so every later synchronisation takes it for running, as long as
  the reseller stays active; only suspending the reseller or restarting the service helps.
\<close>

theorem ended_polling_never_restarts:
  assumes "rid \<in> running_ids run"
    and "\<And>d. d \<in> set turns \<Longrightarrow> \<exists>r \<in> set (trows (resellers d)). r_id r = rid \<and> r_status r = ResellerActive"
  shows "(rid, False) \<in> set (fold (run_turn starts) turns (polling_ends rid run))"
proof -
  have dead: "(rid, False) \<in> set (polling_ends rid run)"
    using assms(1) by (force simp: running_ids_def polling_ends_def)
  have keep: "(rid, False) \<in> set (run_turn starts d q)"
    if "(rid, False) \<in> set q" "d \<in> set turns" for d q
  proof -
    let ?rows = "fetch_all (\<lambda>r. r_status r = ResellerActive) (resellers d)"
    have "rid \<in> r_id ` set ?rows" using assms(2) [OF that(2)] by (auto simp: fetch_all_def)
    then show ?thesis
      using start_new_keeps [OF that(1), of starts ?rows]
      by (auto simp: run_turn_def sync_once_def Let_def intro: stop_inactive_keeps split: prod.split sum.split)
  qed
  have "(rid, False) \<in> set (fold (run_turn starts) ds q)"
    if "set ds \<subseteq> set turns" "(rid, False) \<in> set q" for ds q
    using that by (induction ds arbitrary: q) (auto intro: keep)
  then show ?thesis using dead by blast
qed

lemma ended_polling_never_restarts_witness:
  "(1, False) \<in> set (fold (run_turn (\<lambda>_. True)) [demo_bots_db, demo_bots_db]
     (polling_ends 1 [(1, True), (2, True)]))"
  using ended_polling_never_restarts [of 1 "[(1, True), (2, True)]" "[demo_bots_db, demo_bots_db]" "\<lambda>_. True"]
  by (simp add: running_ids_def demo_bots_db_def)

text \<open>
  The shutdown stops every bot, whether its task is alive or not.
\<close>

theorem shutdown_stops_all: "shutdown run = []"
proof -
  have "running_ids (fold stop_bot ids q) = running_ids q - set ids" for ids q
    by (induction ids arbitrary: q) auto
  then have "running_ids (shutdown run) = {}"
    by (simp add: shutdown_def) (simp add: running_ids_def)
  then show ?thesis by (simp add: running_ids_def)
qed

end
