(* ===== verification/AdminFacts.thy ===== *)
theory AdminFacts
  imports AdminBot PanelPrices BotManager
begin

text \<open>
  What the dialogs of the administrator's bot guarantee: no key of a dialog is missing, a new shop gets
  its row and its bot, an edited commission is in range, and a top-up that is requested in the panel
  and confirmed here credits the reseller.
\<close>

section \<open>No key is missing\<close>

fun admin_keys :: "admin_state \<Rightarrow> admin_data \<Rightarrow> bool" where
  "admin_keys EnteringOwnerId ad = present (ad_bot_token ad)"
| "admin_keys EnteringCommission ad = (present (ad_bot_token ad) \<and> present (ad_owner_id ad))"
| "admin_keys EnteringCreditLimit ad =
     (present (ad_bot_token ad) \<and> present (ad_owner_id ad) \<and> present (ad_commission ad))"
| "admin_keys EnteringOrderPrefix ad =
     (present (ad_bot_token ad) \<and> present (ad_owner_id ad) \<and> present (ad_commission ad) \<and> present (ad_credit_limit ad))"
| "admin_keys EnteringNewCommission ad = present (ad_edit_reseller ad)"
| "admin_keys SettingAddress ad = present (ad_coin ad)"
| "admin_keys SettingNetwork ad = (present (ad_coin ad) \<and> present (ad_address ad))"
| "admin_keys SettingPrice ad = (present (ad_coin ad) \<and> present (ad_address ad) \<and> present (ad_network ad))"
| "admin_keys BlockingReason ad = present (ad_block_id ad)"
| "admin_keys _ ad = True"

definition admin_dialog_ok :: "admin \<Rightarrow> bool" where
  "admin_dialog_ok w \<longleftrightarrow> (case ad_state w of None \<Rightarrow> True | Some s \<Rightarrow> admin_keys s (ad_data w))"

definition admin_keeps :: "(admin, unit) outcome \<Rightarrow> bool" where
  "admin_keeps run \<longleftrightarrow> admin_dialog_ok (snd run) \<and> fst run \<noteq> Inl KeyError"

lemma admin_keeps_simps [simp]:
  "admin_keeps (admin_ok w) = admin_dialog_ok w"
  "admin_keeps (Inl x, w) = (admin_dialog_ok w \<and> x \<noteq> KeyError)"
  by (simp_all add: admin_keeps_def admin_ok_def)

lemma admin_frame [simp]:
  "ad_data (admin_post r k w) = ad_data w" "ad_data (admin_edit r k w) = ad_data w"
  "ad_data (admin_show m w) = ad_data w" "ad_data (admin_change f w) = ad_data w"
  "ad_data (admin_enter s w) = ad_data w" "ad_data (admin_remember g w) = g (ad_data w)"
  "ad_state (admin_post r k w) = ad_state w" "ad_state (admin_edit r k w) = ad_state w"
  "ad_state (admin_show m w) = ad_state w" "ad_state (admin_change f w) = ad_state w"
  "ad_state (admin_enter s w) = Some s" "ad_state (admin_leave w) = None"
  "ad_state (admin_remember g w) = ad_state w"
  "ad_db (admin_post r k w) = ad_db w" "ad_db (admin_edit r k w) = ad_db w"
  "ad_db (admin_show m w) = ad_db w" "ad_db (admin_enter s w) = ad_db w"
  "ad_db (admin_remember g w) = ad_db w" "ad_db (admin_leave w) = ad_db w"
  "ad_db (admin_change f w) = f (ad_db w)"
  by (simp_all add: admin_defs)

lemma admin_dialog_frame [simp]:
  "admin_dialog_ok (admin_post r k w) = admin_dialog_ok w" "admin_dialog_ok (admin_edit r k w) = admin_dialog_ok w"
  "admin_dialog_ok (admin_show m w) = admin_dialog_ok w" "admin_dialog_ok (admin_change f w) = admin_dialog_ok w"
  "admin_dialog_ok (w\<lparr>ad_db := d\<rparr>) = admin_dialog_ok w"
  "admin_dialog_ok (admin_enter s w) = admin_keys s (ad_data w)" "admin_dialog_ok (admin_leave w)"
  by (simp_all add: admin_dialog_ok_def split: option.split)

lemma admin_fold_ok [simp]: "admin_dialog_ok (fold (\<lambda>x. admin_post (r x) (k x)) xs w) = admin_dialog_ok w"
  by (induction xs arbitrary: w) simp_all

lemma admin_keeps_text:
  "admin_dialog_ok w \<Longrightarrow> (\<And>s. t = Some s \<Longrightarrow> admin_keeps (f (strip s) w)) \<Longrightarrow> admin_keeps (admin_with_text t f w)"
  by (cases t) (simp_all add: admin_with_text_def)

lemma admin_keeps_decimal:
  "admin_dialog_ok w \<Longrightarrow> (\<And>v. admin_keeps (f v w)) \<Longrightarrow> admin_keeps (admin_with_decimal t f w)"
  by (auto simp: admin_with_decimal_def intro!: admin_keeps_text split: option.split)

lemma admin_keeps_id:
  "admin_dialog_ok w \<Longrightarrow> (\<And>n. admin_keeps (f n w)) \<Longrightarrow> admin_keeps (admin_with_id t r f w)"
  by (auto simp: admin_with_id_def Let_def intro!: admin_keeps_text split: option.split)

lemma admin_keeps_key:
  "present (key (ad_data w)) \<Longrightarrow> (\<And>x. key (ad_data w) = Some x \<Longrightarrow> admin_keeps (f x w)) \<Longrightarrow>
   admin_keeps (admin_with_key key f w)"
  by (auto simp: admin_with_key_def present_def)

lemma admin_keeps_db:
  assumes "admin_dialog_ok w" and "no_key_error f"
    and "\<And>y d. f (ad_db w) = (Inr y, d) \<Longrightarrow> admin_keeps (g y (w\<lparr>ad_db := d\<rparr>))"
  shows "admin_keeps (admin_with_db f g w)"
  using assms
  by (cases "f (ad_db w)"; cases "fst (f (ad_db w))")
    (auto simp: admin_with_db_def no_key_error_def, metis fst_conv)

lemma admin_no_key_errors:
  "no_key_error (insert_reseller token username owner percent limit prefix)"
  "no_key_error (confirm_topup i)" "no_key_error (approve_dispute now i)"
  by (auto simp: no_key_error_def insert_reseller_def confirm_topup_def approve_dispute_def transaction_def Let_def
      refund_commission_def split: option.split prod.split sum.split)

lemmas admin_keeping = admin_keeps_text admin_keeps_decimal admin_keeps_id admin_keeps_key admin_keeps_db
  admin_no_key_errors

lemma admin_keys_texts:
  assumes "admin_dialog_ok w" and "ad_state w = Some s"
  shows "admin_keeps (admin_receive_in s e t w)"
proof -
  have k: "admin_keys s (ad_data w)" using assms by (simp add: admin_dialog_ok_def)
  show ?thesis
    using assms(1) k
    by (cases s) (auto simp: receive_bot_token_def receive_telegram_id_def receive_commission_def receive_credit_limit_def
        receive_order_prefix_and_save_def receive_new_commission_and_save_def receive_coin_def receive_address_def
        receive_network_def receive_price_and_save_def receive_blacklist_id_def receive_blacklist_reason_and_save_def
        receive_broadcast_text_and_send_def Let_def
        intro!: admin_keeping split: option.split decimal_value.split)
qed

lemma admin_keys_message:
  "admin_dialog_ok w \<Longrightarrow> admin_keeps (admin_receive e t w)"
  by (auto simp: admin_receive_def admin_start_def cancel_any_state_def admin_keys_texts split: option.split)

lemma admin_keys_buttons:
  assumes "admin_dialog_ok w"
  shows "admin_keeps (admin_press e cb w)"
proof (cases cb)
  case (AMenu b)
  then show ?thesis
    using assms by (cases b) (auto simp: admin_back_home_def resellers_menu_def start_add_reseller_cb_def list_resellers_cb_def
      platform_report_cb_def features_menu_def start_set_crypto_def show_blacklist_cb_def start_blacklist_add_def
      start_broadcast_def admin_wallet_menu_def list_pending_topups_cb_def list_pending_disputes_cb_def Let_def)
qed (use assms in \<open>auto simp: toggle_reseller_status_def start_edit_commission_def confirm_topup_cb_def
      approve_dispute_cb_def reject_dispute_cb_def intro!: admin_keeping split: option.split\<close>)

text \<open>A chat with the bot, with anything happening to the database between its steps.\<close>

inductive admin_chat :: "admin \<Rightarrow> bool" where
  admin_fresh: "admin_chat \<lparr>ad_db = d, ad_state = None, ad_data = empty_admin_data, ad_shown = []\<rparr>"
| admin_pressed: "admin_chat w \<Longrightarrow> admin_chat (snd (admin_press e cb w))"
| admin_written: "admin_chat w \<Longrightarrow> admin_chat (snd (admin_receive e t w))"
| admin_others: "admin_chat w \<Longrightarrow> admin_chat (w\<lparr>ad_db := d\<rparr>)"

lemma admin_chat_ok: "admin_chat w \<Longrightarrow> admin_dialog_ok w"
proof (induction rule: admin_chat.induct)
  case (admin_fresh d)
  then show ?case by (simp add: admin_dialog_ok_def)
next
  case (admin_pressed w e cb)
  then show ?case using admin_keys_buttons by (simp add: admin_keeps_def)
next
  case (admin_written w e t)
  then show ?case using admin_keys_message by (simp add: admin_keeps_def)
next
  case (admin_others w d)
  then show ?case by simp
qed

text \<open>
  In every chat with the administrator's bot no key is missing: whatever buttons of
  earlier messages are pressed and whatever is written, no handler raises \<^verbatim>\<open>KeyError\<close>.
\<close>

theorem no_admin_key_is_missing:
  assumes "admin_chat w"
  shows "fst (admin_press e cb w) \<noteq> Inl KeyError \<and> fst (admin_receive e t w) \<noteq> Inl KeyError"
  using admin_keys_buttons [OF admin_chat_ok [OF assms]] admin_keys_message [OF admin_chat_ok [OF assms]]
  by (simp add: admin_keeps_def)

section \<open>What the dialogs leave behind\<close>

datatype admin_event = APress admin_callback | AWrite string

fun admin_turn :: "admin_env \<Rightarrow> admin_event \<Rightarrow> admin \<Rightarrow> admin" where
  "admin_turn e (APress cb) w = snd (admin_press e cb w)"
| "admin_turn e (AWrite t) w = snd (admin_receive e (Some t) w)"

definition admin_dialog :: "admin_env \<Rightarrow> admin_event list \<Rightarrow> admin \<Rightarrow> admin" where
  "admin_dialog e = fold (admin_turn e)"

lemma admin_dialog_simps [simp]:
  "admin_dialog e [] w = w"
  "admin_dialog e (ev # evs) w = admin_dialog e evs (admin_turn e ev w)"
  by (simp_all add: admin_dialog_def)

definition no_command :: "string \<Rightarrow> bool" where
  "no_command t \<longleftrightarrow> t \<noteq> ''/start'' \<and> t \<noteq> ''/cancel''"

lemma no_command_message:
  "no_command t \<Longrightarrow> ad_state w = Some s \<Longrightarrow> admin_receive e (Some t) w = admin_receive_in s e (Some t) w"
  by (simp add: admin_receive_def no_command_def)

definition is_id_text :: "string \<Rightarrow> int \<Rightarrow> bool" where
  "is_id_text t n \<longleftrightarrow> (let digits = dropWhile (\<lambda>c. c = CHR ''-'') (strip t)
     in digits \<noteq> [] \<and> list_all is_digit digits \<and> parse_int (strip t) = Some n)"

definition new_reseller :: "string \<Rightarrow> string \<Rightarrow> int \<Rightarrow> decimal \<Rightarrow> decimal \<Rightarrow> string \<Rightarrow> reseller" where
  "new_reseller token username owner percent limit prefix =
     \<lparr>r_id = 0, bot_token_encrypted = token, bot_username = username, telegram_numeric_id = owner,
      commission_percent = store percent, wallet_credit_balance = 0, credit_limit_negative = store limit,
      r_status = ResellerActive, order_prefix = prefix, support_contact = None, zarinpal_merchant_id = None,
      end_order_message = None, test_mode_enabled = False, test_mode_order_limit = 0, test_mode_orders_used = 0\<rparr>"

lemma add_reseller_steps:
  "admin_turn e (APress (AMenu AmenuResellersAdd)) w =
     admin_post (InAdmin AskBotToken) None (admin_enter EnteringBotToken w)"
  "no_command t \<Longrightarrow> ad_state w = Some EnteringBotToken \<Longrightarrow> admin_turn e (AWrite t) w =
     admin_post (InAdmin AskOwnerId) None (admin_enter EnteringOwnerId
       (admin_remember (\<lambda>ad. ad\<lparr>ad_bot_token := Some (strip t)\<rparr>) w))"
  "no_command t \<Longrightarrow> ad_state w = Some EnteringOwnerId \<Longrightarrow> is_id_text t n \<Longrightarrow> admin_turn e (AWrite t) w =
     admin_post (InAdmin AskCommission) None (admin_enter EnteringCommission
       (admin_remember (\<lambda>ad. ad\<lparr>ad_owner_id := Some n\<rparr>) w))"
  "no_command t \<Longrightarrow> ad_state w = Some EnteringCommission \<Longrightarrow> parse_decimal (strip t) = Some v \<Longrightarrow>
   admin_turn e (AWrite t) w = admin_post (InAdmin AskCreditLimit) None (admin_enter EnteringCreditLimit
     (admin_remember (\<lambda>ad. ad\<lparr>ad_commission := Some v\<rparr>) w))"
  "no_command t \<Longrightarrow> ad_state w = Some EnteringCreditLimit \<Longrightarrow> parse_decimal (strip t) = Some v \<Longrightarrow>
   admin_turn e (AWrite t) w = admin_post (InAdmin AskOrderPrefix) None (admin_enter EnteringOrderPrefix
     (admin_remember (\<lambda>ad. ad\<lparr>ad_credit_limit := Some v\<rparr>) w))"
  by (auto simp: no_command_message start_add_reseller_cb_def receive_bot_token_def receive_telegram_id_def
      receive_commission_def receive_credit_limit_def admin_with_text_def admin_with_id_def admin_with_decimal_def
      is_id_text_def Let_def admin_ok_def)

lemma add_reseller_save:
  assumes "no_command t" and "ad_state w = Some EnteringOrderPrefix"
    and "ad_bot_token (ad_data w) = Some token" and "ae_bot_of e token = Some username"
    and "ad_owner_id (ad_data w) = Some n" and "ad_commission (ad_data w) = Some (Finite x)"
    and "ad_credit_limit (ad_data w) = Some (Finite y)"
    and "fetch_one (\<lambda>r. order_prefix r = upper (strip t)) (resellers (ad_db w)) = None"
  shows "admin_turn e (AWrite t) w = admin_leave (admin_post (InAdmin (ResellerAdded username)) (Some admin_main_menu)
    (w\<lparr>ad_db := (ad_db w)\<lparr>resellers := insert_row reseller_with_id
       (new_reseller (ae_encrypt e token) username n x y (upper (strip t))) (resellers (ad_db w))\<rparr>\<rparr>))"
  using assms by (simp add: no_command_message receive_order_prefix_and_save_def admin_with_text_def admin_with_key_def
      admin_with_db_def insert_reseller_def stored_amount_def new_reseller_def admin_ok_def)

lemma start_new_success:
  "start_new starts rows run = (Inr u, run') \<Longrightarrow> running_ids run' = running_ids run \<union> r_id ` set rows"
proof (induction rows arbitrary: run)
  case (Cons row rows)
  then show ?case by (auto simp: start_bot_def split: if_splits)
qed simp

lemma sync_success_runs:
  assumes "sync_once starts d run = (Inr u, run')"
    and "r \<in> set (trows (resellers d))" and "r_status r = ResellerActive"
  shows "r_id r \<in> running_ids run'"
  using assms by (auto simp: sync_once_def Let_def running_stop_inactive fetch_all_def
      split: prod.splits sum.splits dest!: start_new_success)

text \<open>
  Property C31: a new shop from the first button to its running bot. When Telegram accepts the token and
  the prefix is free, the five texts of the dialog leave one new row with exactly these values, and
  the next synchronisation of the bots that succeeds runs the new shop's bot.
\<close>

theorem new_shop_starts:
  assumes "list_all no_command [token, owner, percent, limit, prefix]"
    and "ae_bot_of e (strip token) = Some username" and "is_id_text owner n"
    and "parse_decimal (strip percent) = Some (Finite x)" and "parse_decimal (strip limit) = Some (Finite y)"
    and "fetch_one (\<lambda>r. order_prefix r = upper (strip prefix)) (resellers (ad_db w)) = None"
    and "sync_once starts (ad_db (admin_dialog e [APress (AMenu AmenuResellersAdd), AWrite token, AWrite owner,
        AWrite percent, AWrite limit, AWrite prefix] w)) run = (Inr (), run')"
  shows "ad_db (admin_dialog e [APress (AMenu AmenuResellersAdd), AWrite token, AWrite owner,
        AWrite percent, AWrite limit, AWrite prefix] w)
      = (ad_db w)\<lparr>resellers := insert_row reseller_with_id
          (new_reseller (ae_encrypt e (strip token)) username n x y (upper (strip prefix))) (resellers (ad_db w))\<rparr>
    \<and> auto_inc (resellers (ad_db w)) \<in> running_ids run'"
proof
  show db: "ad_db (admin_dialog e [APress (AMenu AmenuResellersAdd), AWrite token, AWrite owner,
        AWrite percent, AWrite limit, AWrite prefix] w)
      = (ad_db w)\<lparr>resellers := insert_row reseller_with_id
          (new_reseller (ae_encrypt e (strip token)) username n x y (upper (strip prefix))) (resellers (ad_db w))\<rparr>"
    using assms(1-6) by (simp add: add_reseller_steps add_reseller_save del: admin_turn.simps)
  let ?r = "reseller_with_id (auto_inc (resellers (ad_db w)))
    (new_reseller (ae_encrypt e (strip token)) username n x y (upper (strip prefix)))"
  from sync_success_runs [OF assms(7) [unfolded db], of ?r] show "auto_inc (resellers (ad_db w)) \<in> running_ids run'"
    by (simp add: insert_row_def new_reseller_def)
qed

definition demo_admin_env :: admin_env where
  "demo_admin_env = \<lparr>ae_now = 0, ae_bot_of = (\<lambda>token. Some ''shop''), ae_encrypt = (\<lambda>token. rev token),
     ae_arrives = (\<lambda>user. True)\<rparr>"

definition demo_admin :: admin where
  "demo_admin = \<lparr>ad_db = demo_panel_db, ad_state = None, ad_data = empty_admin_data, ad_shown = []\<rparr>"

definition demo_new_shop :: db where
  "demo_new_shop = ad_db (admin_dialog demo_admin_env [APress (AMenu AmenuResellersAdd), AWrite ''1:x'', AWrite ''77'',
     AWrite ''2.5'', AWrite ''0'', AWrite ''zz''] demo_admin)"

lemma new_shop_starts_witness:
  "2 \<in> running_ids (snd (sync_once (\<lambda>r. True) demo_new_shop []))"
proof -
  have "list_all no_command [''1:x'', ''77'', ''2.5'', ''0'', ''zz'']"
    "ae_bot_of demo_admin_env (strip ''1:x'') = Some ''shop''" "is_id_text ''77'' 77"
    "parse_decimal (strip ''2.5'') = Some (Finite (5 / 2))" "parse_decimal (strip ''0'') = Some (Finite 0)"
    "fetch_one (\<lambda>r. order_prefix r = upper (strip ''zz'')) (resellers (ad_db demo_admin)) = None"
    by code_simp+
  note run = new_shop_starts [OF this, where starts = "\<lambda>r. True" and run = "[]", folded demo_new_shop_def]
  have "fst (sync_once (\<lambda>r. True) demo_new_shop []) = Inr ()" by code_simp
  then have "sync_once (\<lambda>r. True) demo_new_shop [] = (Inr (), snd (sync_once (\<lambda>r. True) demo_new_shop []))"
    by (metis prod.collapse)
  moreover have "auto_inc (resellers (ad_db demo_admin)) = 2" by code_simp
  ultimately show ?thesis using run by simp
qed

lemma no_admin_key_is_missing_witness:
  "fst (admin_receive demo_admin_env (Some ''-3'') (admin_dialog demo_admin_env
     [APress (ResellerEditCommission 1)] demo_admin)) \<noteq> Inl KeyError"
proof -
  have "admin_chat (admin_dialog demo_admin_env [APress (ResellerEditCommission 1)] demo_admin)"
    by (simp add: admin_chat.admin_pressed admin_chat.admin_fresh demo_admin_def del: admin_press.simps)
  from no_admin_key_is_missing [OF this] show ?thesis by blast
qed

text \<open>
  An edited commission lies between nothing and all. Whatever is written in the dialog that
  changes the commission of a shop, either no table changes or the commission of the shop it was
  opened for becomes a value from 0 to 100 percent.
\<close>

theorem edited_commission_in_range:
  assumes "ad_state w = Some EnteringNewCommission" and "ad_edit_reseller (ad_data w) = Some rid"
  shows "ad_db (snd (admin_receive e t w)) = ad_db w
    \<or> (\<exists>percent. 0 \<le> percent \<and> percent \<le> 10000
         \<and> ad_db (snd (admin_receive e t w)) = upd_reseller rid (\<lambda>r. r\<lparr>commission_percent := percent\<rparr>) (ad_db w))"
proof -
  have ends: "store 0 = 0" "store 100 = 10000" by code_simp+
  have "0 \<le> store x" "store x \<le> 10000" if "0 \<le> x" "x \<le> 100" for x
    using store_mono [of 0 x] store_mono [of x 100] that ends by simp_all
  moreover have "ad_db (snd (receive_new_commission_and_save t w)) = ad_db w
    \<or> (\<exists>x. 0 \<le> x \<and> x \<le> 100
         \<and> ad_db (snd (receive_new_commission_and_save t w)) = upd_reseller rid (\<lambda>r. r\<lparr>commission_percent := store x\<rparr>) (ad_db w))"
    using assms(2)
    by (auto simp: receive_new_commission_and_save_def admin_with_decimal_def admin_with_text_def admin_with_key_def
      admin_ok_def not_less split: option.split decimal_value.split)
  ultimately show ?thesis
    using assms(1) by (auto simp: admin_receive_def admin_start_def cancel_any_state_def admin_ok_def)
qed

definition demo_editing :: admin where
  "demo_editing = demo_admin\<lparr>ad_state := Some EnteringNewCommission, ad_data := empty_admin_data\<lparr>ad_edit_reseller := Some 1\<rparr>\<rparr>"

lemma edited_commission_in_range_witness:
  "\<exists>percent. 0 \<le> percent \<and> percent \<le> 10000
     \<and> map commission_percent (trows (resellers (ad_db (snd (admin_receive demo_admin_env (Some ''3'') demo_editing)))))
       = [percent]"
proof -
  let ?d = "ad_db (snd (admin_receive demo_admin_env (Some ''3'') demo_editing))"
  have "ad_state demo_editing = Some EnteringNewCommission" "ad_edit_reseller (ad_data demo_editing) = Some 1"
    by (simp_all add: demo_editing_def)
  note range = edited_commission_in_range [OF this, of demo_admin_env "Some ''3''"]
  have now: "map commission_percent (trows (resellers ?d)) = [300]"
    and before: "map commission_percent (trows (resellers (ad_db demo_editing))) = [250]" by code_simp+
  then have "?d \<noteq> ad_db demo_editing" by auto
  with range have "\<exists>percent. 0 \<le> percent \<and> percent \<le> 10000
      \<and> ?d = upd_reseller 1 (\<lambda>r. r\<lparr>commission_percent := percent\<rparr>) (ad_db demo_editing)"
    by (simp only: simp_thms)
  then obtain percent where p: "0 \<le> percent" "percent \<le> 10000"
    and d: "?d = upd_reseller 1 (\<lambda>r. r\<lparr>commission_percent := percent\<rparr>) (ad_db demo_editing)"
    by (elim exE conjE) (rule that)
  have "trows (resellers (ad_db demo_editing)) = [demo_reseller]"
    by (simp add: demo_editing_def demo_admin_def demo_panel_db_def)
  then have "map commission_percent (trows (resellers
      (upd_reseller 1 (\<lambda>r. r\<lparr>commission_percent := percent\<rparr>) (ad_db demo_editing)))) = [percent]"
    by (simp add: upd_reseller_def update_id_def update_rows_def)
  then have "map commission_percent (trows (resellers ?d)) = [percent]" by (simp only: d)
  with p show ?thesis by (intro exI conjI)
qed

section \<open>A top-up between two bots\<close>

text \<open>
  Property C32: a top-up from the request to the credit. The owner asks for it in the panel of his shop and
  writes any number; the pending row it leaves is confirmed by one press in the administrator's
  bot, after which the balance has grown by exactly the stored amount. Nothing asks that the amount
  is positive, and the press is not bound to any user, so the owner can press it himself.
\<close>

theorem topup_across_bots:
  assumes "wf_db (pn_db w)" and "lookup r_id (pe_reseller e) (resellers (pn_db w)) = Some r"
    and "plain_text amount" and "read_number (Some amount) = Number (Finite x)"
  shows "let d1 = pn_db (panel_dialog e owner [Press (Menu WalletTopupCard), Write amount] w);
        w2 = admin_turn ae (APress (TopupConfirm (auto_inc (wallet_transactions (pn_db w))))) (a\<lparr>ad_db := d1\<rparr>)
    in balance_of (pe_reseller e) (ad_db w2) = wallet_credit_balance r + store x
     \<and> last (ad_shown w2) = AdminEdited (InMoney (TopupDone (auto_inc (wallet_transactions (pn_db w))))) None"
proof -
  let ?i = "auto_inc (wallet_transactions (pn_db w))"
  let ?t = "\<lparr>wt_id = ?i, wt_reseller_id = pe_reseller e, wt_type = TxTopup, wt_amount = store x,
    wt_method = Some Card, wt_status = TxPending, wt_reference = None\<rparr>"
  let ?d1 = "insert_tx (?t\<lparr>wt_id := 0\<rparr>) (pn_db w)"
  have d1: "pn_db (panel_dialog e owner [Press (Menu WalletTopupCard), Write amount] w) = ?d1"
    using assms(2-4)
    by (simp add: press_button_def start_topup_card_def returns_def plain_message receive_card_topup_amount_def
        with_number_def with_db_def in_db_def request_topup_value_def request_topup_def transaction_def)
  have "lookup wt_id ?i (wallet_transactions ?d1) = Some ?t" "lookup r_id (pe_reseller e) (resellers ?d1) = Some r"
    using assms(1,2) by (simp_all add: txs.lookup_insert wf_dbD insert_tx_def)
  then have "confirm_topup ?i ?d1 = (Inr (), upd_reseller (pe_reseller e)
       (\<lambda>s. s\<lparr>wallet_credit_balance := wallet_credit_balance r + store x\<rparr>)
       (?d1\<lparr>wallet_transactions := update_id wt_id ?i (\<lambda>t. t\<lparr>wt_status := TxConfirmed\<rparr>)
            (wallet_transactions ?d1)\<rparr>))"
    using confirm_topup_result [of ?i ?d1 ?t r] by simp
  then show ?thesis
    using assms(2) unfolding Let_def d1
    by (simp add: confirm_topup_cb_def admin_with_db_def admin_ok_def) (simp add: admin_defs insert_tx_def)
qed

lemma topup_across_bots_witness:
  "balance_of 1 (ad_db (admin_turn demo_admin_env (APress (TopupConfirm 1)) (demo_admin\<lparr>ad_db :=
     pn_db (panel_dialog demo_panel_env 700 [Press (Menu WalletTopupCard), Write ''-300''] demo_panel)\<rparr>))) = 70000"
proof -
  have "wf_db (pn_db demo_panel)" by (simp add: demo_panel_def demo_panel_db_def demo_catalog_db_def wf_db_def empty_db_def wf_table_def empty_table_def demo_product_def demo_unsold_code_def)
  moreover have "lookup r_id (pe_reseller demo_panel_env) (resellers (pn_db demo_panel)) = Some demo_reseller"
    by (simp add: demo_panel_def demo_panel_db_def demo_panel_env_def lookup_def)
  moreover have "plain_text ''-300''" "read_number (Some ''-300'') = Number (Finite (- 300))" by code_simp+
  ultimately have "balance_of (pe_reseller demo_panel_env) (ad_db (admin_turn demo_admin_env (APress (TopupConfirm
      (auto_inc (wallet_transactions (pn_db demo_panel))))) (demo_admin\<lparr>ad_db :=
      pn_db (panel_dialog demo_panel_env 700 [Press (Menu WalletTopupCard), Write ''-300''] demo_panel)\<rparr>)))
      = wallet_credit_balance demo_reseller + store (- 300)"
    using topup_across_bots [of demo_panel demo_panel_env demo_reseller "''-300''" "- 300" 700 demo_admin_env demo_admin]
    by (simp only: Let_def)
  moreover have "pe_reseller demo_panel_env = 1" "auto_inc (wallet_transactions (pn_db demo_panel)) = 1" "store (- 300) = - 30000"
    by code_simp+
  ultimately show ?thesis by simp
qed

end
