(* ===== verification/Backup.thy ===== *)
theory Backup
  imports Prelude
begin

text \<open>
  Backup and restore: \<^verbatim>\<open>services/backup_service.py\<close> and the dialog of
  \<^verbatim>\<open>handlers/admin/backup.py\<close>. Here the database is seen as the code sees it, as tables by name
  with rows of named cells, and a file as the JSON value that is in it (nothing when it cannot be
  read as JSON).
\<close>

section \<open>Tables by name\<close>

text \<open>A moment is year, month, day, hour, minute, second.\<close>

type_synonym date_time = "nat \<times> nat \<times> nat \<times> nat \<times> nat \<times> nat"

datatype cell = CNull | CInt int | CText string | CDec cents | CMoment date_time

type_synonym row = "(string \<times> cell) list"

record storage =
  st_rows :: "string \<Rightarrow> row list"
  st_fk_off :: bool

text \<open>
  JSON values. Objects keep the order of their keys, and no key occurs twice, as in the dictionaries that
  \<^verbatim>\<open>json.load\<close> builds; numbers that are not whole do not occur in a backup.
\<close>

datatype jval =
    JNull | JBool bool | JInt int | JString string | JArray "jval list" | JObject "(string \<times> jval) list"

text \<open>
  What the database does with values that come from a file: reading a value into a column
  (\<open>None\<close> when it is refused), completing a row by the defaults of the columns it leaves out
  (\<open>None\<close> when it has an unknown column or lacks one without default), and whether a unique key
  of the table keeps two rows apart. The names of the columns come from the file too, and the code writes
  them into the statement as they are: \<open>complete_row\<close> stands for names that are plain identifiers, and says
  nothing of a file whose names contain SQL.
\<close>

record schema =
  read_cell :: "string \<Rightarrow> string \<Rightarrow> jval \<Rightarrow> cell option"
  complete_row :: "string \<Rightarrow> row \<Rightarrow> row option"
  clash :: "string \<Rightarrow> row \<Rightarrow> row \<Rightarrow> bool"

definition insert_into :: "schema \<Rightarrow> string \<Rightarrow> row \<Rightarrow> (string \<Rightarrow> row list) \<Rightarrow> (string \<Rightarrow> row list, unit) outcome" where
  "insert_into sc table r rows =
     (case complete_row sc table r of
        None \<Rightarrow> (Inl DatabaseError, rows)
      | Some full \<Rightarrow>
          if list_ex (clash sc table full) (rows table) then (Inl IntegrityError, rows)
          else (Inr (), rows(table := rows table @ [full])))"

section \<open>The service\<close>

definition TABLES_IN_DEPENDENCY_ORDER :: "string list" where
  "TABLES_IN_DEPENDENCY_ORDER =
     [''resellers'', ''reseller_operators'', ''wallet_transactions'', ''categories'', ''packages'',
      ''customers'', ''orders'', ''disputes'', ''activity_logs'', ''category_price_floors'',
      ''discount_codes'', ''referrals'', ''referral_links'', ''forced_join_channels'', ''blacklist'',
      ''crypto_settings'', ''broadcasts'', ''global_settings'', ''charge_codes'', ''backup_logs'']"

text \<open>\<^verbatim>\<open>str\<close> of a decimal with two digits, and \<^verbatim>\<open>isoformat()\<close>.\<close>

definition show_cents :: "cents \<Rightarrow> string" where
  "show_cents c = (if c < 0 then ''-'' else '''') @ show_nat (nat \<bar>c\<bar> div 100) @ ''.'' @ zero_pad 2 (nat \<bar>c\<bar> mod 100)"

fun isoformat :: "date_time \<Rightarrow> string" where
  "isoformat (y, mo, d, h, mi, s) =
     zero_pad 4 y @ ''-'' @ zero_pad 2 mo @ ''-'' @ zero_pad 2 d @ ''T'' @ zero_pad 2 h @ '':'' @ zero_pad 2 mi @ '':'' @ zero_pad 2 s"

fun json_of_cell :: "cell \<Rightarrow> jval" where
  "json_of_cell CNull = JNull"
| "json_of_cell (CInt n) = JInt n"
| "json_of_cell (CText s) = JString s"
| "json_of_cell (CDec c) = JString (show_cents c)"
| "json_of_cell (CMoment m) = JString (isoformat m)"

definition json_of_row :: "row \<Rightarrow> jval" where
  "json_of_row r = JObject (map (\<lambda>(c, v). (c, json_of_cell v)) r)"

text \<open>
  Each table is read by a statement of its own, outside a transaction: \<open>seen t\<close> is the database when
  table \<open>t\<close> is read.
\<close>

definition create_backup_dict :: "date_time \<Rightarrow> (string \<Rightarrow> storage) \<Rightarrow> jval" where
  "create_backup_dict now seen =
     JObject [(''created_at'', JString (isoformat now)),
       (''tables'', JObject (map (\<lambda>t. (t, JArray (map json_of_row (st_rows (seen t) t)))) TABLES_IN_DEPENDENCY_ORDER))]"

text \<open>\<open>Inl\<close> is \<^verbatim>\<open>BackupValidationError\<close>.\<close>

datatype invalid_backup = BrokenFile | MissingKeys | TablesNoObject | TooFewTables

definition validate_backup_file :: "jval option \<Rightarrow> invalid_backup + (string \<times> jval) list" where
  "validate_backup_file file =
     (case file of
        None \<Rightarrow> Inl BrokenFile
      | Some (JObject kvs) \<Rightarrow>
          (case (map_of kvs ''tables'', map_of kvs ''created_at'') of
             (Some tables, Some created) \<Rightarrow>
               (case tables of
                  JObject ts \<Rightarrow>
                    if length (filter (\<lambda>(t, x). t \<in> set TABLES_IN_DEPENDENCY_ORDER) ts) < 3 then Inl TooFewTables
                    else Inr ts
                | _ \<Rightarrow> Inl TablesNoObject)
           | _ \<Rightarrow> Inl MissingKeys)
      | Some _ \<Rightarrow> Inl MissingKeys)"

text \<open>\<^verbatim>\<open>if not row\<close>.\<close>

fun is_falsy :: "jval \<Rightarrow> bool" where
  "is_falsy JNull = True"
| "is_falsy (JBool b) = (\<not> b)"
| "is_falsy (JInt n) = (n = 0)"
| "is_falsy (JString s) = (s = [])"
| "is_falsy (JArray xs) = (xs = [])"
| "is_falsy (JObject kvs) = (kvs = [])"

fun read_cells :: "schema \<Rightarrow> string \<Rightarrow> (string \<times> jval) list \<Rightarrow> row option" where
  "read_cells sc table [] = Some []"
| "read_cells sc table ((c, v) # kvs) =
     (case (read_cell sc table c v, read_cells sc table kvs) of
        (Some x, Some r) \<Rightarrow> Some ((c, x) # r)
      | _ \<Rightarrow> None)"

text \<open>Iterating over a value: a list gives its elements, a text and an object their characters and keys.\<close>

fun iterate :: "jval \<Rightarrow> exn + jval list" where
  "iterate (JArray xs) = Inr xs"
| "iterate (JString s) = Inr (map (\<lambda>c. JString [c]) s)"
| "iterate (JObject kvs) = Inr (map (\<lambda>(k, v). JString k) kvs)"
| "iterate JNull = Inl TypeError"
| "iterate (JBool b) = Inl TypeError"
| "iterate (JInt n) = Inl TypeError"

fun restore_rows :: "schema \<Rightarrow> string \<Rightarrow> jval list \<Rightarrow> (string \<Rightarrow> row list) \<Rightarrow> (string \<Rightarrow> row list, unit) outcome" where
  "restore_rows sc table [] rows = (Inr (), rows)"
| "restore_rows sc table (x # xs) rows =
     (if is_falsy x then restore_rows sc table xs rows
      else case x of
        JObject kvs \<Rightarrow>
          (case read_cells sc table kvs of
             None \<Rightarrow> (Inl DatabaseError, rows)
           | Some r \<Rightarrow>
               (case insert_into sc table r rows of
                  (Inl e, rows1) \<Rightarrow> (Inl e, rows1)
                | (Inr _, rows1) \<Rightarrow> restore_rows sc table xs rows1))
      | _ \<Rightarrow> (Inl AttributeError, rows))"

fun restore_tables ::
  "schema \<Rightarrow> string list \<Rightarrow> (string \<times> jval) list \<Rightarrow> (string \<Rightarrow> row list) \<Rightarrow> (string \<Rightarrow> row list, unit) outcome" where
  "restore_tables sc [] ts rows = (Inr (), rows)"
| "restore_tables sc (table # tables) ts rows =
     (case iterate (case map_of ts table of None \<Rightarrow> JArray [] | Some x \<Rightarrow> x) of
        Inl e \<Rightarrow> (Inl e, rows)
      | Inr xs \<Rightarrow>
          (case restore_rows sc table xs rows of
             (Inl e, rows1) \<Rightarrow> (Inl e, rows1)
           | (Inr _, rows1) \<Rightarrow> restore_tables sc tables ts rows1))"

definition clear_tables :: "string list \<Rightarrow> (string \<Rightarrow> row list) \<Rightarrow> string \<Rightarrow> row list" where
  "clear_tables tables rows = (\<lambda>t. if t \<in> set tables then [] else rows t)"

text \<open>
  The rows come back when the transaction is rolled back; \<^verbatim>\<open>SET FOREIGN_KEY_CHECKS\<close> belongs to the session
  and does not, and the connection goes back to the pool as it is.
\<close>

definition restore_from_dict :: "schema \<Rightarrow> (string \<times> jval) list \<Rightarrow> storage \<Rightarrow> (storage, unit) outcome" where
  "restore_from_dict sc ts st =
     (case restore_tables sc TABLES_IN_DEPENDENCY_ORDER ts (clear_tables TABLES_IN_DEPENDENCY_ORDER (st_rows st)) of
        (Inl e, rows) \<Rightarrow> (Inl e, st\<lparr>st_fk_off := True\<rparr>)
      | (Inr _, rows) \<Rightarrow> (Inr (), st\<lparr>st_rows := rows, st_fk_off := False\<rparr>))"

section \<open>The dialog\<close>

datatype backup_button = BackupMenu | BackupTake | BackupRestoreStart | RestoreConfirm | RestoreCancel | HomeButton

datatype restore_state = WaitingFile | WaitingConfirmation

datatype backup_reply =
    BackupTitle | BackupDocument nat | AskBackupFile | InvalidFile invalid_backup
  | FileSummary "(string \<times> nat) list" | RestoreError invalid_backup | RestoreDone string | RestoreCancelled
  | AdminHome | AdminCancelled | NothingToCancel

datatype backup_keyboard = BackupSubmenu | RestoreButtons | BackToAdminMenu | AdminMainMenu

definition admin_backup_submenu :: "backup_button list list" where
  "admin_backup_submenu = [[BackupTake], [BackupRestoreStart], [HomeButton]]"

definition restore_confirm_buttons :: "backup_button list list" where
  "restore_confirm_buttons = [[RestoreConfirm, RestoreCancel]]"

text \<open>The files on the disk of the server, by path.\<close>

record server =
  sv_storage :: storage
  sv_files :: "string \<Rightarrow> jval option option"
  sv_state :: "restore_state option"
  sv_path :: "string option"
  sv_shown :: "(backup_reply \<times> backup_keyboard option) list"

text \<open>
  What a handler is given: the schema, the moment as the file shows it, the name of the safety copy, the
  size of a file, the user, and the path of his uploads.
\<close>

record backup_env =
  be_schema :: schema
  be_now :: date_time
  be_safety_path :: string
  be_size :: "jval \<Rightarrow> nat"
  be_user :: int
  be_upload_path :: string

type_synonym backup_step = "server \<Rightarrow> (server, unit) outcome"

definition backup_says :: "backup_reply \<Rightarrow> backup_keyboard option \<Rightarrow> server \<Rightarrow> server" where
  "backup_says r k w = w\<lparr>sv_shown := sv_shown w @ [(r, k)]\<rparr>"

definition backup_leave :: "server \<Rightarrow> server" where
  "backup_leave w = w\<lparr>sv_state := None, sv_path := None\<rparr>"

definition write_file :: "string \<Rightarrow> jval option \<Rightarrow> server \<Rightarrow> server" where
  "write_file path doc w = w\<lparr>sv_files := (sv_files w)(path := Some doc)\<rparr>"

definition remove_file :: "string \<Rightarrow> server \<Rightarrow> server" where
  "remove_file path w = w\<lparr>sv_files := (sv_files w)(path := None)\<rparr>"

text \<open>A path without a file reads as a broken file: the error of \<^verbatim>\<open>open\<close> is caught with those of JSON.\<close>

definition read_file :: "string \<Rightarrow> server \<Rightarrow> jval option" where
  "read_file path w = (case sv_files w path of None \<Rightarrow> None | Some doc \<Rightarrow> doc)"

definition backup_now :: "backup_env \<Rightarrow> server \<Rightarrow> jval" where
  "backup_now e w = create_backup_dict (be_now e) (\<lambda>t. sv_storage w)"

text \<open>\<open>Inl (Inl r)\<close> is \<^verbatim>\<open>BackupValidationError\<close>, \<open>Inl (Inr x)\<close> any other exception.\<close>

definition perform_safe_restore :: "backup_env \<Rightarrow> string \<Rightarrow> server \<Rightarrow> ((invalid_backup + exn) + string) \<times> server" where
  "perform_safe_restore e path w =
     (case validate_backup_file (read_file path w) of
        Inl r \<Rightarrow> (Inl (Inl r), w)
      | Inr ts \<Rightarrow>
          let w1 = write_file (be_safety_path e) (Some (backup_now e w)) w
          in (case restore_from_dict (be_schema e) ts (sv_storage w1) of
                (Inl x, st) \<Rightarrow> (Inl (Inr x), w1\<lparr>sv_storage := st\<rparr>)
              | (Inr _, st) \<Rightarrow> (Inr (be_safety_path e), w1\<lparr>sv_storage := st\<rparr>)))"

definition backup_menu :: backup_step where
  "backup_menu w = (Inr (), backup_says BackupTitle (Some BackupSubmenu) w)"

text \<open>The temporary file is gone after the document was sent; the row of the log comes after the copy.\<close>

definition take_backup_cb :: "backup_env \<Rightarrow> backup_step" where
  "take_backup_cb e w =
     (let size = be_size e (backup_now e w); st = sv_storage w
      in case insert_into (be_schema e) ''backup_logs''
                [(''taken_by_telegram_id'', CInt (be_user e)), (''file_size_bytes'', CInt (int size)),
                 (''note'', CText ''manual'')] (st_rows st) of
           (Inl x, rows) \<Rightarrow> (Inl x, w)
         | (Inr _, rows) \<Rightarrow>
             (Inr (), backup_says (BackupDocument size) (Some BackToAdminMenu)
               (w\<lparr>sv_storage := st\<lparr>st_rows := rows\<rparr>\<rparr>)))"

definition start_restore_cb :: backup_step where
  "start_restore_cb w = (Inr (), backup_says AskBackupFile None (w\<lparr>sv_state := Some WaitingFile\<rparr>))"

definition count_table_rows :: "jval \<Rightarrow> exn + nat" where
  "count_table_rows x = (case iterate x of Inl e \<Rightarrow> Inl e | Inr xs \<Rightarrow> Inr (length xs))"

fun table_counts :: "(string \<times> jval) list \<Rightarrow> exn + (string \<times> nat) list" where
  "table_counts [] = Inr []"
| "table_counts ((t, x) # ts) =
     (case count_table_rows x of
        Inl e \<Rightarrow> Inl e
      | Inr n \<Rightarrow> (case table_counts ts of Inl e \<Rightarrow> Inl e | Inr rest \<Rightarrow> Inr ((t, n) # rest)))"

definition receive_restore_file :: "backup_env \<Rightarrow> jval option \<Rightarrow> backup_step" where
  "receive_restore_file e uploaded w =
     (let path = be_upload_path e; w1 = write_file path uploaded w
      in case validate_backup_file uploaded of
           Inl r \<Rightarrow> (Inr (), backup_leave (backup_says (InvalidFile r) (Some BackToAdminMenu) (remove_file path w1)))
         | Inr ts \<Rightarrow>
             (case table_counts ts of
                Inl x \<Rightarrow> (Inl x, w1)
              | Inr counts \<Rightarrow>
                  (Inr (), backup_says (FileSummary (filter (\<lambda>(t, n). 0 < n) counts)) (Some RestoreButtons)
                    (w1\<lparr>sv_state := Some WaitingConfirmation, sv_path := Some path\<rparr>))))"

text \<open>\<^verbatim>\<open>finally\<close>: the uploaded file is removed on every way out.\<close>

definition confirm_restore_cb :: "backup_env \<Rightarrow> backup_step" where
  "confirm_restore_cb e w =
     (case sv_path w of
        None \<Rightarrow> (Inl KeyError, w)
      | Some path \<Rightarrow>
          (case perform_safe_restore e path w of
             (Inl (Inl r), w1) \<Rightarrow>
               (Inr (), remove_file path (backup_leave (backup_says (RestoreError r) (Some BackToAdminMenu) w1)))
           | (Inl (Inr x), w1) \<Rightarrow> (Inl x, remove_file path w1)
           | (Inr safety, w1) \<Rightarrow>
               (Inr (), backup_leave (backup_says (RestoreDone safety) None (remove_file path w1)))))"

definition cancel_restore_cb :: backup_step where
  "cancel_restore_cb w =
     (let w1 = (case sv_path w of None \<Rightarrow> w | Some path \<Rightarrow> remove_file path w)
      in (Inr (), backup_says RestoreCancelled None (backup_leave w1)))"

text \<open>
  The ways out that another router of the bot offers, \<^verbatim>\<open>back_home\<close> and \<^verbatim>\<open>cancel_any_state\<close> of
  \<^verbatim>\<open>handlers/admin/reseller_management.py\<close>: the button keeps the state, the command clears it,
  and neither knows of the uploaded file. In the states of this dialog the command clears.
\<close>

definition leave_for_home :: backup_step where
  "leave_for_home w = (Inr (), backup_says AdminHome (Some AdminMainMenu) w)"

definition cancel_backup :: backup_step where
  "cancel_backup w =
     (if sv_state w = None then (Inr (), backup_says NothingToCancel None w)
      else (Inr (), backup_says AdminCancelled (Some AdminMainMenu) (backup_leave w)))"

text \<open>Two buttons are only heard in the state that waits for them.\<close>

definition backup_press :: "backup_env \<Rightarrow> backup_button \<Rightarrow> backup_step" where
  "backup_press e b w =
     (case b of
        BackupMenu \<Rightarrow> backup_menu w
      | BackupTake \<Rightarrow> take_backup_cb e w
      | BackupRestoreStart \<Rightarrow> start_restore_cb w
      | RestoreConfirm \<Rightarrow> if sv_state w = Some WaitingConfirmation then confirm_restore_cb e w else (Inr (), w)
      | RestoreCancel \<Rightarrow> if sv_state w = Some WaitingConfirmation then cancel_restore_cb w else (Inr (), w)
      | HomeButton \<Rightarrow> leave_for_home w)"

definition backup_upload :: "backup_env \<Rightarrow> jval option \<Rightarrow> backup_step" where
  "backup_upload e uploaded w =
     (if sv_state w = Some WaitingFile then receive_restore_file e uploaded w else (Inr (), w))"

section \<open>Restoring a backup\<close>

text \<open>
  A row that its table holds is read back from the file as it was, and has every column; an earlier
  row of the table does not clash with it.
\<close>

definition read_back :: "schema \<Rightarrow> string \<Rightarrow> row \<Rightarrow> bool" where
  "read_back sc table r \<longleftrightarrow>
     r \<noteq> [] \<and> read_cells sc table (map (\<lambda>(c, v). (c, json_of_cell v)) r) = Some r \<and> complete_row sc table r = Some r"

definition legal_rows :: "schema \<Rightarrow> string \<Rightarrow> row list \<Rightarrow> bool" where
  "legal_rows sc table rs \<longleftrightarrow>
     list_all (read_back sc table) rs \<and> sorted_wrt (\<lambda>old new. \<not> clash sc table new old) rs"

definition legal_storage :: "schema \<Rightarrow> storage \<Rightarrow> bool" where
  "legal_storage sc st \<longleftrightarrow> list_all (\<lambda>t. legal_rows sc t (st_rows st t)) TABLES_IN_DEPENDENCY_ORDER"

lemma restore_rows_of_backup:
  assumes "list_all (read_back sc table) rs"
    and "sorted_wrt (\<lambda>old new. \<not> clash sc table new old) (rows table @ rs)"
  shows "restore_rows sc table (map json_of_row rs) rows = (Inr (), rows(table := rows table @ rs))"
  using assms
proof (induction rs arbitrary: rows)
  case (Cons r rs)
  have r: "r \<noteq> []" "read_cells sc table (map (\<lambda>(c, v). (c, json_of_cell v)) r) = Some r" "complete_row sc table r = Some r"
    using Cons.prems(1) by (simp_all add: read_back_def)
  have "\<not> list_ex (clash sc table r) (rows table)"
    using Cons.prems(2) by (auto simp: sorted_wrt_append list_ex_iff)
  with r have "insert_into sc table r rows = (Inr (), rows(table := rows table @ [r]))"
    by (simp add: insert_into_def)
  moreover have "restore_rows sc table (map json_of_row rs) (rows(table := rows table @ [r]))
      = (Inr (), rows(table := rows table @ r # rs))"
    using Cons.IH [of "rows(table := rows table @ [r])"] Cons.prems by (simp add: fun_upd_def cong: if_cong)
  ultimately show ?case using r(1,2) by (simp add: json_of_row_def [of r] fun_upd_def)
qed simp

lemma restore_tables_of_backup:
  assumes "distinct tables"
    and "\<And>t. t \<in> set tables \<Longrightarrow> legal_rows sc t (src t) \<and> map_of ts t = Some (JArray (map json_of_row (src t))) \<and> rows t = []"
  shows "restore_tables sc tables ts rows = (Inr (), \<lambda>t. if t \<in> set tables then src t else rows t)"
  using assms
proof (induction tables arbitrary: rows)
  case (Cons table tables)
  have t: "legal_rows sc table (src table)" "map_of ts table = Some (JArray (map json_of_row (src table)))" "rows table = []"
    using Cons.prems(2) [of table] by simp_all
  then have "restore_rows sc table (map json_of_row (src table)) rows = (Inr (), rows(table := src table))"
    using restore_rows_of_backup [of sc table "src table" rows] by (simp add: legal_rows_def)
  moreover have "restore_tables sc tables ts (rows(table := src table))
      = (Inr (), \<lambda>t. if t \<in> set tables then src t else (rows(table := src table)) t)"
    using Cons.prems by (intro Cons.IH) auto
  ultimately show ?case using t(2) by (auto simp: fun_eq_iff)
qed simp

lemma distinct_tables: "distinct TABLES_IN_DEPENDENCY_ORDER"
  by code_simp

lemma created_backup_is_valid:
  "validate_backup_file (Some (create_backup_dict now seen))
   = Inr (map (\<lambda>t. (t, JArray (map json_of_row (st_rows (seen t) t)))) TABLES_IN_DEPENDENCY_ORDER)"
proof -
  have "length TABLES_IN_DEPENDENCY_ORDER = 20" by code_simp
  then show ?thesis by (simp add: validate_backup_file_def create_backup_dict_def o_def split_def)
qed

lemma restored_tables:
  assumes "legal_storage sc saved"
  shows "\<exists>ts. validate_backup_file (Some (create_backup_dict now (\<lambda>t. saved))) = Inr ts
    \<and> restore_from_dict sc ts st = (Inr (), \<lparr>st_rows = (\<lambda>t. if t \<in> set TABLES_IN_DEPENDENCY_ORDER
         then st_rows saved t else st_rows st t), st_fk_off = False\<rparr>)"
proof -
  let ?ts = "map (\<lambda>t. (t, JArray (map json_of_row (st_rows saved t)))) TABLES_IN_DEPENDENCY_ORDER"
  have "restore_tables sc TABLES_IN_DEPENDENCY_ORDER ?ts (clear_tables TABLES_IN_DEPENDENCY_ORDER (st_rows st))
      = (Inr (), \<lambda>t. if t \<in> set TABLES_IN_DEPENDENCY_ORDER then st_rows saved t
           else clear_tables TABLES_IN_DEPENDENCY_ORDER (st_rows st) t)"
    using assms
    by (intro restore_tables_of_backup distinct_tables)
      (auto simp: legal_storage_def list_all_iff clear_tables_def map_of_map_restrict)
  then have "restore_from_dict sc ?ts st = (Inr (), \<lparr>st_rows = (\<lambda>t. if t \<in> set TABLES_IN_DEPENDENCY_ORDER
         then st_rows saved t else st_rows st t), st_fk_off = False\<rparr>)"
    by (simp add: restore_from_dict_def clear_tables_def cong: if_cong)
  with created_backup_is_valid [of now "\<lambda>t. saved"] show ?thesis by blast
qed

text \<open>
  Property C13: restoring a backup brings back every table it names, row by row, whatever the database
  holds by then. The cards of the shops and the top-ups of the customers are not among them: they
  are neither saved nor emptied and stay as they are at the restore.
\<close>

theorem restore_of_backup:
  assumes "legal_storage sc saved"
  shows "\<exists>ts st'. validate_backup_file (Some (create_backup_dict now (\<lambda>t. saved))) = Inr ts
    \<and> restore_from_dict sc ts st = (Inr (), st')
    \<and> map (st_rows st') TABLES_IN_DEPENDENCY_ORDER = map (st_rows saved) TABLES_IN_DEPENDENCY_ORDER
    \<and> st_rows st' ''reseller_payment_cards'' = st_rows st ''reseller_payment_cards''
    \<and> st_rows st' ''customer_wallet_topups'' = st_rows st ''customer_wallet_topups''"
proof -
  have "''reseller_payment_cards'' \<notin> set TABLES_IN_DEPENDENCY_ORDER" "''customer_wallet_topups'' \<notin> set TABLES_IN_DEPENDENCY_ORDER"
    by code_simp+
  with restored_tables [OF assms, of now st] show ?thesis by auto
qed

text \<open>
  Property C14: the way back from a wrong restore. Whatever file is restored, unless it is refused as
  invalid, and whether the restore succeeds or raises: the safety copy is a valid backup, and
  restoring it brings back every table the list names as it was before.
\<close>

theorem safe_restore_can_be_undone:
  assumes "legal_storage (be_schema e) (sv_storage w)"
    and "perform_safe_restore e path w = (res, w1)" and "\<And>r. res \<noteq> Inl (Inl r)"
  shows "\<exists>ts. validate_backup_file (read_file (be_safety_path e) w1) = Inr ts
    \<and> fst (restore_from_dict (be_schema e) ts (sv_storage w1)) = Inr ()
    \<and> list_all (\<lambda>t. st_rows (snd (restore_from_dict (be_schema e) ts (sv_storage w1))) t = st_rows (sv_storage w) t)
        TABLES_IN_DEPENDENCY_ORDER"
proof -
  have "read_file (be_safety_path e) w1 = Some (create_backup_dict (be_now e) (\<lambda>t. sv_storage w))"
    using assms(2,3)
    by (auto simp: perform_safe_restore_def read_file_def write_file_def backup_now_def Let_def split: sum.splits prod.splits)
  then show ?thesis
    using restored_tables [OF assms(1), of "be_now e" "sv_storage w1"] by (auto simp: list_all_iff)
qed

text \<open>
  Nothing is restored without the last press. Every button and every upload, except
  the confirmation in the state that asks for it, leaves every table but the log of the backups as
  it is.
\<close>

theorem restore_needs_confirmation:
  assumes "b \<noteq> RestoreConfirm \<or> sv_state w \<noteq> Some WaitingConfirmation" and "t \<noteq> ''backup_logs''"
  shows "st_rows (sv_storage (snd (backup_press e b w))) t = st_rows (sv_storage w) t
    \<and> st_rows (sv_storage (snd (backup_upload e uploaded w))) t = st_rows (sv_storage w) t"
proof
  show "st_rows (sv_storage (snd (backup_press e b w))) t = st_rows (sv_storage w) t"
    using assms
    by (auto simp: backup_press_def backup_menu_def take_backup_cb_def start_restore_cb_def cancel_restore_cb_def leave_for_home_def
      backup_says_def backup_leave_def remove_file_def insert_into_def Let_def
      split: backup_button.split option.split prod.split sum.split)
  show "st_rows (sv_storage (snd (backup_upload e uploaded w))) t = st_rows (sv_storage w) t"
    by (auto simp: backup_upload_def receive_restore_file_def backup_says_def backup_leave_def write_file_def
      remove_file_def Let_def split: sum.split)
qed

text \<open>
  Property C38: a restore that raises keeps the tables and loses the session. No table has changed, and the
  uploaded file is gone; but the connection goes back to the pool with the checks of foreign keys
  switched off, and the dialog still waits for a confirmation, which can then only be refused.
\<close>

theorem failed_restore:
  assumes "sv_path w = Some path" and "perform_safe_restore e path w = (Inl (Inr x), w1)"
    and "sv_state w = Some WaitingConfirmation"
  shows "let w2 = snd (backup_press e RestoreConfirm w)
    in fst (backup_press e RestoreConfirm w) = Inl x
     \<and> st_rows (sv_storage w2) = st_rows (sv_storage w) \<and> st_fk_off (sv_storage w2)
     \<and> sv_files w2 path = None \<and> sv_state w2 = Some WaitingConfirmation
     \<and> last (sv_shown (snd (backup_press e RestoreConfirm w2))) = (RestoreError BrokenFile, Some BackToAdminMenu)"
proof -
  have w1: "st_rows (sv_storage w1) = st_rows (sv_storage w)" "st_fk_off (sv_storage w1)" "sv_state w1 = sv_state w"
      "sv_path w1 = sv_path w"
    using assms(2) by (auto simp: perform_safe_restore_def restore_from_dict_def write_file_def Let_def
      split: sum.splits prod.splits)
  have "backup_press e RestoreConfirm w = (Inl x, remove_file path w1)"
    using assms by (simp add: backup_press_def confirm_restore_cb_def)
  moreover have "backup_press e RestoreConfirm (remove_file path w1) = (Inr (), remove_file path (backup_leave
      (backup_says (RestoreError BrokenFile) (Some BackToAdminMenu) (remove_file path w1))))"
    using w1 assms(1,3) by (simp add: backup_press_def confirm_restore_cb_def perform_safe_restore_def read_file_def
      remove_file_def validate_backup_file_def)
  ultimately show ?thesis
    using w1 assms(3) by (simp add: Let_def remove_file_def backup_leave_def backup_says_def)
qed

section \<open>A small server\<close>

definition demo_schema :: schema where
  "demo_schema = \<lparr>read_cell = (\<lambda>t c v. case v of
       JNull \<Rightarrow> Some CNull
     | JInt n \<Rightarrow> Some (CInt n)
     | JString s \<Rightarrow> if c = ''amount'' then (if s = ''-2.50'' then Some (CDec (- 250)) else None)
                   else if c = ''at'' then (if s = ''2024-07-18T09:05:00'' then Some (CMoment (2024, 7, 18, 9, 5, 0)) else None)
                   else Some (CText s)
     | _ \<Rightarrow> None),
     complete_row = (\<lambda>t r. Some r), clash = (\<lambda>t a b. map_of a ''id'' = map_of b ''id'')\<rparr>"

definition demo_storage :: storage where
  "demo_storage = \<lparr>st_rows = (\<lambda>t. if t = ''wallet_transactions''
       then [[(''id'', CInt 1), (''amount'', CDec (- 250)), (''at'', CMoment (2024, 7, 18, 9, 5, 0)), (''ref'', CNull)],
             [(''id'', CInt 2), (''ref'', CText ''x'')]]
       else if t = ''customer_wallet_topups'' then [[(''id'', CInt 1)]] else []), st_fk_off = False\<rparr>"

definition demo_backup_env :: backup_env where
  "demo_backup_env = \<lparr>be_schema = demo_schema, be_now = (2024, 7, 18, 9, 5, 0), be_safety_path = ''safe'',
     be_size = (\<lambda>v. 1), be_user = 5, be_upload_path = ''upload''\<rparr>"

definition demo_server :: "jval \<Rightarrow> server" where
  "demo_server file = \<lparr>sv_storage = demo_storage, sv_files = (\<lambda>p. if p = ''upload'' then Some (Some file) else None),
     sv_state = Some WaitingConfirmation, sv_path = Some ''upload'', sv_shown = []\<rparr>"

lemma demo_legal: "legal_storage demo_schema demo_storage"
  by code_simp

lemma restore_of_backup_witness:
  "\<exists>ts st'. restore_from_dict demo_schema ts \<lparr>st_rows = (\<lambda>t. []), st_fk_off = False\<rparr> = (Inr (), st')
     \<and> st_rows st' ''wallet_transactions'' = st_rows demo_storage ''wallet_transactions''
     \<and> st_rows st' ''customer_wallet_topups'' = []"
proof -
  have "''wallet_transactions'' \<in> set TABLES_IN_DEPENDENCY_ORDER" by code_simp
  with restore_of_backup [OF demo_legal, of "(2024, 7, 18, 9, 5, 0)" "\<lparr>st_rows = (\<lambda>t. []), st_fk_off = False\<rparr>"]
  show ?thesis by (auto simp: map_eq_conv)
qed

text \<open>Three known tables, one of them with a row that is a number.\<close>

definition demo_bad_file :: jval where
  "demo_bad_file = JObject [(''created_at'', JNull), (''tables'', JObject [(''resellers'', JArray []),
     (''orders'', JArray []), (''packages'', JArray [JInt 5])])]"

lemma demo_bad_restore:
  "fst (perform_safe_restore demo_backup_env ''upload'' (demo_server demo_bad_file)) = Inl (Inr AttributeError)"
  by code_simp

lemma safe_restore_can_be_undone_witness:
  "\<exists>ts. validate_backup_file (read_file ''safe'' (snd (perform_safe_restore demo_backup_env ''upload''
     (demo_server demo_bad_file)))) = Inr ts"
proof -
  let ?run = "perform_safe_restore demo_backup_env ''upload'' (demo_server demo_bad_file)"
  have run: "?run = (Inl (Inr AttributeError), snd ?run)"
    using demo_bad_restore by (simp add: prod_eq_iff)
  have legal: "legal_storage (be_schema demo_backup_env) (sv_storage (demo_server demo_bad_file))"
    using demo_legal by (simp add: demo_backup_env_def demo_server_def)
  have "be_safety_path demo_backup_env = ''safe''" by (simp add: demo_backup_env_def)
  with safe_restore_can_be_undone [OF legal run] show ?thesis by auto
qed

lemma restore_needs_confirmation_witness:
  "st_rows (sv_storage (snd (backup_press demo_backup_env RestoreCancel (demo_server demo_bad_file)))) ''orders'' = []"
  using restore_needs_confirmation [of RestoreCancel "demo_server demo_bad_file" "''orders''" demo_backup_env None]
  by (simp add: demo_server_def demo_storage_def)

lemma failed_restore_witness:
  "st_fk_off (sv_storage (snd (backup_press demo_backup_env RestoreConfirm (demo_server demo_bad_file))))"
proof -
  let ?run = "perform_safe_restore demo_backup_env ''upload'' (demo_server demo_bad_file)"
  have run: "?run = (Inl (Inr AttributeError), snd ?run)"
    using demo_bad_restore by (simp add: prod_eq_iff)
  have "sv_path (demo_server demo_bad_file) = Some ''upload''" "sv_state (demo_server demo_bad_file) = Some WaitingConfirmation"
    by (simp_all add: demo_server_def)
  from failed_restore [OF this(1) run this(2)] show ?thesis by (simp only: Let_def)
qed

end
