(* ===== verification/Platform.thy ===== *)
theory Platform
  imports PanelPrices BotManager Backup
begin

text \<open>
  The platform around the bots: the connections of \<^verbatim>\<open>database/db.py\<close>, the payment provider
  (\<^verbatim>\<open>services/zarinpal_service.py\<close>), the log of activities (\<^verbatim>\<open>services/activity_log_service.py\<close>), and
  \<^verbatim>\<open>main.py\<close> with the loop of the alerts, the start and the end of the process.
\<close>

section \<open>Connections and snapshots\<close>

text \<open>
  MySQL's \<^verbatim>\<open>REPEATABLE READ\<close>: the first read of a transaction fixes what the connection sees, until
  it commits or rolls back. \<open>snapshots c\<close> is what connection \<open>c\<close> of the pool still sees, if a transaction
  has read on it; \<open>unsaved c\<close> are its own writes, seen by itself and by the others after its commit;
  \<open>committed\<close> is what has been committed by all of them.
\<close>

record 'd sessions =
  committed :: 'd
  snapshots :: "nat \<Rightarrow> 'd option"
  unsaved :: "nat \<Rightarrow> ('d \<Rightarrow> 'd) list"

definition select_on :: "nat \<Rightarrow> ('d \<Rightarrow> 'a) \<Rightarrow> 'd sessions \<Rightarrow> 'a \<times> 'd sessions" where
  "select_on c query s =
     (let seen = (case snapshots s c of None \<Rightarrow> committed s | Some d \<Rightarrow> d)
      in (query (fold (\<lambda>f. f) (unsaved s c) seen), s\<lparr>snapshots := (snapshots s)(c \<mapsto> seen)\<rparr>))"

text \<open>A write works on the newest rows when it is committed, and is dropped by a rollback.\<close>

definition write_on :: "nat \<Rightarrow> ('d \<Rightarrow> 'd) \<Rightarrow> 'd sessions \<Rightarrow> 'd sessions" where
  "write_on c f s = s\<lparr>unsaved := (unsaved s)(c := unsaved s c @ [f])\<rparr>"

definition commit_on :: "nat \<Rightarrow> 'd sessions \<Rightarrow> 'd sessions" where
  "commit_on c s = s\<lparr>committed := fold (\<lambda>f. f) (unsaved s c) (committed s),
     snapshots := (snapshots s)(c := None), unsaved := (unsaved s)(c := [])\<rparr>"

definition rollback_on :: "nat \<Rightarrow> 'd sessions \<Rightarrow> 'd sessions" where
  "rollback_on c s = s\<lparr>snapshots := (snapshots s)(c := None), unsaved := (unsaved s)(c := [])\<rparr>"

text \<open>
  A block of \<^verbatim>\<open>async with\<close> ends with a value or raises. \<^verbatim>\<open>acquire_conn\<close> commits on both ways out
  (\<^verbatim>\<open>finally\<close>); \<^verbatim>\<open>transaction\<close> begins a new transaction, which ends what was open before, and commits or rolls
  back.
\<close>

type_synonym ('d, 'a) block = "'d sessions \<Rightarrow> (exn + 'a) \<times> 'd sessions"

definition acquire_conn :: "nat \<Rightarrow> ('d, 'a) block \<Rightarrow> ('d, 'a) block" where
  "acquire_conn c block s = (case block s of (res, s1) \<Rightarrow> (res, commit_on c s1))"

definition transaction_on :: "nat \<Rightarrow> ('d, 'a) block \<Rightarrow> ('d, 'a) block" where
  "transaction_on c block s =
     (case block (commit_on c s) of
        (Inr x, s1) \<Rightarrow> (Inr x, commit_on c s1)
      | (Inl e, s1) \<Rightarrow> (Inl e, rollback_on c s1))"

text \<open>
  The helpers on top of it: a read, of which everything after the query may raise, and a statement that
  writes, which raises without an effect or is committed in its block (and once more on the way out).
\<close>

definition fetch_on :: "nat \<Rightarrow> ('d \<Rightarrow> 'a) \<Rightarrow> exn option \<Rightarrow> ('d, 'a) block" where
  "fetch_on c query fails = acquire_conn c (\<lambda>s.
     case select_on c query s of (x, s1) \<Rightarrow> (case fails of None \<Rightarrow> Inr x | Some e \<Rightarrow> Inl e, s1))"

definition execute_on :: "nat \<Rightarrow> ('d \<Rightarrow> 'd) \<Rightarrow> exn option \<Rightarrow> ('d, unit) block" where
  "execute_on c f fails = acquire_conn c (\<lambda>s.
     case fails of Some e \<Rightarrow> (Inl e, s) | None \<Rightarrow> (Inr (), commit_on c (write_on c f s)))"

text \<open>
  What happens on the pool, one block after the other: reads, single statements, and transactions
  that write a number of times and then end or raise.
\<close>

datatype 'd pool_event = PoolRead nat "exn option" | PoolWrite nat "'d \<Rightarrow> 'd" "exn option"
  | PoolTransaction nat "('d \<Rightarrow> 'd) list" "exn option"

fun pool_step :: "'d pool_event \<Rightarrow> 'd sessions \<Rightarrow> 'd sessions" where
  "pool_step (PoolRead c fails) s = snd (fetch_on c (\<lambda>d. d) fails s)"
| "pool_step (PoolWrite c f fails) s = snd (execute_on c f fails s)"
| "pool_step (PoolTransaction c fs fails) s = snd (transaction_on c (\<lambda>s.
     (case fails of None \<Rightarrow> Inr () | Some e \<Rightarrow> Inl e, fold (write_on c) fs s)) s)"

definition run_pool :: "'d pool_event list \<Rightarrow> 'd sessions \<Rightarrow> 'd sessions" where
  "run_pool = fold pool_step"

fun connection_of :: "'d pool_event \<Rightarrow> nat" where
  "connection_of (PoolRead c fails) = c"
| "connection_of (PoolWrite c f fails) = c"
| "connection_of (PoolTransaction c fs fails) = c"

fun effect_of :: "'d pool_event \<Rightarrow> 'd \<Rightarrow> 'd" where
  "effect_of (PoolWrite c f None) d = f d"
| "effect_of (PoolTransaction c fs None) d = fold (\<lambda>f. f) fs d"
| "effect_of _ d = d"

lemma session_simps [simp]:
  "committed (snd (select_on c query s)) = committed s" "unsaved (snd (select_on c query s)) = unsaved s"
  "snapshots (commit_on c s) = (snapshots s)(c := None)" "unsaved (commit_on c s) = (unsaved s)(c := [])"
  "committed (commit_on c s) = fold (\<lambda>f. f) (unsaved s c) (committed s)"
  "snapshots (rollback_on c s) = (snapshots s)(c := None)" "unsaved (rollback_on c s) = (unsaved s)(c := [])"
  "committed (rollback_on c s) = committed s"
  "committed (write_on c f s) = committed s" "snapshots (write_on c f s) = snapshots s"
  "unsaved (write_on c f s) = (unsaved s)(c := unsaved s c @ [f])"
  by (simp_all add: select_on_def commit_on_def rollback_on_def write_on_def Let_def)

lemma writes_simps [simp]:
  "committed (fold (write_on c) fs s) = committed s" "snapshots (fold (write_on c) fs s) = snapshots s"
  "unsaved (fold (write_on c) fs s) = (unsaved s)(c := unsaved s c @ fs)"
  by (induction fs arbitrary: s) simp_all

lemma select_snapshots: "c' \<noteq> c \<Longrightarrow> snapshots (snd (select_on c query s)) c' = snapshots s c'"
  by (simp add: select_on_def Let_def)

lemma pool_step_frame:
  assumes "\<forall>c. unsaved s c = []"
  shows "(\<forall>c. unsaved (pool_step ev s) c = []) \<and> committed (pool_step ev s) = effect_of ev (committed s)
    \<and> snapshots (pool_step ev s) (connection_of ev) = None
    \<and> (\<forall>c. snapshots s c = None \<longrightarrow> snapshots (pool_step ev s) c = None)"
proof (cases ev)
  case (PoolRead c fails)
  obtain x s1 where sel: "select_on c (\<lambda>d. d) s = (x, s1)" by fastforce
  with assms session_simps(1,2) [of c "\<lambda>d. d" s] select_snapshots [of _ c "\<lambda>d. d" s] PoolRead show ?thesis
    by (auto simp: fetch_on_def acquire_conn_def)
next
  case (PoolWrite c f fails)
  then show ?thesis using assms by (cases fails) (simp_all add: execute_on_def acquire_conn_def)
next
  case (PoolTransaction c fs fails)
  then show ?thesis using assms by (cases fails) (simp_all add: transaction_on_def)
qed

lemma run_pool_frame:
  assumes "\<forall>c. unsaved s c = []"
  shows "(\<forall>c. unsaved (run_pool es s) c = []) \<and> committed (run_pool es s) = fold effect_of es (committed s)
    \<and> (\<forall>c. snapshots s c = None \<or> c \<in> connection_of ` set es \<longrightarrow> snapshots (run_pool es s) c = None)"
  using assms
proof (induction es arbitrary: s)
  case (Cons ev es)
  note one = pool_step_frame [OF Cons.prems, of ev]
  with Cons.IH [of "pool_step ev s"] show ?case by (auto simp: run_pool_def)
qed (simp add: run_pool_def)

text \<open>
  Property C37: reads are never stale, and what raised has left nothing. Blocks run on the connections of the
  pool one after the other: reads, single statements and transactions, any of which may raise. The precondition
  is that no connection starts with writes of its own, and that the connection of the read starts
  without an old snapshot (as all do when the pool is opened) or has been used by one of the blocks (the read that the
  migrator leaves open at the start is ended by the next block on its connection). Then a read sees
  everything that was committed, and what was committed is the effect of the blocks that did not raise, in their order.
\<close>

theorem pool_reads_are_fresh:
  assumes "\<forall>c. unsaved s c = []" and "snapshots s c = None \<or> c \<in> connection_of ` set es"
  shows "fst (fetch_on c query None (run_pool es s)) = Inr (query (committed (run_pool es s)))
    \<and> committed (run_pool es s) = fold effect_of es (committed s)"
  using run_pool_frame [OF assms(1), of es] assms(2)
  by (auto simp: fetch_on_def acquire_conn_def select_on_def Let_def)

definition demo_sessions :: "nat sessions" where
  "demo_sessions = \<lparr>committed = 0, snapshots = (\<lambda>c. None)(3 := Some 0), unsaved = (\<lambda>c. [])\<rparr>"

text \<open>The bug that the comment of \<^verbatim>\<open>acquire_conn\<close> describes: without the commit the second read is stale.\<close>

lemma stale_without_commit:
  "fst (select_on 1 (\<lambda>n. n) (snd (execute_on 2 (\<lambda>n. n + 1) None (snd (select_on 1 (\<lambda>n. n) demo_sessions))))) = 0"
  by (simp add: select_on_def execute_on_def acquire_conn_def write_on_def commit_on_def demo_sessions_def)

lemma pool_reads_are_fresh_witness:
  "fst (fetch_on 3 (\<lambda>n. n) None (run_pool
     [PoolRead 1 None, PoolWrite 2 (\<lambda>n. n + 1) None, PoolTransaction 3 [\<lambda>n. n + 5, \<lambda>n. n * 2] (Some RuntimeError)]
     demo_sessions)) = Inr 1"
proof -
  have "\<forall>c. unsaved demo_sessions c = []" by (simp add: demo_sessions_def)
  from pool_reads_are_fresh [OF this, of 3 "[PoolRead 1 None, PoolWrite 2 (\<lambda>n. n + 1) None,
      PoolTransaction 3 [\<lambda>n. n + 5, \<lambda>n. n * 2] (Some RuntimeError)]" "\<lambda>n. n"]
  show ?thesis by (simp add: demo_sessions_def)
qed

section \<open>The payment provider\<close>

text \<open>
  \<open>ask url payload\<close> is the JSON answer of the provider, or the exception of the request.
  \<open>NoMerchant\<close> and \<open>PaymentRefused\<close> are the two ways \<^verbatim>\<open>ZarinpalError\<close> is raised.
\<close>

datatype pay_error = NoMerchant | PaymentRefused jval | PayRaises exn

datatype pay_link = StartPay jval

text \<open>\<^verbatim>\<open>data.get("data", {}).get("code")\<close>.\<close>

definition code_of_answer :: "jval \<Rightarrow> exn + jval option" where
  "code_of_answer got =
     (case got of
        JObject kvs \<Rightarrow>
          (case map_of kvs ''data'' of
             None \<Rightarrow> Inr None
           | Some (JObject inner) \<Rightarrow> Inr (map_of inner ''code'')
           | Some _ \<Rightarrow> Inl AttributeError)
      | _ \<Rightarrow> Inl AttributeError)"

definition payment_payload :: "string \<Rightarrow> int \<Rightarrow> string \<Rightarrow> string \<Rightarrow> jval" where
  "payment_payload merchant amount_toman description callback_url =
     JObject [(''merchant_id'', JString merchant), (''amount'', JInt (amount_toman * 10)),
       (''description'', JString description), (''callback_url'', JString callback_url)]"

definition create_payment_request ::
  "(string \<Rightarrow> jval \<Rightarrow> exn + jval) \<Rightarrow> string \<Rightarrow> int \<Rightarrow> string \<Rightarrow> string \<Rightarrow> pay_error + pay_link \<times> jval" where
  "create_payment_request ask merchant amount_toman description callback_url =
     (if merchant = [] then Inl NoMerchant
      else case ask ''request'' (payment_payload merchant amount_toman description callback_url) of
        Inl x \<Rightarrow> Inl (PayRaises x)
      | Inr got \<Rightarrow>
          (case code_of_answer got of
             Inl x \<Rightarrow> Inl (PayRaises x)
           | Inr code \<Rightarrow>
               if code \<noteq> Some (JInt 100) then Inl (PaymentRefused got)
               else (case got of
                       JObject kvs \<Rightarrow>
                         (case map_of kvs ''data'' of
                            Some (JObject inner) \<Rightarrow>
                              (case map_of inner ''authority'' of
                                 None \<Rightarrow> Inl (PayRaises KeyError)
                               | Some authority \<Rightarrow> Inr (StartPay authority, authority))
                          | _ \<Rightarrow> Inl (PayRaises KeyError))
                     | _ \<Rightarrow> Inl (PayRaises TypeError))))"

definition verify_payment :: "(string \<Rightarrow> jval \<Rightarrow> exn + jval) \<Rightarrow> string \<Rightarrow> string \<Rightarrow> int \<Rightarrow> exn + bool" where
  "verify_payment ask merchant authority amount_toman =
     (case ask ''verify'' (JObject [(''merchant_id'', JString merchant), (''amount'', JInt (amount_toman * 10)),
              (''authority'', JString authority)]) of
        Inl x \<Rightarrow> Inl x
      | Inr got \<Rightarrow>
          (case code_of_answer got of
             Inl x \<Rightarrow> Inl x
           | Inr code \<Rightarrow> Inr (code = Some (JInt 100) \<or> code = Some (JInt 101))))"

text \<open>What the provider documents for a refused request: an empty list under \<^verbatim>\<open>data\<close>, and the errors.\<close>

definition refused_answer :: "(string \<times> jval) list \<Rightarrow> jval" where
  "refused_answer problem = JObject [(''data'', JArray []), (''errors'', JObject problem)]"

text \<open>
  What asking for a payment gives. A link is returned exactly when there is a merchant and
  the provider accepts the amount, in Rial, with an authority for it; a refusal in the form that the
  provider documents is raised as \<^verbatim>\<open>AttributeError\<close>, not as the \<^verbatim>\<open>ZarinpalError\<close> it is meant to be.
\<close>

theorem payment_request_outcomes:
  "((\<exists>link. create_payment_request ask merchant n what back = Inr (link, a)) \<longleftrightarrow>
     merchant \<noteq> [] \<and> (\<exists>kvs inner. ask ''request'' (payment_payload merchant n what back) = Inr (JObject kvs)
       \<and> map_of kvs ''data'' = Some (JObject inner) \<and> map_of inner ''code'' = Some (JInt 100)
       \<and> map_of inner ''authority'' = Some a))
   \<and> (merchant \<noteq> [] \<and> ask ''request'' (payment_payload merchant n what back) = Inr (refused_answer problem) \<longrightarrow>
        create_payment_request ask merchant n what back = Inl (PayRaises AttributeError))"
  by (auto simp: create_payment_request_def code_of_answer_def refused_answer_def
      split: sum.splits jval.splits option.splits if_splits)

lemma payment_request_outcomes_witness:
  "create_payment_request (\<lambda>url x. Inr (refused_answer [(''code'', JInt (- 9))])) ''m'' 5 ''top-up'' ''back''
     = Inl (PayRaises AttributeError)
   \<and> (\<exists>link. create_payment_request (\<lambda>url x. Inr (JObject [(''data'', JObject [(''code'', JInt 100), (''authority'', JString ''A1'')])]))
        ''m'' 5 ''top-up'' ''back'' = Inr (link, JString ''A1''))"
  using payment_request_outcomes [of "\<lambda>url x. Inr (refused_answer [(''code'', JInt (- 9))])" "''m''" 5 "''top-up''" "''back''" JNull]
    payment_request_outcomes [of "\<lambda>url x. Inr (JObject [(''data'', JObject [(''code'', JInt 100), (''authority'', JString ''A1'')])])"
      "''m''" 5 "''top-up''" "''back''" "JString ''A1''"]
  by simp

section \<open>The log of activities\<close>

text \<open>\<^verbatim>\<open>action VARCHAR(64)\<close>; nothing in the repository calls these two functions.\<close>

record activity =
  act_type :: string
  act_actor :: int
  act_reseller :: "nat option"
  act_action :: string
  act_details :: jval
  act_at :: time

definition log_activity ::
  "time \<Rightarrow> string \<Rightarrow> int \<Rightarrow> string \<Rightarrow> nat option \<Rightarrow> jval option \<Rightarrow> activity list \<Rightarrow> (activity list, unit) outcome" where
  "log_activity now actor_type actor action rid details entries =
     (if actor_type \<notin> {''admin'', ''reseller'', ''operator''} \<or> 64 < length action then (Inl DatabaseError, entries)
      else (Inr (), entries @ [\<lparr>act_type = actor_type, act_actor = actor, act_reseller = rid, act_action = action,
              act_details = (case details of None \<Rightarrow> JObject [] | Some x \<Rightarrow> if is_falsy x then JObject [] else x),
              act_at = now\<rparr>]))"

text \<open>\<^verbatim>\<open>ORDER BY created_at DESC LIMIT n\<close>; entries of one second keep their order.\<close>

definition get_logs :: "nat option \<Rightarrow> nat \<Rightarrow> activity list \<Rightarrow> activity list" where
  "get_logs rid limit entries =
     take limit (sort_key (\<lambda>a. - int (act_at a))
       (filter (\<lambda>a. rid = None \<or> act_reseller a = rid) entries))"

section \<open>The loop of the alerts\<close>

text \<open>
  One round of \<^verbatim>\<open>activation_alert_loop\<close>: a message for each order that waits too long, until Telegram refuses
  one; the exception is logged and ends the round. The rounds are half an hour apart.
\<close>

definition alert_round :: "(order \<Rightarrow> bool) \<Rightarrow> nat \<Rightarrow> time \<Rightarrow> db \<Rightarrow> (string \<times> nat) list" where
  "alert_round accepted hours now d =
     map (\<lambda>r. (order_code r, o_reseller_id r)) (takeWhile accepted (find_orders_pending_activation_alert now hours d))"

fun alert_rounds :: "(order \<Rightarrow> bool) \<Rightarrow> nat \<Rightarrow> time \<Rightarrow> db list \<Rightarrow> (string \<times> nat) list" where
  "alert_rounds accepted hours now [] = []"
| "alert_rounds accepted hours now (d # ds) =
     alert_round accepted hours now d @ alert_rounds accepted hours (now + 1800) ds"

text \<open>
  The alert is repeated until the order is activated. When every message arrives, an order that
  was confirmed too long ago and stays so is reported in each round.
\<close>

theorem alerts_repeat:
  assumes "\<And>d. d \<in> set ds \<Longrightarrow> r \<in> set (trows (orders d))"
    and "o_status r = Confirmed" and "confirmed_at r = Some t0" and "t0 + hours * 3600 < now"
  shows "length ds \<le> count_list (alert_rounds (\<lambda>r. True) hours now ds) (order_code r, o_reseller_id r)"
  using assms(1,4)
proof (induction ds arbitrary: now)
  case (Cons d ds)
  have "r \<in> set (find_orders_pending_activation_alert now hours d)"
    using Cons.prems assms(2,3) by (simp add: find_orders_pending_activation_alert_def fetch_all_def)
  then have "(order_code r, o_reseller_id r) \<in> set (alert_round (\<lambda>r. True) hours now d)"
    by (auto simp: alert_round_def takeWhile_eq_all_conv [THEN iffD2])
  then have "1 \<le> count_list (alert_round (\<lambda>r. True) hours now d) (order_code r, o_reseller_id r)"
    by (metis count_notin count_list_0_iff less_one linorder_not_less)
  with Cons.IH [of "now + 1800"] Cons.prems show ?case by simp
qed simp

definition demo_stale :: order where
  "demo_stale = \<lparr>o_id = 1, order_code = ''A'', o_reseller_id = 1, o_package_id = 1, o_customer_id = 1,
     o_status = Confirmed, receipt_image = None, phone_number = None, package_price = 100, commission_amount = 2,
     is_test_order = False, created_at = 0, confirmed_at = Some 0, activated_at = None, paid_from_wallet = False,
     o_type = PackageOrder, delivered_charge_code = None\<rparr>"

lemma alerts_repeat_witness:
  "2 \<le> count_list (alert_rounds (\<lambda>r. True) 0 5 (replicate 2 (demo_wallet_db\<lparr>orders := \<lparr>trows = [demo_stale], auto_inc = 2\<rparr>\<rparr>))) (''A'', 1)"
  using alerts_repeat [of "replicate 2 (demo_wallet_db\<lparr>orders := \<lparr>trows = [demo_stale], auto_inc = 2\<rparr>\<rparr>)" demo_stale 0 0 5]
  by (simp add: demo_stale_def)

section \<open>Start and end of the process\<close>

text \<open>
  \<^verbatim>\<open>main\<close>: \<open>opened\<close> and \<open>migrated\<close> are how \<^verbatim>\<open>init_pool\<close> and \<^verbatim>\<open>run_migrations\<close> end, \<open>turns\<close> what the turns of the
  manager see until one of the two tasks ends with the exception \<open>x\<close>; \<^verbatim>\<open>finally\<close> stops the bots and
  closes the pool.
\<close>

record platform =
  pl_pool :: bool
  pl_running :: running

text \<open>
  \<^verbatim>\<open>asyncio.gather\<close> passes the first exception on and leaves the other task alone: the manager's loop goes
  on while the bots are stopped one after the other, and a turn may come between two of them.
\<close>

fun stopping :: "(reseller \<Rightarrow> bool) \<Rightarrow> nat list \<Rightarrow> db option list \<Rightarrow> running \<Rightarrow> running" where
  "stopping starts [] between run = run"
| "stopping starts (rid # rids) [] run = stopping starts rids [] (stop_bot rid run)"
| "stopping starts (rid # rids) (turn # between) run =
     stopping starts rids between (case turn of None \<Rightarrow> stop_bot rid run | Some d \<Rightarrow> run_turn starts d (stop_bot rid run))"

definition main_process ::
  "(reseller \<Rightarrow> bool) \<Rightarrow> exn + unit \<Rightarrow> exn + unit \<Rightarrow> db list \<Rightarrow> exn \<Rightarrow> db option list \<Rightarrow> platform \<Rightarrow> (platform, unit) outcome" where
  "main_process starts opened migrated turns x between w =
     (case opened of
        Inl y \<Rightarrow> (Inl y, w)
      | Inr _ \<Rightarrow>
          let w1 = w\<lparr>pl_pool := True\<rparr>
          in (case migrated of
                Inl y \<Rightarrow> (Inl y, w1)
              | Inr _ \<Rightarrow>
                  let run = fold (run_turn starts) turns (pl_running w1)
                  in (Inl x, w1\<lparr>pl_running := stopping starts (map fst run) between run, pl_pool := False\<rparr>)))"

lemma stopping_quiet: "stopping starts rids [] run = fold stop_bot rids run"
  by (induction rids arbitrary: run) simp_all

text \<open>
  The end of the process. When no turn of the manager comes between, no bot is left and
  the pool is closed, whatever ended the process; one turn in between is enough to start a bot again
  that nobody stops any more.
\<close>

theorem main_ends:
  "snd (main_process starts (Inr ()) (Inr ()) turns x [] w) = w\<lparr>pl_pool := False, pl_running := []\<rparr>
   \<and> (\<forall>r. trows (resellers d) = [r] \<and> r_status r = ResellerActive \<and> starts r \<longrightarrow>
        pl_running (snd (main_process starts (Inr ()) (Inr ()) [d] x [Some d] (w\<lparr>pl_running := []\<rparr>))) = [(r_id r, True)])"
proof (intro conjI allI impI)
  show "snd (main_process starts (Inr ()) (Inr ()) turns x [] w) = w\<lparr>pl_pool := False, pl_running := []\<rparr>"
    by (simp add: main_process_def Let_def stopping_quiet shutdown_stops_all [unfolded shutdown_def])
  fix r
  assume "trows (resellers d) = [r] \<and> r_status r = ResellerActive \<and> starts r"
  then show "pl_running (snd (main_process starts (Inr ()) (Inr ()) [d] x [Some d] (w\<lparr>pl_running := []\<rparr>))) = [(r_id r, True)]"
    by (simp add: main_process_def Let_def run_turn_def sync_once_def fetch_all_def start_bot_def running_ids_def stop_bot_def)
qed

lemma main_ends_witness:
  "pl_running (snd (main_process (\<lambda>r. True) (Inr ()) (Inr ()) [demo_wallet_db] RuntimeError [Some demo_wallet_db]
     \<lparr>pl_pool = False, pl_running = []\<rparr>)) = [(1, True)]"
proof -
  obtain r where "trows (resellers demo_wallet_db) = [r]" "r_status r = ResellerActive" "r_id r = 1"
    by (simp add: demo_wallet_db_def)
  with main_ends [of "\<lambda>r. True" "[]" RuntimeError "\<lparr>pl_pool = False, pl_running = []\<rparr>" demo_wallet_db]
  show ?thesis by simp
qed

end
