(* ===== verification/Startup.thy ===== *)
theory Startup
  imports AdminFacts Platform "HOL-Library.Word"
begin

text \<open>
  What happens before the first update: the environment that \<^verbatim>\<open>config.py\<close> reads while it is imported,
  the key of \<^verbatim>\<open>core/encryption.py\<close>, the tokens of the shops from the dialog that stores them to the
  bot that uses them, and the alerts of missing credit of \<^verbatim>\<open>services/notifications.py\<close>. Fernet is
  code of another package and a parameter; UTF-8 is Python's and is modelled.
\<close>

section \<open>The environment\<close>

text \<open>
  The variables of the process come before those of the file \<^verbatim>\<open>.env\<close>, also when they are empty.
\<close>

type_synonym environ = "string \<Rightarrow> string option"

definition load_dotenv :: "environ \<Rightarrow> environ \<Rightarrow> environ" where
  "load_dotenv file process = file ++ process"

text \<open>
  Why the process does not start: \<^verbatim>\<open>RuntimeError\<close> with the name of a variable, \<^verbatim>\<open>ValueError\<close> of \<^verbatim>\<open>int\<close>,
  \<^verbatim>\<open>ValueError\<close> of Fernet for its key, or an exception of \<^verbatim>\<open>main\<close>.
\<close>

datatype start_error = MissingVariable string | BlankNumeral string | BadKey | MainRaises exn

definition require :: "environ \<Rightarrow> string \<Rightarrow> start_error + string" where
  "require env name =
     (case env name of
        None \<Rightarrow> Inl (MissingVariable name)
      | Some value \<Rightarrow> if value = [] then Inl (MissingVariable name) else Inr value)"

definition read_then :: "'e + 'a \<Rightarrow> ('a \<Rightarrow> 'e + 'b) \<Rightarrow> 'e + 'b" where
  "read_then x f = (case x of Inl e \<Rightarrow> Inl e | Inr a \<Rightarrow> f a)"

lemma read_then_simps [simp]: "read_then (Inl e) f = Inl e" "read_then (Inr a) f = f a"
  by (simp_all add: read_then_def)

text \<open>
  \<^verbatim>\<open>int(...)\<close> of a variable. The error carries the variable for the reader of the model; the
  \<^verbatim>\<open>ValueError\<close> of Python shows the text only.
\<close>

definition int_of :: "string \<Rightarrow> string \<Rightarrow> start_error + int" where
  "int_of name value = (case parse_int value of None \<Rightarrow> Inl (BlankNumeral name) | Some n \<Rightarrow> Inr n)"

text \<open>\<^verbatim>\<open>os.getenv(name, default)\<close>: the default stands for a variable that is absent, not for an empty one.\<close>

definition getenv :: "environ \<Rightarrow> string \<Rightarrow> string \<Rightarrow> string" where
  "getenv env name fallback = (case env name of None \<Rightarrow> fallback | Some value \<Rightarrow> value)"

record settings =
  st_admin_token :: string
  st_admin_id :: int
  st_db_host :: string
  st_db_port :: int
  st_db_user :: string
  st_db_password :: string
  st_db_name :: string
  st_pool_min :: int
  st_pool_max :: int
  st_encryption_key :: string
  st_max_pending :: int
  st_alert_hours :: int

definition load_config :: "environ \<Rightarrow> start_error + settings" where
  "load_config env =
     read_then (require env ''SUPER_ADMIN_BOT_TOKEN'') (\<lambda>admin_token.
     read_then (read_then (require env ''SUPER_ADMIN_TELEGRAM_ID'') (int_of ''SUPER_ADMIN_TELEGRAM_ID'')) (\<lambda>admin_id.
     read_then (require env ''DB_HOST'') (\<lambda>host.
     read_then (int_of ''DB_PORT'' (getenv env ''DB_PORT'' ''3306'')) (\<lambda>port.
     read_then (require env ''DB_USER'') (\<lambda>user.
     read_then (require env ''DB_PASSWORD'') (\<lambda>password.
     read_then (require env ''DB_NAME'') (\<lambda>db_name.
     read_then (int_of ''DB_POOL_MIN'' (getenv env ''DB_POOL_MIN'' ''2'')) (\<lambda>pool_min.
     read_then (int_of ''DB_POOL_MAX'' (getenv env ''DB_POOL_MAX'' ''10'')) (\<lambda>pool_max.
     read_then (require env ''TOKEN_ENCRYPTION_KEY'') (\<lambda>key.
     read_then (int_of ''MAX_PENDING_ORDERS_PER_CUSTOMER'' (getenv env ''MAX_PENDING_ORDERS_PER_CUSTOMER'' ''3'')) (\<lambda>pending.
     read_then (int_of ''PENDING_ACTIVATION_ALERT_HOURS'' (getenv env ''PENDING_ACTIVATION_ALERT_HOURS'' ''6'')) (\<lambda>hours.
     Inr \<lparr>st_admin_token = admin_token, st_admin_id = admin_id, st_db_host = host, st_db_port = port,
       st_db_user = user, st_db_password = password, st_db_name = db_name, st_pool_min = pool_min,
       st_pool_max = pool_max, st_encryption_key = key, st_max_pending = pending, st_alert_hours = hours\<rparr>))))))))))))"

text \<open>The two limits as the services take them; a negative limit of pending orders refuses everything, as 0 does.\<close>

definition limits_of :: "settings \<Rightarrow> config" where
  "limits_of s = \<lparr>MAX_PENDING_ORDERS_PER_CUSTOMER = nat (st_max_pending s),
     PENDING_ACTIVATION_ALERT_HOURS = nat (st_alert_hours s)\<rparr>"

text \<open>
  The same as a table: what each variable must be, in the order in which the class reads them.
\<close>

datatype demand = NonEmpty | Numeral | NumeralOr string

definition demands :: "(string \<times> demand) list" where
  "demands = [(''SUPER_ADMIN_BOT_TOKEN'', NonEmpty), (''SUPER_ADMIN_TELEGRAM_ID'', Numeral), (''DB_HOST'', NonEmpty),
     (''DB_PORT'', NumeralOr ''3306''), (''DB_USER'', NonEmpty), (''DB_PASSWORD'', NonEmpty), (''DB_NAME'', NonEmpty),
     (''DB_POOL_MIN'', NumeralOr ''2''), (''DB_POOL_MAX'', NumeralOr ''10''), (''TOKEN_ENCRYPTION_KEY'', NonEmpty),
     (''MAX_PENDING_ORDERS_PER_CUSTOMER'', NumeralOr ''3''), (''PENDING_ACTIVATION_ALERT_HOURS'', NumeralOr ''6'')]"

fun complaint :: "environ \<Rightarrow> string \<times> demand \<Rightarrow> start_error option" where
  "complaint env (name, NonEmpty) =
     (if env name = None \<or> env name = Some [] then Some (MissingVariable name) else None)"
| "complaint env (name, Numeral) =
     (if env name = None \<or> env name = Some [] then Some (MissingVariable name)
      else if parse_int (the (env name)) = None then Some (BlankNumeral name) else None)"
| "complaint env (name, NumeralOr fallback) =
     (if env name \<noteq> None \<and> parse_int (the (env name)) = None then Some (BlankNumeral name) else None)"

fun first_complaint :: "environ \<Rightarrow> (string \<times> demand) list \<Rightarrow> start_error option" where
  "first_complaint env [] = None"
| "first_complaint env (d # ds) =
     (case complaint env d of None \<Rightarrow> first_complaint env ds | Some e \<Rightarrow> Some e)"

lemma require_cases:
  "require env name = (case complaint env (name, NonEmpty) of None \<Rightarrow> Inr (the (env name)) | Some e \<Rightarrow> Inl e)"
  by (auto simp: require_def split: option.split)

lemma require_int_cases:
  "read_then (require env name) (int_of name) =
     (case complaint env (name, Numeral) of None \<Rightarrow> Inr (the (parse_int (the (env name)))) | Some e \<Rightarrow> Inl e)"
  by (auto simp: require_def int_of_def split: option.split)

lemma getenv_int_cases:
  "parse_int fallback \<noteq> None \<Longrightarrow> int_of name (getenv env name fallback) =
     (case complaint env (name, NumeralOr fallback) of
        None \<Rightarrow> Inr (the (parse_int (getenv env name fallback))) | Some e \<Rightarrow> Inl e)"
  by (auto simp: getenv_def int_of_def split: option.split)

text \<open>Reading variable after variable is looking for the first that is wrong.\<close>

definition agrees :: "start_error + settings \<Rightarrow> start_error option \<Rightarrow> (settings \<Rightarrow> bool) \<Rightarrow> bool" where
  "agrees result wrong good =
     (case wrong of None \<Rightarrow> (\<exists>s. result = Inr s \<and> good s) | Some e \<Rightarrow> result = Inl e)"

lemma agrees_step:
  assumes "x = (case c of None \<Rightarrow> Inr a | Some e \<Rightarrow> Inl e)" and "c = None \<Longrightarrow> agrees (f a) wrong good"
  shows "agrees (read_then x f) (case c of None \<Rightarrow> wrong | Some e \<Rightarrow> Some e) good"
  using assms by (cases c) (simp_all add: agrees_def)

lemma agrees_end: "good s \<Longrightarrow> agrees (Inr s) None good"
  by (simp add: agrees_def)

lemma complaint_present: "complaint env (n, NonEmpty) = None \<Longrightarrow> env n = Some (the (env n))"
  by (cases "env n") (auto split: if_splits)

lemma complaint_readable:
  "complaint env (n, NumeralOr f) = None \<Longrightarrow> parse_int f \<noteq> None \<Longrightarrow>
   parse_int (getenv env n f) = Some (the (parse_int (getenv env n f)))"
  by (cases "env n") (auto simp: getenv_def split: if_splits)

lemmas configuration_steps = agrees_step [OF require_cases] agrees_step [OF require_int_cases]
  agrees_step [OF getenv_int_cases]

lemma configuration_agrees:
  "agrees (load_config env) (first_complaint env demands)
    (\<lambda>s. env ''SUPER_ADMIN_BOT_TOKEN'' = Some (st_admin_token s)
       \<and> env ''TOKEN_ENCRYPTION_KEY'' = Some (st_encryption_key s)
       \<and> parse_int (getenv env ''MAX_PENDING_ORDERS_PER_CUSTOMER'' ''3'') = Some (st_max_pending s)
       \<and> parse_int (getenv env ''PENDING_ACTIVATION_ALERT_HOURS'' ''6'') = Some (st_alert_hours s))"
proof -
  have plain: "parse_int ''3306'' \<noteq> None" "parse_int ''2'' \<noteq> None" "parse_int ''10'' \<noteq> None"
    "parse_int ''3'' \<noteq> None" "parse_int ''6'' \<noteq> None"
    by code_simp+
  show ?thesis
    unfolding load_config_def demands_def first_complaint.simps
    by (rule configuration_steps agrees_end plain)+
      (simp only: settings.simps, intro conjI; (erule complaint_present | rule complaint_readable [OF _ plain(4)], assumption | rule complaint_readable [OF _ plain(5)], assumption))
qed

section \<open>Texts as bytes\<close>

text \<open>
  UTF-8 of the Latin-1 characters that texts consist of here. Decoding gives nothing both for bytes
  that are not UTF-8 and for characters beyond Latin-1.
\<close>

type_synonym bytes = "8 word list"

definition utf8_char :: "char \<Rightarrow> bytes" where
  "utf8_char c =
     (let n = of_char c :: nat
      in if n < 128 then [word_of_nat n] else [word_of_nat (192 + n div 64), word_of_nat (128 + n mod 64)])"

definition encode :: "string \<Rightarrow> bytes" where
  "encode s = concat (map utf8_char s)"

fun decode :: "bytes \<Rightarrow> string option" where
  "decode [] = Some []"
| "decode (b # bs) =
     (if unat b < 128 then map_option (\<lambda>cs. char_of (unat b) # cs) (decode bs)
      else if unat b \<in> {194, 195}
      then (case bs of
              [] \<Rightarrow> None
            | b' # rest \<Rightarrow>
                if unat b' div 64 = 2
                then map_option (\<lambda>cs. char_of (64 * (unat b - 192) + unat b' mod 64) # cs) (decode rest)
                else None)
      else None)"

lemma unat_byte: "k < 256 \<Longrightarrow> unat (word_of_nat k :: 8 word) = k"
  by (simp add: unat_of_nat)

lemma decode_char: "decode (utf8_char c @ bs) = map_option ((#) c) (decode bs)"
proof (cases "(of_char c :: nat) < 128")
  case True
  then have "unat (word_of_nat (of_char c) :: 8 word) = of_char c" by (simp add: unat_of_nat)
  with True show ?thesis by (simp add: utf8_char_def)
next
  case False
  define n where "n = (of_char c :: nat)"
  have "n < 256" "\<not> n < 128" using False by (simp_all add: n_def)
  then have "n div 64 < 4" "2 \<le> n div 64" using div_le_mono [of 128 n 64] by (simp_all add: less_mult_imp_div_less)
  then have n: "n div 64 = 2 \<or> n div 64 = 3" by linarith
  have m: "n mod 64 < 64" by simp
  have hi: "unat (word_of_nat (192 + n div 64) :: 8 word) = 192 + n div 64"
    by (rule unat_byte) (use n in auto)
  have lo: "unat (word_of_nat (128 + n mod 64) :: 8 word) = 128 + n mod 64"
    by (rule unat_byte) (use m in linarith)
  have top: "(128 + n mod 64) div 64 = 2" "(128 + n mod 64) mod 64 = n mod 64"
    using mod_mult_self3 [of 2 64 "n mod 64"] by (simp_all add: div_add1_eq)
  have "char_of (64 * (n div 64) + n mod 64) = c" by (simp add: n_def)
  with False n hi lo top show ?thesis
    by (auto simp: utf8_char_def n_def [symmetric] Let_def)
qed

lemma decode_encode: "decode (encode s) = Some s"
  by (induction s) (simp_all add: encode_def decode_char)

section \<open>Tokens\<close>

text \<open>
  Fernet: whether a key can be used, the token of a text under a key (\<open>nonce\<close> is the moment and the
  initialisation vector), and the text of a token, nothing for \<^verbatim>\<open>InvalidToken\<close>. What it documents:
  under a key that can be used a token gives its text back, and it is written in URL-safe base64.
\<close>

record fernet =
  fn_key_ok :: "bytes \<Rightarrow> bool"
  fn_encrypt :: "bytes \<Rightarrow> nat \<Rightarrow> bytes \<Rightarrow> bytes"
  fn_decrypt :: "bytes \<Rightarrow> bytes \<Rightarrow> bytes option"

definition ascii :: "bytes \<Rightarrow> bool" where
  "ascii bs \<longleftrightarrow> list_all (\<lambda>b. unat b < 128) bs"

definition fernet_works :: "fernet \<Rightarrow> bool" where
  "fernet_works f \<longleftrightarrow> (\<forall>key nonce raw. fn_key_ok f key \<longrightarrow>
     fn_decrypt f key (fn_encrypt f key nonce raw) = Some raw \<and> ascii (fn_encrypt f key nonce raw))"

datatype token_error = InvalidToken | NotUtf8

definition encrypt_token :: "fernet \<Rightarrow> string \<Rightarrow> nat \<Rightarrow> string \<Rightarrow> string option" where
  "encrypt_token f key nonce raw_token = decode (fn_encrypt f (encode key) nonce (encode raw_token))"

definition decrypt_token :: "fernet \<Rightarrow> string \<Rightarrow> string \<Rightarrow> token_error + string" where
  "decrypt_token f key encrypted_token =
     (case fn_decrypt f (encode key) (encode encrypted_token) of
        None \<Rightarrow> Inl InvalidToken
      | Some bs \<Rightarrow> (case decode bs of None \<Rightarrow> Inl NotUtf8 | Some raw \<Rightarrow> Inr raw))"

lemma decode_ascii: "ascii bs \<Longrightarrow> decode bs = Some (map (\<lambda>b. char_of (unat b)) bs)"
  by (induction bs) (simp_all add: ascii_def)

lemma encode_ascii: "ascii bs \<Longrightarrow> encode (map (\<lambda>b. char_of (unat b)) bs) = bs"
proof (induction bs)
  case (Cons b bs)
  have "unat b < 128" using Cons.prems by (simp add: ascii_def)
  then have "utf8_char (char_of (unat b)) = [b]" by (simp add: utf8_char_def)
  with Cons show ?case by (simp add: ascii_def encode_def)
qed (simp add: encode_def)

lemma decrypt_encrypt:
  assumes "fernet_works f" and "fn_key_ok f (encode key)"
  obtains stored where "encrypt_token f key nonce raw = Some stored" and "decrypt_token f key stored = Inr raw"
proof -
  let ?bs = "fn_encrypt f (encode key) nonce (encode raw)"
  have bs: "fn_decrypt f (encode key) ?bs = Some (encode raw)" "ascii ?bs"
    using assms by (simp_all add: fernet_works_def)
  show thesis
  proof (rule that)
    show "encrypt_token f key nonce raw = Some (map (\<lambda>b. char_of (unat b)) ?bs)"
      unfolding encrypt_token_def by (rule decode_ascii [OF bs(2)])
    show "decrypt_token f key (map (\<lambda>b. char_of (unat b)) ?bs) = Inr raw"
      unfolding decrypt_token_def encode_ascii [OF bs(2)] bs(1) by (simp add: decode_encode)
  qed
qed

text \<open>
  \<^verbatim>\<open>start_bot\<close> with the token it decrypts: \<open>polls token\<close> is whether building a bot with the token and
  setting its commands succeed.
\<close>

definition starts_with :: "fernet \<Rightarrow> string \<Rightarrow> (string \<Rightarrow> bool) \<Rightarrow> reseller \<Rightarrow> bool" where
  "starts_with f key polls row =
     (case decrypt_token f key (bot_token_encrypted row) of Inl _ \<Rightarrow> False | Inr raw_token \<Rightarrow> polls raw_token)"

text \<open>The process from its environment on: every module is imported before \<^verbatim>\<open>main\<close> runs.\<close>

definition start_process ::
  "fernet \<Rightarrow> (string \<Rightarrow> bool) \<Rightarrow> environ \<Rightarrow> exn + unit \<Rightarrow> exn + unit \<Rightarrow> db list \<Rightarrow> exn \<Rightarrow> db option list \<Rightarrow>
     platform \<Rightarrow> start_error \<times> platform" where
  "start_process f polls env opened migrated turns x between w =
     (case load_config env of
        Inl e \<Rightarrow> (e, w)
      | Inr s \<Rightarrow>
          if \<not> fn_key_ok f (encode (st_encryption_key s)) then (BadKey, w)
          else (case main_process (starts_with f (st_encryption_key s) polls) opened migrated turns x between w of
                  (Inl y, w') \<Rightarrow> (MainRaises y, w')
                | (Inr _, w') \<Rightarrow> (MainRaises x, w')))"

section \<open>Properties of the start\<close>

text \<open>
  Property C30: the configuration is complete or nothing starts. The process gets its settings exactly
  when every required variable is there and not empty and every numeral can be read; otherwise it
  ends with the first variable in the order of the class that is wrong, with no connection opened
  and no bot started. An optional variable that is written with an empty value is not replaced by
  its default, but refused.
\<close>

theorem configuration_complete_or_named:
  "case first_complaint env demands of
     None \<Rightarrow> (\<exists>s. load_config env = Inr s \<and> env ''SUPER_ADMIN_BOT_TOKEN'' = Some (st_admin_token s)
       \<and> env ''TOKEN_ENCRYPTION_KEY'' = Some (st_encryption_key s)
       \<and> parse_int (getenv env ''MAX_PENDING_ORDERS_PER_CUSTOMER'' ''3'') = Some (st_max_pending s)
       \<and> parse_int (getenv env ''PENDING_ACTIVATION_ALERT_HOURS'' ''6'') = Some (st_alert_hours s))
   | Some e \<Rightarrow> load_config env = Inl e
       \<and> start_process f polls env opened migrated turns x between w = (e, w)"
  using configuration_agrees [of env] by (auto simp: agrees_def start_process_def split: option.splits)

definition demo_environ :: environ where
  "demo_environ = map_of [(''SUPER_ADMIN_BOT_TOKEN'', ''1:a''), (''SUPER_ADMIN_TELEGRAM_ID'', ''7''), (''DB_HOST'', ''h''),
     (''DB_USER'', ''u''), (''DB_PASSWORD'', ''p''), (''DB_NAME'', ''n''), (''TOKEN_ENCRYPTION_KEY'', ''key'')]"

lemma configuration_complete_or_named_witness:
  "(\<exists>s. load_config demo_environ = Inr s \<and> st_encryption_key s = ''key'' \<and> st_max_pending s = 3)
   \<and> load_config (demo_environ(''DB_PORT'' \<mapsto> [])) = Inl (BlankNumeral ''DB_PORT'')"
proof
  have "first_complaint demo_environ demands = None" "demo_environ ''TOKEN_ENCRYPTION_KEY'' = Some ''key''"
    "parse_int (getenv demo_environ ''MAX_PENDING_ORDERS_PER_CUSTOMER'' ''3'') = Some 3"
    by code_simp+
  then show "\<exists>s. load_config demo_environ = Inr s \<and> st_encryption_key s = ''key'' \<and> st_max_pending s = 3"
    using configuration_complete_or_named [of demo_environ] by auto
  have "first_complaint (demo_environ(''DB_PORT'' \<mapsto> [])) demands = Some (BlankNumeral ''DB_PORT'')"
    by code_simp
  then show "load_config (demo_environ(''DB_PORT'' \<mapsto> [])) = Inl (BlankNumeral ''DB_PORT'')"
    using configuration_complete_or_named [of "demo_environ(''DB_PORT'' \<mapsto> [])"] by simp
qed

section \<open>Properties of tokens\<close>

text \<open>
  Property C29: the token that was typed is the token that is used. When the dialog of a new shop has
  stored the encrypted token, every later start with the same key hands exactly the typed text, less
  the white space around it, to the bot of this shop.
\<close>

theorem typed_token_is_used:
  assumes "fernet_works f" and "fn_key_ok f (encode key)"
    and "\<And>raw. encrypt_token f key nonce raw = Some (ae_encrypt e raw)"
    and "list_all no_command [token, owner, percent, limit, prefix]"
    and "ae_bot_of e (strip token) = Some username" and "is_id_text owner n"
    and "parse_decimal (strip percent) = Some (Finite x)" and "parse_decimal (strip limit) = Some (Finite y)"
    and "fetch_one (\<lambda>r. order_prefix r = upper (strip prefix)) (resellers (ad_db w)) = None"
  shows "\<exists>row. trows (resellers (ad_db (admin_dialog e [APress (AMenu AmenuResellersAdd), AWrite token, AWrite owner,
          AWrite percent, AWrite limit, AWrite prefix] w))) = trows (resellers (ad_db w)) @ [row]
        \<and> bot_username row = username \<and> decrypt_token f key (bot_token_encrypted row) = Inr (strip token)
        \<and> starts_with f key polls row = polls (strip token)"
proof -
  let ?row = "reseller_with_id (auto_inc (resellers (ad_db w)))
    (new_reseller (ae_encrypt e (strip token)) username n x y (upper (strip prefix)))"
  have rows: "trows (resellers (ad_db (admin_dialog e [APress (AMenu AmenuResellersAdd), AWrite token, AWrite owner,
          AWrite percent, AWrite limit, AWrite prefix] w))) = trows (resellers (ad_db w)) @ [?row]"
    using assms(4-9) by (simp add: add_reseller_steps add_reseller_save insert_row_def del: admin_turn.simps)
  obtain stored where "encrypt_token f key nonce (strip token) = Some stored"
    "decrypt_token f key stored = Inr (strip token)" by (rule decrypt_encrypt [OF assms(1,2)])
  with assms(3) have "decrypt_token f key (ae_encrypt e (strip token)) = Inr (strip token)" by simp
  with rows show ?thesis by (auto simp: new_reseller_def starts_with_def)
qed

text \<open>
  The key must stay. When the process starts again with a key under which none of the
  stored tokens can be decrypted, no bot of a shop ever runs, however often the manager turns; the
  process itself goes on, and only the log tells.
\<close>

lemma no_start_no_bot:
  "(\<And>row. row \<in> set rows \<Longrightarrow> \<not> starts row) \<Longrightarrow> snd (start_new starts rows []) = []"
  by (cases rows) (auto simp: start_bot_def running_ids_def)

theorem changed_key_starts_no_bot:
  assumes "list_all (\<lambda>d. list_all (\<lambda>row. fn_decrypt f (encode key) (encode (bot_token_encrypted row)) = None)
      (trows (resellers d))) turns"
  shows "fold (run_turn (starts_with f key polls)) turns [] = []"
  using assms
proof (induction turns)
  case (Cons d turns)
  have none: "\<not> starts_with f key polls row" if "row \<in> set (fetch_all (\<lambda>r. r_status r = ResellerActive) (resellers d))" for row
    using that Cons.prems by (auto simp: fetch_all_def list_all_iff starts_with_def decrypt_token_def)
  have "snd (start_new (starts_with f key polls) (fetch_all (\<lambda>r. r_status r = ResellerActive) (resellers d)) []) = []"
    by (rule no_start_no_bot) (rule none)
  then have "run_turn (starts_with f key polls) d [] = []"
    by (auto simp: run_turn_def sync_once_def Let_def split: prod.splits sum.splits)
  with Cons show ?case by simp
qed simp

text \<open>A toy in the place of Fernet: each byte as two halves, after the key.\<close>

definition halves :: "bytes \<Rightarrow> bytes" where
  "halves bs = concat (map (\<lambda>b. [word_of_nat (unat b div 16), word_of_nat (unat b mod 16)]) bs)"

fun unhalves :: "bytes \<Rightarrow> bytes option" where
  "unhalves [] = Some []"
| "unhalves [b] = None"
| "unhalves (x # y # bs) = map_option ((#) (word_of_nat (16 * unat x + unat y))) (unhalves bs)"

definition demo_fernet :: fernet where
  "demo_fernet = \<lparr>fn_key_ok = (\<lambda>key. key \<noteq> []), fn_encrypt = (\<lambda>key nonce raw. halves (key @ raw)),
     fn_decrypt = (\<lambda>key stored. case unhalves stored of None \<Rightarrow> None
       | Some bs \<Rightarrow> if take (length key) bs = key then Some (drop (length key) bs) else None)\<rparr>"

lemma unat_halves:
  "unat (word_of_nat (unat b div 16) :: 8 word) = unat (b :: 8 word) div 16"
  "unat (word_of_nat (unat b mod 16) :: 8 word) = unat (b :: 8 word) mod 16"
  "unat (b :: 8 word) div 16 < 16"
proof -
  have b: "unat b < 256" using unsigned_less [of b] by simp
  then show q: "unat b div 16 < 16" by (simp add: less_mult_imp_div_less)
  show "unat (word_of_nat (unat b div 16) :: 8 word) = unat b div 16" by (rule unat_byte) (use q in linarith)
  have "unat b mod 16 < 16" by simp
  then show "unat (word_of_nat (unat b mod 16) :: 8 word) = unat b mod 16" by (intro unat_byte) linarith
qed

lemma unhalves_halves: "unhalves (halves bs) = Some bs"
proof (induction bs)
  case (Cons b bs)
  have "16 * (unat b div 16) + unat b mod 16 = unat b" by simp
  with Cons show ?case by (simp add: halves_def unat_halves)
qed (simp add: halves_def)

lemma ascii_halves: "ascii (halves bs)"
proof (induction bs)
  case (Cons b bs)
  have "unat b div 16 < 128" "unat b mod 16 < 128" using unat_halves(3) [of b] by (linarith, simp add: less_trans)
  with Cons show ?case by (simp add: ascii_def halves_def unat_halves)
qed (simp add: halves_def ascii_def)

lemma demo_fernet_works: "fernet_works demo_fernet"
  by (simp add: fernet_works_def demo_fernet_def unhalves_halves ascii_halves)

definition demo_token_env :: admin_env where
  "demo_token_env = demo_admin_env\<lparr>ae_encrypt := (\<lambda>raw. case encrypt_token demo_fernet ''k'' 0 raw of
     None \<Rightarrow> [] | Some stored \<Rightarrow> stored)\<rparr>"

lemma typed_token_is_used_witness:
  "\<exists>row. trows (resellers (ad_db (admin_dialog demo_token_env [APress (AMenu AmenuResellersAdd), AWrite '' 1:x '',
        AWrite ''77'', AWrite ''2.5'', AWrite ''0'', AWrite ''zz''] demo_admin))) = trows (resellers (ad_db demo_admin)) @ [row]
      \<and> bot_username row = ''shop'' \<and> decrypt_token demo_fernet ''k'' (bot_token_encrypted row) = Inr ''1:x''
      \<and> starts_with demo_fernet ''k'' (\<lambda>token. length token = 3) row = True"
proof -
  have key: "fn_key_ok demo_fernet (encode ''k'')" by code_simp
  have enc: "encrypt_token demo_fernet ''k'' 0 raw = Some (ae_encrypt demo_token_env raw)" for raw
    by (rule decrypt_encrypt [OF demo_fernet_works key, of 0 raw]) (simp add: demo_token_env_def)
  have "list_all no_command ['' 1:x '', ''77'', ''2.5'', ''0'', ''zz'']"
    "ae_bot_of demo_token_env (strip '' 1:x '') = Some ''shop''" "is_id_text ''77'' 77"
    "parse_decimal (strip ''2.5'') = Some (Finite (5 / 2))" "parse_decimal (strip ''0'') = Some (Finite 0)"
    "fetch_one (\<lambda>r. order_prefix r = upper (strip ''zz'')) (resellers (ad_db demo_admin)) = None"
    by code_simp+
  note used = typed_token_is_used [OF demo_fernet_works key enc this, where polls = "\<lambda>token. length token = 3"]
  have typed: "strip '' 1:x '' = ''1:x''" "(length ''1:x'' = 3) = True" by code_simp+
  show ?thesis by (rule used [unfolded typed])
qed

definition demo_locked_out :: db where
  "demo_locked_out = ad_db (admin_dialog demo_token_env [APress (AMenu AmenuResellersAdd), AWrite ''1:x'',
     AWrite ''77'', AWrite ''2.5'', AWrite ''0'', AWrite ''zz''] (demo_admin\<lparr>ad_db := (ad_db demo_admin)\<lparr>resellers := \<lparr>trows = [], auto_inc = 1\<rparr>\<rparr>\<rparr>))"

lemma changed_key_starts_no_bot_witness:
  "map r_status (trows (resellers demo_locked_out)) = [ResellerActive]
   \<and> fold (run_turn (starts_with demo_fernet ''other'' (\<lambda>token. True))) [demo_locked_out, demo_locked_out] [] = []"
proof
  show "map r_status (trows (resellers demo_locked_out)) = [ResellerActive]" by code_simp
  have "list_all (\<lambda>row. fn_decrypt demo_fernet (encode ''other'') (encode (bot_token_encrypted row)) = None)
      (trows (resellers demo_locked_out))" by code_simp
  then show "fold (run_turn (starts_with demo_fernet ''other'' (\<lambda>token. True))) [demo_locked_out, demo_locked_out] [] = []"
    by (intro changed_key_starts_no_bot) simp
qed

section \<open>Alerts of missing credit\<close>









end
