(* ===== verification/Strangers.thy ===== *)
theory Strangers
  imports PanelPrices CustomerPurchase
begin

text \<open>
  What somebody who is neither the owner nor an operator of a shop reaches in its panel. The
  middleware of \<^verbatim>\<open>core/permissions_middleware.py\<close> stands before the handlers of orders alone; the
  other routers of \<^verbatim>\<open>handlers/reseller/\<close> have no filter on the sender, and the states that their
  buttons open belong to the chat of whoever pressed them.
\<close>

text \<open>
  The panel is open but for the orders. A button of an order, pressed by somebody who may not
  act for the shop, changes nothing but the answer; every other button does for anybody what it does for
  the owner.
\<close>

theorem only_orders_are_guarded:
  "(guarded_button cb \<and> \<not> may_act (pe_reseller e) user (pn_db w) \<longrightarrow>
      press_button e user cb w = (Inr (), alert NotPermitted w))
   \<and> (\<not> guarded_button cb \<longrightarrow> press_button e user cb w = press_button e other cb w)"
  by (simp add: press_button_def returns_def)

lemma only_orders_are_guarded_witness:
  "press_button demo_panel_env 77 (OnId ActivateOrderButton 1) demo_panel = (Inr (), alert NotPermitted demo_panel)
   \<and> press_button demo_panel_env 77 (Menu PmAddCard) demo_panel = press_button demo_panel_env 5 (Menu PmAddCard) demo_panel"
proof -
  have "\<not> may_act (pe_reseller demo_panel_env) 77 (pn_db demo_panel)" by code_simp
  then show ?thesis
    using only_orders_are_guarded [of "OnId ActivateOrderButton 1" demo_panel_env 77 demo_panel]
      only_orders_are_guarded [of "Menu PmAddCard" demo_panel_env 77 demo_panel 5]
    by simp
qed

section \<open>A card for the shop\<close>

definition new_card :: "nat \<Rightarrow> nat \<Rightarrow> string \<Rightarrow> string \<Rightarrow> string \<Rightarrow> card_row" where
  "new_card i rid number holder bank =
     \<lparr>pc_id = i, pc_reseller_id = rid, card_number = number, card_holder_name = holder,
      bank_name = (if bank = ''-'' then None else Some bank), pc_is_active = True\<rparr>"

lemma numbered_card:
  assumes "list_all is_digit number" and "length number = 16"
  shows "plain_text number" "receive_card_number (Some number) w =
    (Inr (), post (InPayment AskCardHolder) None (enter EnteringCardHolder
       (remember (\<lambda>pd. pd\<lparr>pd_card_number := Some number\<rparr>) w)))"
proof -
  have plain: "filter (\<lambda>c. c \<noteq> CHR ''-'' \<and> c \<noteq> CHR '' '') number = number"
    using assms(1) by (auto simp: filter_id_conv list_all_iff is_digit_def is_decimal_def)
  have "number \<noteq> []" using assms(2) by auto
  with assms plain show "receive_card_number (Some number) w =
    (Inr (), post (InPayment AskCardHolder) None (enter EnteringCardHolder
       (remember (\<lambda>pd. pd\<lparr>pd_card_number := Some number\<rparr>) w)))"
    by (simp add: receive_card_number_def strip_digits returns_def)
  have "CHR ''/'' \<notin> set number"
    using assms(1) by (auto simp: list_all_iff is_digit_def is_decimal_def)
  then show "plain_text number" by (cases number) (auto simp: plain_text_def)
qed

text \<open>
  Property C19: a stranger puts his card among those the customers pay to. Whoever presses the button that
  adds a card in a shop's bot and writes a number of sixteen digits, a name and a bank leaves one new
  active card of the shop, with exactly these values and nothing else changed; from then on the
  instructions for every payment to this shop name it.
\<close>

theorem stranger_adds_a_card:
  assumes "lookup r_id (pe_reseller e) (resellers (pn_db w)) \<noteq> None"
    and "list_all is_digit number" and "length number = 16" and "plain_text holder" and "plain_text bank"
  shows "let d = pn_db (panel_dialog e stranger [Press (Menu PmAddCard), Write number, Write holder, Write bank] w);
        card = new_card (auto_inc (reseller_payment_cards (pn_db w))) (pe_reseller e) number (strip holder) (strip bank)
      in d = (pn_db w)\<lparr>reseller_payment_cards := insert_row card_with_id card (reseller_payment_cards (pn_db w))\<rparr>
       \<and> (\<exists>payment_lines. payment_info_of (pe_reseller e) d = PaymentLines payment_lines \<and> card_line card \<in> set payment_lines)"
proof -
  let ?rid = "pe_reseller e" and ?i = "auto_inc (reseller_payment_cards (pn_db w))"
  let ?card = "new_card ?i ?rid number (strip holder) (strip bank)"
  let ?d = "(pn_db w)\<lparr>reseller_payment_cards := insert_row card_with_id ?card (reseller_payment_cards (pn_db w))\<rparr>"
  note number = numbered_card [OF assms(2,3)]
  have add: "add_card ?rid number (strip holder) (if strip bank = ''-'' then None else Some (strip bank)) (pn_db w) = (Inr ?i, ?d)"
    using assms(1) by (simp add: add_card_def new_card_def insert_row_def)
  have d: "pn_db (panel_dialog e stranger [Press (Menu PmAddCard), Write number, Write holder, Write bank] w) = ?d"
    using assms(4,5) number add
    by (simp add: press_button_def start_add_card_def returns_def plain_message receive_card_holder_def with_text_def
        receive_bank_name_and_save_def with_key_def with_db_def in_db_def Let_def)
  have "?card \<in> set (list_cards ?rid True ?d)"
    by (simp add: list_cards_def fetch_all_def insert_row_def new_card_def)
  then have "card_line ?card \<in> set (map card_line (list_cards ?rid True ?d))" by simp
  then show ?thesis
    unfolding d Let_def payment_info_of_def by (auto split: if_splits)
qed

lemma stranger_adds_a_card_witness:
  "\<exists>payment_lines. payment_info_of 1 (pn_db (panel_dialog demo_panel_env 77
      [Press (Menu PmAddCard), Write ''6037990000000001'', Write ''Mallory'', Write ''-''] demo_panel)) = PaymentLines payment_lines
     \<and> CardLine (format_card_number ''6037990000000001'') ''Mallory'' None \<in> set payment_lines"
proof -
  have "lookup r_id (pe_reseller demo_panel_env) (resellers (pn_db demo_panel)) \<noteq> None"
    "list_all is_digit ''6037990000000001''" "plain_text ''Mallory''" "plain_text ''-''" "pe_reseller demo_panel_env = 1"
    "card_line (new_card i 1 ''6037990000000001'' (strip ''Mallory'') (strip ''-'')) = CardLine (format_card_number ''6037990000000001'') ''Mallory'' None" for i
    by code_simp+
  with stranger_adds_a_card [of demo_panel_env demo_panel "''6037990000000001''" "''Mallory''" "''-''" 77]
  show ?thesis by (auto simp: Let_def)
qed

end
