(* ===== verification/ShopBot.thy ===== *)
theory ShopBot
  imports PanelPrices Conversations
begin

text \<open>
  The bot of a reseller as one dispatcher (\<^verbatim>\<open>core/bot_manager.py\<close> registers the handlers of the
  panel, of the operators and of the customers, in this order, and the error handler): a chat has one
  state and one dictionary of data, in which the dialogs of the panel and of the customers write under
  different keys. A button goes to the panel whatever the state is; a text goes to the panel only in
  its states. What one half writes stays there for the other until some handler calls
  \<^verbatim>\<open>state.clear()\<close>.
\<close>

section \<open>The chat\<close>

datatype chat_state = InPanel panel_state | InShop fsm_state

record chat =
  ch_db :: db
  ch_state :: "chat_state option"
  ch_panel :: panel_data
  ch_shop :: fsm_data
  ch_prices :: "(string \<times> panel_data) list"
  ch_price_edits :: "(string \<times> nat \<times> catalog_type \<times> decimal_value) list"
  ch_shown :: "panel_message list"
  ch_sent :: "sent list"
  ch_alerts :: nat

text \<open>
  What an update is given: the shop with its configuration and clock, and for the panel a fresh
  token, the moment, Zarinpal's answer, and the captions of the reply keyboards, since a pressed
  button of these arrives as its caption.
\<close>

record bot_env =
  be_shop :: env
  be_token :: string
  be_now :: time
  be_link :: "int \<Rightarrow> string option"
  be_caption :: "msg_text \<Rightarrow> string"

definition panel_env_of :: "bot_env \<Rightarrow> panel_env" where
  "panel_env_of b = \<lparr>pe_reseller = e_reseller (be_shop b), pe_token = be_token b, pe_now = be_now b,
     pe_payment_link = be_link b\<rparr>"

fun written :: "bot_env \<Rightarrow> msg_text \<Rightarrow> string" where
  "written b (Typed s) = s"
| "written b t = be_caption b t"

text \<open>What the handlers of each half see of the chat.\<close>

fun panel_state_of :: "chat_state option \<Rightarrow> panel_state option" where
  "panel_state_of (Some (InPanel s)) = Some s"
| "panel_state_of _ = None"

definition as_panel :: "panel_state option \<Rightarrow> chat \<Rightarrow> panel" where
  "as_panel s c = \<lparr>pn_db = ch_db c, pn_state = s, pn_data = ch_panel c, pn_prices = ch_prices c,
     pn_price_edits = ch_price_edits c, pn_shown = ch_shown c\<rparr>"

definition from_panel :: "panel \<Rightarrow> chat \<Rightarrow> chat" where
  "from_panel w c = c\<lparr>ch_db := pn_db w, ch_panel := pn_data w, ch_prices := pn_prices w,
     ch_price_edits := pn_price_edits w, ch_shown := pn_shown w\<rparr>"

text \<open>
  A message in one of the two states of the panel that wait for a button reaches the routers of
  the customers in a state that none of their filters names; such a state is
  \<open>OrderChoosingPackage\<close>, which \<^verbatim>\<open>utils/states.py\<close> declares and no handler uses.
\<close>

fun shop_state_of :: "chat_state option \<Rightarrow> fsm_state option" where
  "shop_state_of None = None"
| "shop_state_of (Some (InShop s)) = Some s"
| "shop_state_of (Some (InPanel s)) = Some OrderChoosingPackage"

definition as_shop :: "chat \<Rightarrow> world" where
  "as_shop c = \<lparr>w_db = ch_db c, w_state = shop_state_of (ch_state c), w_data = ch_shop c, w_sent = ch_sent c\<rparr>"

text \<open>
  Afterwards the data of the panel is gone when the handler has ended a dialog. A handler may also clear
  the context of a chat that has no state; in every reachable chat without a state there is no data of the panel
  to be cleared (\<open>no_panel_data_without_state\<close> in \<open>PanelRest\<close>).
\<close>

definition from_shop :: "world \<Rightarrow> chat \<Rightarrow> chat" where
  "from_shop w c =
     (let stays = (w_state w = shop_state_of (ch_state c));
          cleared = (w_state w = None \<and> \<not> stays)
      in c\<lparr>ch_db := w_db w, ch_shop := w_data w, ch_sent := w_sent w,
           ch_state := (if stays then ch_state c else map_option InShop (w_state w)),
           ch_panel := (if cleared then empty_panel_data else ch_panel c)\<rparr>)"

section \<open>Updates\<close>

text \<open>
  A button. Its handler does not look at the state. From a state of the customers the handler may
  leave the state alone, enter a state of the panel, or clear the context with the data of both
  halves; whether it clears is seen by running it from a state of the panel
  (\<open>only_the_edited_price_clears\<close>: a single button does).
\<close>

definition clears :: "bot_env \<Rightarrow> int \<Rightarrow> callback \<Rightarrow> chat \<Rightarrow> bool" where
  "clears b user cb c \<longleftrightarrow>
     pn_state (snd (press_button (panel_env_of b) user cb (as_panel (Some ConfirmingSuspiciousEditPrice) c))) = None"

definition press_step :: "bot_env \<Rightarrow> int \<Rightarrow> callback \<Rightarrow> chat \<Rightarrow> (chat, unit) outcome" where
  "press_step b user cb c =
     (case press_button (panel_env_of b) user cb (as_panel (panel_state_of (ch_state c)) c) of
        (res, w) \<Rightarrow> (res,
          if clears b user cb c then (from_panel w c)\<lparr>ch_state := None, ch_shop := empty_data\<rparr>
          else (from_panel w c)\<lparr>ch_state :=
                 (case pn_state w of None \<Rightarrow> ch_state c | Some s \<Rightarrow> Some (InPanel s))\<rparr>))"

text \<open>A text of the panel starts in one of its states; without a state afterwards it has cleared.\<close>

definition panel_text_step :: "panel \<Rightarrow> chat \<Rightarrow> chat" where
  "panel_text_step w c =
     (from_panel w c)\<lparr>ch_state := map_option InPanel (pn_state w),
        ch_shop := (if pn_state w = None then empty_data else ch_shop c)\<rparr>"

definition shop_step :: "bot_env \<Rightarrow> message \<Rightarrow> chat \<Rightarrow> (chat, unit) outcome option" where
  "shop_step b m c = map_option (\<lambda>(res, w). (res, from_shop w c)) (dispatch (be_shop b) m (as_shop c))"

definition message_step :: "bot_env \<Rightarrow> message \<Rightarrow> chat \<Rightarrow> (chat, unit) outcome option" where
  "message_step b m c =
     (case panel_state_of (ch_state c) of
        None \<Rightarrow> shop_step b m c
      | Some s \<Rightarrow>
          (case receive_message (panel_env_of b) (from_user m) (map_option (written b) (message_text m))
                  (as_panel (Some s) c) of
             Some (res, w) \<Rightarrow> Some (res, panel_text_step w c)
           | None \<Rightarrow> shop_step b m c))"

text \<open>
  The error handler answers in the chat, and for a button it shows an alert as well. What nobody
  accepts is dropped.
\<close>

datatype update = Pressed callback | Received content

definition on_error :: "update \<Rightarrow> chat \<Rightarrow> chat" where
  "on_error u c = c\<lparr>ch_sent := ch_sent c @ [Answer ErrorMessage None],
     ch_alerts := (case u of Pressed cb \<Rightarrow> Suc (ch_alerts c) | Received x \<Rightarrow> ch_alerts c)\<rparr>"

definition run_update :: "bot_env \<Rightarrow> int \<Rightarrow> update \<Rightarrow> chat \<Rightarrow> (chat, unit) outcome option" where
  "run_update b user u c =
     (case u of
        Pressed cb \<Rightarrow> Some (press_step b user cb c)
      | Received x \<Rightarrow> message_step b \<lparr>from_user = user, content = x\<rparr> c)"

definition feed_update :: "bot_env \<Rightarrow> int \<Rightarrow> update \<Rightarrow> chat \<Rightarrow> chat" where
  "feed_update b user u c =
     (case run_update b user u c of
        None \<Rightarrow> c
      | Some (Inl x, c1) \<Rightarrow> on_error u c1
      | Some (Inr _, c1) \<Rightarrow> c1)"

section \<open>Which buttons clear the context\<close>

text \<open>A step that ends in a state.\<close>

definition stays :: "(panel, unit) outcome \<Rightarrow> bool" where
  "stays run \<longleftrightarrow> pn_state (snd run) \<noteq> None"

lemma stays_simps [simp]:
  "stays (returns w) \<longleftrightarrow> pn_state w \<noteq> None" "stays (Inl x, w) \<longleftrightarrow> pn_state w \<noteq> None"
  by (simp_all add: stays_def returns_def)

lemma as_panel_simps [simp]:
  "pn_state (as_panel s c) = s" "pn_data (as_panel s c) = ch_panel c" "pn_prices (as_panel s c) = ch_prices c"
  "pn_db (as_panel s c) = ch_db c"
  by (simp_all add: as_panel_def)

lemma stays_with_db:
  "pn_state w \<noteq> None \<Longrightarrow> (\<And>y d. stays (g y (w\<lparr>pn_db := d\<rparr>))) \<Longrightarrow> stays (with_db f g w)"
  by (auto simp: with_db_def in_db_def split: prod.split sum.split)

lemma stays_deleting:
  "pn_state w \<noteq> None \<Longrightarrow> (\<And>w. pn_state (refused w) = pn_state w) \<Longrightarrow> (\<And>w. pn_state (g w) = pn_state w) \<Longrightarrow>
   stays (deleting f refused g w)"
  by (auto simp: deleting_def in_db_def split: prod.split sum.split exn.split)

lemma fold_state: "(\<And>x w. pn_state (f x w) = pn_state w) \<Longrightarrow> pn_state (fold f xs w) = pn_state w"
  by (induction xs arbitrary: w) simp_all

lemma state_rendered [simp]:
  "pn_state (render_manage_operators kind rid w) = pn_state w"
  "pn_state (render_operator_detail kind i w) = pn_state w"
  "pn_state (render_subcategory_detail kind i w) = pn_state w"
  "pn_state (render_package_detail kind i w) = pn_state w"
  by (simp_all add: render_manage_operators_def render_operator_detail_def render_subcategory_detail_def
      render_package_detail_def Let_def split: option.split)

lemma stays_catalog_buttons:
  assumes "pn_state w \<noteq> None"
  shows "stays (press_kind e b1 kind w)" and "stays (press_item e b2 kind i w)"
proof -
  show "stays (press_kind e b1 kind w)"
    using assms by (cases b1) (auto simp: catalog_menu_def view_catalog_def start_add_operator_def
      start_add_subcategory_def start_add_package_def manage_operators_cb_def Let_def fold_state)
  show "stays (press_item e b2 kind i w)"
    using assms
    by (cases b2) (auto simp: pick_operator_for_sub_def pick_operator_for_pkg_def pick_category_def
      manage_operator_detail_cb_def manage_subcategory_detail_cb_def manage_package_detail_cb_def
      start_edit_operator_name_def start_edit_subcategory_title_def start_edit_package_name_def
      start_edit_package_price_def start_edit_package_cost_def start_package_dialog_def toggle_package_active_def
      confirm_delete_operator_def delete_operator_cancelled_def
      confirm_delete_subcategory_def delete_subcategory_cancelled_def
      confirm_delete_package_def delete_package_cancelled_def
      delete_operator_confirmed_def delete_subcategory_confirmed_def delete_package_confirmed_def Let_def
      intro!: stays_deleting split: option.split prod.split)
qed

lemma stays_menu_buttons:
  assumes "pn_state w \<noteq> None"
  shows "stays (press_menu e b w)"
  using assms
  by (cases b) (auto simp: back_home_def list_pending_orders_cb_def catalog_type_menu_cb_def charge_stock_menu_cb_def
      wallet_menu_def start_topup_card_def start_topup_zarinpal_def show_crypto_options_def settings_menu_def
      start_referral_percent_def start_add_channel_def start_add_discount_def start_set_support_contact_def
      payment_methods_menu_def list_cards_cb_def start_add_card_def show_zarinpal_def
      show_report_cb_def export_excel_cb_def show_stats_cb_def Let_def fold_state
      intro!: stays_with_db split: option.split prod.split)

lemma stays_id_buttons:
  assumes "pn_state w \<noteq> None"
  shows "stays (press_id e b i w)"
  using assms
  by (cases b) (auto simp: approve_receipt_def reject_receipt_def activate_def reject_wallet_topup_def open_dispute_def
      clear_all_codes_def toggle_card_cb_def remove_card_cb_def Let_def confirm_wallet_topup_def in_db_def
      notify_customer_wallet_topup_confirmed_def notify_reseller_wallet_topup_insufficient_credit_def
      notify_super_admin_wallet_topup_insufficient_credit_def
      intro!: stays_with_db split: option.split prod.split sum.split exn.split)

lemma stays_stock_buttons:
  assumes "pn_state w \<noteq> None"
  shows "stays (press_stock b action i w)" and "stays (pick_operator_for_action e action w)"
    and "stays (delete_single_code i pid w)" and "stays (toggle_referral e on w)"
proof -
  show "stays (press_stock b action i w)"
    using assms by (cases b; cases action) (auto simp: pick_category_for_action_def pick_product_for_action_def
        act_on_product_def Let_def split: option.split)
  show "stays (pick_operator_for_action e action w)" "stays (delete_single_code i pid w)" "stays (toggle_referral e on w)"
    using assms by (auto simp: pick_operator_for_action_def delete_single_code_def toggle_referral_def Let_def
        intro!: stays_with_db split: option.split)
qed

lemma stays_token_buttons:
  assumes "pn_state w \<noteq> None" and "b \<noteq> PkgeditPriceConfirm"
  shows "stays (press_token b token w)"
  using assms
  by (cases b) (auto simp: confirm_suspicious_price_def edit_suspicious_price_def
    edit_again_suspicious_price_def ask_cost_price_def Let_def with_key_def split: option.split)

lemma stays_buttons:
  assumes "pn_state w \<noteq> None" and "\<forall>token. cb \<noteq> WithToken PkgeditPriceConfirm token"
  shows "stays (press_button e user cb w)"
  using assms stays_token_buttons [OF assms(1)]
  by (cases cb) (auto simp: press_button_def stays_catalog_buttons stays_menu_buttons stays_id_buttons
      stays_stock_buttons simp del: press_menu.simps press_id.simps press_kind.simps press_item.simps
      press_token.simps press_stock.simps)

text \<open>
  The button that confirms an edited price is the only one that clears, and it does so in every
  state alike.
\<close>

lemma press_stays:
  assumes "\<forall>token. cb \<noteq> WithToken PkgeditPriceConfirm token"
  shows "pn_state (snd (press_button e user cb (as_panel (Some s) c))) \<noteq> None"
  using stays_buttons [OF _ assms, of "as_panel (Some s) c"] unfolding stays_def by simp

lemma only_the_edited_price_clears:
  "clears b user cb c \<Longrightarrow> \<exists>token. cb = WithToken PkgeditPriceConfirm token"
  unfolding clears_def using press_stays by blast

lemma clears_in_every_state:
  "clears b user cb c \<longleftrightarrow> pn_state (snd (press_button (panel_env_of b) user cb (as_panel (Some s) c))) = None"
proof (cases "\<exists>token. cb = WithToken PkgeditPriceConfirm token")
  case True
  then obtain token where "cb = WithToken PkgeditPriceConfirm token" ..
  then show ?thesis
    by (auto simp: clears_def press_button_def confirm_edit_suspicious_price_def as_panel_def with_db_def in_db_def
        returns_def split: option.split prod.split sum.split)
next
  case False
  then show ?thesis using press_stays only_the_edited_price_clears by blast
qed

section \<open>Chats in order\<close>

text \<open>
  The data of the panel has the keys of its state, and when the state is one of the customers, their
  data and keyboard are those of the state.
\<close>

definition chat_ok :: "chat \<Rightarrow> bool" where
  "chat_ok c \<longleftrightarrow> dialog_ok (as_panel (panel_state_of (ch_state c)) c)
     \<and> (case ch_state c of Some (InPanel s) \<Rightarrow> menus_built (ch_shop c) | _ \<Rightarrow> in_session (as_shop c))"

lemma dialog_of_chat: "dialog_ok (as_panel s c) \<longleftrightarrow>
    (case s of None \<Rightarrow> True | Some st \<Rightarrow> keys_of st (ch_panel c)) \<and> list_all (\<lambda>(token, pd). present (pd_sale_price pd)) (ch_prices c)"
  by (cases s) (simp_all add: dialog_ok_def prices_ok_def)

lemma session_of_chat: "in_session (as_shop c) \<longleftrightarrow>
    session_data (shop_state_of (ch_state c)) (ch_shop c)
    \<and> session_keyboard (shop_state_of (ch_state c)) (ch_shop c) (reply_keyboard (ch_sent c)) \<and> menus_built (ch_shop c)"
  by (simp add: in_session_def as_shop_def)

lemma menus_of_chat: "chat_ok c \<Longrightarrow> menus_built (ch_shop c)"
  by (auto simp: chat_ok_def session_of_chat split: option.splits chat_state.splits)

text \<open>A button.\<close>

lemma from_panel_simps [simp]:
  "ch_state (from_panel w c) = ch_state c" "ch_shop (from_panel w c) = ch_shop c"
  "ch_sent (from_panel w c) = ch_sent c" "ch_panel (from_panel w c) = pn_data w"
  "ch_prices (from_panel w c) = pn_prices w" "ch_db (from_panel w c) = pn_db w"
  by (simp_all add: from_panel_def)

lemma chat_ok_press:
  assumes "chat_ok c" and "timely cb (panel_state_of (ch_state c))"
  shows "chat_ok (snd (press_step b user cb c)) \<and> fst (press_step b user cb c) \<noteq> Inl KeyError"
proof -
  let ?p = "as_panel (panel_state_of (ch_state c)) c"
  obtain res w where run: "press_button (panel_env_of b) user cb ?p = (res, w)" by fastforce
  have "keeps (press_button (panel_env_of b) user cb ?p)"
    using assms by (intro keys_buttons) (simp_all add: chat_ok_def)
  then have w: "dialog_ok w" "res \<noteq> Inl KeyError" by (simp_all add: run keeps_def)
  have still: "clears b user cb c \<or> pn_state w \<noteq> None" if "ch_state c = Some (InPanel s)" for s
    using that run clears_in_every_state [of b user cb c s] by auto
  have "chat_ok (snd (press_step b user cb c))"
    using w still menus_of_chat [OF assms(1)] assms(1)
    by (auto simp: press_step_def run chat_ok_def dialog_of_chat session_of_chat dialog_ok_def prices_ok_def
        split: option.splits chat_state.splits)
  with w show ?thesis by (simp add: press_step_def run)
qed

text \<open>A text of the panel.\<close>

lemma chat_ok_panel_text:
  assumes "chat_ok c" and "ch_state c = Some (InPanel s)"
    and "receive_message e user t (as_panel (Some s) c) = Some (res, w)"
  shows "chat_ok (panel_text_step w c) \<and> res \<noteq> Inl KeyError"
proof -
  have "keeps (res, w)" using assms by (intro keys_message) (simp_all add: chat_ok_def)
  then have "dialog_ok w" "res \<noteq> Inl KeyError" by (simp_all add: keeps_def)
  then show ?thesis
    using menus_of_chat [OF assms(1)]
    by (auto simp: panel_text_step_def chat_ok_def dialog_of_chat session_of_chat dialog_ok_def prices_ok_def
        split: option.splits)
qed

text \<open>
  A message to the customers' routers. From the state that none of them names, a handler starts a
  dialog of its own or leaves the state and the menus in order.
\<close>

definition between :: "world \<Rightarrow> bool" where
  "between w \<longleftrightarrow> w_state w = Some OrderChoosingPackage \<and> menus_built (w_data w)"

lemma between_operators:
  "between w \<Longrightarrow> between (snd (show_operators e u w)) \<or> in_session (snd (show_operators e u w))"
  "between w \<Longrightarrow> between (snd (show_charge_operators e u w)) \<or> in_session (snd (show_charge_operators e u w))"
  by (auto simp: show_operators_def show_charge_operators_def between_def session_simps split: prod.split)

lemma between_stays:
  "between w \<Longrightarrow> between (answer r k w)" "between w \<Longrightarrow> between (w\<lparr>w_db := d\<rparr>)"
  by (simp_all add: between_def)

lemma between_topup: "between w \<Longrightarrow> between (snd (start_topup e m w)) \<or> in_session (snd (start_topup e m w))"
  by (auto simp: start_topup_def Let_def between_def in_session_def)

lemma cleared_wallet: "in_session (snd (show_wallet e m w))"
  by (auto simp: show_wallet_def Let_def in_session_idle split: option.split prod.split sum.split
        elim!: on_db_cases)

lemma between_fold: "between w \<Longrightarrow> between (fold (\<lambda>x. answer (f x) k) xs w)"
  by (induction xs arbitrary: w) (simp_all add: between_stays)

lemma between_state: "between w \<Longrightarrow> w_state w = Some OrderChoosingPackage"
  by (simp add: between_def)

lemma between_dispatch:
  assumes "between w" and "dispatch e m w = Some run"
  shows "between (snd run) \<or> in_session (snd run)"
proof -
  note st = between_state [OF assms(1)]
  have "reseller_start_router e m w = Some run \<Longrightarrow> ?thesis"
    using assms(1) by (auto simp: reseller_start_router_def reseller_start_def reseller_cancel_def Let_def
        between_stays in_session_idle split: option.splits if_splits)
  moreover have "operator_router e m w = Some run \<Longrightarrow> ?thesis"
    using assms(1) by (auto simp: operator_router_def answer_pending_orders_def between_stays between_fold
        split: option.splits msg_text.splits if_splits sum.splits)
  moreover have "orders_router e m w = Some run \<Longrightarrow> ?thesis"
    using assms(1) between_operators [OF assms(1)]
    by (auto simp: orders_router_def Let_def customer_cancel_def st show_support_from_keyboard_def between_stays
        show_catalog_from_keyboard_def session_start in_session_idle split: if_splits)
  moreover have "charge_router e m w = Some run \<Longrightarrow> ?thesis"
    using assms(1) between_operators [OF assms(1)]
    by (auto simp: charge_router_def Let_def st show_charge_catalog_from_keyboard_def split: if_splits)
  moreover have "wallet_router e m w = Some run \<Longrightarrow> ?thesis"
    using between_topup [OF assms(1)]
    by (auto simp: wallet_router_def Let_def st cleared_wallet split: if_splits)
  ultimately show ?thesis
    using assms(2) by (auto simp: dispatch_def or_else_def split: option.splits)
qed

lemma from_shop_simps [simp]:
  "ch_shop (from_shop w c) = w_data w" "ch_sent (from_shop w c) = w_sent w" "ch_prices (from_shop w c) = ch_prices c"
  "ch_db (from_shop w c) = w_db w"
  by (simp_all add: from_shop_def Let_def)

lemma dispatch_in_session:
  "in_session w \<Longrightarrow> dispatch e m w = Some run \<Longrightarrow> in_session (snd run)"
  using session_other_routers [of w e m run] session_orders_router [of w e m run]
    session_charge_router [of w e m run] session_wallet_router [of w e m run]
  by (auto simp: dispatch_def or_else_def split: option.splits)

lemma chat_ok_shop:
  assumes "chat_ok c" and "shop_step b m c = Some (res, c1)"
  shows "chat_ok c1"
proof -
  from assms(2) obtain w where w: "dispatch (be_shop b) m (as_shop c) = Some (res, w)" and c1: "c1 = from_shop w c"
    by (auto simp: shop_step_def)
  have ps: "list_all (\<lambda>(token, pd). present (pd_sale_price pd)) (ch_prices c)"
    using assms(1) by (simp add: chat_ok_def dialog_of_chat)
  show ?thesis
  proof (cases "\<exists>s. ch_state c = Some (InPanel s)")
    case True
    then obtain s where s: "ch_state c = Some (InPanel s)" ..
    have "between (as_shop c)"
      using menus_of_chat [OF assms(1)] by (simp add: between_def as_shop_def s)
    from between_dispatch [OF this w] consider "between w" | "in_session w" by auto
    then show ?thesis
    proof cases
      case 1
      then show ?thesis
        using ps assms(1) by (simp add: c1 chat_ok_def dialog_of_chat from_shop_def s between_def)
    next
      case 2
      then have "w_state w \<noteq> Some OrderChoosingPackage" by (auto simp: in_session_def)
      with 2 [unfolded in_session_def] show ?thesis
        using ps by (cases "w_state w")
          (simp_all add: c1 chat_ok_def dialog_of_chat session_of_chat from_shop_def s)
    qed
  next
    case False
    then have "in_session (as_shop c)"
      using assms(1) by (auto simp: chat_ok_def split: option.splits chat_state.splits)
    from dispatch_in_session [OF this w] have "in_session w" by simp
    from False this [unfolded in_session_def] show ?thesis
      using ps
      by (cases "ch_state c"; cases "w_state w")
        (auto simp: c1 chat_ok_def dialog_of_chat session_of_chat from_shop_def Let_def
          split: option.splits chat_state.splits)
  qed
qed

lemma chat_ok_message:
  assumes "chat_ok c" and "message_step b m c = Some (res, c1)"
  shows "chat_ok c1"
proof (cases "panel_state_of (ch_state c)")
  case None
  with assms show ?thesis by (auto simp: message_step_def intro: chat_ok_shop)
next
  case (Some s)
  then have "ch_state c = Some (InPanel s)" by (cases "ch_state c" rule: panel_state_of.cases) auto
  with assms Some show ?thesis
    by (auto simp: message_step_def intro: chat_ok_shop dest: chat_ok_panel_text split: option.splits)
qed

lemma on_error_simps [simp]:
  "ch_state (on_error u c) = ch_state c" "ch_panel (on_error u c) = ch_panel c" "ch_shop (on_error u c) = ch_shop c"
  "ch_prices (on_error u c) = ch_prices c" "ch_sent (on_error u c) = ch_sent c @ [Answer ErrorMessage None]"
  "ch_db (on_error u c) = ch_db c"
  by (simp_all add: on_error_def)

lemma chat_ok_error: "chat_ok (on_error u c) = chat_ok c"
  by (cases "ch_state c" rule: panel_state_of.cases) (simp_all add: chat_ok_def dialog_of_chat session_of_chat)

section \<open>Reachable chats\<close>

text \<open>
  Buttons and messages of anybody in the chat, in any order, with anything happening in between to
  the tables and to the prices that wait for confirmation, which all chats of the process share.
\<close>

fun timely_update :: "update \<Rightarrow> chat \<Rightarrow> bool" where
  "timely_update (Pressed cb) c = timely cb (panel_state_of (ch_state c))"
| "timely_update (Received x) c = True"

inductive shop_chat :: "chat \<Rightarrow> bool" where
  fresh: "shop_chat \<lparr>ch_db = d, ch_state = None, ch_panel = empty_panel_data, ch_shop = empty_data,
     ch_prices = ps, ch_price_edits = es, ch_shown = [], ch_sent = [], ch_alerts = 0\<rparr>"
    if "list_all (\<lambda>(token, pd). present (pd_sale_price pd)) ps"
| updated: "shop_chat c \<Longrightarrow> timely_update u c \<Longrightarrow> shop_chat (feed_update b user u c)"
| others: "shop_chat c \<Longrightarrow> list_all (\<lambda>(token, pd). present (pd_sale_price pd)) ps \<Longrightarrow>
     shop_chat (c\<lparr>ch_db := d, ch_prices := ps, ch_price_edits := es\<rparr>)"

lemma chat_ok_update:
  assumes "chat_ok c" and "timely_update u c"
  shows "chat_ok (feed_update b user u c)"
proof -
  have "chat_ok c1" if "run_update b user u c = Some (res, c1)" for res c1
  proof (cases u)
    case (Pressed cb)
    with assms have "chat_ok (snd (press_step b user cb c))" by (simp add: chat_ok_press)
    with that Pressed show ?thesis by (simp add: run_update_def)
  next
    case (Received x)
    with that assms show ?thesis by (auto simp: run_update_def intro: chat_ok_message)
  qed
  with assms(1) show ?thesis
    by (auto simp: feed_update_def chat_ok_error split: option.split prod.split sum.split)
qed

lemma shop_chat_ok: "shop_chat c \<Longrightarrow> chat_ok c"
proof (induction rule: shop_chat.induct)
  case (fresh ps d es)
  then show ?case by (simp add: chat_ok_def dialog_of_chat session_of_chat)
next
  case (updated c u b user)
  then show ?case by (simp add: chat_ok_update)
next
  case (others c ps d es)
  then show ?case by (auto simp: chat_ok_def dialog_of_chat session_of_chat split: option.splits chat_state.splits)
qed

text \<open>
  Property C10: the two halves of a bot do not disturb each other's data. In every reachable chat, whatever
  buttons of the panel and dialogs of customers were mixed in it, the data holds the keys that
  the present state needs, the screen shows the keyboard of that state, and neither a button
  pressed in time nor a text to the panel misses a key.
\<close>

theorem halves_keep_their_data:
  assumes "shop_chat c"
  shows "(case ch_state c of
        None \<Rightarrow> True
      | Some (InPanel s) \<Rightarrow> keys_of s (ch_panel c)
          \<and> fst (receive_in s (panel_env_of b) t (as_panel (Some s) c)) \<noteq> Inl KeyError
      | Some (InShop s) \<Rightarrow> session_data (Some s) (ch_shop c)
          \<and> session_keyboard (Some s) (ch_shop c) (reply_keyboard (ch_sent c)))
    \<and> (timely cb (panel_state_of (ch_state c)) \<longrightarrow> fst (press_step b user cb c) \<noteq> Inl KeyError)"
proof -
  note ok = shop_chat_ok [OF assms]
  have "timely cb (panel_state_of (ch_state c)) \<longrightarrow> fst (press_step b user cb c) \<noteq> Inl KeyError"
    using chat_ok_press [OF ok] by blast
  moreover have "fst (receive_in s (panel_env_of b) t (as_panel (Some s) c)) \<noteq> Inl KeyError"
    if "ch_state c = Some (InPanel s)" for s
    using ok that keys_texts [of "as_panel (Some s) c" s "panel_env_of b" t] by (simp add: chat_ok_def keeps_def)
  ultimately show ?thesis
    using ok by (auto simp: chat_ok_def dialog_of_chat session_of_chat split: option.split chat_state.split)
qed

section \<open>A chat to talk in\<close>

definition demo_bot_env :: bot_env where
  "demo_bot_env = \<lparr>be_shop = demo_env, be_token = ''ab12cd34'', be_now = 0, be_link = (\<lambda>n. None),
     be_caption = (\<lambda>t. ''caption'')\<rparr>"

definition demo_chat :: chat where
  "demo_chat = \<lparr>ch_db = demo_panel_db, ch_state = None, ch_panel = empty_panel_data, ch_shop = empty_data,
     ch_prices = [], ch_price_edits = [], ch_shown = [], ch_sent = [], ch_alerts = 0\<rparr>"

text \<open>A customer opens the catalog of charge codes and presses a button of the panel.\<close>

definition demo_mixed :: chat where
  "demo_mixed = feed_update demo_bot_env 77 (Pressed (OnItem PickCategory ChargeCatalog 2))
     (feed_update demo_bot_env 77 (Received (Text (Label ChargeButton))) demo_chat)"

lemma demo_mixed_chat: "shop_chat demo_mixed"
  unfolding demo_mixed_def demo_chat_def by (intro shop_chat.updated shop_chat.fresh) simp_all

lemma halves_keep_their_data_witness:
  "keys_of EnteringName (ch_panel demo_mixed) \<and> charge_operator_map (ch_shop demo_mixed) \<noteq> None
   \<and> fst (press_step demo_bot_env 77 (Menu RmenuHome) demo_mixed) \<noteq> Inl KeyError"
proof -
  have "ch_state demo_mixed = Some (InPanel EnteringName)" "charge_operator_map (ch_shop demo_mixed) \<noteq> None"
    by code_simp+
  with halves_keep_their_data [OF demo_mixed_chat, of demo_bot_env None "Menu RmenuHome" 77] show ?thesis by simp
qed

section \<open>Ways out\<close>

lemma cancel_dispatched:
  obtains w1 where "dispatch e \<lparr>from_user = user, content = Text (Typed ''/cancel'')\<rparr> w = Some (Inr (), w1)"
    and "w_db w1 = w_db w" and "w_state w1 = None"
    and "w_data w1 = (if w_state w = None then w_data w else empty_data)"
proof -
  have "\<exists>w1. dispatch e \<lparr>from_user = user, content = Text (Typed ''/cancel'')\<rparr> w = Some (Inr (), w1)
      \<and> w_db w1 = w_db w \<and> w_state w1 = None \<and> w_data w1 = (if w_state w = None then w_data w else empty_data)"
    by (auto simp: dispatch_def or_else_def reseller_start_router_def reseller_cancel_def operator_router_def
        orders_router_def customer_cancel_def starts_with_def finish_def Let_def split: option.split)
  with that show thesis by blast
qed

definition ended :: "chat \<Rightarrow> chat \<Rightarrow> bool" where
  "ended c c1 \<longleftrightarrow> ch_state c1 = None \<and> ch_db c1 = ch_db c
     \<and> (if ch_state c = None then ch_panel c1 = ch_panel c \<and> ch_shop c1 = ch_shop c
        else ch_panel c1 = empty_panel_data \<and> ch_shop c1 = empty_data)"

lemma cancel_to_the_shop:
  "\<exists>c1. shop_step b \<lparr>from_user = user, content = Text (Typed ''/cancel'')\<rparr> c = Some (Inr (), c1) \<and> ended c c1"
proof -
  obtain w1 where w1: "dispatch (be_shop b) \<lparr>from_user = user, content = Text (Typed ''/cancel'')\<rparr> (as_shop c) = Some (Inr (), w1)"
    "w_db w1 = w_db (as_shop c)" "w_state w1 = None"
    "w_data w1 = (if w_state (as_shop c) = None then w_data (as_shop c) else empty_data)"
    by (rule cancel_dispatched)
  then show ?thesis
    by (cases "ch_state c" rule: shop_state_of.cases)
      (simp_all add: shop_step_def from_shop_def as_shop_def ended_def)
qed

lemma cancel_in_the_panel:
  assumes "is_reseller_owner user (pe_reseller e) (pn_db w)" and "pn_state w \<noteq> None"
  shows "receive_message e user (Some ''/cancel'') w =
    Some (Inr (), post (InCatalog ProcessCancelled) (Some reseller_main_menu) (leave w))"
  using assms by (auto simp: receive_message_def Let_def returns_def)

definition asks_for_text :: "panel_state \<Rightarrow> bool" where
  "asks_for_text s \<longleftrightarrow> s \<notin> {ConfirmingSuspiciousPrice, ConfirmingSuspiciousEditPrice}"

definition panel_takes :: "bot_env \<Rightarrow> int \<Rightarrow> chat \<Rightarrow> bool" where
  "panel_takes b user c \<longleftrightarrow>
     (case panel_state_of (ch_state c) of
        None \<Rightarrow> False
      | Some s \<Rightarrow> asks_for_text s \<and> \<not> is_reseller_owner user (e_reseller (be_shop b)) (ch_db c))"

lemma panel_state_of_Some: "panel_state_of st = Some s \<longleftrightarrow> st = Some (InPanel s)"
  by (cases st rule: panel_state_of.cases) auto

lemma cancel_ends:
  assumes "\<not> panel_takes b user c"
  shows "\<exists>c1. message_step b \<lparr>from_user = user, content = Text (Typed ''/cancel'')\<rparr> c = Some (Inr (), c1) \<and> ended c c1"
proof (cases "panel_state_of (ch_state c)")
  case None
  then show ?thesis using cancel_to_the_shop by (simp add: message_step_def)
next
  case (Some s)
  then have s: "ch_state c = Some (InPanel s)" by (simp add: panel_state_of_Some)
  show ?thesis
  proof (cases "is_reseller_owner user (e_reseller (be_shop b)) (ch_db c)")
    case True
    then have "receive_message (panel_env_of b) user (Some ''/cancel'') (as_panel (Some s) c) =
       Some (Inr (), post (InCatalog ProcessCancelled) (Some reseller_main_menu) (leave (as_panel (Some s) c)))"
      by (intro cancel_in_the_panel) (simp_all add: panel_env_of_def)
    then show ?thesis using s by (simp add: message_step_def panel_text_step_def ended_def)
  next
    case False
    with assms s have "\<not> asks_for_text s" by (simp add: panel_takes_def)
    with False have "receive_message (panel_env_of b) user (Some ''/cancel'') (as_panel (Some s) c) = None"
      by (simp add: receive_message_def asks_for_text_def panel_env_of_def)
    then show ?thesis using s cancel_to_the_shop by (simp add: message_step_def)
  qed
qed

text \<open>
  Property C17: the ways out of a dialog. In a dialog of the panel that asks for a text, whatever
  somebody other than the owner writes goes to that dialog: a command or a button of the customer's
  keyboard is taken for the answer. Everywhere else \<^verbatim>\<open>/cancel\<close> ends the dialog, be it one of the panel
  or of the customers: the chat has no state, no table is touched, and the data of both halves is gone.
\<close>

theorem ways_out_of_a_dialog:
  "if panel_takes b user c
   then \<exists>s. ch_state c = Some (InPanel s)
          \<and> run_update b user (Received x) c =
              (case receive_in s (panel_env_of b) (map_option (written b) (text_of x)) (as_panel (Some s) c) of
                 (res, w) \<Rightarrow> Some (res, panel_text_step w c))
   else ended c (feed_update b user (Received (Text (Typed ''/cancel''))) c)"
proof (cases "panel_takes b user c")
  case True
  then obtain s where s: "ch_state c = Some (InPanel s)" "asks_for_text s"
    "\<not> is_reseller_owner user (e_reseller (be_shop b)) (ch_db c)"
    by (auto simp: panel_takes_def panel_state_of_Some split: option.splits)
  then have "receive_message (panel_env_of b) user t (as_panel (Some s) c) = Some (receive_in s (panel_env_of b) t (as_panel (Some s) c))" for t
    by (simp add: receive_message_def asks_for_text_def panel_env_of_def)
  with s(1) have "run_update b user (Received x) c =
      (case receive_in s (panel_env_of b) (map_option (written b) (text_of x)) (as_panel (Some s) c) of
         (res, w) \<Rightarrow> Some (res, panel_text_step w c))"
    by (simp add: run_update_def message_step_def split: prod.split)
  with True s(1) show ?thesis by auto
next
  case False
  with cancel_ends [OF False] show ?thesis by (auto simp: feed_update_def run_update_def)
qed

lemma ways_out_of_a_dialog_witness:
  "panel_takes demo_bot_env 77 demo_mixed
   \<and> ch_state (feed_update demo_bot_env 77 (Received (Text (Label ChargeButton))) demo_mixed) = Some (InPanel EnteringPrice)
   \<and> ended demo_mixed (feed_update demo_bot_env 700 (Received (Text (Typed ''/cancel''))) demo_mixed)"
proof -
  have st: "ch_state demo_mixed = Some (InPanel EnteringName)" "panel_takes demo_bot_env 77 demo_mixed"
    "\<not> panel_takes demo_bot_env 700 demo_mixed" "written demo_bot_env (Label ChargeButton) = ''caption''" "strip ''caption'' = ''caption''"
    by code_simp+
  then have "run_update demo_bot_env 77 (Received (Text (Label ChargeButton))) demo_mixed =
      (case receive_package_name (Some ''caption'') (as_panel (Some EnteringName) demo_mixed) of
         (res, w) \<Rightarrow> Some (res, panel_text_step w demo_mixed))"
    using ways_out_of_a_dialog [of demo_bot_env 77 demo_mixed "Text (Label ChargeButton)"] by simp
  then have "ch_state (feed_update demo_bot_env 77 (Received (Text (Label ChargeButton))) demo_mixed) = Some (InPanel EnteringPrice)"
    using st(5) by (simp add: feed_update_def receive_package_name_def with_text_def with_key_def returns_def panel_text_step_def Let_def)
  with st ways_out_of_a_dialog [of demo_bot_env 700 demo_mixed] show ?thesis by simp
qed

end
