(* ===== verification/PanelRest.thy ===== *)
theory PanelRest
  imports ShopBot
begin

text \<open>
  A handler of the panel that ends without a state leaves no data. So a chat without a state holds no data of the
  panel, whatever was pressed and written in it before, and the customers' handlers that clear the context of
  such a chat have nothing of the panel to drop (\<open>from_shop\<close>).
\<close>

section \<open>Handlers\<close>

definition idle :: "panel \<Rightarrow> bool" where
  "idle w \<longleftrightarrow> pn_state w = None \<longrightarrow> pn_data w = empty_panel_data"

definition idles :: "(panel, unit) outcome \<Rightarrow> bool" where
  "idles run \<longleftrightarrow> idle (snd run)"

lemma idles_simps [simp]: "idles (returns w) \<longleftrightarrow> idle w" "idles (Inl x, w) \<longleftrightarrow> idle w"
  by (simp_all add: idles_def returns_def)

lemma idle_simps [simp]:
  "idle (post r k w) = idle w" "idle (edit_text r k w) = idle w" "idle (alert r' w) = idle w" "idle (enter s w)" "idle (leave w)"
  "idle (change_db f w) = idle w" "idle (w\<lparr>pn_db := d\<rparr>) = idle w" "idle (w\<lparr>pn_prices := ps\<rparr>) = idle w"
  "idle (w\<lparr>pn_price_edits := es\<rparr>) = idle w"
  "idle (show_message x w) = idle w" "idle (tell user n w) = idle w"
  by (simp_all add: idle_def panel_defs tell_def)

lemma idles_with_db: "idle w \<Longrightarrow> (\<And>y d. idles (g y (w\<lparr>pn_db := d\<rparr>))) \<Longrightarrow> idles (with_db f g w)"
  by (auto simp: with_db_def in_db_def split: prod.split sum.split)

lemma idles_deleting:
  "idle w \<Longrightarrow> (\<And>w. idle w \<Longrightarrow> idle (refused w)) \<Longrightarrow> (\<And>w. idle w \<Longrightarrow> idle (g w)) \<Longrightarrow> idles (deleting f refused g w)"
  by (auto simp: deleting_def in_db_def split: prod.split sum.split exn.split)

lemma fold_idle: "(\<And>x w. idle (f x w) = idle w) \<Longrightarrow> idle (fold f xs w) = idle w"
  by (induction xs arbitrary: w) simp_all

lemma idle_rendered [simp]:
  "idle (render_manage_operators kind rid w) = idle w"
  "idle (render_operator_detail kind i w) = idle w"
  "idle (render_subcategory_detail kind i w) = idle w"
  "idle (render_package_detail kind i w) = idle w"
  by (simp_all add: render_manage_operators_def render_operator_detail_def render_subcategory_detail_def
      render_package_detail_def Let_def split: option.split)

lemma idles_catalog_buttons:
  assumes "idle w"
  shows "idles (press_kind e b1 kind w)" and "idles (press_item e b2 kind i w)"
proof -
  show "idles (press_kind e b1 kind w)"
    using assms by (cases b1) (auto simp: catalog_menu_def view_catalog_def start_add_operator_def
      start_add_subcategory_def start_add_package_def manage_operators_cb_def Let_def fold_idle)
  show "idles (press_item e b2 kind i w)"
    using assms
    by (cases b2) (auto simp: pick_operator_for_sub_def pick_operator_for_pkg_def pick_category_def
      manage_operator_detail_cb_def manage_subcategory_detail_cb_def manage_package_detail_cb_def
      start_edit_operator_name_def start_edit_subcategory_title_def start_edit_package_name_def
      start_edit_package_price_def start_edit_package_cost_def start_package_dialog_def toggle_package_active_def
      confirm_delete_operator_def delete_operator_cancelled_def
      confirm_delete_subcategory_def delete_subcategory_cancelled_def
      confirm_delete_package_def delete_package_cancelled_def
      delete_operator_confirmed_def delete_subcategory_confirmed_def delete_package_confirmed_def Let_def
      intro!: idles_deleting split: option.split prod.split)
qed

lemma idles_menu_buttons:
  assumes "idle w"
  shows "idles (press_menu e b w)"
  using assms
  by (cases b) (auto simp: back_home_def list_pending_orders_cb_def catalog_type_menu_cb_def charge_stock_menu_cb_def
      wallet_menu_def start_topup_card_def start_topup_zarinpal_def show_crypto_options_def settings_menu_def
      start_referral_percent_def start_add_channel_def start_add_discount_def start_set_support_contact_def
      payment_methods_menu_def list_cards_cb_def start_add_card_def show_zarinpal_def
      show_report_cb_def export_excel_cb_def show_stats_cb_def Let_def fold_idle
      intro!: idles_with_db split: option.split prod.split)

lemma idles_id_buttons:
  assumes "idle w"
  shows "idles (press_id e b i w)"
  using assms
  by (cases b) (auto simp: approve_receipt_def reject_receipt_def activate_def reject_wallet_topup_def open_dispute_def
      clear_all_codes_def toggle_card_cb_def remove_card_cb_def Let_def confirm_wallet_topup_def in_db_def
      notify_customer_wallet_topup_confirmed_def notify_reseller_wallet_topup_insufficient_credit_def
      notify_super_admin_wallet_topup_insufficient_credit_def
      intro!: idles_with_db split: option.split prod.split sum.split exn.split)

lemma idles_stock_buttons:
  assumes "idle w"
  shows "idles (press_stock b action i w)" and "idles (pick_operator_for_action e action w)"
    and "idles (delete_single_code i pid w)" and "idles (toggle_referral e on w)"
proof -
  show "idles (press_stock b action i w)"
    using assms by (cases b; cases action) (auto simp: pick_category_for_action_def pick_product_for_action_def
        act_on_product_def Let_def split: option.split)
  show "idles (pick_operator_for_action e action w)" "idles (delete_single_code i pid w)" "idles (toggle_referral e on w)"
    using assms by (auto simp: pick_operator_for_action_def delete_single_code_def toggle_referral_def Let_def
        intro!: idles_with_db split: option.split)
qed

lemma idles_token_buttons:
  assumes "idle w"
  shows "idles (press_token b token w)"
  using assms
  by (cases b) (auto simp: confirm_suspicious_price_def edit_suspicious_price_def confirm_edit_suspicious_price_def
    edit_again_suspicious_price_def ask_cost_price_def Let_def with_key_def intro!: idles_with_db split: option.split)

lemma idles_buttons:
  assumes "idle w"
  shows "idles (press_button e user cb w)"
  using assms idles_token_buttons [OF assms(1)]
  by (cases cb) (auto simp: press_button_def idles_catalog_buttons idles_menu_buttons idles_id_buttons
      idles_stock_buttons simp del: press_menu.simps press_id.simps press_kind.simps press_item.simps
      press_token.simps press_stock.simps)

lemma idles_with_text: "idle w \<Longrightarrow> (\<And>s. idles (f s w)) \<Longrightarrow> idles (with_text t f w)"
  by (simp add: with_text_def split: option.split)

lemma idles_with_number: "idle w \<Longrightarrow> (\<And>v. idles (f v w)) \<Longrightarrow> idles (with_number t f w)"
  by (simp add: with_number_def split: number_text.split)

lemma idles_with_percent: "idle w \<Longrightarrow> (\<And>v. idles (f v w)) \<Longrightarrow> idles (with_percent t f w)"
  by (auto simp: with_percent_def intro!: idles_with_text split: option.split)

lemma idles_with_key: "idle w \<Longrightarrow> (\<And>x. idles (f x w)) \<Longrightarrow> idles (with_key key f w)"
  by (simp add: with_key_def split: option.split)

lemmas idles_intros = idles_with_text idles_with_number idles_with_percent idles_with_key idles_with_db idles_deleting

lemma idles_answer: "idle w \<Longrightarrow> idles (answer_and_leave r w)"
  by (simp add: answer_and_leave_def with_key_def split: option.split)

lemma idles_texts: "idle w \<Longrightarrow> idles (receive_in s e t w)"
  by (cases s) (auto simp: receive_operator_name_and_save_def receive_subcategory_title_and_save_def
      receive_package_name_def receive_cost_price_and_save_def save_operator_name_edit_def
      save_subcategory_title_edit_def save_package_name_edit_def save_package_cost_edit_def
      receive_price_def receive_package_price_edit_def ask_cost_price_def receive_dispute_reason_def
      receive_referral_percent_def receive_channel_id_def receive_discount_code_def
      receive_discount_percent_def receive_discount_usage_limit_and_save_def receive_support_contact_def
      receive_card_topup_amount_def receive_zarinpal_amount_def receive_crypto_coin_def
      receive_crypto_tx_hash_def receive_crypto_amount_and_save_def receive_card_number_def
      receive_card_holder_def receive_bank_name_and_save_def receive_zarinpal_merchant_def receive_charge_codes_def Let_def
      intro!: idles_intros idles_answer split: option.split sum.split)

lemma idles_message: "receive_message e user t w = Some run \<Longrightarrow> idle w \<Longrightarrow> idles run"
  by (auto simp: receive_message_def Let_def idles_texts split: if_splits option.splits)

section \<open>Chats without a state\<close>

definition rests :: "chat \<Rightarrow> bool" where
  "rests c \<longleftrightarrow> ch_state c = None \<longrightarrow> ch_panel c = empty_panel_data"

lemma clears_leaves:
  "clears b user cb c \<Longrightarrow> pn_data (snd (press_button (panel_env_of b) user cb (as_panel s c))) = empty_panel_data"
  by (frule only_the_edited_price_clears)
    (auto simp: clears_def press_button_def confirm_edit_suspicious_price_def as_panel_def with_db_def in_db_def
      returns_def panel_defs split: option.splits prod.splits sum.splits)

lemma rests_press:
  assumes "rests c"
  shows "rests (snd (press_step b user cb c))"
proof -
  let ?p = "as_panel (panel_state_of (ch_state c)) c"
  obtain res w where run: "press_button (panel_env_of b) user cb ?p = (res, w)" by fastforce
  show ?thesis
  proof (cases "clears b user cb c")
    case True
    with clears_leaves [OF True, of "panel_state_of (ch_state c)"] show ?thesis
      by (simp add: run press_step_def rests_def)
  next
    case False
    have "idle w" if "ch_state c = None"
    proof -
      have "idle ?p" using assms that by (simp add: idle_def rests_def)
      from idles_buttons [OF this, of "panel_env_of b" user cb] show ?thesis by (simp add: run idles_def)
    qed
    with False show ?thesis
      by (auto simp: run press_step_def rests_def idle_def split: option.splits)
  qed
qed

lemma rests_from_shop: "rests c \<Longrightarrow> rests (from_shop w c)"
  by (auto simp: from_shop_def rests_def Let_def)

lemma rests_shop: "rests c \<Longrightarrow> shop_step b m c = Some (res, c1) \<Longrightarrow> rests c1"
  by (auto simp: shop_step_def intro: rests_from_shop)

lemma rests_message:
  assumes "rests c" and "message_step b m c = Some (res, c1)"
  shows "rests c1"
proof (cases "panel_state_of (ch_state c)")
  case None
  with assms show ?thesis by (auto simp: message_step_def intro: rests_shop)
next
  case (Some s)
  show ?thesis
  proof (cases "receive_message (panel_env_of b) (from_user m) (map_option (written b) (message_text m)) (as_panel (Some s) c)")
    case None
    with assms Some show ?thesis by (auto simp: message_step_def intro: rests_shop)
  next
    case run: (Some run)
    have "idle (as_panel (Some s) c)" by (simp add: idle_def)
    from idles_message [OF run this] assms(2) Some run show ?thesis
      by (auto simp: message_step_def rests_def panel_text_step_def idles_def idle_def split: prod.splits)
  qed
qed

lemma rests_update:
  assumes "rests c"
  shows "rests (feed_update b user u c)"
proof (cases "run_update b user u c")
  case None
  with assms show ?thesis by (simp add: feed_update_def)
next
  case (Some run)
  obtain res c1 where run: "run = (res, c1)" by fastforce
  have "rests c1"
  proof (cases u)
    case (Pressed cb)
    with Some run have "c1 = snd (press_step b user cb c)" by (simp add: run_update_def)
    with rests_press [OF assms] show ?thesis by simp
  next
    case (Received x)
    with Some run rests_message [OF assms] show ?thesis by (auto simp: run_update_def)
  qed
  then show ?thesis by (cases res) (simp_all add: feed_update_def Some run rests_def)
qed

lemma no_panel_data_without_state: "shop_chat c \<Longrightarrow> ch_state c = None \<Longrightarrow> ch_panel c = empty_panel_data"
proof -
  have "shop_chat c \<Longrightarrow> rests c"
  proof (induction rule: shop_chat.induct)
    case (updated c u b user)
    then show ?case by (simp add: rests_update)
  qed (simp_all add: rests_def)
  then show "shop_chat c \<Longrightarrow> ch_state c = None \<Longrightarrow> ch_panel c = empty_panel_data" by (simp add: rests_def)
qed

end
