(* ===== verification/PriceWaits.thy ===== *)
theory PriceWaits
  imports CustomerMoney ShopBot
begin

text \<open>
  Prices that are typed below the floor of their operator, followed through the whole bot of a
  shop: the messages of customers reach no product, so such a price changes nothing until its button is
  pressed.
\<close>

section \<open>Messages of the customers leave the products alone\<close>

lemma deliver_codes_packages: "deliver_codes ms plan seq cs d = (Inr ds, d') \<Longrightarrow> packages d' = packages d"
proof (induction cs arbitrary: seq d ds)
  case (Cons c cs)
  from Cons.prems show ?case
  proof (cases rule: deliver_codes_Cons)
    case (1 prefix i d1 ds')
    from Cons.IH [OF 1(3)] 1(2) show ?thesis
      by (auto simp: insert_order_def upd_code_def split: if_splits)
  qed
qed simp

lemma insert_order_packages: "packages (snd (insert_order r d)) = packages d"
  by (simp add: insert_order_def)

lemma charge_bulk_packages: "packages (snd (purchase_charge_bulk ms rid pid cid n d)) = packages d"
proof (cases "purchase_charge_bulk ms rid pid cid n d")
  case (Pair res d')
  show ?thesis
  proof (cases res)
    case (Inl e)
    with Pair charge_bulk_refused show ?thesis by fastforce
  next
    case (Inr receipt)
    with Pair obtain plan ids ds where "purchase_charge_bulk_tx ms plan (nat n) d = (Inr (ids, ds), d')"
      by (auto simp: purchase_charge_bulk_def split: if_splits sum.splits prod.splits)
    from deliver_codes_packages [OF charge_bulk_tx_InrD [OF this]] Pair show ?thesis
      by (simp add: upd_customer_def)
  qed
qed

lemma wallet_order_packages: "packages (snd (create_order_paid_by_wallet m rid pid cid phone d)) = packages d"
proof (cases "create_order_paid_by_wallet m rid pid cid phone d")
  case (Pair res d')
  show ?thesis
  proof (cases res)
    case (Inl e)
    with Pair paid_by_wallet_InlD show ?thesis by fastforce
  next
    case (Inr ord)
    with Pair obtain plan i where "pay_order_from_wallet (m_now m) plan d = (Inr i, d')"
      by (auto elim: paid_by_wallet_InrD)
    from this have "insert_order (wallet_order_row (m_now m) plan)
        (upd_customer (wp_customer plan) (\<lambda>c. c\<lparr>wallet_balance := wallet_balance c - wp_price plan\<rparr>) d) = (Inr i, d')"
      by (rule pay_order_InrD)
    from arg_cong [OF this, where f = "\<lambda>r. packages (snd r)"] have "packages d' = packages d"
      by (simp add: insert_order_packages upd_customer_def)
    with Pair show ?thesis by simp
  qed
qed

lemma service_packages:
  "packages (snd (get_or_create_customer rid user d)) = packages d"
  "packages (snd (create_order m rid pid cid phone d)) = packages d"
  "packages (snd (submit_receipt cfg oid file d)) = packages d"
  "packages (snd (discount_order t rid oid code d)) = packages d"
  "packages (snd (create_topup_request rid cid amount meth d)) = packages d"
  "packages (attach_topup_receipt tid file d) = packages d"
  "packages (register_referral rid referrer referred d) = packages d"
proof -
  show "packages (snd (get_or_create_customer rid user d)) = packages d"
    using get_or_create_frame(2) [of rid user d] by (metis prod.collapse)
  show "packages (snd (create_order m rid pid cid phone d)) = packages d"
    by (simp add: create_order_def insert_order_def Let_def split: option.split prod.split sum.split)
  show "packages (snd (submit_receipt cfg oid file d)) = packages d"
    by (rule submit_receipt_frame) (simp_all add: same_elsewhereD mark_receipt_def upd_order_def)
  show "packages (snd (discount_order t rid oid code d)) = packages d"
    by (auto simp: discount_order_def increment_usage_def upd_discount_def Let_def split: sum.split option.split)
qed (auto simp: create_topup_request_def attach_topup_receipt_def register_referral_def upd_topup_def)

lemmas packages_kept = service_packages charge_bulk_packages wallet_order_packages

definition same_products :: "world \<Rightarrow> world \<Rightarrow> bool" where
  "same_products w w' \<longleftrightarrow> packages (w_db w') = packages (w_db w)"

lemma products_same_db: "w_db w' = w_db w \<Longrightarrow> same_products w w'"
  by (simp add: same_products_def)

lemma products_buy_charges: "w_db w0 = w_db w \<Longrightarrow> same_products w (snd (buy_charges e u pid n w0))"
  by (auto simp: same_products_def buy_charges_def on_db_eq Let_def quiet_db packages_kept
      split: sum.split exn.split option.split)

lemma products_wallet: "same_products w (snd (show_wallet e m w))"
  by (simp add: same_products_def show_wallet_def on_db_eq Let_def packages_kept split: sum.split option.split)

lemma products_services:
  "same_products w (snd (process_purchase e u phone w))"
  "same_products w (snd (handle_charge_quantity_input e m w))"
  "same_products w (snd (customer_start e m w))"
  "same_products w (snd (apply_discount_code e s w))"
  "same_products w (snd (receive_receipt e file w))"
  "same_products w (snd (choose_topup_method e m w))"
  "same_products w (snd (receive_topup_amount e m w))"
  "same_products w (snd (receive_topup_receipt e file w))"
proof -
  show "same_products w (snd (process_purchase e u phone w))"
    by (auto simp: same_products_def process_purchase_def on_db_eq Let_def quiet_db packages_kept
        split: sum.split exn.split option.split)
  show "same_products w (snd (handle_charge_quantity_input e m w))"
    using products_buy_charges
    by (auto simp: handle_charge_quantity_input_def products_same_db split: option.split quantity_input.split)
  show "same_products w (snd (customer_start e m w))"
    by (auto simp: same_products_def customer_start_def on_db_eq Let_def packages_kept
        split: sum.split option.split msg_text.split)
  show "same_products w (snd (apply_discount_code e s w))"
    by (auto simp: same_products_def apply_discount_code_def on_db_eq Let_def packages_kept
        split: sum.split option.split exn.split)
  show "same_products w (snd (receive_receipt e file w))"
    by (auto simp: same_products_def receive_receipt_def on_db_eq Let_def packages_kept
        split: sum.split option.split exn.split)
  show "same_products w (snd (choose_topup_method e m w))"
    using products_wallet [of "clear_state w"] by (simp add: same_products_def choose_topup_method_def Let_def)
  show "same_products w (snd (receive_topup_amount e m w))"
    by (auto simp: same_products_def receive_topup_amount_def on_db_eq Let_def packages_kept
        split: sum.split option.split amount_input.split)
  show "same_products w (snd (receive_topup_receipt e file w))"
    by (auto simp: same_products_def receive_topup_receipt_def Let_def packages_kept split: option.split)
qed

lemmas products_handlers = quiet_db [THEN products_same_db] products_services products_wallet

lemma products_dispatch: "pred_option (\<lambda>res. same_products w (snd res)) (dispatch e m w)"
proof -
  have "pred_option (\<lambda>res. same_products w (snd res)) (reseller_start_router e m w)"
    by (simp add: reseller_start_router_def Let_def reseller_start_def reseller_cancel_def products_same_db
        split: option.split)
  moreover have "pred_option (\<lambda>res. same_products w (snd res)) (operator_router e m w)"
    by (simp add: operator_router_def answer_pending_orders_def fold_answers_db products_same_db
        split: option.split msg_text.split sum.split)
  moreover have "pred_option (\<lambda>res. same_products w (snd res)) (orders_router e m w)"
    by (simp add: orders_router_def Let_def show_catalog_from_keyboard_def products_handlers products_same_db
        receive_phone_number_contact_def receive_phone_number_text_def
        split: option.split fsm_state.split content.split msg_text.split)
  moreover have "pred_option (\<lambda>res. same_products w (snd res)) (charge_router e m w)"
    by (simp add: charge_router_def Let_def show_charge_catalog_from_keyboard_def products_handlers
        split: option.split fsm_state.split)
  moreover have "pred_option (\<lambda>res. same_products w (snd res)) (wallet_router e m w)"
    by (simp add: wallet_router_def Let_def products_handlers
        split: option.split fsm_state.split content.split)
  ultimately show ?thesis unfolding dispatch_def by (intro pred_or_else)
qed

section \<open>Talk\<close>

text \<open>Messages of anybody in a chat, each in its environment.\<close>

definition hear_all :: "(bot_env \<times> int \<times> content) list \<Rightarrow> chat \<Rightarrow> chat" where
  "hear_all = fold (\<lambda>(b, user, x). feed_update b user (Received x))"

definition no_text_asked :: "chat \<Rightarrow> bool" where
  "no_text_asked c \<longleftrightarrow> (case panel_state_of (ch_state c) of None \<Rightarrow> True | Some s \<Rightarrow> \<not> asks_for_text s)"

definition waiting_kept :: "chat \<Rightarrow> chat \<Rightarrow> bool" where
  "waiting_kept c c' \<longleftrightarrow> no_text_asked c' \<and> packages (ch_db c') = packages (ch_db c)
     \<and> ch_prices c' = ch_prices c \<and> ch_price_edits c' = ch_price_edits c"

lemma shop_waits:
  assumes "no_text_asked c" and "shop_step b m c = Some (res, c')"
  shows "waiting_kept c c'"
proof -
  from assms(2) obtain w where w: "dispatch (be_shop b) m (as_shop c) = Some (res, w)" and c': "c' = from_shop w c"
    by (auto simp: shop_step_def)
  have "packages (w_db w) = packages (ch_db c)"
    using products_dispatch [of "as_shop c" "be_shop b" m] unfolding w by (simp add: same_products_def as_shop_def)
  with assms(1) show ?thesis
    by (cases "w_state w") (auto simp: waiting_kept_def c' from_shop_def no_text_asked_def Let_def)
qed

lemma message_waits:
  assumes "no_text_asked c"
  shows "waiting_kept c (feed_update b user (Received x) c)"
proof -
  let ?m = "\<lparr>from_user = user, content = x\<rparr>"
  have "waiting_kept c c1" if "message_step b ?m c = Some (res, c1)" for res c1
  proof (cases "panel_state_of (ch_state c)")
    case None
    with that assms show ?thesis by (auto simp: message_step_def intro: shop_waits)
  next
    case (Some s)
    then have s: "s = ConfirmingSuspiciousPrice \<or> s = ConfirmingSuspiciousEditPrice"
      using assms by (auto simp: no_text_asked_def asks_for_text_def)
    show ?thesis
    proof (cases "receive_message (panel_env_of b) user (map_option (written b) (message_text ?m)) (as_panel (Some s) c)")
      case None
      with that Some assms show ?thesis by (auto simp: message_step_def intro: shop_waits)
    next
      case run: (Some run)
      with that Some obtain w where w: "run = (res, w)" "c1 = panel_text_step w c"
        by (cases run) (auto simp: message_step_def)
      from run s show ?thesis
        by (auto simp: receive_message_def w Let_def returns_def waiting_kept_def no_text_asked_def panel_text_step_def
            asks_for_text_def from_panel_def as_panel_def panel_defs split: if_splits)
    qed
  qed
  note step = this
  show ?thesis
  proof (cases "message_step b ?m c")
    case None
    with assms show ?thesis by (simp add: feed_update_def run_update_def waiting_kept_def)
  next
    case (Some run)
    obtain res c1 where run: "run = (res, c1)" by fastforce
    with step Some have "waiting_kept c c1" by blast
    then show ?thesis
      by (cases res) (simp_all add: feed_update_def run_update_def Some run waiting_kept_def no_text_asked_def on_error_def)
  qed
qed

lemma hear_all_waits: "no_text_asked c \<Longrightarrow> waiting_kept c (hear_all ms c)"
proof (induction ms arbitrary: c)
  case Nil
  then show ?case by (simp add: hear_all_def waiting_kept_def)
next
  case (Cons m ms)
  obtain b user x where m: "m = (b, user, x)" by (cases m)
  have kept: "waiting_kept c (feed_update b user (Received x) c)" by (rule message_waits [OF Cons.prems])
  then have "waiting_kept (feed_update b user (Received x) c) (hear_all ms (feed_update b user (Received x) c))"
    by (intro Cons.IH) (simp add: waiting_kept_def)
  with kept show ?case by (simp add: hear_all_def m waiting_kept_def)
qed

section \<open>A price below the floor\<close>

lemma new_price_asked:
  assumes "plain_text t" and "read_number (Some t) = Number (Finite x)"
    and "ch_state c = Some (InPanel EnteringPrice)" and "pd_operator_name (ch_panel c) = Some operator"
    and "price_suspicious operator (Finite x) (ch_db c) = Inr True"
  shows "feed_update b user (Received (Text (Typed t))) c = c\<lparr>ch_state := Some (InPanel ConfirmingSuspiciousPrice),
    ch_prices := AList.update (be_token b) ((ch_panel c)\<lparr>pd_sale_price := Some (Finite x)\<rparr>) (ch_prices c),
    ch_shown := ch_shown c @ [Posted (InCatalog (AskSuspicious (shown_value (Finite x))))
      (Some (sanity_check_confirm_buttons (be_token b)))]\<rparr>"
  using assms
  by (simp add: feed_update_def run_update_def message_step_def plain_message receive_price_def with_number_def
      with_key_def returns_def panel_text_step_def from_panel_def as_panel_def panel_env_of_def panel_defs)

lemma edited_price_asked:
  assumes "plain_text t" and "read_number (Some t) = Number (Finite x)"
    and "ch_state c = Some (InPanel EditingPackagePrice)" and "pd_package_id (ch_panel c) = Some pid"
    and "pd_catalog_type (ch_panel c) = Some kind"
    and "price_suspicious (operator_of_package pid (ch_db c)) (Finite x) (ch_db c) = Inr True"
  shows "feed_update b user (Received (Text (Typed t))) c = c\<lparr>ch_state := Some (InPanel ConfirmingSuspiciousEditPrice),
    ch_price_edits := AList.update (be_token b) (pid, kind, Finite x) (ch_price_edits c),
    ch_shown := ch_shown c @ [Posted (InCatalog (AskSuspicious (shown_value (Finite x))))
      (Some (package_edit_price_confirm_buttons (be_token b)))]\<rparr>"
  using assms
  by (simp add: feed_update_def run_update_def message_step_def plain_message receive_package_price_edit_def with_number_def
      with_key_def returns_def panel_text_step_def from_panel_def as_panel_def panel_env_of_def panel_defs)

lemma new_price_confirmed:
  assumes "map_of (ch_prices c) token = Some pending" and "pd_sale_price pending = Some v"
  shows "ch_db (feed_update b user (Pressed (WithToken PriceConfirm token)) c) = ch_db c
    \<and> ch_state (feed_update b user (Pressed (WithToken PriceConfirm token)) c) = Some (InPanel EnteringCostPrice)
    \<and> pd_sale_price (ch_panel (feed_update b user (Pressed (WithToken PriceConfirm token)) c)) = Some v"
proof -
  have "\<not> clears b user (WithToken PriceConfirm token) c" using only_the_edited_price_clears by blast
  with assms show ?thesis
    by (simp add: feed_update_def run_update_def press_step_def press_button_def confirm_suspicious_price_def
        as_panel_def from_panel_def Let_def ask_cost_price_def panel_defs)
qed

lemma edited_price_confirmed:
  assumes "map_of (ch_price_edits c) token = Some (pid, kind, Finite x)"
  shows "packages (ch_db (feed_update b user (Pressed (WithToken PkgeditPriceConfirm token)) c)) =
    update_id p_id pid (\<lambda>p. p\<lparr>sale_price := store x\<rparr>) (packages (ch_db c))"
  using assms
  by (simp add: feed_update_def run_update_def press_step_def press_button_def confirm_edit_suspicious_price_def
      as_panel_def from_panel_def with_db_def in_db_def set_sale_price_def stored_amount_def upd_package_def
      panel_defs)

text \<open>
  Property C27: a price below the floor waits for its confirmation. Typed for a new product or for an
  existing one in the bot of the shop, it changes no table, and the answer asks for confirmation under a
  fresh token. Whatever anybody writes in the chat after that, and wherever these texts lead (they
  reach the dialogs of the customers, which may end the waiting state), no product changes. The button with
  the token then stores exactly the typed price in the chosen product, and for a new product it goes on to
  the cost price with the typed price in the data, still without a change of any product.
\<close>

theorem suspicious_price_waits:
  assumes "plain_text t" and "read_number (Some t) = Number (Finite x)"
    and dialog: "ch_state c = Some (InPanel EnteringPrice) \<and> pd_operator_name (ch_panel c) = Some operator
       \<or> ch_state c = Some (InPanel EditingPackagePrice) \<and> pd_package_id (ch_panel c) = Some pid
         \<and> pd_catalog_type (ch_panel c) = Some kind \<and> operator = operator_of_package pid (ch_db c)"
    and "get_min_sane_price operator (ch_db c) = Some min_price" and "x < min_price"
  shows "let new = (ch_state c = Some (InPanel EnteringPrice));
      c1 = feed_update b user (Received (Text (Typed t))) c;
      c2 = hear_all ms c1;
      c3 = feed_update b' user' (Pressed (WithToken (if new then PriceConfirm else PkgeditPriceConfirm) (be_token b))) c2
    in ch_db c1 = ch_db c
     \<and> last (ch_shown c1) = Posted (InCatalog (AskSuspicious (Whole (quantize1 x))))
          (Some ((if new then sanity_check_confirm_buttons else package_edit_price_confirm_buttons) (be_token b)))
     \<and> packages (ch_db c2) = packages (ch_db c)
     \<and> (if new
         then packages (ch_db c3) = packages (ch_db c) \<and> ch_state c3 = Some (InPanel EnteringCostPrice)
           \<and> pd_sale_price (ch_panel c3) = Some (Finite x)
         else packages (ch_db c3) = update_id p_id pid (\<lambda>p. p\<lparr>sale_price := store x\<rparr>) (packages (ch_db c)))"
proof -
  have sus: "price_suspicious operator (Finite x) (ch_db c) = Inr True"
    using assms(4,5) by (simp add: price_suspicious_def is_price_suspicious_def)
  define c1 where "c1 = feed_update b user (Received (Text (Typed t))) c"
  have asked: "ch_db c1 = ch_db c \<and> no_text_asked c1
    \<and> last (ch_shown c1) = Posted (InCatalog (AskSuspicious (Whole (quantize1 x))))
        (Some ((if ch_state c = Some (InPanel EnteringPrice) then sanity_check_confirm_buttons
                else package_edit_price_confirm_buttons) (be_token b)))
    \<and> (if ch_state c = Some (InPanel EnteringPrice)
       then map_of (ch_prices c1) (be_token b) = Some ((ch_panel c)\<lparr>pd_sale_price := Some (Finite x)\<rparr>)
       else map_of (ch_price_edits c1) (be_token b) = Some (pid, kind, Finite x))"
    using dialog sus assms(1,2)
    by (auto simp: c1_def new_price_asked edited_price_asked no_text_asked_def asks_for_text_def update_conv')
  have kept: "waiting_kept c1 (hear_all ms c1)" using asked by (intro hear_all_waits) simp
  show ?thesis
    using asked kept new_price_confirmed [of "hear_all ms c1" "be_token b" _ "Finite x" b' user']
      edited_price_confirmed [of "hear_all ms c1" "be_token b" pid kind x b' user']
    by (simp add: Let_def waiting_kept_def flip: c1_def split: if_splits)
qed

text \<open>
  A price is typed for the first product; then a customer presses the caption of the wallet, which ends the
  dialog of the panel. The price waits on.
\<close>

definition demo_edited_chat :: chat where
  "demo_edited_chat = feed_update demo_bot_env 700 (Pressed (OnItem EditPkgPrice ChargeCatalog 1)) demo_chat"

lemma demo_wallet_leaves:
  "ch_state (hear_all [(demo_bot_env, 77, Text (Label WalletButton))]
     (feed_update demo_bot_env 700 (Received (Text (Typed ''500''))) demo_edited_chat)) = None"
  by code_simp

lemma suspicious_price_waits_witness:
  "let c2 = hear_all [(demo_bot_env, 77, Text (Label WalletButton))]
        (feed_update demo_bot_env 700 (Received (Text (Typed ''500''))) demo_edited_chat)
   in ch_state c2 = None \<and> packages (ch_db c2) = packages demo_panel_db
    \<and> packages (ch_db (feed_update demo_bot_env 700 (Pressed (WithToken PkgeditPriceConfirm ''ab12cd34'')) c2)) =
        update_id p_id 1 (\<lambda>p. p\<lparr>sale_price := store 500\<rparr>) (packages demo_panel_db)"
proof -
  have dialog: "ch_state demo_edited_chat = Some (InPanel EditingPackagePrice)"
    "pd_package_id (ch_panel demo_edited_chat) = Some 1" "pd_catalog_type (ch_panel demo_edited_chat) = Some ChargeCatalog"
    "operator_of_package 1 (ch_db demo_edited_chat) = ''MCI''" "be_token demo_bot_env = ''ab12cd34''"
    and typed: "plain_text ''500''" "read_number (Some ''500'') = Number (Finite 500)"
    and floor: "get_min_sane_price ''MCI'' (ch_db demo_edited_chat) = Some 10000" "(500::rat) < 10000"
    by code_simp+
  have db: "ch_db demo_edited_chat = demo_panel_db" by code_simp
  have "ch_state demo_edited_chat = Some (InPanel EnteringPrice) \<and> pd_operator_name (ch_panel demo_edited_chat) = Some ''MCI''
       \<or> ch_state demo_edited_chat = Some (InPanel EditingPackagePrice) \<and> pd_package_id (ch_panel demo_edited_chat) = Some 1
         \<and> pd_catalog_type (ch_panel demo_edited_chat) = Some ChargeCatalog \<and> ''MCI'' = operator_of_package 1 (ch_db demo_edited_chat)"
    using dialog by simp
  from suspicious_price_waits [OF typed this floor, where b = demo_bot_env
        and ms = "[(demo_bot_env, 77, Text (Label WalletButton))]" and b' = demo_bot_env and user = 700 and user' = 700]
  show ?thesis using demo_wallet_leaves by (simp add: Let_def dialog db del: One_nat_def)
qed

end
