(* ===== verification/OrderLife.thy ===== *)
theory OrderLife
  imports Access Promotions
begin

text \<open>
  The life of an order across the services that write the table: it is created by the customer
  (\<^verbatim>\<open>order_service.py\<close>, \<^verbatim>\<open>charge_service.py\<close>), its price may fall by a discount code, the receipt
  charges the commission of the reseller, the panel approves or rejects and activates, and a dispute
  (\<^verbatim>\<open>dispute_service.py\<close>) gives the commission back. No statement looks at the status that it
  overwrites; the order of the statuses rests on the buttons that are shown. The theory states the
  state machine that the code means, and proves that runs of the whole system follow it as long as
  buttons are pressed while they are on offer, and what a late button does.
\<close>

section \<open>The state machine\<close>

inductive life :: "order_status \<Rightarrow> order_status \<Rightarrow> bool" where
  receipt_taken: "life AwaitingPayment AwaitingReceiptReview"
| credit_missing: "life AwaitingPayment FailedInsufficientCredit"
| approved: "life AwaitingReceiptReview Confirmed"
| refused: "life AwaitingReceiptReview Rejected"
| served: "life Confirmed Activated"
| disputed: "life Rejected RefundPending"
| given_back: "life RefundPending Refunded"

code_pred life .

inductive_cases lifeE: "life x y"

abbreviation lives_on :: "order_status \<Rightarrow> order_status \<Rightarrow> bool" where
  "lives_on \<equiv> life\<^sup>*\<^sup>*"

text \<open>The status with which a row is inserted.\<close>

definition birth :: "order \<Rightarrow> order_status" where
  "birth ord = (if o_type ord = ChargeOrder then Activated
     else if paid_from_wallet ord then Confirmed else AwaitingPayment)"

text \<open>What no operation changes.\<close>

definition same_order :: "order \<Rightarrow> order \<Rightarrow> bool" where
  "same_order a b \<longleftrightarrow> o_id b = o_id a \<and> order_code b = order_code a \<and> o_reseller_id b = o_reseller_id a
     \<and> o_package_id b = o_package_id a \<and> o_customer_id b = o_customer_id a \<and> phone_number b = phone_number a
     \<and> created_at b = created_at a \<and> paid_from_wallet b = paid_from_wallet a \<and> o_type b = o_type a
     \<and> delivered_charge_code b = delivered_charge_code a"

lemma same_order_refl [simp]: "same_order a a"
  by (simp add: same_order_def)

lemma same_order_trans: "same_order a b \<Longrightarrow> same_order b c \<Longrightarrow> same_order a c"
  by (simp add: same_order_def)

lemma birth_same: "same_order a b \<Longrightarrow> birth b = birth a"
  by (simp add: same_order_def birth_def)

section \<open>Events\<close>

text \<open>
  The operations of the program that write orders, each a transaction or a statement of its own, in
  any order: a purchase from the wallet, a receipt and a purchase of codes come with the values that
  their checks read earlier.
\<close>

datatype order_event =
    NewOrder moment nat nat nat "string option"
  | WalletOrder time wallet_order_plan
  | CodesBought "nat \<Rightarrow> moment" charge_plan nat
  | Discounted time nat nat string
  | ReceiptSent string receipt_plan
  | ReceiptApproved time nat
  | ReceiptRefused nat
  | OrderServed time nat
  | DisputeFiled nat string
  | DisputeGranted time nat
  | DisputeDenied time nat

fun order_step :: "order_event \<Rightarrow> db \<Rightarrow> db" where
  "order_step (NewOrder m rid pid cid phone) d = snd (create_order m rid pid cid phone d)"
| "order_step (WalletOrder t plan) d = snd (pay_order_from_wallet t plan d)"
| "order_step (CodesBought ms plan n) d = snd (purchase_charge_bulk_tx ms plan n d)"
| "order_step (Discounted t rid oid code) d = snd (discount_order t rid oid code d)"
| "order_step (ReceiptSent photo plan) d = snd (submit_receipt_commit photo plan d)"
| "order_step (ReceiptApproved t oid) d = confirm_order t oid d"
| "order_step (ReceiptRefused oid) d = reject_order oid d"
| "order_step (OrderServed t oid) d = snd (activate_order t oid d)"
| "order_step (DisputeFiled oid reason) d = snd (submit_dispute_reason oid reason d)"
| "order_step (DisputeGranted t did) d = snd (approve_dispute t did d)"
| "order_step (DisputeDenied t did) d = reject_dispute t did d"

definition run_orders :: "order_event list \<Rightarrow> db \<Rightarrow> db" where
  "run_orders = fold order_step"

text \<open>
  When an event is in time: the customer's chat asks for the receipt of a new order, the review
  buttons belong to an order under review, the button of the activation to a confirmed one, the
  dispute to a rejected one, and the administrator's buttons to a dispute that is open.
\<close>

definition status_is :: "nat \<Rightarrow> order_status \<Rightarrow> db \<Rightarrow> bool" where
  "status_is oid st d \<longleftrightarrow> (case lookup o_id oid (orders d) of None \<Rightarrow> False | Some ord \<Rightarrow> o_status ord = st)"

fun in_time :: "order_event \<Rightarrow> db \<Rightarrow> bool" where
  "in_time (ReceiptSent photo plan) d \<longleftrightarrow>
     (case lookup o_id (o_id (rp_order plan)) (orders d) of
        None \<Rightarrow> False
      | Some ord \<Rightarrow> o_status ord = AwaitingPayment \<and> o_reseller_id ord = o_reseller_id (rp_order plan))
     \<and> (rp_is_test plan \<longrightarrow> rp_commission plan = 0)"
| "in_time (ReceiptApproved t oid) d \<longleftrightarrow> status_is oid AwaitingReceiptReview d"
| "in_time (ReceiptRefused oid) d \<longleftrightarrow> status_is oid AwaitingReceiptReview d"
| "in_time (OrderServed t oid) d \<longleftrightarrow> status_is oid Confirmed d"
| "in_time (DisputeFiled oid reason) d \<longleftrightarrow> status_is oid Rejected d"
| "in_time (DisputeGranted t did) d \<longleftrightarrow>
     (case lookup d_id did (disputes d) of
        None \<Rightarrow> False
      | Some di \<Rightarrow> d_review_status di = ReviewPending \<and> status_is (d_order_id di) RefundPending d)"
| "in_time _ d \<longleftrightarrow> True"

fun always :: "('e \<Rightarrow> 's \<Rightarrow> bool) \<Rightarrow> ('e \<Rightarrow> 's \<Rightarrow> 's) \<Rightarrow> 'e list \<Rightarrow> 's \<Rightarrow> bool" where
  "always enabled step [] s \<longleftrightarrow> True"
| "always enabled step (ev # evs) s \<longleftrightarrow> enabled ev s \<and> always enabled step evs (step ev s)"

abbreviation all_in_time :: "order_event list \<Rightarrow> db \<Rightarrow> bool" where
  "all_in_time \<equiv> always in_time order_step"

text \<open>A receipt whose plan the service computed from the order satisfies the condition on the commission.\<close>

lemma planned_receipt: "rp_is_test (receipt_plan_for ord r) \<Longrightarrow> rp_commission (receipt_plan_for ord r) = 0"
  by simp

section \<open>What a shop holds\<close>

text \<open>
  The commission of an order is with the operator of the platform from the receipt to the refund;
  a receipt that failed for lack of credit is recorded with a commission that was not taken.
\<close>

definition charged :: "order \<Rightarrow> bool" where
  "charged ord \<longleftrightarrow> o_status ord \<in> {AwaitingReceiptReview, Confirmed, Activated, Rejected, RefundPending}"

definition commission_out :: "nat \<Rightarrow> db \<Rightarrow> cents" where
  "commission_out rid d = sum_rows (\<lambda>ord. o_reseller_id ord = rid \<and> charged ord) commission_amount (orders d)"

definition holdings :: "nat \<Rightarrow> db \<Rightarrow> cents" where
  "holdings rid d = balance_of rid d + commission_out rid d"

section \<open>How the rows of two states are related\<close>

definition lives :: "db \<Rightarrow> db \<Rightarrow> bool" where
  "lives d d' \<longleftrightarrow>
     (\<forall>oid ord. lookup o_id oid (orders d) = Some ord \<longrightarrow>
        (\<exists>ord'. lookup o_id oid (orders d') = Some ord' \<and> same_order ord ord' \<and> lives_on (o_status ord) (o_status ord')))
     \<and> (\<forall>oid ord'. lookup o_id oid (orders d) = None \<longrightarrow> lookup o_id oid (orders d') = Some ord' \<longrightarrow>
        lives_on (birth ord') (o_status ord'))"

lemma livesD:
  assumes "lives d d'" and "lookup o_id oid (orders d) = Some ord"
  obtains ord' where "lookup o_id oid (orders d') = Some ord'" and "same_order ord ord'"
    and "lives_on (o_status ord) (o_status ord')"
  using assms unfolding lives_def by blast

lemma lives_new:
  "lives d d' \<Longrightarrow> lookup o_id oid (orders d) = None \<Longrightarrow> lookup o_id oid (orders d') = Some ord' \<Longrightarrow>
   lives_on (birth ord') (o_status ord')"
  unfolding lives_def by blast

lemma livesI:
  assumes "\<And>oid ord. lookup o_id oid (orders d) = Some ord \<Longrightarrow>
      \<exists>ord'. lookup o_id oid (orders d') = Some ord' \<and> same_order ord ord' \<and> lives_on (o_status ord) (o_status ord')"
    and "\<And>oid ord'. lookup o_id oid (orders d) = None \<Longrightarrow> lookup o_id oid (orders d') = Some ord' \<Longrightarrow>
      lives_on (birth ord') (o_status ord')"
  shows "lives d d'"
  unfolding lives_def using assms by blast

lemma lives_same: "orders d' = orders d \<Longrightarrow> lives d d'"
  by (rule livesI) simp_all

lemma lives_trans:
  assumes "lives d0 d1" and "lives d1 d2"
  shows "lives d0 d2"
proof (rule livesI)
  fix oid ord
  assume "lookup o_id oid (orders d0) = Some ord"
  with assms(1) obtain o1 where 1: "lookup o_id oid (orders d1) = Some o1" "same_order ord o1"
    "lives_on (o_status ord) (o_status o1)" by (rule livesD)
  from assms(2) 1(1) obtain o2 where 2: "lookup o_id oid (orders d2) = Some o2" "same_order o1 o2"
    "lives_on (o_status o1) (o_status o2)" by (rule livesD)
  have "same_order ord o2" by (rule same_order_trans [OF 1(2) 2(2)])
  moreover have "lives_on (o_status ord) (o_status o2)" by (rule rtranclp_trans [OF 1(3) 2(3)])
  ultimately show "\<exists>ord'. lookup o_id oid (orders d2) = Some ord' \<and> same_order ord ord' \<and> lives_on (o_status ord) (o_status ord')"
    using 2(1) by blast
next
  fix oid ord'
  assume none: "lookup o_id oid (orders d0) = None" and ord': "lookup o_id oid (orders d2) = Some ord'"
  show "lives_on (birth ord') (o_status ord')"
  proof (cases "lookup o_id oid (orders d1)")
    case None
    from lives_new [OF assms(2) this ord'] show ?thesis .
  next
    case (Some o1)
    have b: "lives_on (birth o1) (o_status o1)" by (rule lives_new [OF assms(1) none Some])
    from assms(2) Some obtain o2 where 2: "lookup o_id oid (orders d2) = Some o2" "same_order o1 o2"
      "lives_on (o_status o1) (o_status o2)" by (rule livesD)
    then have "o2 = ord'" using ord' by simp
    with 2 birth_same [OF 2(2)] rtranclp_trans [OF b 2(3)] show ?thesis by simp
  qed
qed

text \<open>One row updated.\<close>

lemma lives_update:
  assumes "orders d' = update_id o_id oid f (orders d)" and "lookup o_id oid (orders d) = Some ord"
    and same: "\<And>r. same_order r (f r)" and "lives_on (o_status ord) (o_status (f ord))"
  shows "lives d d'"
proof (rule livesI)
  have k: "o_id (f r) = o_id r" for r using same [of r] by (simp add: same_order_def)
  fix i r
  assume "lookup o_id i (orders d) = Some r"
  with assms(2,4) same k show "\<exists>ord'. lookup o_id i (orders d') = Some ord' \<and> same_order r ord' \<and> lives_on (o_status r) (o_status ord')"
    by (auto simp: assms(1) orders.lookup_update_id)
next
  have k: "o_id (f r) = o_id r" for r using same [of r] by (simp add: same_order_def)
  fix i ord'
  assume "lookup o_id i (orders d) = None" "lookup o_id i (orders d') = Some ord'"
  then show "lives_on (birth ord') (o_status ord')"
    by (auto simp: assms(1) orders.lookup_update_id k split: if_splits)
qed

text \<open>A row inserted.\<close>

lemma lives_insert:
  assumes "insert_order r d = (Inr i, d')" and "wf_table o_id (orders d)" and "o_status r = birth r"
  shows "lives d d'"
proof (rule livesI)
  note ins = insert_order_InrD [OF assms(1)]
  have fresh: "lookup o_id (auto_inc (orders d)) (orders d) = None"
    using orders.lookup_fresh [OF assms(2)] by simp
  fix oid ord
  assume "lookup o_id oid (orders d) = Some ord"
  then show "\<exists>ord'. lookup o_id oid (orders d') = Some ord' \<and> same_order ord ord' \<and> lives_on (o_status ord) (o_status ord')"
    using fresh by (auto simp: ins(2) orders.lookup_insert [OF assms(2)])
next
  note ins = insert_order_InrD [OF assms(1)]
  fix oid ord'
  assume "lookup o_id oid (orders d) = None" "lookup o_id oid (orders d') = Some ord'"
  then have "ord' = order_with_id oid r"
    by (auto simp: ins(2) orders.lookup_insert [OF assms(2)] split: if_splits)
  then show "lives_on (birth ord') (o_status ord')" using assms(3) by (simp add: birth_def)
qed

section \<open>What an event keeps\<close>

definition orders_ok :: "db \<Rightarrow> bool" where
  "orders_ok d \<longleftrightarrow> wf_table o_id (orders d)
     \<and> list_all (\<lambda>di. case lookup o_id (d_order_id di) (orders d) of
          None \<Rightarrow> False | Some ord \<Rightarrow> o_reseller_id ord = d_reseller_id di) (trows (disputes d))"

definition moves :: "int \<Rightarrow> db \<Rightarrow> db \<Rightarrow> bool" where
  "moves k d d' \<longleftrightarrow> orders_ok d' \<and> lives d d' \<and> (\<forall>rid. \<bar>holdings rid d' - holdings rid d\<bar> \<le> k)"

lemma orders_okD: "orders_ok d \<Longrightarrow> wf_table o_id (orders d)"
  by (simp add: orders_ok_def)

lemma dispute_order:
  "orders_ok d \<Longrightarrow> di \<in> set (trows (disputes d)) \<Longrightarrow>
   \<exists>ord. lookup o_id (d_order_id di) (orders d) = Some ord \<and> o_reseller_id ord = d_reseller_id di"
  by (auto simp: orders_ok_def list_all_iff split: option.splits)

lemma moves_trans:
  assumes "moves j d0 d1" and "moves k d1 d2"
  shows "moves (j + k) d0 d2"
proof -
  have "\<bar>holdings rid d2 - holdings rid d0\<bar> \<le> j + k" for rid
  proof -
    have "\<bar>holdings rid d1 - holdings rid d0\<bar> \<le> j" "\<bar>holdings rid d2 - holdings rid d1\<bar> \<le> k"
      using assms by (simp_all add: moves_def)
    then show ?thesis by linarith
  qed
  moreover have "lives d0 d2" using assms by (auto simp: moves_def intro: lives_trans)
  ultimately show ?thesis using assms(2) by (simp add: moves_def)
qed

lemma moves_same:
  assumes "orders_ok d" and "orders d' = orders d" and "resellers d' = resellers d" and "disputes d' = disputes d"
  shows "moves 0 d d'"
  using assms by (simp add: moves_def lives_same orders_ok_def holdings_def commission_out_def balance_of_def)

text \<open>The disputes still belong to orders of their shops.\<close>

lemma disputes_kept:
  assumes "orders_ok d" and "wf_table o_id (orders d')" and "lives d d'"
    and dis: "\<And>di'. di' \<in> set (trows (disputes d')) \<Longrightarrow>
      (\<exists>di \<in> set (trows (disputes d)). d_order_id di = d_order_id di' \<and> d_reseller_id di = d_reseller_id di')
      \<or> (\<exists>ord. lookup o_id (d_order_id di') (orders d') = Some ord \<and> o_reseller_id ord = d_reseller_id di')"
  shows "orders_ok d'"
proof -
  have "\<exists>ord. lookup o_id (d_order_id di') (orders d') = Some ord \<and> o_reseller_id ord = d_reseller_id di'"
    if "di' \<in> set (trows (disputes d'))" for di'
    using dis [OF that]
  proof
    assume "\<exists>di \<in> set (trows (disputes d)). d_order_id di = d_order_id di' \<and> d_reseller_id di = d_reseller_id di'"
    then obtain di where mem: "di \<in> set (trows (disputes d))"
      and eq: "d_order_id di = d_order_id di'" "d_reseller_id di = d_reseller_id di'" by blast
    from dispute_order [OF assms(1) mem] eq obtain ord where di: "d_order_id di = d_order_id di'"
      "d_reseller_id di = d_reseller_id di'"
      "lookup o_id (d_order_id di) (orders d) = Some ord" "o_reseller_id ord = d_reseller_id di" by blast
    from assms(3) di(3) obtain ord' where "lookup o_id (d_order_id di) (orders d') = Some ord'" "same_order ord ord'"
      by (rule livesD)
    with di show ?thesis by (auto simp: same_order_def)
  qed
  then show ?thesis using assms(2) by (fastforce simp: orders_ok_def list_all_iff)
qed

lemma moves_update:
  assumes ok: "orders_ok d" and upd: "orders d' = update_id o_id oid f (orders d)"
    and ord: "lookup o_id oid (orders d) = Some ord" and same: "\<And>r. same_order r (f r)"
    and life: "lives_on (o_status ord) (o_status (f ord))"
    and dis: "\<And>di'. di' \<in> set (trows (disputes d')) \<Longrightarrow>
      (\<exists>di \<in> set (trows (disputes d)). d_order_id di = d_order_id di' \<and> d_reseller_id di = d_reseller_id di')
      \<or> (d_order_id di' = oid \<and> d_reseller_id di' = o_reseller_id ord)"
    and bal: "\<And>rid. balance_of rid d' = balance_of rid d + (if rid = o_reseller_id ord then delta else 0)"
    and k: "\<bar>delta + (if charged (f ord) then commission_amount (f ord) else 0)
        - (if charged ord then commission_amount ord else 0)\<bar> \<le> k"
  shows "moves k d d'"
proof -
  have keys: "o_id (f r) = o_id r" "o_reseller_id (f r) = o_reseller_id r" for r
    using same [of r] by (simp_all add: same_order_def)
  note wf = orders_okD [OF ok]
  have wf': "wf_table o_id (orders d')" using wf keys by (simp add: upd orders.update_id_wf)
  have live: "lives d d'" by (rule lives_update [OF upd ord same life])
  have row: "lookup o_id oid (orders d') = Some (f ord)" using ord keys by (simp add: upd orders.lookup_update_id)
  have "orders_ok d'"
  proof (rule disputes_kept [OF ok wf' live])
    fix di'
    assume "di' \<in> set (trows (disputes d'))"
    from dis [OF this] row keys
    show "(\<exists>di \<in> set (trows (disputes d)). d_order_id di = d_order_id di' \<and> d_reseller_id di = d_reseller_id di')
      \<or> (\<exists>ord. lookup o_id (d_order_id di') (orders d') = Some ord \<and> o_reseller_id ord = d_reseller_id di')"
      by auto
  qed
  moreover have "\<bar>holdings rid d' - holdings rid d\<bar> \<le> k" for rid
  proof -
    have "commission_out rid d' = commission_out rid d
        - (if o_reseller_id ord = rid \<and> charged ord then commission_amount ord else 0)
        + (if o_reseller_id ord = rid \<and> charged (f ord) then commission_amount (f ord) else 0)"
      unfolding commission_out_def upd by (subst orders.sum_update_id [OF wf ord]) (simp add: keys)
    with bal [of rid] k show ?thesis by (auto simp: holdings_def split: if_splits)
  qed
  ultimately show ?thesis using live by (simp add: moves_def)
qed

lemma moves_insert:
  assumes ok: "orders_ok d" and ins: "insert_order r d = (Inr i, d')"
    and "o_status r = birth r" and "commission_amount r = 0"
  shows "moves 0 d d'"
proof -
  note d' = insert_order_InrD(2) [OF ins]
  note wf = orders_okD [OF ok]
  have wf': "wf_table o_id (orders d')" using orders.insert_wf [OF wf] by (simp add: d')
  have live: "lives d d'" by (rule lives_insert [OF ins wf assms(3)])
  have "orders_ok d'" by (rule disputes_kept [OF ok wf' live]) (auto simp: d')
  moreover have "holdings rid d' = holdings rid d" for rid
    using assms(4) by (simp add: holdings_def balance_of_def commission_out_def d' orders.sum_insert)
  ultimately show ?thesis using live by (simp add: moves_def)
qed

lemma holdings_cong:
  "orders d' = orders d \<Longrightarrow> resellers d' = resellers d \<Longrightarrow> holdings rid d' = holdings rid d"
  by (simp add: holdings_def balance_of_def commission_out_def)

text \<open>New rows.\<close>

lemma moves_inserted:
  assumes "orders_ok d" and "o_status r = birth r" and "commission_amount r = 0"
  shows "moves 0 d (snd (insert_order r d))"
proof (cases "insert_order r d")
  case (Pair res d')
  then show ?thesis
    using moves_insert [OF assms(1) _ assms(2,3)] insert_order_InlD [of r d _ d'] moves_same [OF assms(1)]
    by (cases res) auto
qed

lemma moves_new_order:
  assumes "orders_ok d"
  shows "moves 0 d (snd (create_order m rid pid cid phone d))"
proof -
  obtain r where r: "snd (create_order m rid pid cid phone d) \<in> {d, snd (insert_order r d)}"
      "o_status r = birth r" "commission_amount r = 0"
  proof (cases "lookup p_id pid (packages d)")
    case None
    then show thesis by (intro that [of demo_order]) (simp_all add: create_order_def demo_order_def birth_def)
  next
    case p: (Some p)
    show thesis
    proof (cases "lookup r_id rid (resellers d)")
      case None
      with p show thesis by (intro that [of demo_order]) (simp_all add: create_order_def demo_order_def birth_def)
    next
      case r: (Some s)
      let ?row = "\<lparr>o_id = 0, order_code = generate_order_code (order_prefix s) m, o_reseller_id = rid,
        o_package_id = pid, o_customer_id = cid, o_status = AwaitingPayment, receipt_image = None,
        phone_number = phone, package_price = sale_price p, commission_amount = 0, is_test_order = False,
        created_at = m_now m, confirmed_at = None, activated_at = None, paid_from_wallet = False,
        o_type = PackageOrder, delivered_charge_code = None\<rparr>"
      show thesis
        using p r by (intro that [of ?row])
          (simp_all add: create_order_def Let_def birth_def split: prod.split sum.split)
    qed
  qed
  from r(1) moves_same [OF assms] moves_inserted [OF assms r(2,3)] show ?thesis by auto
qed

lemma orders_ok_cong:
  "orders d' = orders d \<Longrightarrow> disputes d' = disputes d \<Longrightarrow> orders_ok d' = orders_ok d"
  by (simp add: orders_ok_def)

lemma moves_cong:
  assumes "moves k d1 d'" and "orders d1 = orders d" and "resellers d1 = resellers d"
  shows "moves k d d'"
  using assms holdings_cong [OF assms(2,3)] by (simp add: moves_def lives_def)

lemma moves_wallet_order:
  assumes "orders_ok d"
  shows "moves 0 d (snd (pay_order_from_wallet t plan d))"
proof (cases "pay_order_from_wallet t plan d")
  case (Pair res d')
  show ?thesis
  proof (cases res)
    case (Inl e)
    with Pair have "d' = d" by (auto simp: pay_order_from_wallet_def transaction_Inl_iff)
    with Pair show ?thesis using moves_same [OF assms] by simp
  next
    case (Inr i)
    let ?paid = "upd_customer (wp_customer plan) (\<lambda>c. c\<lparr>wallet_balance := wallet_balance c - wp_price plan\<rparr>) d"
    from Pair Inr have "insert_order (wallet_order_row t plan) ?paid = (Inr i, d')"
      by (auto elim!: pay_order_InrD)
    moreover have "orders_ok ?paid" using assms by (simp add: orders_ok_def upd_customer_def)
    ultimately have "moves 0 ?paid d'"
      by (intro moves_insert) (auto simp: wallet_order_row_def birth_def)
    then have "moves 0 d d'" by (rule moves_cong) (simp_all add: upd_customer_def)
    with Pair show ?thesis by simp
  qed
qed

lemma moves_deliver:
  assumes "orders_ok d" and "deliver_codes ms plan seq cs d = (Inr ds, d')"
  shows "moves 0 d d'"
  using assms
proof (induction cs arbitrary: seq d ds)
  case Nil
  then show ?case using moves_same by simp
next
  case (Cons c cs)
  from Cons.prems(2) show ?case
  proof (cases rule: deliver_codes_Cons)
    case (1 prefix i d1 ds')
    have first: "moves 0 d d1"
      using moves_insert [OF Cons.prems(1) 1(2)] by (simp add: charge_order_row_def birth_def)
    let ?d2 = "upd_code (cc_id c) (\<lambda>cc. cc\<lparr>cc_status := Sold, sold_at := Some (m_now (ms seq)),
        sold_to_customer_id := Some (cp_customer plan), sold_order_id := Some i\<rparr>) d1"
    have second: "moves 0 d1 ?d2"
      using first by (intro moves_same) (simp_all add: moves_def upd_code_def)
    from moves_trans [OF first second] have "orders_ok ?d2" by (simp add: moves_def)
    with Cons.IH 1(3) have "moves 0 ?d2 d'" by blast
    from moves_trans [OF moves_trans [OF first second] this] show ?thesis by simp
  qed
qed

lemma moves_codes_bought:
  assumes "orders_ok d"
  shows "moves 0 d (snd (purchase_charge_bulk_tx ms plan n d))"
proof (cases "purchase_charge_bulk_tx ms plan n d")
  case (Pair res d')
  show ?thesis
  proof (cases res)
    case (Inl e)
    with Pair charge_tx_InlD(2) have "d' = d" by blast
    with Pair show ?thesis using moves_same [OF assms] by simp
  next
    case (Inr x)
    let ?paid = "upd_customer (cp_customer plan) (\<lambda>c. c\<lparr>wallet_balance := wallet_balance c - cp_price plan * int n\<rparr>) d"
    obtain ids ds where "x = (ids, ds)" by (cases x)
    with Pair Inr have "deliver_codes ms plan 1 (select_available (cp_package plan) n d) ?paid = (Inr ds, d')"
      by (auto elim!: charge_bulk_tx_InrD)
    moreover have "orders_ok ?paid" using assms by (simp add: orders_ok_def upd_customer_def)
    ultimately have "moves 0 ?paid d'" by (intro moves_deliver)
    then have "moves 0 d d'" by (rule moves_cong) (simp_all add: upd_customer_def)
    with Pair show ?thesis by simp
  qed
qed

text \<open>One row changed.\<close>

lemma moves_upd_order:
  assumes "orders_ok d" and "lookup o_id oid (orders d) = Some ord" and "\<And>r. same_order r (f r)"
    and "lives_on (o_status ord) (o_status (f ord))"
    and "(if charged (f ord) then commission_amount (f ord) else 0) = (if charged ord then commission_amount ord else 0)"
  shows "moves 0 d (upd_order oid f d)"
  by (rule moves_update [OF assms(1) _ assms(2,3,4), where delta = 0]) (use assms(5) in auto)

lemma status_isD:
  "status_is oid st d \<Longrightarrow> \<exists>ord. lookup o_id oid (orders d) = Some ord \<and> o_status ord = st"
  by (auto simp: status_is_def split: option.splits)

lemma moves_discounted:
  assumes "orders_ok d"
  shows "moves 0 d (snd (discount_order t rid oid code d))"
proof -
  have priced: "moves 0 d (upd_order oid (\<lambda>r. r\<lparr>package_price := p\<rparr>) d)"
    if "lookup o_id oid (orders d) = Some ord" for p ord
    by (rule moves_upd_order [OF assms that]) (simp_all add: same_order_def charged_def)
  have used: "moves 0 d1 (increment_usage i d1)" if "orders_ok d1" for d1 i
    using that by (intro moves_same) (simp_all add: increment_usage_def upd_discount_def)
  have "moves 0 d (increment_usage i (upd_order oid (\<lambda>r. r\<lparr>package_price := p\<rparr>) d))"
    if "lookup o_id oid (orders d) = Some ord" for i p ord
    using moves_trans [OF priced [OF that, of p] used [of _ i]] priced [OF that, of p] by (simp add: moves_def)
  then show ?thesis
    using moves_same [OF assms] by (auto simp: discount_order_def Let_def split: sum.split option.split)
qed

lemma moves_panel:
  assumes "orders_ok d"
  shows "status_is oid AwaitingReceiptReview d \<Longrightarrow> moves 0 d (confirm_order t oid d)"
    and "status_is oid AwaitingReceiptReview d \<Longrightarrow> moves 0 d (reject_order oid d)"
    and "status_is oid Confirmed d \<Longrightarrow> moves 0 d (snd (activate_order t oid d))"
    and "status_is oid Rejected d \<Longrightarrow> moves 0 d (upd_order oid (\<lambda>r. r\<lparr>o_status := RefundPending\<rparr>) d)"
proof -
  show "moves 0 d (confirm_order t oid d)" if "status_is oid AwaitingReceiptReview d"
    using status_isD [OF that] unfolding confirm_order_def
    by (auto intro!: moves_upd_order [OF assms] simp: same_order_def charged_def life.intros)
  show "moves 0 d (reject_order oid d)" if "status_is oid AwaitingReceiptReview d"
    using status_isD [OF that] unfolding reject_order_def
    by (auto intro!: moves_upd_order [OF assms] simp: same_order_def charged_def life.intros)
  show "moves 0 d (upd_order oid (\<lambda>r. r\<lparr>o_status := RefundPending\<rparr>) d)" if "status_is oid Rejected d"
    using status_isD [OF that]
    by (auto intro!: moves_upd_order [OF assms] simp: same_order_def charged_def life.intros)
  show "moves 0 d (snd (activate_order t oid d))" if st: "status_is oid Confirmed d"
  proof -
    obtain ord where ord: "lookup o_id oid (orders d) = Some ord" "o_status ord = Confirmed"
      using status_isD [OF st] by blast
    let ?d1 = "upd_order oid (\<lambda>r. r\<lparr>o_status := Activated, activated_at := Some t\<rparr>) d"
    have 1: "moves 0 d ?d1"
      using ord by (intro moves_upd_order [OF assms]) (auto simp: same_order_def charged_def life.intros)
    have "moves 0 ?d1 (upd_reseller i increment_test_counter ?d1)" for i
    proof -
      have "wallet_credit_balance (increment_test_counter r) = wallet_credit_balance r" "r_id (increment_test_counter r) = r_id r" for r
        by (simp_all add: increment_test_counter_def Let_def)
      then have "balance_of rid (upd_reseller i increment_test_counter ?d1) = balance_of rid ?d1" for rid
        by (auto simp: balance_of_def resellers.lookup_update_id split: option.split)
      then show ?thesis
        using 1 by (auto simp: moves_def lives_same holdings_def commission_out_def orders_ok_def upd_reseller_def)
    qed
    from moves_trans [OF 1 this] 1 have "moves 0 d (increment_test_counter_if_needed i oid ?d1)" for i
      by (simp add: increment_test_counter_if_needed_def split: option.split)
    then show ?thesis using ord(1) by (simp add: activate_order_def Let_def)
  qed
qed

text \<open>The receipt: what the balance loses and what the order shows differ by the rounding.\<close>

lemma receipt_rounding: "\<bar>store (dec b - a) - b + store a\<bar> \<le> 1"
  using store_diff_near [of b a] by (simp add: store_minus)

lemma moves_receipt:
  assumes ok: "orders_ok d" and ord: "lookup o_id (o_id (rp_order plan)) (orders d) = Some ord"
    and fresh: "o_status ord = AwaitingPayment" and shop: "o_reseller_id ord = o_reseller_id (rp_order plan)"
    and test: "rp_is_test plan \<longrightarrow> rp_commission plan = 0"
  shows "moves 1 d (snd (submit_receipt_commit photo plan d))"
proof -
  let ?rid = "o_reseller_id (rp_order plan)" and ?a = "rp_commission plan"
  have mark: "moves 1 d d'"
    if "orders d' = orders (mark_receipt plan photo st d)" "st \<in> {AwaitingReceiptReview, FailedInsufficientCredit}"
      "disputes d' = disputes d" "\<And>rid. balance_of rid d' = balance_of rid d + (if rid = ?rid then delta else 0)"
      "\<bar>delta + (if st = AwaitingReceiptReview then store ?a else 0)\<bar> \<le> 1" for d' st delta
    using that fresh shop ord
    by (intro moves_update [OF ok _ ord, where delta = delta and f = "\<lambda>r. r\<lparr>o_status := st, receipt_image := Some photo,
          commission_amount := store ?a, is_test_order := rp_is_test plan\<rparr>"])
      (auto simp: mark_receipt_def same_order_def charged_def life.intros)
  have state: "snd (submit_receipt_commit photo plan d) = snd (submit_receipt_tx photo plan d)"
    by (simp add: submit_receipt_commit_def split: prod.split sum.split)
  show ?thesis
  proof (cases "rp_is_test plan")
    case True
    with test have "?a = 0" by simp
    moreover have "store 0 = 0" using store_dec [of 0] by (simp add: dec_arith)
    ultimately show ?thesis
      using True by (intro mark [of _ AwaitingReceiptReview 0]) (simp_all add: state submit_receipt_tx_def transaction_def)
  next
    case False
    show ?thesis
    proof (cases "lookup r_id ?rid (resellers d)")
      case None
      with False have "snd (submit_receipt_tx photo plan d) = d"
        by (simp add: submit_receipt_tx_def transaction_def settle_commission.simps deduct_cases)
      moreover have "moves 0 d d" by (rule moves_same [OF ok]) simp_all
      ultimately show ?thesis by (simp add: state moves_def)
    next
      case (Some r)
      show ?thesis
      proof (cases "dec (wallet_credit_balance r) - ?a < - dec (credit_limit_negative r)")
        case True
        then show ?thesis
          using False Some
          by (intro mark [of _ FailedInsufficientCredit 0])
            (simp_all add: state submit_receipt_tx_def transaction_def settle_commission.simps deduct_result)
      next
        case enough: False
        let ?delta = "store (dec (wallet_credit_balance r) - ?a) - wallet_credit_balance r"
        show ?thesis
          using False Some enough receipt_rounding [of "wallet_credit_balance r" ?a]
          by (intro mark [of _ AwaitingReceiptReview ?delta])
            (auto simp: state submit_receipt_tx_def transaction_def settle_commission.simps deduct_result
              balance_of_def mark_receipt_def resellers.lookup_update_id insert_tx_def upd_reseller_def split: option.split)
      qed
    qed
  qed
qed

text \<open>Disputes.\<close>

lemma moves_filed:
  assumes ok: "orders_ok d" and st: "status_is oid Rejected d"
  shows "moves 0 d (snd (submit_dispute_reason oid reason d))"
proof -
  obtain ord where ord: "lookup o_id oid (orders d) = Some ord" "o_status ord = Rejected"
    using status_isD [OF st] by blast
  let ?f = "\<lambda>r. r\<lparr>o_status := RefundPending\<rparr>"
  let ?d' = "snd (submit_dispute_reason oid reason d)"
  show ?thesis
  proof (rule moves_update [OF ok _ ord(1), where delta = 0 and f = ?f])
    show "orders ?d' = update_id o_id oid ?f (orders d)"
      using ord(1) by (simp add: submit_dispute_reason_def create_dispute_def Let_def)
    show "balance_of rid ?d' = balance_of rid d + (if rid = o_reseller_id ord then 0 else 0)" for rid
      using ord(1) by (simp add: submit_dispute_reason_def create_dispute_def Let_def balance_of_def)
    show "(\<exists>di \<in> set (trows (disputes d)). d_order_id di = d_order_id di' \<and> d_reseller_id di = d_reseller_id di')
        \<or> (d_order_id di' = oid \<and> d_reseller_id di' = o_reseller_id ord)"
      if "di' \<in> set (trows (disputes ?d'))" for di'
      using that ord(1)
      by (auto simp: submit_dispute_reason_def create_dispute_def Let_def insert_row_def split: if_splits)
  qed (use ord(2) in \<open>auto simp: same_order_def charged_def life.intros\<close>)
qed

lemma moves_denied:
  assumes "orders_ok d"
  shows "moves 0 d (reject_dispute t did d)"
proof -
  let ?d' = "reject_dispute t did d"
  have tables: "orders ?d' = orders d" "resellers ?d' = resellers d" by (simp_all add: reject_dispute_def)
  have live: "lives d ?d'" by (rule lives_same [OF tables(1)])
  have "orders_ok ?d'"
  proof (rule disputes_kept [OF assms _ live])
    show "wf_table o_id (orders ?d')" using orders_okD [OF assms] tables(1) by simp
    fix di'
    assume "di' \<in> set (trows (disputes ?d'))"
    then show "(\<exists>di \<in> set (trows (disputes d)). d_order_id di = d_order_id di' \<and> d_reseller_id di = d_reseller_id di')
      \<or> (\<exists>ord. lookup o_id (d_order_id di') (orders ?d') = Some ord \<and> o_reseller_id ord = d_reseller_id di')"
      by (intro disjI1) (auto simp: reject_dispute_def update_id_trows)
  qed
  with live show ?thesis by (simp add: moves_def holdings_cong [OF tables])
qed

lemma moves_granted:
  assumes ok: "orders_ok d" and di: "lookup d_id did (disputes d) = Some di"
    and st: "status_is (d_order_id di) RefundPending d"
  shows "moves 0 d (snd (approve_dispute t did d))"
proof -
  obtain ord where ord: "lookup o_id (d_order_id di) (orders d) = Some ord" "o_status ord = RefundPending"
    using status_isD [OF st] by blast
  have shop: "o_reseller_id ord = d_reseller_id di"
    using dispute_order [OF ok, of di] disputes.lookup_SomeD [OF di] ord(1) by auto
  show ?thesis
  proof (cases "lookup r_id (d_reseller_id di) (resellers d)")
    case None
    then show ?thesis
      using di ord moves_same [OF ok] by (simp add: approve_dispute_def refund_commission_def transaction_def)
  next
    case (Some r)
    have id: "o_id ord = d_order_id di" using ord(1) by (auto dest: orders.lookup_SomeD)
    have b: "store (dec x + dec y) = x + y" for x y
      using store_dec [of "x + y"] by (simp add: dec_arith)
    let ?d' = "snd (approve_dispute t did d)" and ?f = "\<lambda>r. r\<lparr>o_status := Refunded\<rparr>"
    note run = approve_dispute_def refund_commission_def transaction_def Let_def
    show ?thesis
    proof (rule moves_update [OF ok _ ord(1), where delta = "commission_amount ord" and f = ?f])
      show "orders ?d' = update_id o_id (d_order_id di) ?f (orders d)"
        using di ord(1) Some id by (simp add: run upd_reseller_def insert_tx_def)
      show "balance_of rid ?d' = balance_of rid d + (if rid = o_reseller_id ord then commission_amount ord else 0)" for rid
        using di ord(1) Some shop
        by (auto simp: run balance_of_def resellers.lookup_update_id b split: option.split)
      show "(\<exists>x \<in> set (trows (disputes d)). d_order_id x = d_order_id di' \<and> d_reseller_id x = d_reseller_id di')
          \<or> (d_order_id di' = d_order_id di \<and> d_reseller_id di' = o_reseller_id ord)"
        if "di' \<in> set (trows (disputes ?d'))" for di'
      proof -
        have "disputes ?d' = update_id d_id (d_id di) (\<lambda>x. x\<lparr>d_review_status := ReviewApproved,
            refunded_amount := Some (commission_amount ord), reviewed_at := Some t\<rparr>) (disputes d)"
          using di ord(1) Some by (simp add: run upd_reseller_def insert_tx_def)
        with that show ?thesis by (auto simp: update_id_trows)
      qed
    qed (use ord(2) in \<open>auto simp: same_order_def charged_def life.intros\<close>)
  qed
qed

text \<open>Every event in time; a receipt may cost the rounding of a hundredth.\<close>

fun is_receipt :: "order_event \<Rightarrow> bool" where
  "is_receipt (ReceiptSent photo plan) = True"
| "is_receipt _ = False"

lemma event_moves:
  assumes "orders_ok d" and "in_time ev d"
  shows "moves (if is_receipt ev then 1 else 0) d (order_step ev d)"
  using assms
  by (cases ev) (auto simp: moves_new_order moves_wallet_order moves_codes_bought moves_discounted moves_panel
      moves_filed moves_denied intro: moves_receipt moves_granted split: option.splits)

text \<open>
  The interface of a system in which orders live: an invariant that every enabled step keeps, and
  steps along which orders live. A step of a \<open>moving\<close> system costs the shops some rounding besides.
\<close>

locale living =
  fixes step :: "'e \<Rightarrow> 's \<Rightarrow> 's" and enabled :: "'e \<Rightarrow> 's \<Rightarrow> bool" and inv :: "'s \<Rightarrow> bool" and data :: "'s \<Rightarrow> db"
  assumes inv_step: "inv s \<Longrightarrow> enabled ev s \<Longrightarrow> inv (step ev s)"
    and step_lives: "inv s \<Longrightarrow> enabled ev s \<Longrightarrow> lives (data s) (data (step ev s))"
begin

lemma run_keeps: "inv s \<Longrightarrow> always enabled step evs s \<Longrightarrow> inv (fold step evs s)"
  by (induction evs arbitrary: s) (simp_all add: inv_step)

lemma run_lives: "inv s \<Longrightarrow> always enabled step evs s \<Longrightarrow> lives (data s) (data (fold step evs s))"
proof (induction evs arbitrary: s)
  case (Cons ev evs)
  then have "lives (data s) (data (step ev s))" "lives (data (step ev s)) (data (fold step evs (step ev s)))"
    by (simp_all add: step_lives inv_step)
  then show ?case by (simp add: lives_trans)
qed (simp add: lives_same)

end

locale moving = living +
  fixes rounding :: "'a \<Rightarrow> nat"
  assumes step_holdings: "inv s \<Longrightarrow> enabled ev s \<Longrightarrow>
    \<bar>holdings rid (data (step ev s)) - holdings rid (data s)\<bar> \<le> int (rounding ev)"
begin

lemma run_holdings:
  "inv s \<Longrightarrow> always enabled step evs s \<Longrightarrow>
   \<bar>holdings rid (data (fold step evs s)) - holdings rid (data s)\<bar> \<le> int (sum_list (map rounding evs))"
proof (induction evs arbitrary: s)
  case (Cons ev evs)
  then have "\<bar>holdings rid (data (step ev s)) - holdings rid (data s)\<bar> \<le> int (rounding ev)"
    "\<bar>holdings rid (data (fold step evs (step ev s))) - holdings rid (data (step ev s))\<bar>
      \<le> int (sum_list (map rounding evs))"
    by (simp_all add: step_holdings inv_step)
  then show ?case by simp
qed simp

end

interpretation order_run: moving order_step in_time orders_ok "\<lambda>d. d" "\<lambda>ev. if is_receipt ev then 1 else 0"
proof
  fix d ev rid
  assume "orders_ok d" "in_time ev d"
  from event_moves [OF this] show "orders_ok (order_step ev d)" and "lives d (order_step ev d)"
    and "\<bar>holdings rid (order_step ev d) - holdings rid d\<bar> \<le> int (if is_receipt ev then 1 else 0)"
    by (simp_all add: moves_def split: if_splits)
qed

lemma count_receipts: "sum_list (map (\<lambda>ev. if P ev then 1 else 0) evs) = length (filter P evs)"
  by (induction evs) simp_all

text \<open>Served, refunded and failed orders are at their end.\<close>

definition ended_order :: "order_status \<Rightarrow> bool" where
  "ended_order st \<longleftrightarrow> st \<in> {Activated, Refunded, FailedInsufficientCredit}"

lemma ended_stays: "lives_on x y \<Longrightarrow> ended_order x \<Longrightarrow> y = x"
  by (induction rule: converse_rtranclp_induct) (auto simp: ended_order_def elim: lifeE)

lemma lives_cases:
  assumes "lives d d'"
  shows "case lookup o_id oid (orders d) of
      None \<Rightarrow> (case lookup o_id oid (orders d') of
          None \<Rightarrow> True | Some ord' \<Rightarrow> lives_on (birth ord') (o_status ord'))
    | Some ord \<Rightarrow> (case lookup o_id oid (orders d') of
          None \<Rightarrow> False
        | Some ord' \<Rightarrow> same_order ord ord' \<and> lives_on (o_status ord) (o_status ord')
            \<and> (if ended_order (o_status ord) then o_status ord' = o_status ord else True))"
proof (cases "lookup o_id oid (orders d)")
  case None
  with assms show ?thesis by (auto dest: lives_new split: option.split)
next
  case (Some ord)
  from assms Some obtain ord' where "lookup o_id oid (orders d') = Some ord'" "same_order ord ord'"
    "lives_on (o_status ord) (o_status ord')" by (rule livesD)
  with Some show ?thesis by (simp add: ended_stays)
qed

section \<open>Properties\<close>

text \<open>
  Property C6: orders follow their life. Whatever sequence of operations of customers, reseller and
  administrator runs, as long as each button is pressed while it is on offer, every order keeps what
  identifies it and moves along the state machine from its status, an order that is served, refunded
  or failed stays so, and an order that comes into being moves from the status of its birth.
\<close>

theorem orders_follow_their_life:
  assumes "orders_ok d" and "all_in_time evs d"
  shows "case lookup o_id oid (orders d) of
      None \<Rightarrow> (case lookup o_id oid (orders (run_orders evs d)) of
          None \<Rightarrow> True | Some ord' \<Rightarrow> lives_on (birth ord') (o_status ord'))
    | Some ord \<Rightarrow> (case lookup o_id oid (orders (run_orders evs d)) of
          None \<Rightarrow> False
        | Some ord' \<Rightarrow> same_order ord ord' \<and> lives_on (o_status ord) (o_status ord')
            \<and> (if ended_order (o_status ord) then o_status ord' = o_status ord else True))"
  using lives_cases [OF order_run.run_lives [OF assms]] unfolding run_orders_def .

text \<open>
  Property C7: commission is taken once and given back once. In such a sequence the balance of a
  shop together with the commission of its orders under way stays what it was, up to a hundredth for
  each receipt: a receipt that is accepted moves the commission of its order from the balance, a
  granted dispute moves exactly that commission back, and nothing else moves it.
\<close>

theorem commission_is_held_once:
  assumes "orders_ok d" and "all_in_time evs d"
  shows "\<bar>holdings rid (run_orders evs d) - holdings rid d\<bar> \<le> int (length (filter is_receipt evs))"
  using order_run.run_holdings [OF assms] by (simp add: run_orders_def count_receipts)

text \<open>A rejected receipt, its dispute, and the refund.\<close>

definition demo_receipt :: order_event where
  "demo_receipt = ReceiptSent ''photo'' (receipt_plan_for demo_order demo_reseller)"

definition demo_refund :: "order_event list" where
  "demo_refund = [demo_receipt, ReceiptRefused 1, DisputeFiled 1 ''fake'', DisputeGranted 5 1]"

lemma demo_life: "orders_ok demo_order_db" "all_in_time demo_refund demo_order_db"
  by code_simp+

lemma orders_follow_their_life_witness:
  "case lookup o_id 1 (orders (run_orders demo_refund demo_order_db)) of
     None \<Rightarrow> False | Some ord' \<Rightarrow> same_order demo_order ord' \<and> lives_on AwaitingPayment (o_status ord')"
proof -
  have "lookup o_id 1 (orders demo_order_db) = Some demo_order" "o_status demo_order = AwaitingPayment" by code_simp+
  with orders_follow_their_life [OF demo_life, of 1] show ?thesis by (simp split: option.splits)
qed

lemma commission_is_held_once_witness:
  "\<bar>holdings 1 (run_orders demo_refund demo_order_db) - holdings 1 demo_order_db\<bar> \<le> 1
   \<and> commission_out 1 (run_orders [demo_receipt] demo_order_db) = 50000"
proof -
  have "length (filter is_receipt demo_refund) = 1" "commission_out 1 (run_orders [demo_receipt] demo_order_db) = 50000"
    by code_simp+
  with commission_is_held_once [OF demo_life, of 1] show ?thesis by simp
qed

lemma served_order:
  "balance_of rid (snd (activate_order t oid d)) = balance_of rid d"
  "lookup o_id oid (orders d) = Some ord \<Longrightarrow> lookup o_id oid (orders (snd (activate_order t oid d))) =
     Some (ord\<lparr>o_status := Activated, activated_at := Some t\<rparr>)"
proof -
  have "wallet_credit_balance (increment_test_counter r) = wallet_credit_balance r" "r_id (increment_test_counter r) = r_id r" for r
    by (simp_all add: increment_test_counter_def Let_def)
  then have "balance_of rid (increment_test_counter_if_needed i oid d1) = balance_of rid d1" for i d1
    by (auto simp: increment_test_counter_if_needed_def balance_of_def resellers.lookup_update_id split: option.split)
  then show "balance_of rid (snd (activate_order t oid d)) = balance_of rid d"
    by (simp add: activate_order_def Let_def split: option.split)
  show "lookup o_id oid (orders (snd (activate_order t oid d))) = Some (ord\<lparr>o_status := Activated, activated_at := Some t\<rparr>)"
    if "lookup o_id oid (orders d) = Some ord"
    using that by (auto simp: activate_order_def Let_def increment_test_counter_if_needed_def upd_reseller_def
        orders.lookup_update_id split: option.split)
qed

text \<open>
  A late button gives an order for nothing. The buttons under the message of a receipt
  stay after the order was rejected and its commission refunded; pressing approval then confirms the
  order, the activation follows, and the order is served although the balance has its commission back.
\<close>

theorem late_approval_skips_commission:
  assumes "orders_ok d" and "lookup o_id oid (orders d) = Some ord" and "o_status ord = Refunded"
  shows "let d' = run_orders [ReceiptApproved t oid, OrderServed t' oid] d
    in status_is oid Activated d' \<and> \<not> in_time (ReceiptApproved t oid) d
       \<and> balance_of (o_reseller_id ord) d' = balance_of (o_reseller_id ord) d
       \<and> holdings (o_reseller_id ord) d' = holdings (o_reseller_id ord) d + commission_amount ord"
proof -
  let ?f = "\<lambda>r. r\<lparr>o_status := Confirmed, confirmed_at := Some t\<rparr>"
  let ?d1 = "confirm_order t oid d"
  note wf = orders_okD [OF assms(1)]
  have row: "lookup o_id oid (orders ?d1) = Some (?f ord)"
    using assms(2) by (simp add: confirm_order_def orders.lookup_update_id)
  have ok1: "orders_ok ?d1"
  proof -
    have "wf_table o_id (orders ?d1)" using wf by (simp add: confirm_order_def orders.update_id_wf)
    moreover have "list_all (\<lambda>di. case lookup o_id (d_order_id di) (orders ?d1) of None \<Rightarrow> False
        | Some ord \<Rightarrow> o_reseller_id ord = d_reseller_id di) (trows (disputes d))"
      using assms(1) by (auto simp: orders_ok_def list_all_iff confirm_order_def orders.lookup_update_id split: option.splits)
    ultimately show ?thesis by (simp add: orders_ok_def confirm_order_def)
  qed
  have out: "commission_out (o_reseller_id ord) ?d1 = commission_out (o_reseller_id ord) d + commission_amount ord"
    using assms(3) unfolding commission_out_def confirm_order_def upd_order_simps
    by (subst orders.sum_update_id [OF wf assms(2)]) (simp add: charged_def)
  have st: "status_is oid Confirmed ?d1" using row by (simp add: status_is_def)
  let ?d2 = "snd (activate_order t' oid ?d1)"
  have same: "holdings (o_reseller_id ord) ?d2 = holdings (o_reseller_id ord) ?d1"
    using moves_panel(3) [OF ok1 st, of t'] by (simp add: moves_def)
  have "balance_of (o_reseller_id ord) ?d1 = balance_of (o_reseller_id ord) d" by (simp add: confirm_order_def)
  moreover have "status_is oid Activated ?d2" using served_order(2) [OF row] by (simp add: status_is_def)
  moreover have "\<not> in_time (ReceiptApproved t oid) d" using assms(2,3) by (simp add: status_is_def)
  ultimately show ?thesis using same out by (simp add: run_orders_def holdings_def served_order(1))
qed

lemma late_approval_skips_commission_witness:
  "status_is 1 Activated (run_orders (demo_refund @ [ReceiptApproved 8 1, OrderServed 9 1]) demo_order_db)
   \<and> balance_of 1 (run_orders (demo_refund @ [ReceiptApproved 8 1, OrderServed 9 1]) demo_order_db) = balance_of 1 demo_order_db"
proof -
  let ?d = "run_orders demo_refund demo_order_db"
  have ok: "orders_ok ?d" using order_run.run_keeps [OF demo_life] by (simp add: run_orders_def)
  have row: "lookup o_id 1 (orders ?d) = Some (the (lookup o_id 1 (orders ?d)))"
    "o_status (the (lookup o_id 1 (orders ?d))) = Refunded" "o_reseller_id (the (lookup o_id 1 (orders ?d))) = 1"
    "balance_of 1 ?d = balance_of 1 demo_order_db"
    by code_simp+
  from late_approval_skips_commission [OF ok row(1,2), of 8 9] row(3,4) show ?thesis
    by (simp add: run_orders_def Let_def)
qed

end
