(* ===== verification/CustomerTurns.thy ===== *)
theory CustomerTurns
  imports CustomerMoney OrderLife
begin

text \<open>
  What one message of a customer does to the orders of the whole platform: his dialog keeps the order
  in which the services expect to be called. A receipt is only sent for the order that his chat
  has just created, and only once, and no handler touches an order of another chat that is still open.
\<close>

section \<open>What leaves open orders alone\<close>

definition keeps_open :: "db \<Rightarrow> db \<Rightarrow> bool" where
  "keeps_open d d' \<longleftrightarrow> (\<forall>oid. status_is oid AwaitingPayment d \<longrightarrow> status_is oid AwaitingPayment d')"

definition calm :: "db \<Rightarrow> db \<Rightarrow> bool" where
  "calm d d' \<longleftrightarrow> moves 0 d d' \<and> keeps_open d d'"

lemma keeps_open_same: "orders d' = orders d \<Longrightarrow> keeps_open d d'"
  by (simp add: keeps_open_def status_is_def)

lemma keeps_open_trans: "keeps_open d0 d1 \<Longrightarrow> keeps_open d1 d2 \<Longrightarrow> keeps_open d0 d2"
  by (simp add: keeps_open_def)

lemma calm_ok: "calm d d' \<Longrightarrow> orders_ok d'"
  by (simp add: calm_def moves_def)

lemma calm_trans: "calm d0 d1 \<Longrightarrow> calm d1 d2 \<Longrightarrow> calm d0 d2"
  using moves_trans [of 0 d0 d1 0 d2] by (auto simp: calm_def intro: keeps_open_trans)

lemma calm_same:
  "orders_ok d \<Longrightarrow> orders d' = orders d \<Longrightarrow> resellers d' = resellers d \<Longrightarrow> disputes d' = disputes d \<Longrightarrow> calm d d'"
  by (simp add: calm_def moves_same keeps_open_same)

lemma calm_refl: "orders_ok d \<Longrightarrow> calm d d"
  by (simp add: calm_same)

lemma keeps_open_insert:
  assumes "orders_ok d" and "insert_order r d = (Inr i, d')"
  shows "keeps_open d d'"
  using orders.lookup_fresh [OF orders_okD [OF assms(1)], of "auto_inc (orders d)"]
  by (auto simp: keeps_open_def status_is_def insert_order_InrD(2) [OF assms(2)]
      orders.lookup_insert [OF orders_okD [OF assms(1)]])

lemma keeps_open_update:
  assumes "orders d' = update_id o_id oid f (orders d)" and "\<And>r. o_id (f r) = o_id r"
    and "status_is oid AwaitingPayment d \<Longrightarrow> \<forall>r. o_status (f r) = o_status r"
  shows "keeps_open d d'"
  unfolding keeps_open_def
proof (intro allI impI)
  fix i
  assume "status_is i AwaitingPayment d"
  with assms show "status_is i AwaitingPayment d'"
    by (cases "i = oid") (auto simp: status_is_def assms(1) orders.lookup_update_id split: option.splits)
qed

section \<open>The services of the customers\<close>

lemma calm_new_order:
  assumes "orders_ok d"
  shows "calm d (snd (create_order m rid pid cid phone d))"
proof (cases "create_order m rid pid cid phone d")
  case (Pair res d')
  have "keeps_open d d'"
  proof (cases res)
    case (Inl e)
    with Pair create_order_InlD have "d' = d" by blast
    then show ?thesis by (simp add: keeps_open_same)
  next
    case (Inr ord)
    with Pair obtain r i where "insert_order r d = (Inr i, d')"
      by (auto simp: create_order_def Let_def split: if_splits option.splits prod.splits sum.splits)
    with assms show ?thesis by (rule keeps_open_insert)
  qed
  with Pair moves_new_order [OF assms, of m rid pid cid phone] show ?thesis by (simp add: calm_def)
qed

lemma calm_wallet_order:
  assumes "orders_ok d"
  shows "calm d (snd (create_order_paid_by_wallet m rid pid cid phone d))"
proof (cases "create_order_paid_by_wallet m rid pid cid phone d")
  case (Pair res d')
  show ?thesis
  proof (cases res)
    case (Inl e)
    with Pair paid_by_wallet_InlD have "d' = d" by blast
    with Pair show ?thesis using calm_refl [OF assms] by simp
  next
    case (Inr ord)
    with Pair obtain plan i where pay: "pay_order_from_wallet (m_now m) plan d = (Inr i, d')"
      by (auto elim: paid_by_wallet_InrD)
    let ?paid = "upd_customer (wp_customer plan) (\<lambda>c. c\<lparr>wallet_balance := wallet_balance c - wp_price plan\<rparr>) d"
    from pay have "insert_order (wallet_order_row (m_now m) plan) ?paid = (Inr i, d')" by (rule pay_order_InrD)
    moreover have "orders_ok ?paid" using assms by (simp add: orders_ok_def upd_customer_def)
    ultimately have "keeps_open ?paid d'" by (intro keeps_open_insert)
    then have "keeps_open d d'" by (simp add: keeps_open_def status_is_def upd_customer_def)
    with moves_wallet_order [OF assms, of "m_now m" plan] pay Pair show ?thesis by (simp add: calm_def)
  qed
qed

lemma keeps_open_deliver:
  assumes "orders_ok d" and "deliver_codes ms plan seq cs d = (Inr ds, d')"
  shows "keeps_open d d'"
  using assms
proof (induction cs arbitrary: seq d ds)
  case Nil
  then show ?case by (simp add: keeps_open_same)
next
  case (Cons c cs)
  from Cons.prems(2) show ?case
  proof (cases rule: deliver_codes_Cons)
    case (1 prefix i d1 ds')
    let ?d2 = "upd_code (cc_id c) (\<lambda>cc. cc\<lparr>cc_status := Sold, sold_at := Some (m_now (ms seq)),
        sold_to_customer_id := Some (cp_customer plan), sold_order_id := Some i\<rparr>) d1"
    have "moves 0 d d1" using moves_insert [OF Cons.prems(1) 1(2)] by (simp add: charge_order_row_def birth_def)
    then have "orders_ok ?d2" by (simp add: moves_def orders_ok_def upd_code_def)
    from Cons.IH [OF this 1(3)] have "keeps_open d1 d'" by (simp add: keeps_open_def status_is_def upd_code_def)
    with keeps_open_insert [OF Cons.prems(1) 1(2)] show ?thesis by (rule keeps_open_trans)
  qed
qed

lemma calm_codes_bought:
  assumes "orders_ok d"
  shows "calm d (snd (purchase_charge_bulk ms rid pid cid n d))"
proof (cases "purchase_charge_bulk ms rid pid cid n d")
  case (Pair res d')
  show ?thesis
  proof (cases res)
    case (Inl e)
    with Pair charge_bulk_refused have "d' = d" by blast
    with Pair show ?thesis using calm_refl [OF assms] by simp
  next
    case (Inr receipt)
    with Pair obtain plan ids ds where tx: "purchase_charge_bulk_tx ms plan (nat n) d = (Inr (ids, ds), d')"
      by (auto simp: purchase_charge_bulk_def split: if_splits sum.splits prod.splits)
    let ?paid = "upd_customer (cp_customer plan)
      (\<lambda>c. c\<lparr>wallet_balance := wallet_balance c - cp_price plan * int (nat n)\<rparr>) d"
    from tx have "deliver_codes ms plan 1 (select_available (cp_package plan) (nat n) d) ?paid = (Inr ds, d')"
      by (rule charge_bulk_tx_InrD)
    moreover have "orders_ok ?paid" using assms by (simp add: orders_ok_def upd_customer_def)
    ultimately have "keeps_open ?paid d'" by (intro keeps_open_deliver)
    then have "keeps_open d d'" by (simp add: keeps_open_def status_is_def upd_customer_def)
    with moves_codes_bought [OF assms, of ms plan "nat n"] tx Pair show ?thesis by (simp add: calm_def)
  qed
qed

lemma calm_discounted:
  assumes "orders_ok d"
  shows "calm d (snd (discount_order t rid oid code d))"
proof -
  have "keeps_open d (snd (discount_order t rid oid code d))"
  proof (cases "orders (snd (discount_order t rid oid code d)) = orders d")
    case True
    then show ?thesis by (rule keeps_open_same)
  next
    case False
    then obtain p where "orders (snd (discount_order t rid oid code d)) = update_id o_id oid (\<lambda>r. r\<lparr>package_price := p\<rparr>) (orders d)"
      by (auto simp: discount_order_def increment_usage_def upd_discount_def Let_def split: sum.splits option.splits)
    then show ?thesis by (rule keeps_open_update) simp_all
  qed
  with moves_discounted [OF assms, of t rid oid code] show ?thesis by (simp add: calm_def)
qed

lemma calm_others:
  assumes "orders_ok d"
  shows "calm d (snd (get_or_create_customer rid user d))"
    and "calm d (snd (create_topup_request rid cid amount meth d))"
    and "calm d (attach_topup_receipt tid file d)"
    and "calm d (register_referral rid referrer referred d)"
  by (rule calm_same [OF assms];
      simp add: get_or_create_customer_def create_topup_request_def attach_topup_receipt_def register_referral_def
        upd_topup_def Let_def split: option.split)+

section \<open>One message of a customer\<close>

text \<open>The order whose receipt a chat waits for.\<close>

definition waits :: "world \<Rightarrow> nat \<Rightarrow> bool" where
  "waits w oid \<longleftrightarrow> w_state w = Some OrderWaitingReceipt \<and> data_order_id (w_data w) = Some oid"

definition ready :: "world \<Rightarrow> bool" where
  "ready w \<longleftrightarrow> orders_ok (w_db w) \<and> (\<forall>oid. waits w oid \<longrightarrow> status_is oid AwaitingPayment (w_db w))"

text \<open>
  What one message does, with \<open>k\<close> hundredths of rounding: orders follow their life, open orders of
  others stay open, and a chat that waits afterwards waits for an open order, its own or a new one.
\<close>

definition turn :: "int \<Rightarrow> world \<Rightarrow> world \<Rightarrow> bool" where
  "turn k w w' \<longleftrightarrow> moves k (w_db w) (w_db w')
     \<and> (\<forall>oid. status_is oid AwaitingPayment (w_db w) \<longrightarrow> waits w oid \<or> status_is oid AwaitingPayment (w_db w'))
     \<and> (\<forall>oid. waits w' oid \<longrightarrow> status_is oid AwaitingPayment (w_db w')
          \<and> (waits w oid \<or> lookup o_id oid (orders (w_db w)) = None))"

text \<open>The messages that bring no new wait.\<close>

definition settled :: "world \<Rightarrow> world \<Rightarrow> bool" where
  "settled w w' \<longleftrightarrow> w_state w' \<noteq> Some OrderWaitingReceipt
     \<or> w_state w' = w_state w \<and> data_order_id (w_data w') = data_order_id (w_data w)"

lemma settled_waits: "settled w w' \<Longrightarrow> waits w' oid \<Longrightarrow> waits w oid"
  by (auto simp: settled_def waits_def)

lemma turn_settled:
  assumes "ready w" and "calm (w_db w) (w_db w')" and "settled w w'"
  shows "turn 0 w w'"
  using assms settled_waits [OF assms(3)] by (auto simp: turn_def ready_def calm_def keeps_open_def)

lemma turn_quiet: "ready w \<Longrightarrow> w_db w' = w_db w \<Longrightarrow> settled w w' \<Longrightarrow> turn 0 w w'"
  by (rule turn_settled) (simp_all add: ready_def calm_refl)

lemma turn_le: "turn 0 w w' \<Longrightarrow> 0 \<le> k \<Longrightarrow> turn k w w'"
  by (fastforce simp: turn_def moves_def)

lemma settled_simps [simp]:
  "settled w w" "settled w (clear_state w')"
  "settled w (answer r k w') = settled w w'" "settled w (send s w') = settled w w'"
  "settled w (w'\<lparr>w_db := d\<rparr>) = settled w w'"
  "st \<noteq> OrderWaitingReceipt \<Longrightarrow> settled w (set_state st w')"
  "settled w (back_to_main_menu rid w')"
  by (simp_all add: settled_def world_defs back_to_main_menu_def)

lemma settled_update_data:
  "(\<And>fd. data_order_id (f fd) = data_order_id fd) \<Longrightarrow> settled w (update_data f w') = settled w w'"
  by (simp add: settled_def update_data_def)

lemma quiet_settled:
  "settled w (snd (show_operators e u w))" "settled w (snd (show_charge_operators e u w))"
  "settled w (snd (handle_operator_pick e m w))" "settled w (snd (handle_subcategory_pick e m w))"
  "settled w (snd (handle_package_pick e m w))" "settled w (snd (handle_package_detail_back e m w))"
  "settled w (snd (handle_buy_button e m w))" "settled w (snd (cancel_phone_number_entry e m w))"
  "settled w (snd (handle_charge_operator_pick e m w))"
  "settled w (snd (handle_charge_subcategory_pick e m w))"
  "settled w (snd (handle_charge_product_pick e m w))"
  "settled w (snd (handle_charge_detail_back e m w))" "settled w (snd (handle_buy_charge_button e m w))"
  "settled w (snd (handle_charge_quantity_back e m w))" "settled w (snd (start_topup e m w))"
  "settled w (snd (customer_cancel e m w))" "settled w (snd (show_support_from_keyboard e m w))"
  "settled w0 (snd (order_paid_by_wallet rid label phone ord w))"
  "settled w0 (snd (order_refused w))"
  by (simp_all add: show_operators_def show_charge_operators_def handle_operator_pick_def
      handle_subcategory_pick_def handle_package_pick_def handle_package_detail_back_def
      handle_buy_button_def cancel_phone_number_entry_def handle_charge_operator_pick_def
      handle_charge_subcategory_pick_def handle_charge_product_pick_def handle_charge_detail_back_def
      handle_buy_charge_button_def handle_charge_quantity_back_def show_product_detail_def product_detail_def
      start_topup_def customer_cancel_def show_support_from_keyboard_def order_paid_by_wallet_def
      order_refused_def Let_def finish_def settled_update_data split: option.split prod.split)

lemma on_db_pair: "f (w_db w) = (res, d) \<Longrightarrow> on_db f w = (res, w\<lparr>w_db := d\<rparr>)"
  by (simp add: on_db_def)

text \<open>The receipt: the chat is cleared whenever the order has moved.\<close>

lemma turn_receipt:
  assumes "ready w" and "w_state w = Some OrderWaitingReceipt"
  shows "turn 1 w (snd (receive_receipt e file w))"
proof (cases "data_order_id (w_data w)")
  case None
  then show ?thesis by (intro turn_le [OF turn_quiet [OF assms(1)]]) (simp_all add: receive_receipt_def)
next
  case oid: (Some oid)
  have ok: "orders_ok (w_db w)" and "status_is oid AwaitingPayment (w_db w)"
    using assms oid by (simp_all add: ready_def waits_def)
  then obtain ord where ord: "lookup o_id oid (orders (w_db w)) = Some ord" "o_status ord = AwaitingPayment"
    by (auto dest: status_isD)
  have id: "o_id ord = oid" using ord(1) by (auto dest: orders.lookup_SomeD)
  let ?run = "submit_receipt (e_config e) oid file (w_db w)"
  have stays: "turn 1 w (snd (receive_receipt e file w))"
    if "?run = (Inl x, w_db w)" "x = TypeError \<or> (\<exists>n. x = PendingOrderLimitExceeded n)" for x
  proof -
    have "snd (receive_receipt e file w) = w \<or> (\<exists>n. snd (receive_receipt e file w) = answer (TooManyPending n) None w)"
      using that oid by (auto simp: receive_receipt_def Let_def on_db_eq finish_def)
    then show ?thesis by (intro turn_le [OF turn_quiet [OF assms(1)]]) auto
  qed
  show ?thesis
  proof (cases "MAX_PENDING_ORDERS_PER_CUSTOMER (e_config e) \<le> count_pending_orders (o_customer_id ord) (w_db w)")
    case True
    then show ?thesis using ord by (intro stays [of "PendingOrderLimitExceeded _"])
        (auto simp: submit_receipt_def submit_receipt_checks_def Let_def)
  next
    case below: False
    show ?thesis
    proof (cases "lookup r_id (o_reseller_id ord) (resellers (w_db w))")
      case None
      with below ord show ?thesis
        by (intro stays [of TypeError]) (simp_all add: submit_receipt_def submit_receipt_checks_def Let_def)
    next
      case (Some r)
      let ?plan = "receipt_plan_for ord r" and ?d' = "snd ?run" and ?w' = "snd (receive_receipt e file w)"
      have run: "?run = submit_receipt_commit file ?plan (w_db w)"
        using submit_checks_ok [OF ord(1) _ Some] below by simp
      note eff = submit_commit_effect [of ?plan "w_db w" r "file", unfolded receipt_plan_for_simps(1), OF Some, folded run]
      obtain res d' where p: "?run = (res, d')" by fastforce
      have res: "res = Inl (OrderInsufficientCreditError oid (o_reseller_id ord) (order_code ord)) \<or> (\<exists>found. res = Inr found)"
        using eff(1) p id by (cases "credit_exceeded ?plan r") simp_all
      have end_of_chat: "w_state ?w' = None \<and> w_db ?w' = ?d'"
        using res p oid by (auto simp: receive_receipt_def Let_def on_db_eq finish_def world_defs split: option.split)
      have "moves 1 (w_db w) ?d'" unfolding run by (rule moves_receipt [OF ok, of _ ord]) (use ord id in simp_all)
      moreover have "status_is i AwaitingPayment ?d'" if "status_is i AwaitingPayment (w_db w)" "i \<noteq> oid" for i
        using that by (auto simp: status_is_def eff(2) mark_receipt_def orders.lookup_update_id id split: option.splits)
      ultimately show ?thesis
        using assms(2) oid end_of_chat by (auto simp: turn_def waits_def)
    qed
  qed
qed

text \<open>The purchase: a wait begins for the row that was just inserted.\<close>

lemma turn_after:
  assumes "calm (w_db w) d" and "ready w" and "turn 0 (w\<lparr>w_db := d\<rparr>) w'"
  shows "turn 0 w w'"
proof -
  have "lookup o_id oid (orders (w_db w)) = None" if "lookup o_id oid (orders d) = None" for oid
  proof (rule ccontr)
    assume "lookup o_id oid (orders (w_db w)) \<noteq> None"
    then obtain ord where "lookup o_id oid (orders (w_db w)) = Some ord" by blast
    with assms(1) obtain ord' where "lookup o_id oid (orders d) = Some ord'"
      by (auto simp: calm_def moves_def elim: livesD)
    with that show False by simp
  qed
  moreover have "moves 0 (w_db w) (w_db w')"
    using assms(1,3) moves_trans [of 0 "w_db w" d 0 "w_db w'"] by (simp add: calm_def turn_def)
  ultimately show ?thesis
    using assms(1,3) by (auto simp: turn_def calm_def keeps_open_def waits_def)
qed

lemma ready_after: "calm (w_db w) d \<Longrightarrow> ready w \<Longrightarrow> ready (w\<lparr>w_db := d\<rparr>)"
  by (auto simp: ready_def calm_ok calm_def keeps_open_def waits_def)

lemma turn_order_by_receipt:
  assumes "ready w" and new: "create_order m rid pid cid phone (w_db w) = (Inr ord, d)"
  shows "turn 0 w (snd (order_by_receipt rid label phone' ord (w\<lparr>w_db := d\<rparr>)))"
proof -
  have ok: "orders_ok (w_db w)" using assms(1) by (simp add: ready_def)
  from new obtain row: "o_id ord = auto_inc (orders (w_db w))" "o_status ord = AwaitingPayment"
    "trows (orders d) = trows (orders (w_db w)) @ [ord]"
    by (rule create_order_InrD)
  have fresh: "lookup o_id (o_id ord) (orders (w_db w)) = None"
    using orders.lookup_fresh [OF orders_okD [OF ok]] row(1) by simp
  then have "lookup o_id (o_id ord) (orders d) = Some ord"
    using row(3) by (auto simp: lookup_def find_append)
  then have "status_is (o_id ord) AwaitingPayment d" using row(2) by (simp add: status_is_def)
  moreover have "w_db (snd (order_by_receipt rid label phone' ord (w\<lparr>w_db := d\<rparr>))) = d" by (simp add: quiet_db)
  moreover have "data_order_id (w_data (snd (order_by_receipt rid label phone' ord (w\<lparr>w_db := d\<rparr>)))) = Some (o_id ord)"
    by (simp add: order_by_receipt_def Let_def world_defs split: option.split)
  ultimately show ?thesis
    using calm_new_order [OF ok, of m rid pid cid phone] new fresh
    by (auto simp: turn_def calm_def keeps_open_def waits_def)
qed

lemma turn_process_purchase:
  assumes "ready w"
  shows "turn 0 w (snd (process_purchase e user phone w))"
proof (cases "selected_package_id (w_data w)")
  case None
  then show ?thesis by (intro turn_quiet [OF assms]) (simp_all add: process_purchase_def finish_def)
next
  case pid: (Some pid)
  obtain res d1 where goc: "get_or_create_customer (e_reseller e) user (w_db w) = (res, d1)" by fastforce
  have ok: "orders_ok (w_db w)" using assms by (simp add: ready_def)
  have c1: "calm (w_db w) d1" using calm_others(1) [OF ok, of "e_reseller e" user] goc by simp
  let ?w1 = "w\<lparr>w_db := d1\<rparr>"
  note r1 = ready_after [OF c1 assms]
  show ?thesis
  proof (rule turn_after [OF c1 assms], cases "\<exists>c. res = Inr (Some c)")
    case False
    then have "snd (process_purchase e user phone w) = ?w1"
      by (simp add: process_purchase_def pid on_db_eq goc Let_def
          split: sum.split option.split)
    then show "turn 0 ?w1 (snd (process_purchase e user phone w))" using turn_quiet [OF r1] by simp
  next
    case True
    then obtain c where c: "res = Inr (Some c)" by blast
    obtain r2 d2 where paid: "create_order_paid_by_wallet (e_moment e 1) (e_reseller e) pid (c_id c) (Some phone) d1 = (r2, d2)"
      by fastforce
    have c2: "calm d1 d2"
      using calm_wallet_order [OF calm_ok [OF c1], of "e_moment e 1" "e_reseller e" pid "c_id c" "Some phone"] paid by simp
    note start = process_purchase_def pid on_db_eq goc c paid Let_def
    show "turn 0 ?w1 (snd (process_purchase e user phone w))"
    proof (cases r2)
      case (Inr ord)
      then show ?thesis
        using c2 by (intro turn_settled [OF r1]) (simp_all add: start quiet_db quiet_settled del: One_nat_def)
    next
      case (Inl x)
      with paid have d2: "d2 = d1" by (auto dest: paid_by_wallet_InlD)
      obtain r3 d3 where new: "create_order (e_moment e 2) (e_reseller e) pid (c_id c) (Some phone) d1 = (r3, d3)" by fastforce
      show ?thesis
      proof (cases "x = WalletInsufficientBalanceError \<and> (\<exists>ord. r3 = Inr ord)")
        case True
        then show ?thesis
          using turn_order_by_receipt [OF r1, of "e_moment e 2" "e_reseller e" pid "c_id c" "Some phone"] new Inl d2
          by (auto simp: start simp del: One_nat_def)
      next
        case False
        then have "d3 = d1" if "x = WalletInsufficientBalanceError"
          using new that by (cases r3) (auto dest: create_order_InlD)
        with False Inl d2 new show ?thesis
          by (intro turn_quiet [OF r1]) (auto simp: start quiet_db order_refused_def finish_def split: sum.split simp del: One_nat_def)
      qed
    qed
  qed
qed

text \<open>The other services of a message.\<close>

lemma turn_buy_charges:
  assumes "ready w" and "w_db w0 = w_db w" and "settled w w0"
  shows "turn 0 w (snd (buy_charges e user pid n w0))"
proof -
  have ok: "orders_ok (w_db w)" using assms(1) by (simp add: ready_def)
  obtain res d1 where goc: "get_or_create_customer (e_reseller e) user (w_db w) = (res, d1)" by fastforce
  have c1: "calm (w_db w) d1" using calm_others(1) [OF ok, of "e_reseller e" user] goc by simp
  have c2: "calm (w_db w) (snd (purchase_charge_bulk ms rid p cid k d1))" for ms rid p cid k
    by (rule calm_trans [OF c1 calm_codes_bought [OF calm_ok [OF c1]]])
  have "calm (w_db w) (w_db (snd (buy_charges e user pid n w0)))"
    using c1 c2 by (auto simp: buy_charges_def on_db_eq assms(2) goc Let_def quiet_db
        split: sum.split exn.split option.split)
  moreover have "settled w (snd (buy_charges e user pid n w0))"
    using assms(3) by (auto simp: buy_charges_def codes_delivered_def on_db_eq assms(2) goc Let_def finish_def
        split: sum.split exn.split option.split)
  ultimately show ?thesis by (intro turn_settled [OF assms(1)])
qed

lemma turn_quantity:
  assumes "ready w"
  shows "turn 0 w (snd (handle_charge_quantity_input e m w))"
  using turn_buy_charges [OF assms] turn_quiet [OF assms]
  by (auto simp: handle_charge_quantity_input_def finish_def split: option.split quantity_input.split)

lemma turn_services:
  assumes "ready w"
  shows "turn 0 w (snd (customer_start e m w))"
    and "turn 0 w (snd (apply_discount_code e s w))"
    and "turn 0 w (snd (show_wallet e m w))"
    and "turn 0 w (snd (choose_topup_method e m w))"
    and "turn 0 w (snd (receive_topup_amount e m w))"
    and "turn 0 w (snd (receive_topup_receipt e file w))"
proof -
  have ok: "orders_ok (w_db w)" using assms by (simp add: ready_def)
  note goc = calm_others(1) [OF ok]
  note after_goc = calm_others [OF calm_ok [OF goc], THEN calm_trans [OF goc]]
  note same = calm_refl [OF ok]
  have wallet: "calm (w_db w) (w_db (snd (show_wallet e m w')))" "settled w (snd (show_wallet e m w'))"
    if "w_db w' = w_db w" for w'
    using that by (simp_all add: show_wallet_def on_db_eq Let_def goc finish_def split: sum.split option.split)
  show "turn 0 w (snd (show_wallet e m w))" by (rule turn_settled [OF assms wallet]) simp_all
  show "turn 0 w (snd (choose_topup_method e m w))"
    using wallet [of "clear_state w"] same
    by (intro turn_settled [OF assms]) (simp_all add: choose_topup_method_def Let_def finish_def)
  show "turn 0 w (snd (customer_start e m w))"
    using goc after_goc(4)
    by (intro turn_settled [OF assms]) (simp_all add: customer_start_def on_db_eq Let_def finish_def
        split: sum.split option.split msg_text.split)
  show "turn 0 w (snd (apply_discount_code e s w))"
    using same calm_discounted [OF ok]
    by (intro turn_settled [OF assms]) (simp_all add: apply_discount_code_def on_db_eq Let_def finish_def
        split: sum.split option.split exn.split)
  show "turn 0 w (snd (receive_topup_amount e m w))"
    using same goc after_goc(2)
    by (intro turn_settled [OF assms]) (simp_all add: receive_topup_amount_def on_db_eq Let_def finish_def settled_update_data
        split: sum.split option.split amount_input.split)
  show "turn 0 w (snd (receive_topup_receipt e file w))"
    using same calm_others(3) [OF ok]
    by (intro turn_settled [OF assms]) (simp_all add: receive_topup_receipt_def Let_def finish_def split: option.split)
qed

section \<open>Every message\<close>

definition photos :: "message \<Rightarrow> nat" where
  "photos m = (case content m of Photo file \<Rightarrow> 1 | _ \<Rightarrow> 0)"

lemma turn_photos: "turn 0 w w' \<Longrightarrow> turn (int (photos m)) w w'"
  by (rule turn_le) simp_all

lemma turn_quiet_photos: "ready w \<Longrightarrow> w_db w' = w_db w \<Longrightarrow> settled w w' \<Longrightarrow> turn (int (photos m)) w w'"
  by (rule turn_photos, rule turn_quiet)

lemma turn_receipt_photo:
  "ready w \<Longrightarrow> w_state w = Some OrderWaitingReceipt \<Longrightarrow> content m = Photo file \<Longrightarrow>
   turn (int (photos m)) w (snd (receive_receipt e file w))"
  by (simp add: photos_def turn_receipt)

lemma fold_answers_settled: "settled w w' \<Longrightarrow> settled w (fold (\<lambda>r. answer (f r) k) rs w')"
  by (induction rs arbitrary: w') simp_all

lemmas turn_handlers = quiet_db quiet_settled turn_quiet_photos turn_receipt_photo
  turn_services [THEN turn_photos] turn_quantity [THEN turn_photos] turn_process_purchase [THEN turn_photos]

lemma turn_dispatch:
  assumes "ready w"
  shows "pred_option (\<lambda>res. turn (int (photos m)) w (snd res)) (dispatch e m w)"
proof -
  have "pred_option (\<lambda>res. turn (int (photos m)) w (snd res)) (reseller_start_router e m w)"
    by (simp add: reseller_start_router_def Let_def reseller_start_def reseller_cancel_def finish_def
        turn_quiet_photos assms split: option.split)
  moreover have "pred_option (\<lambda>res. turn (int (photos m)) w (snd res)) (operator_router e m w)"
    by (simp add: operator_router_def answer_pending_orders_def fold_answers_db fold_answers_settled finish_def
        turn_quiet_photos assms split: option.split msg_text.split sum.split)
  moreover have "pred_option (\<lambda>res. turn (int (photos m)) w (snd res)) (orders_router e m w)"
    by (simp add: orders_router_def Let_def show_catalog_from_keyboard_def turn_handlers assms
        receive_phone_number_contact_def receive_phone_number_text_def finish_def
        split: option.split fsm_state.split content.split msg_text.split)
  moreover have "pred_option (\<lambda>res. turn (int (photos m)) w (snd res)) (charge_router e m w)"
    by (simp add: charge_router_def Let_def show_charge_catalog_from_keyboard_def turn_handlers assms
        split: option.split fsm_state.split)
  moreover have "pred_option (\<lambda>res. turn (int (photos m)) w (snd res)) (wallet_router e m w)"
    by (simp add: wallet_router_def Let_def turn_handlers assms
        split: option.split fsm_state.split content.split)
  ultimately show ?thesis unfolding dispatch_def by (intro pred_or_else)
qed

lemma turn_update:
  assumes "ready w"
  shows "turn (int (photos m)) w (handle_update e m w)"
proof (cases "dispatch e m w")
  case None
  then show ?thesis using assms by (simp add: handle_update_def turn_quiet_photos)
next
  case (Some res)
  have "waits (answer r k w') oid = waits w' oid" for r k w' oid by (simp add: waits_def)
  then have "turn k w (answer r kb w') = turn k w w'" for k r kb w' by (simp add: turn_def)
  with Some turn_dispatch [OF assms, of m e] show ?thesis
    by (simp add: handle_update_def split: prod.split sum.split) (metis snd_conv)
qed

end
