(* ===== verification/PanelFrame.thy ===== *)
theory PanelFrame
  imports PanelKeys
begin

text \<open>
  What the panel of a reseller leaves alone: apart from the buttons that review a receipt, serve an
  order or confirm a top-up, and the reason of a dispute, no button and no text of the panel writes
  an order, a dispute or the balance of a shop.
\<close>

section \<open>The frame\<close>

definition balances :: "db \<Rightarrow> (nat \<times> cents) list" where
  "balances d = map (\<lambda>r. (r_id r, wallet_credit_balance r)) (trows (resellers d))"

definition spares :: "db \<Rightarrow> db \<Rightarrow> bool" where
  "spares d d' \<longleftrightarrow> orders d' = orders d \<and> disputes d' = disputes d \<and> balances d' = balances d"

lemma spares_refl [simp]: "spares d d"
  by (simp add: spares_def)

lemma spares_trans: "spares d0 d1 \<Longrightarrow> spares d1 d2 \<Longrightarrow> spares d0 d2"
  by (simp add: spares_def)

lemma spares_same: "orders d' = orders d \<Longrightarrow> disputes d' = disputes d \<Longrightarrow> resellers d' = resellers d \<Longrightarrow> spares d d'"
  by (simp add: spares_def balances_def)

lemma spares_reseller:
  assumes "\<And>r. r_id (f r) = r_id r" and "\<And>r. wallet_credit_balance (f r) = wallet_credit_balance r"
  shows "spares d (upd_reseller i f d)"
proof -
  have "map (\<lambda>r. (r_id r, wallet_credit_balance r)) (trows (update_id r_id i f t)) = map (\<lambda>r. (r_id r, wallet_credit_balance r)) (trows t)" for t
    using assms by (auto simp: update_id_trows)
  then show ?thesis by (simp add: spares_def balances_def upd_reseller_def)
qed

text \<open>A step of the panel, seen from the database at its beginning.\<close>

definition spared :: "db \<Rightarrow> (panel, unit) outcome \<Rightarrow> bool" where
  "spared d run \<longleftrightarrow> spares d (pn_db (snd run))"

lemma spared_simps [simp]:
  "spared d (returns w) = spares d (pn_db w)" "spared d (Inl x, w) = spares d (pn_db w)"
  by (simp_all add: spared_def returns_def)

lemma panel_db_shown [simp]:
  "pn_db (post r k w) = pn_db w" "pn_db (edit_text r k w) = pn_db w" "pn_db (alert a w) = pn_db w"
  "pn_db (change_db f w) = f (pn_db w)" "pn_db (tell u n w) = pn_db w"
  "pn_db (show_message m w) = pn_db w" "pn_db (enter s w) = pn_db w" "pn_db (remember g w) = pn_db w"
  "pn_db (leave w) = pn_db w"
  by (simp_all add: panel_defs tell_def)

lemma fold_post_db: "(\<And>x w. pn_db (f x w) = pn_db w) \<Longrightarrow> pn_db (fold f xs w) = pn_db w"
  by (induction xs arbitrary: w) simp_all

definition harmless :: "(db \<Rightarrow> (db, 'a) outcome) \<Rightarrow> bool" where
  "harmless f \<longleftrightarrow> (\<forall>d. spares d (snd (f d)))"

lemma spared_with_text: "spares d (pn_db w) \<Longrightarrow> (\<And>s. spared d (f s w)) \<Longrightarrow> spared d (with_text t f w)"
  by (simp add: with_text_def split: option.split)

lemma spared_with_number: "spares d (pn_db w) \<Longrightarrow> (\<And>v. spared d (f v w)) \<Longrightarrow> spared d (with_number t f w)"
  by (simp add: with_number_def split: number_text.split)

lemma spared_with_percent: "spares d (pn_db w) \<Longrightarrow> (\<And>v. spared d (f v w)) \<Longrightarrow> spared d (with_percent t f w)"
  by (simp add: with_percent_def with_text_def split: option.split)

lemma spared_with_key: "spares d (pn_db w) \<Longrightarrow> (\<And>x. spared d (f x w)) \<Longrightarrow> spared d (with_key key f w)"
  by (simp add: with_key_def split: option.split)

lemma spared_with_db:
  "spares d (pn_db w) \<Longrightarrow> harmless f \<Longrightarrow> (\<And>y d1. spares d d1 \<Longrightarrow> spared d (g y (w\<lparr>pn_db := d1\<rparr>))) \<Longrightarrow>
   spared d (with_db f g w)"
  by (auto simp: with_db_def in_db_def harmless_def split: prod.split sum.split) (metis snd_conv spares_trans)+

lemma spared_deleting:
  "spares d (pn_db w) \<Longrightarrow> harmless f \<Longrightarrow> (\<And>w. spares d (pn_db w) \<Longrightarrow> spares d (pn_db (refused w))) \<Longrightarrow>
   (\<And>w. spares d (pn_db w) \<Longrightarrow> spares d (pn_db (g w))) \<Longrightarrow> spared d (deleting f refused g w)"
proof (cases "f (pn_db w)")
  case (Pair res d1)
  assume "spares d (pn_db w)" "harmless f" and steps: "\<And>w. spares d (pn_db w) \<Longrightarrow> spares d (pn_db (refused w))"
    "\<And>w. spares d (pn_db w) \<Longrightarrow> spares d (pn_db (g w))"
  then have "spares d d1" using Pair by (metis harmless_def snd_conv spares_trans)
  with Pair steps show ?thesis by (simp add: deleting_def in_db_def split: sum.split exn.split)
qed

section \<open>The statements of the panel\<close>

lemma harmless_services:
  "harmless (add_operator_folder rid kind name)"
  "harmless (add_subfolder rid kind operator i title)"
  "harmless (add_package rid i name sale cost)"
  "harmless (set_sale_price i v)" "harmless (set_cost_price i v)"
  "harmless (request_topup_value rid v meth ref)"
  "harmless (request_crypto_topup rid coin tx_hash v)"
  "harmless (get_referral_settings rid)" "harmless (set_referral_enabled rid on)"
  "harmless (set_percent_value rid v)" "harmless (add_forced_channel rid ch setter)"
  "harmless (insert_discount_code rid code v limit)" "harmless (add_card rid number holder bank)"
  by (auto simp: harmless_def add_operator_folder_def add_subfolder_def insert_category_def
      add_package_def insert_package_def set_sale_price_def set_cost_price_def request_topup_value_def
      request_topup_def request_crypto_topup_def Let_def transaction_def get_referral_settings_def
      set_referral_enabled_def set_percent_value_def set_referral_profit_percent_def
      add_forced_channel_def insert_discount_code_def add_card_def insert_tx_def upd_package_def
      intro!: spares_same
      split: option.split decimal_value.split prod.split sum.split)

lemma harmless_codes: "harmless (add_charge_codes now rid pid s)"
proof -
  have one: "spares d (snd (insert_code now rid pid c d))" for c d
    by (simp add: insert_code_def spares_same)
  have "spares d (snd (insert_codes now rid pid cs d))" for cs d
  proof (induction cs arbitrary: d)
    case (Cons c cs)
    obtain res d1 where c: "insert_code now rid pid c d = (res, d1)" by fastforce
    have "spares d d1" using one [of d c] c by simp
    then show ?case using spares_trans [OF _ Cons.IH] c by (cases res) simp_all
  qed simp
  note codes = this
  show ?thesis unfolding harmless_def
  proof
    fix d
    obtain res d1 where c: "insert_codes now rid pid (clean_lines {} (splitlines s)) d = (res, d1)" by fastforce
    then show "spares d (snd (add_charge_codes now rid pid s d))"
      using codes [of d "clean_lines {} (splitlines s)"] by (cases res) (simp_all add: add_charge_codes_def Let_def)
  qed
qed

lemma harmless_then: "harmless f \<Longrightarrow> harmless g \<Longrightarrow> harmless (and_then f g)"
  unfolding harmless_def
proof
  fix d
  assume f: "\<forall>d. spares d (snd (f d))" and g: "\<forall>d. spares d (snd (g d))"
  obtain res d1 where r: "f d = (res, d1)" by fastforce
  have "spares d d1" using f [rule_format, of d] r by simp
  then show "spares d (snd (and_then f g d))"
    using r spares_trans [OF _ g [rule_format, of d1]] by (cases res) (simp_all add: and_then_def)
qed

lemma harmless_transaction: "harmless f \<Longrightarrow> harmless (transaction f)"
  by (auto simp: harmless_def transaction_def split: prod.split sum.split) (metis snd_conv)

lemma harmless_delete: "harmless (delete_packages P)" "harmless (delete_categories Q)"
  by (auto simp: harmless_def delete_packages_def delete_categories_def Let_def
      intro!: spares_same split: prod.split sum.split)

lemmas harmless_compose = harmless_transaction harmless_then harmless_delete

lemma harmless_deletion:
  "harmless (delete_operator_tree i)" "harmless (delete_subcategory_tree i)" "harmless (delete_package i)"
proof -
  have "harmless (\<lambda>d. let sub_ids = map cat_id (sub_folders i d);
            last_step = delete_categories (\<lambda>c. cat_id c = i)
        in if sub_ids = [] then last_step d
           else and_then (delete_packages (\<lambda>p. p_category_id p \<in> set sub_ids))
                  (and_then (delete_categories (\<lambda>c. cat_id c \<in> set sub_ids)) last_step) d)"
    using harmless_compose(2-4) by (simp add: harmless_def Let_def)
  then show "harmless (delete_operator_tree i)"
    unfolding delete_operator_tree_def by (rule harmless_compose)
  show "harmless (delete_subcategory_tree i)" "harmless (delete_package i)"
    unfolding delete_subcategory_tree_def delete_package_def by (intro harmless_compose)+
qed

lemma spares_statements [simp]:
  "spares d (rename_operator i s d') = spares d d'" "spares d (rename_subfolder i s d') = spares d d'"
  "spares d (rename_package i s d') = spares d d'" "spares d (toggle_package i d') = spares d d'"
  "spares d (delete_available_code i d') = spares d d'" "spares d (reject_customer_topup i d') = spares d d'"
  "spares d (snd (toggle_card i rid d')) = spares d d'" "spares d (snd (remove_card i rid d')) = spares d d'"
  "spares d (snd (clear_available_codes i d')) = spares d d'"
  by (simp_all add: spares_def balances_def rename_operator_def rename_subfolder_def rename_package_def
      toggle_package_def delete_available_code_def reject_customer_topup_def toggle_card_def
      remove_card_def clear_available_codes_def upd_category_def upd_package_def upd_topup_def Let_def split: option.split)

lemma spares_settings:
  "spares d d' \<Longrightarrow> spares d (set_zarinpal_merchant rid s d')"
  "spares d d' \<Longrightarrow> spares d (upd_reseller rid (\<lambda>r. r\<lparr>support_contact := sc\<rparr>) d')"
proof -
  show merchant: "spares d (upd_reseller rid (\<lambda>r. r\<lparr>support_contact := sc\<rparr>) d')" if "spares d d'"
    using that spares_reseller [of "\<lambda>r. r\<lparr>support_contact := sc\<rparr>" d' rid] spares_trans by simp
  have "set_zarinpal_merchant rid s d' = upd_reseller rid (\<lambda>r. r\<lparr>zarinpal_merchant_id := Some s\<rparr>) d'"
    by (simp add: set_zarinpal_merchant_def upd_reseller_def)
  then show "spares d (set_zarinpal_merchant rid s d')" if "spares d d'"
    using that spares_reseller [of "\<lambda>r. r\<lparr>zarinpal_merchant_id := Some s\<rparr>" d' rid] spares_trans by simp
qed

lemmas sparing_intros = spared_with_text spared_with_number spared_with_percent spared_with_key spared_with_db
  spared_deleting spares_settings
lemmas sparing_facts = harmless_services harmless_codes harmless_deletion

section \<open>The texts\<close>

lemma spared_answer: "spares d (pn_db w) \<Longrightarrow> spared d (answer_and_leave r w)"
  by (simp add: answer_and_leave_def with_key_def split: option.split)

lemma spared_folders:
  assumes "spares d (pn_db w)"
  shows "spared d (receive_operator_name_and_save e t w)" and "spared d (receive_subcategory_title_and_save e t w)"
    and "spared d (receive_package_name t w)" and "spared d (receive_cost_price_and_save e t w)"
    and "spared d (save_operator_name_edit t w)" and "spared d (save_subcategory_title_edit t w)"
    and "spared d (save_package_name_edit t w)" and "spared d (save_package_cost_edit t w)"
  using assms
  by (auto simp: receive_operator_name_and_save_def receive_subcategory_title_and_save_def
      receive_package_name_def receive_cost_price_and_save_def save_operator_name_edit_def
      save_subcategory_title_edit_def save_package_name_edit_def save_package_cost_edit_def Let_def
      intro!: sparing_intros sparing_facts spared_answer)

lemma spared_prices:
  assumes "spares d (pn_db w)"
  shows "spared d (receive_price e t w)" and "spared d (receive_package_price_edit e t w)"
  using assms
  by (auto simp: receive_price_def receive_package_price_edit_def ask_cost_price_def
      intro!: sparing_intros sparing_facts spared_answer split: sum.split)

lemma spared_settings:
  assumes "spares d (pn_db w)"
  shows "spared d (receive_referral_percent e t w)" and "spared d (receive_channel_id e t w)"
    and "spared d (receive_discount_code t w)" and "spared d (receive_discount_percent t w)"
    and "spared d (receive_discount_usage_limit_and_save e t w)" and "spared d (receive_support_contact e t w)"
  using assms
  by (auto simp: receive_referral_percent_def receive_channel_id_def receive_discount_code_def
      receive_discount_percent_def receive_discount_usage_limit_and_save_def receive_support_contact_def
      intro!: sparing_intros sparing_facts split: option.split)

lemma spared_payments:
  assumes "spares d (pn_db w)"
  shows "spared d (receive_card_topup_amount e t w)" and "spared d (receive_zarinpal_amount e t w)"
    and "spared d (receive_crypto_coin t w)" and "spared d (receive_crypto_tx_hash t w)"
    and "spared d (receive_crypto_amount_and_save e t w)" and "spared d (receive_card_number t w)"
    and "spared d (receive_card_holder t w)" and "spared d (receive_bank_name_and_save e t w)"
    and "spared d (receive_zarinpal_merchant e t w)" and "spared d (receive_charge_codes e t w)"
  using assms
  by (auto simp: receive_card_topup_amount_def receive_zarinpal_amount_def receive_crypto_coin_def
      receive_crypto_tx_hash_def receive_crypto_amount_and_save_def receive_card_number_def
      receive_card_holder_def receive_bank_name_and_save_def receive_zarinpal_merchant_def receive_charge_codes_def Let_def
      intro!: sparing_intros sparing_facts split: option.split)

lemma spared_texts: "s \<noteq> EnteringDisputeReason \<Longrightarrow> spared (pn_db w) (receive_in s e t w)"
  by (cases s) (simp_all add: spared_folders spared_prices spared_settings spared_payments)

section \<open>The buttons\<close>

lemma panel_db_rendered [simp]:
  "pn_db (render_manage_operators kind rid w) = pn_db w"
  "pn_db (render_operator_detail kind i w) = pn_db w"
  "pn_db (render_subcategory_detail kind i w) = pn_db w"
  "pn_db (render_package_detail kind i w) = pn_db w"
  by (simp_all add: render_manage_operators_def render_operator_detail_def render_subcategory_detail_def
      render_package_detail_def Let_def split: option.split)

lemma spared_catalog_buttons: "spared (pn_db w) (press_kind e b1 kind w)" "spared (pn_db w) (press_item e b2 kind i w)"
proof -
  show "spared (pn_db w) (press_kind e b1 kind w)"
    by (cases b1) (auto simp: catalog_menu_def view_catalog_def start_add_operator_def
      start_add_subcategory_def start_add_package_def manage_operators_cb_def Let_def fold_post_db)
  show "spared (pn_db w) (press_item e b2 kind i w)"
    by (cases b2) (auto simp: pick_operator_for_sub_def pick_operator_for_pkg_def pick_category_def
      manage_operator_detail_cb_def manage_subcategory_detail_cb_def manage_package_detail_cb_def
      start_edit_operator_name_def start_edit_subcategory_title_def start_edit_package_name_def
      start_edit_package_price_def start_edit_package_cost_def start_package_dialog_def toggle_package_active_def
      confirm_delete_operator_def delete_operator_cancelled_def
      confirm_delete_subcategory_def delete_subcategory_cancelled_def
      confirm_delete_package_def delete_package_cancelled_def
      delete_operator_confirmed_def delete_subcategory_confirmed_def delete_package_confirmed_def Let_def
      intro!: spared_deleting harmless_deletion split: option.split prod.split)
qed

lemma spared_menu_buttons: "spared (pn_db w) (press_menu e b w)"
  by (cases b) (auto simp: back_home_def list_pending_orders_cb_def catalog_type_menu_cb_def charge_stock_menu_cb_def
      wallet_menu_def start_topup_card_def start_topup_zarinpal_def show_crypto_options_def settings_menu_def
      start_referral_percent_def start_add_channel_def start_add_discount_def start_set_support_contact_def
      payment_methods_menu_def list_cards_cb_def start_add_card_def show_zarinpal_def
      show_report_cb_def export_excel_cb_def show_stats_cb_def Let_def fold_post_db
      intro!: spared_with_db sparing_facts split: option.split prod.split)

lemma spared_id_buttons:
  assumes "b \<notin> {ApproveReceiptButton, RejectReceiptButton, ActivateOrderButton, ConfirmTopupButton}"
  shows "spared (pn_db w) (press_id e b i w)"
  using assms
  by (cases b) (simp_all add: reject_wallet_topup_def open_dispute_def clear_all_codes_def toggle_card_cb_def
      remove_card_cb_def Let_def case_prod_beta split: option.split)

lemma spared_stock_buttons:
  "spared (pn_db w) (press_stock b action i w)" "spared (pn_db w) (pick_operator_for_action e action w)"
  "spared (pn_db w) (delete_single_code i pid w)" "spared (pn_db w) (toggle_referral e on w)"
proof -
  show "spared (pn_db w) (press_stock b action i w)"
    by (cases b; cases action) (auto simp: pick_category_for_action_def pick_product_for_action_def
        act_on_product_def Let_def split: option.split)
  show "spared (pn_db w) (pick_operator_for_action e action w)" "spared (pn_db w) (delete_single_code i pid w)"
    "spared (pn_db w) (toggle_referral e on w)"
    by (auto simp: pick_operator_for_action_def delete_single_code_def toggle_referral_def Let_def
        intro!: spared_with_db sparing_facts split: option.split)
qed

lemma spared_token_buttons: "spared (pn_db w) (press_token b token w)"
  by (cases b) (auto simp: confirm_suspicious_price_def edit_suspicious_price_def confirm_edit_suspicious_price_def
    edit_again_suspicious_price_def ask_cost_price_def Let_def intro!: sparing_intros sparing_facts spared_answer split: option.split)

fun writes_orders :: "callback \<Rightarrow> bool" where
  "writes_orders (OnId b i) = (b \<in> {ApproveReceiptButton, RejectReceiptButton, ActivateOrderButton, ConfirmTopupButton})"
| "writes_orders _ = False"

lemma spared_buttons: "\<not> writes_orders cb \<Longrightarrow> spared (pn_db w) (press_button e user cb w)"
  by (cases cb) (auto simp: press_button_def spared_catalog_buttons spared_menu_buttons spared_id_buttons
      spared_stock_buttons spared_token_buttons simp del: press_menu.simps press_id.simps press_kind.simps
      press_item.simps press_token.simps press_stock.simps)

lemma spared_message:
  assumes "receive_message e user t w = Some run" and "pn_state w \<noteq> Some EnteringDisputeReason"
  shows "spared (pn_db w) run"
  using assms by (auto simp: receive_message_def Let_def spared_texts split: if_splits option.splits)

end
