(* ===== verification/ShopSystem.thy ===== *)
theory ShopSystem
  imports CustomerTurns ShopBot PanelFrame
begin

text \<open>
  The bots of all shops on one database: every user has a chat with the bot of a shop, in which the
  dialogs of the customers and of the panel run, the chats take turns, the administrator decides
  disputes, and everything else on the platform goes on in between. The theory shows that the orders
  stay in order, whoever writes what, as long as the buttons about orders are pressed in time.
\<close>

section \<open>The staff's buttons\<close>

fun of_staff :: "order_event \<Rightarrow> bool" where
  "of_staff (ReceiptApproved t oid) = True"
| "of_staff (ReceiptRefused oid) = True"
| "of_staff (OrderServed t oid) = True"
| "of_staff (DisputeFiled oid reason) = True"
| "of_staff (DisputeGranted t did) = True"
| "of_staff (DisputeDenied t did) = True"
| "of_staff _ = False"

lemma staff_keeps_open:
  assumes "of_staff ev" and "in_time ev d"
  shows "keeps_open d (order_step ev d)"
proof -
  have upd: "keeps_open d d'" if "orders d' = update_id o_id oid f (orders d)" "\<And>r. o_id (f r) = o_id r"
    "status_is oid st d" "st \<noteq> AwaitingPayment" for d' oid f st
  proof (rule keeps_open_update [OF that(1,2)])
    assume "status_is oid AwaitingPayment d"
    with that(3,4) show "\<forall>r. o_status (f r) = o_status r" by (auto dest!: status_isD)
  qed
  have disputed: "orders (snd (submit_dispute_reason oid reason d)) = update_id o_id oid (\<lambda>r. r\<lparr>o_status := RefundPending\<rparr>) (orders d)"
    if "status_is oid Rejected d" for oid reason
    using status_isD [OF that] by (auto simp: submit_dispute_reason_def create_dispute_def Let_def)
  have served: "orders (snd (activate_order t oid d)) = update_id o_id oid (\<lambda>r. r\<lparr>o_status := Activated, activated_at := Some t\<rparr>) (orders d)"
    for t oid
    by (simp add: activate_order_def increment_test_counter_if_needed_def upd_reseller_def Let_def split: option.split)
  have granted: "orders (snd (approve_dispute t did d)) = orders d
      \<or> orders (snd (approve_dispute t did d)) = update_id o_id (d_order_id di) (\<lambda>r. r\<lparr>o_status := Refunded\<rparr>) (orders d)"
    if "lookup d_id did (disputes d) = Some di" for t did di
    using that
    by (auto simp: approve_dispute_def refund_commission_def transaction_def Let_def upd_reseller_def insert_tx_def
        dest: orders.lookup_SomeD split: option.split)
  from assms show ?thesis
  proof (cases ev)
    case (DisputeGranted t did)
    with assms(2) obtain di where di: "lookup d_id did (disputes d) = Some di" "status_is (d_order_id di) RefundPending d"
      by (auto split: option.splits)
    from granted [OF di(1), of t] show ?thesis unfolding DisputeGranted order_step.simps
      by (rule disjE) (simp_all add: keeps_open_same upd [OF _ _ di(2)])
  next
    case (ReceiptApproved t oid)
    with assms(2) show ?thesis by (auto intro: upd [where f = "\<lambda>r. r\<lparr>o_status := Confirmed, confirmed_at := Some t\<rparr>"] simp: confirm_order_def)
  next
    case (ReceiptRefused oid)
    with assms(2) show ?thesis by (auto intro: upd [where f = "\<lambda>r. r\<lparr>o_status := Rejected\<rparr>"] simp: reject_order_def)
  next
    case (OrderServed t oid)
    with assms(2) show ?thesis by (auto intro: upd [OF served])
  next
    case (DisputeFiled oid reason)
    with assms(2) show ?thesis by (auto intro: upd [OF disputed])
  qed (auto intro: keeps_open_same simp: reject_dispute_def)
qed

lemma staff_calm:
  assumes "of_staff ev" and "in_time ev d" and "orders_ok d"
  shows "calm d (order_step ev d)"
proof -
  have "\<not> is_receipt ev" using assms(1) by (cases ev) simp_all
  with event_moves [OF assms(3,2)] staff_keeps_open [OF assms(1,2)] show ?thesis by (simp add: calm_def)
qed

lemma balance_by_id: "balance_of rid d = (case map_of (balances d) rid of None \<Rightarrow> 0 | Some b \<Rightarrow> b)"
proof -
  have eq: "map_of (map (\<lambda>r. (r_id r, wallet_credit_balance r)) rs) rid
      = map_option wallet_credit_balance (find (\<lambda>r. r_id r = rid) rs)" for rs
    by (induction rs) auto
  show ?thesis unfolding balance_of_def balances_def lookup_def eq by (simp split: option.split)
qed

lemma spares_calm:
  assumes "orders_ok d" and "spares d d'"
  shows "calm d d'"
proof -
  have same: "orders d' = orders d" "disputes d' = disputes d" "balances d' = balances d"
    using assms(2) by (simp_all add: spares_def)
  have "orders_ok d'" using assms(1) same by (simp add: orders_ok_def)
  then show ?thesis
    by (simp add: calm_def moves_def keeps_open_same lives_same same holdings_def commission_out_def balance_by_id)
qed

section \<open>The panel in the same chats\<close>

text \<open>
  What is asked of a panel button and of a text: the review belongs to an order under review, the
  activation to a confirmed one, and a dispute is written about a rejected one.
\<close>

fun button_in_time :: "callback \<Rightarrow> db \<Rightarrow> bool" where
  "button_in_time (OnId b i) d \<longleftrightarrow>
     (if b = ApproveReceiptButton \<or> b = RejectReceiptButton then status_is i AwaitingReceiptReview d
      else if b = ActivateOrderButton then status_is i Confirmed d else True)"
| "button_in_time _ d \<longleftrightarrow> True"

definition text_in_time :: "panel_state option \<Rightarrow> panel_data \<Rightarrow> db \<Rightarrow> bool" where
  "text_in_time st pd d \<longleftrightarrow> (if st = Some EnteringDisputeReason
     then (case pd_dispute_order_id pd of None \<Rightarrow> True | Some oid \<Rightarrow> status_is oid Rejected d) else True)"

fun confirms_topup :: "callback \<Rightarrow> bool" where
  "confirms_topup (OnId b i) = (b = ConfirmTopupButton)"
| "confirms_topup _ = False"

lemma order_buttons_db:
  "pn_db (snd (approve_receipt e i w)) = order_step (ReceiptApproved (pe_now e) i) (pn_db w)"
  "pn_db (snd (reject_receipt i w)) = order_step (ReceiptRefused i) (pn_db w)"
  "pn_db (snd (activate e i w)) = order_step (OrderServed (pe_now e) i) (pn_db w)"
  by (auto simp: approve_receipt_def reject_receipt_def activate_def returns_def with_db_def in_db_def Let_def
      split: prod.split sum.split option.split)

lemma calm_button:
  assumes "orders_ok (pn_db w)" and "button_in_time cb (pn_db w)" and "\<not> confirms_topup cb"
  shows "calm (pn_db w) (pn_db (snd (press_button e user cb w)))"
proof (cases "writes_orders cb")
  case False
  from spared_buttons [OF this] show ?thesis
    using spares_calm [OF assms(1)] by (simp add: spared_def)
next
  case True
  then obtain b i where cb: "cb = OnId b i" "b \<in> {ApproveReceiptButton, RejectReceiptButton, ActivateOrderButton}"
    using assms(3) by (cases cb) auto
  show ?thesis
  proof (cases "may_act (pe_reseller e) user (pn_db w)")
    case True
    with cb assms(2) show ?thesis
      by (auto simp: press_button_def order_buttons_db simp del: order_step.simps intro!: staff_calm [OF _ _ assms(1)])
  next
    case False
    with cb show ?thesis using calm_refl [OF assms(1)] by (auto simp: press_button_def returns_def)
  qed
qed

text \<open>A confirmed top-up of a customer costs the shop its commission and nothing else here.\<close>

lemma settle_keeps:
  fixes g :: "db \<Rightarrow> 'x"
  assumes same: "\<And>d d'. same_elsewhere d d' \<Longrightarrow> g d' = g d" and "\<And>d. g (failed d) = g d" and "\<And>d. g (paid d) = g d"
  shows "g (snd (settle_commission (deduct_commission_in_tx rid a ref) failed paid d)) = g d"
proof -
  obtain res d1 where "deduct_commission_in_tx rid a ref d = (res, d1)" by fastforce
  moreover from this have "g d1 = g d" using same [OF wallet.deduct_frame [of d rid a ref]] by simp
  ultimately show ?thesis by (cases res) (simp_all add: settle_commission.simps assms)
qed

lemma topup_keeps:
  fixes g :: "db \<Rightarrow> 'x"
  assumes "\<And>d d'. same_elsewhere d d' \<Longrightarrow> g d' = g d" and "\<And>i f d. g (upd_topup i f d) = g d"
    and "\<And>i f d. g (upd_customer i f d) = g d"
  shows "g (snd (confirm_customer_topup now tid d)) = g d"
proof -
  have tx: "g (snd (confirm_customer_topup_tx now plan d)) = g d" for plan
  proof -
    let ?t = "tp_topup plan"
    let ?run = "settle_commission
        (deduct_commission_in_tx (tu_reseller_id ?t) (tp_commission plan) (topup_reference (tu_id ?t)))
        (upd_topup (tu_id ?t) (\<lambda>t. t\<lparr>tu_status := TopupConfirmedInsufficientCredit, tu_confirmed_at := Some now\<rparr>))
        (upd_topup (tu_id ?t) (\<lambda>t. t\<lparr>tu_status := TopupConfirmed, tu_confirmed_at := Some now\<rparr>))
        (upd_customer (tu_customer_id ?t) (\<lambda>c. c\<lparr>wallet_balance := wallet_balance c + tu_amount ?t\<rparr>) d)"
    obtain res d2 where run: "?run = (res, d2)" by fastforce
    have "g (snd ?run) = g (upd_customer (tu_customer_id ?t) (\<lambda>c. c\<lparr>wallet_balance := wallet_balance c + tu_amount ?t\<rparr>) d)"
      by (rule settle_keeps [of g]) (fact assms(1) assms(2))+
    then have "g d2 = g d" unfolding run by (simp add: assms(3))
    with run show ?thesis by (cases res) (simp_all add: confirm_customer_topup_tx_def transaction_def Let_def)
  qed
  have "g (snd (confirm_customer_topup_commit now plan d)) = g d" for plan
    using tx [of plan] by (cases "confirm_customer_topup_tx now plan d")
      (simp add: confirm_customer_topup_commit_def split: sum.split)
  then show ?thesis by (simp add: confirm_customer_topup_def split: sum.split)
qed

lemma topup_button_db: "pn_db (snd (confirm_wallet_topup e i w)) = snd (confirm_customer_topup (pe_now e) i (pn_db w))"
  by (auto simp: confirm_wallet_topup_def in_db_def notify_customer_wallet_topup_confirmed_def
      notify_reseller_wallet_topup_insufficient_credit_def notify_super_admin_wallet_topup_insufficient_credit_def returns_def
      split: prod.split sum.split exn.split value_reason.split option.split)

lemma topup_button_keeps:
  "orders (pn_db (snd (confirm_wallet_topup e i w))) = orders (pn_db w)"
  "disputes (pn_db (snd (confirm_wallet_topup e i w))) = disputes (pn_db w)"
  unfolding topup_button_db
  by (rule topup_keeps [where g = orders]; simp add: same_elsewhereD)
    (rule topup_keeps [where g = disputes]; simp add: same_elsewhereD upd_topup_def)

lemma calm_dispute:
  assumes "orders_ok (pn_db w)" and "text_in_time (Some EnteringDisputeReason) (pn_data w) (pn_db w)"
  shows "calm (pn_db w) (pn_db (snd (receive_dispute_reason t w)))"
proof (cases "pd_dispute_order_id (pn_data w)")
  case None
  then show ?thesis using calm_refl [OF assms(1)] by (simp add: receive_dispute_reason_def with_key_def)
next
  case oid: (Some oid)
  with assms(2) have st: "status_is oid Rejected (pn_db w)" by (simp add: text_in_time_def)
  then obtain ord where ord: "lookup o_id oid (orders (pn_db w)) = Some ord" "o_status ord = Rejected"
    by (auto dest: status_isD)
  have db: "pn_db (snd (receive_dispute_reason t w)) = snd (create_dispute_of_text oid (o_reseller_id ord) t (pn_db w))"
    using oid ord(1) by (auto simp: receive_dispute_reason_def with_key_def with_db_def in_db_def returns_def
        split: prod.split sum.split)
  show ?thesis
  proof (cases t)
    case None
    have "keeps_open (pn_db w) (upd_order oid (\<lambda>r. r\<lparr>o_status := RefundPending\<rparr>) (pn_db w))"
      by (rule keeps_open_update [where f = "\<lambda>r. r\<lparr>o_status := RefundPending\<rparr>"]) (use ord in \<open>auto simp: status_is_def\<close>)
    with moves_panel(4) [OF assms(1) st] None db show ?thesis by (simp add: create_dispute_of_text_def calm_def)
  next
    case (Some reason)
    have "snd (create_dispute oid (o_reseller_id ord) reason (pn_db w)) = order_step (DisputeFiled oid reason) (pn_db w)"
      using ord(1) by (simp add: submit_dispute_reason_def Let_def split: prod.split)
    with staff_calm [OF _ _ assms(1), of "DisputeFiled oid reason"] st Some db
    show ?thesis by (simp add: create_dispute_of_text_def del: order_step.simps)
  qed
qed

lemma calm_text:
  assumes "orders_ok (pn_db w)" and "text_in_time (pn_state w) (pn_data w) (pn_db w)"
    and "receive_message e user t w = Some run"
  shows "calm (pn_db w) (pn_db (snd run))"
proof (cases "pn_state w = Some EnteringDisputeReason")
  case False
  with spared_message [OF assms(3)] have "spares (pn_db w) (pn_db (snd run))" by (simp add: spared_def)
  then show ?thesis by (rule spares_calm [OF assms(1)])
next
  case True
  with assms(3) have "pn_db (snd run) = pn_db w \<or> run = receive_dispute_reason t w"
    by (auto simp: receive_message_def Let_def returns_def split: if_splits)
  then show ?thesis
    using calm_refl [OF assms(1)] calm_dispute [OF assms(1)] assms(2) True by auto
qed

section \<open>One update of a chat\<close>

text \<open>What an update does, whatever it costs the shops.\<close>

definition tame :: "world \<Rightarrow> world \<Rightarrow> bool" where
  "tame w w' \<longleftrightarrow> orders_ok (w_db w') \<and> lives (w_db w) (w_db w')
     \<and> (\<forall>oid. status_is oid AwaitingPayment (w_db w) \<longrightarrow> waits w oid \<or> status_is oid AwaitingPayment (w_db w'))
     \<and> (\<forall>oid. waits w' oid \<longrightarrow> status_is oid AwaitingPayment (w_db w')
          \<and> (waits w oid \<or> lookup o_id oid (orders (w_db w)) = None))"

lemma turn_tame: "turn k w w' \<longleftrightarrow> tame w w' \<and> moves k (w_db w) (w_db w')"
  by (auto simp: turn_def tame_def moves_def)

lemma tame_settled:
  assumes "ready w" and "orders (w_db w') = orders (w_db w)" and "disputes (w_db w') = disputes (w_db w)" and "settled w w'"
  shows "tame w w'"
  using assms settled_waits [OF assms(4)] lives_same [OF assms(2)] keeps_open_same [OF assms(2)]
  by (auto simp: tame_def ready_def orders_ok_def keeps_open_def)

lemma waits_sent [simp]: "waits (w\<lparr>w_sent := x\<rparr>) oid = waits w oid"
  by (simp add: waits_def)

lemma sent_only: "turn k w (w'\<lparr>w_sent := x\<rparr>) = turn k w w'" "tame w (w'\<lparr>w_sent := x\<rparr>) = tame w w'"
  by (simp_all add: turn_def tame_def)

fun update_in_time :: "update \<Rightarrow> chat \<Rightarrow> bool" where
  "update_in_time (Pressed cb) c \<longleftrightarrow> button_in_time cb (ch_db c)"
| "update_in_time (Received x) c \<longleftrightarrow> text_in_time (panel_state_of (ch_state c)) (ch_panel c) (ch_db c)"

fun keeps_balances :: "update \<Rightarrow> bool" where
  "keeps_balances (Pressed cb) = (\<not> confirms_topup cb)"
| "keeps_balances (Received x) = True"

fun photos_of :: "update \<Rightarrow> nat" where
  "photos_of (Received (Photo file)) = 1"
| "photos_of _ = 0"

lemma photos_of_message: "photos_of (Received x) = photos \<lparr>from_user = user, content = x\<rparr>"
  by (cases x) (simp_all add: photos_def)

lemma as_shop_from_shop [simp]: "as_shop (from_shop w c) = w"
proof -
  have "shop_state_of (map_option InShop st) = st" for st by (cases st) simp_all
  then show ?thesis by (cases w) (simp add: as_shop_def from_shop_def Let_def)
qed

lemma feed_shape:
  obtains "run_update b user u c = None" and "feed_update b user u c = c"
  | res c1 x where "run_update b user u c = Some (res, c1)" and "as_shop (feed_update b user u c) = (as_shop c1)\<lparr>w_sent := x\<rparr>"
proof (cases "run_update b user u c")
  case None
  with that(1) show thesis by (simp add: feed_update_def)
next
  case (Some run)
  obtain res c1 where run: "run = (res, c1)" by fastforce
  have "\<exists>x. as_shop (feed_update b user u c) = (as_shop c1)\<lparr>w_sent := x\<rparr>"
  proof (cases res)
    case (Inl e)
    with Some run show ?thesis by (auto simp: feed_update_def on_error_def as_shop_def)
  next
    case (Inr y)
    with Some run show ?thesis by (auto simp: feed_update_def as_shop_def)
  qed
  with Some run that(2) show thesis by blast
qed

lemma press_chat:
  assumes "press_step b user cb c = (res, c1)"
  shows "settled (as_shop c) (as_shop c1)"
    and "ch_db c1 = pn_db (snd (press_button (panel_env_of b) user cb (as_panel (panel_state_of (ch_state c)) c)))"
proof -
  obtain res' w where w: "press_button (panel_env_of b) user cb (as_panel (panel_state_of (ch_state c)) c) = (res', w)"
    by fastforce
  show "settled (as_shop c) (as_shop c1)"
    using assms w by (auto simp: press_step_def from_panel_def as_shop_def settled_def split: if_splits option.splits)
  show "ch_db c1 = pn_db (snd (press_button (panel_env_of b) user cb (as_panel (panel_state_of (ch_state c)) c)))"
    using assms w by (auto simp: press_step_def from_panel_def split: if_splits)
qed

lemma panel_text_chat: "settled (as_shop c) (as_shop (panel_text_step w c))" "ch_db (panel_text_step w c) = pn_db w"
  by (cases "pn_state w"; simp add: panel_text_step_def from_panel_def as_shop_def settled_def)+

lemma as_shop_db [simp]: "w_db (as_shop c) = ch_db c"
  by (simp add: as_shop_def)

lemma press_turn:
  assumes "ready (as_shop c)" and "button_in_time cb (ch_db c)" and "press_step b user cb c = (res, c1)"
  shows "tame (as_shop c) (as_shop c1)"
    and "\<not> confirms_topup cb \<Longrightarrow> turn 0 (as_shop c) (as_shop c1)"
proof -
  note c1 = press_chat [OF assms(3)]
  let ?p = "as_panel (panel_state_of (ch_state c)) c"
  have ok: "orders_ok (pn_db ?p)" "button_in_time cb (pn_db ?p)" using assms(1,2) by (simp_all add: ready_def)
  show turn: "turn 0 (as_shop c) (as_shop c1)" if "\<not> confirms_topup cb"
    using calm_button [OF ok that] c1 by (intro turn_settled [OF assms(1)]) simp_all
  show "tame (as_shop c) (as_shop c1)"
  proof (cases "confirms_topup cb")
    case False
    then show ?thesis using turn turn_tame by blast
  next
    case True
    then obtain i where cb: "cb = OnId ConfirmTopupButton i" by (cases cb) auto
    have "orders (ch_db c1) = orders (ch_db c)" "disputes (ch_db c1) = disputes (ch_db c)"
      using topup_button_keeps [of "panel_env_of b" i ?p] by (auto simp: c1(2) cb press_button_def returns_def)
    with c1(1) show ?thesis by (intro tame_settled [OF assms(1)]) simp_all
  qed
qed

lemma message_turn:
  assumes "ready (as_shop c)" and "text_in_time (panel_state_of (ch_state c)) (ch_panel c) (ch_db c)"
    and "message_step b m c = Some (res, c1)"
  shows "turn (int (photos m)) (as_shop c) (as_shop c1)"
proof -
  have shop: ?thesis if "shop_step b m c = Some (res, c1)"
  proof -
    from that obtain w where "dispatch (be_shop b) m (as_shop c) = Some (res, w)" "c1 = from_shop w c"
      by (auto simp: shop_step_def)
    with turn_dispatch [OF assms(1), of m "be_shop b"] show ?thesis by simp
  qed
  show ?thesis
  proof (cases "shop_step b m c = Some (res, c1)")
    case False
    with assms(3) obtain s w where s: "panel_state_of (ch_state c) = Some s"
      and run: "receive_message (panel_env_of b) (from_user m) (map_option (written b) (message_text m)) (as_panel (Some s) c) = Some (res, w)"
      and c1: "c1 = panel_text_step w c"
      by (auto simp: message_step_def split: option.splits)
    have "calm (ch_db c) (pn_db w)"
      using calm_text [OF _ _ run] assms(1,2) s by (simp add: ready_def)
    then show ?thesis
      using panel_text_chat by (intro turn_photos turn_settled [OF assms(1)]) (simp_all add: c1)
  qed (rule shop)
qed

lemma update_turn:
  assumes "ready (as_shop c)" and "update_in_time u c"
  shows "tame (as_shop c) (as_shop (feed_update b user u c))
    \<and> (keeps_balances u \<longrightarrow> turn (int (photos_of u)) (as_shop c) (as_shop (feed_update b user u c)))"
proof (cases rule: feed_shape [of b user u c])
  case 1
  have "turn (int (photos_of u)) (as_shop c) (as_shop c)"
    by (rule turn_le, rule turn_quiet [OF assms(1)]) simp_all
  with 1 show ?thesis using turn_tame by simp
next
  case (2 res c1 x)
  show ?thesis
  proof (cases u)
    case (Pressed cb)
    with 2 assms(2) have press: "button_in_time cb (ch_db c)" "press_step b user cb c = (res, c1)"
      by (simp_all add: run_update_def)
    from press_turn [OF assms(1) press] Pressed 2(2) show ?thesis by (simp add: sent_only)
  next
    case (Received y)
    with 2 assms(2) have "text_in_time (panel_state_of (ch_state c)) (ch_panel c) (ch_db c)"
      "message_step b \<lparr>from_user = user, content = y\<rparr> c = Some (res, c1)" by (simp_all add: run_update_def)
    from message_turn [OF assms(1) this] Received 2(2) turn_tame show ?thesis
      by (simp add: sent_only photos_of_message [of y user] del: photos_of.simps)
  qed
qed

section \<open>The system\<close>

text \<open>
  One database and the chats of all users with the bots of all shops. An update reaches the chat of
  its sender; the administrator decides disputes; everything else on the platform is other work.
\<close>

record system =
  sys_db :: db
  sys_chats :: "nat \<times> int \<Rightarrow> chat"

datatype system_event =
    Update bot_env int update
  | AdminPresses order_event
  | OtherWork "db \<Rightarrow> db"

definition chat_now :: "bot_env \<Rightarrow> int \<Rightarrow> system \<Rightarrow> chat" where
  "chat_now b user s = (sys_chats s (e_reseller (be_shop b), user))\<lparr>ch_db := sys_db s\<rparr>"

fun system_step :: "system_event \<Rightarrow> system \<Rightarrow> system" where
  "system_step (Update b user u) s =
     (let c = feed_update b user u (chat_now b user s)
      in s\<lparr>sys_db := ch_db c, sys_chats := (sys_chats s)((e_reseller (be_shop b), user) := c)\<rparr>)"
| "system_step (AdminPresses ev) s = s\<lparr>sys_db := order_step ev (sys_db s)\<rparr>"
| "system_step (OtherWork f) s = s\<lparr>sys_db := f (sys_db s)\<rparr>"

fun decides :: "order_event \<Rightarrow> bool" where
  "decides (DisputeGranted t did) = True"
| "decides (DisputeDenied t did) = True"
| "decides _ = False"

text \<open>
  What is asked of an event: nothing of a message of a customer; the buttons and texts about orders come
  in time; other work writes neither orders nor disputes. For the balances, other work and
  confirmed top-ups are excluded that change one.
\<close>

fun allowed :: "system_event \<Rightarrow> system \<Rightarrow> bool" where
  "allowed (Update b user u) s \<longleftrightarrow> update_in_time u (chat_now b user s)"
| "allowed (AdminPresses ev) s \<longleftrightarrow> decides ev \<and> in_time ev (sys_db s)"
| "allowed (OtherWork f) s \<longleftrightarrow> orders (f (sys_db s)) = orders (sys_db s) \<and> disputes (f (sys_db s)) = disputes (sys_db s)"

fun same_money :: "system_event \<Rightarrow> system \<Rightarrow> bool" where
  "same_money (Update b user u) s \<longleftrightarrow> keeps_balances u"
| "same_money (AdminPresses ev) s \<longleftrightarrow> True"
| "same_money (OtherWork f) s \<longleftrightarrow> balances (f (sys_db s)) = balances (sys_db s)"

fun system_rounding :: "system_event \<Rightarrow> nat" where
  "system_rounding (Update b user u) = photos_of u"
| "system_rounding _ = 0"

text \<open>Each chat that waits for a receipt waits for an open order, and no two for the same.\<close>

definition chat_waits :: "system \<Rightarrow> nat \<times> int \<Rightarrow> nat \<Rightarrow> bool" where
  "chat_waits s chat oid = waits (as_shop (sys_chats s chat)) oid"

definition system_ok :: "system \<Rightarrow> bool" where
  "system_ok s \<longleftrightarrow> orders_ok (sys_db s)
     \<and> (\<forall>chat oid. chat_waits s chat oid \<longrightarrow> status_is oid AwaitingPayment (sys_db s))
     \<and> (\<forall>chat chat' oid. chat_waits s chat oid \<longrightarrow> chat_waits s chat' oid \<longrightarrow> chat = chat')"

lemma system_okD:
  assumes "system_ok s"
  shows "orders_ok (sys_db s)"
    and "chat_waits s chat oid \<Longrightarrow> status_is oid AwaitingPayment (sys_db s)"
    and "chat_waits s chat oid \<Longrightarrow> chat_waits s chat' oid \<Longrightarrow> chat = chat'"
  using assms unfolding system_ok_def by blast+

lemma waits_chat_db: "waits (as_shop (c\<lparr>ch_db := d\<rparr>)) oid = waits (as_shop c) oid"
  by (simp add: waits_def as_shop_def)

lemma system_db_step:
  assumes "system_ok s" and "orders_ok d" and "keeps_open (sys_db s) d"
  shows "system_ok (s\<lparr>sys_db := d\<rparr>)"
  unfolding system_ok_def
proof (intro conjI allI impI)
  fix chat oid
  assume "chat_waits (s\<lparr>sys_db := d\<rparr>) chat oid"
  then have "chat_waits s chat oid" by (simp add: chat_waits_def)
  with system_okD(2) [OF assms(1)] assms(3) show "status_is oid AwaitingPayment (sys_db (s\<lparr>sys_db := d\<rparr>))"
    by (simp add: keeps_open_def)
next
  fix chat chat' oid
  assume "chat_waits (s\<lparr>sys_db := d\<rparr>) chat oid" "chat_waits (s\<lparr>sys_db := d\<rparr>) chat' oid"
  then show "chat = chat'" by (intro system_okD(3) [OF assms(1)]) (simp_all add: chat_waits_def)
qed (use assms(2) in simp)

lemma system_chat_step:
  assumes ok: "system_ok s" and tame: "tame (as_shop (chat_now b user s)) (as_shop c)"
  defines "me \<equiv> (e_reseller (be_shop b), user)"
  shows "system_ok (s\<lparr>sys_db := ch_db c, sys_chats := (sys_chats s)(me := c)\<rparr>)"
proof -
  let ?s = "s\<lparr>sys_db := ch_db c, sys_chats := (sys_chats s)(me := c)\<rparr>"
  have mine: "waits (as_shop (chat_now b user s)) oid = chat_waits s me oid" "ch_db (chat_now b user s) = sys_db s" for oid
    by (simp_all add: chat_now_def chat_waits_def me_def waits_chat_db)
  have after: "chat_waits ?s chat oid = (if chat = me then waits (as_shop c) oid else chat_waits s chat oid)" for chat oid
    by (simp add: chat_waits_def)
  have new: "status_is oid AwaitingPayment (ch_db c)"
    "chat_waits s me oid \<or> lookup o_id oid (orders (sys_db s)) = None" if "waits (as_shop c) oid" for oid
    using tame that by (auto simp: tame_def mine)
  have old: "status_is oid AwaitingPayment (ch_db c)" if "chat_waits s chat oid" "chat \<noteq> me" for chat oid
  proof -
    have "status_is oid AwaitingPayment (sys_db s)" "\<not> chat_waits s me oid"
      using system_okD(2,3) [OF ok that(1)] that(2) by blast+
    with tame show ?thesis by (auto simp: tame_def mine)
  qed
  have apart: False if "waits (as_shop c) oid" "chat_waits s chat oid" "chat \<noteq> me" for chat oid
  proof -
    have "status_is oid AwaitingPayment (sys_db s)" by (rule system_okD(2) [OF ok that(2)])
    then have "lookup o_id oid (orders (sys_db s)) \<noteq> None" by (auto dest: status_isD)
    with new(2) [OF that(1)] have "chat_waits s me oid" by blast
    with system_okD(3) [OF ok that(2)] that(3) show False by blast
  qed
  show ?thesis
    unfolding system_ok_def
  proof (intro conjI allI impI)
    show "orders_ok (sys_db ?s)" using tame by (simp add: tame_def)
  next
    fix chat oid
    assume "chat_waits ?s chat oid"
    then show "status_is oid AwaitingPayment (sys_db ?s)"
      unfolding after using new(1) old by (cases "chat = me") simp_all
  next
    fix chat chat' oid
    assume "chat_waits ?s chat oid" "chat_waits ?s chat' oid"
    then show "chat = chat'"
      unfolding after using apart [of oid] system_okD(3) [OF ok, of chat oid chat']
      by (cases "chat = me"; cases "chat' = me") (simp_all, blast+)
  qed
qed

lemma update_step:
  assumes "system_ok s" and "allowed (Update b user u) s"
  shows "system_ok (system_step (Update b user u) s) \<and> lives (sys_db s) (sys_db (system_step (Update b user u) s))
    \<and> (keeps_balances u \<longrightarrow> moves (int (photos_of u)) (sys_db s) (sys_db (system_step (Update b user u) s)))"
proof -
  let ?c = "feed_update b user u (chat_now b user s)"
  have "ready (as_shop (chat_now b user s))"
    using system_okD(1,2) [OF assms(1)] by (simp add: ready_def chat_now_def waits_chat_db chat_waits_def)
  from update_turn [OF this, of u b user] assms(2)
  have turn: "tame (as_shop (chat_now b user s)) (as_shop ?c)"
    "keeps_balances u \<longrightarrow> turn (int (photos_of u)) (as_shop (chat_now b user s)) (as_shop ?c)" by simp_all
  have db: "ch_db (chat_now b user s) = sys_db s" by (simp add: chat_now_def)
  from system_chat_step [OF assms(1) turn(1)] turn db show ?thesis
    by (simp add: Let_def turn_tame) (simp add: tame_def)
qed

lemma admin_step:
  assumes "system_ok s" and "allowed (AdminPresses ev) s"
  shows "system_ok (system_step (AdminPresses ev) s) \<and> moves 0 (sys_db s) (sys_db (system_step (AdminPresses ev) s))"
proof -
  have "of_staff ev" "in_time ev (sys_db s)" using assms(2) by (cases ev; simp)+
  then have calm: "calm (sys_db s) (order_step ev (sys_db s))" using staff_calm system_okD(1) [OF assms(1)] by blast
  with system_db_step [OF assms(1) calm_ok [OF calm]] show ?thesis by (simp add: calm_def)
qed

lemma other_step:
  assumes "system_ok s" and "allowed (OtherWork f) s"
  shows "system_ok (system_step (OtherWork f) s) \<and> lives (sys_db s) (sys_db (system_step (OtherWork f) s))
    \<and> (same_money (OtherWork f) s \<longrightarrow> moves 0 (sys_db s) (sys_db (system_step (OtherWork f) s)))"
proof -
  let ?d = "f (sys_db s)"
  have same: "orders ?d = orders (sys_db s)" "disputes ?d = disputes (sys_db s)" using assms(2) by simp_all
  have ok: "orders_ok ?d" using system_okD(1) [OF assms(1)] same by (simp add: orders_ok_def)
  have "moves 0 (sys_db s) ?d" if "balances ?d = balances (sys_db s)"
    using spares_calm [OF system_okD(1) [OF assms(1)], of ?d] that same by (simp add: spares_def calm_def)
  with system_db_step [OF assms(1) ok keeps_open_same [OF same(1)]] lives_same [OF same(1)] show ?thesis by simp
qed

lemma step_keeps:
  assumes "system_ok s" and "allowed ev s"
  shows "system_ok (system_step ev s) \<and> lives (sys_db s) (sys_db (system_step ev s))"
    and "same_money ev s \<Longrightarrow> moves (int (system_rounding ev)) (sys_db s) (sys_db (system_step ev s))"
  using assms update_step admin_step other_step
  by (cases ev; auto simp: moves_def simp del: allowed.simps system_step.simps)+

interpretation system_life: living system_step allowed system_ok sys_db
  by unfold_locales (use step_keeps(1) in blast)+

interpretation system_run: moving system_step "\<lambda>ev s. allowed ev s \<and> same_money ev s" system_ok sys_db system_rounding
  by unfold_locales (use step_keeps in \<open>auto simp: moves_def\<close>)

section \<open>The buttons that are shown are in time\<close>

fun buttons_of :: "panel_message \<Rightarrow> callback list" where
  "buttons_of (Posted r (Some rows)) = map snd (concat rows)"
| "buttons_of (Edited r (Some rows)) = map snd (concat rows)"
| "buttons_of _ = []"

definition newly_shown :: "panel \<Rightarrow> panel \<Rightarrow> callback list" where
  "newly_shown w w' = concat (map buttons_of (drop (length (pn_shown w)) (pn_shown w')))"

fun offered_in_time :: "callback \<Rightarrow> db \<Rightarrow> bool" where
  "offered_in_time (OnId OpenDisputeButton i) d \<longleftrightarrow> status_is i Rejected d"
| "offered_in_time cb d \<longleftrightarrow> button_in_time cb d"

lemma fold_post_shown:
  "pn_shown (fold (\<lambda>r. post (f r) (Some (k r))) rs w) = pn_shown w @ map (\<lambda>r. Posted (f r) (Some (k r))) rs"
  by (induction rs arbitrary: w) (simp_all add: post_def show_message_def)

lemma status_of_row: "wf_table o_id (orders d) \<Longrightarrow> r \<in> set (trows (orders d)) \<Longrightarrow> status_is (o_id r) (o_status r) d"
  using orders.lookup_iff [of "orders d" "o_id r" r] by (simp add: status_is_def)

text \<open>
  The list of the orders, the review of a receipt that is under review and the rejection of it show
  only buttons about orders that are in time for the database they leave.
\<close>

theorem order_buttons_shown_in_time:
  fixes e :: panel_env and user :: int
  assumes "wf_table o_id (orders (pn_db w))" and "button_in_time cb (pn_db w)"
    and "cb \<in> {Menu RmenuOrders, OnId ApproveReceiptButton i, OnId RejectReceiptButton i}"
  defines "w' \<equiv> snd (press_button e user cb w)"
  shows "list_all (\<lambda>cb'. offered_in_time cb' (pn_db w')) (newly_shown w w')"
proof (cases "may_act (pe_reseller e) user (pn_db w)")
  case False
  with assms(3) show ?thesis
    by (auto simp: w'_def press_button_def newly_shown_def returns_def alert_def show_message_def)
next
  case True
  note wf = assms(1)
  from assms(3) consider (orders) "cb = Menu RmenuOrders" | (approve) "cb = OnId ApproveReceiptButton i"
    | (reject) "cb = OnId RejectReceiptButton i" by blast
  then show ?thesis
  proof cases
    case orders
    with True show ?thesis
      using status_of_row [OF wf]
      by (auto simp: w'_def press_button_def list_pending_orders_cb_def order_panel_def Let_def returns_def newly_shown_def
          fold_post_shown list_all_iff fetch_all_def order_review_buttons_def activate_order_button_def
          orders_refresh_button_def fold_post_db) (metis)+
  next
    case approve
    then have "status_is i AwaitingReceiptReview (pn_db w)" using assms(2) by simp
    with approve True show ?thesis
      by (auto simp: w'_def press_button_def approve_receipt_def Let_def returns_def newly_shown_def post_def
          show_message_def activate_order_button_def status_is_def confirm_order_def orders.lookup_update_id change_db_def
          split: option.splits)
  next
    case reject
    then have "status_is i AwaitingReceiptReview (pn_db w)" using assms(2) by simp
    with reject True show ?thesis
      by (auto simp: w'_def press_button_def reject_receipt_def Let_def returns_def newly_shown_def post_def
          show_message_def dispute_button_def status_is_def reject_order_def orders.lookup_update_id change_db_def
          split: option.splits)
  qed
qed

lemma order_buttons_shown_in_time_witness:
  "list_all (\<lambda>cb. offered_in_time cb demo_shop_db)
     (newly_shown (as_panel None (demo_chat\<lparr>ch_db := demo_shop_db\<rparr>))
       (snd (press_button (panel_env_of demo_bot_env) 700 (Menu RmenuOrders) (as_panel None (demo_chat\<lparr>ch_db := demo_shop_db\<rparr>)))))"
proof -
  have wf: "wf_table o_id (orders (pn_db (as_panel None (demo_chat\<lparr>ch_db := demo_shop_db\<rparr>))))"
    and same: "pn_db (snd (press_button (panel_env_of demo_bot_env) 700 (Menu RmenuOrders)
        (as_panel None (demo_chat\<lparr>ch_db := demo_shop_db\<rparr>)))) = demo_shop_db"
    by code_simp+
  from order_buttons_shown_in_time [OF wf, of "Menu RmenuOrders" 1 "panel_env_of demo_bot_env" 700] same
  show ?thesis by simp
qed

text \<open>A platform whose chats are at rest is in order.\<close>

lemma system_start:
  assumes "orders_ok (sys_db s)" and "\<And>chat. ch_state (sys_chats s chat) = None"
  shows "system_ok s"
  using assms by (simp add: system_ok_def chat_waits_def waits_def as_shop_def)

section \<open>Properties\<close>

text \<open>
  Property C5: updates keep the orders in order. Any number of customers, owners and operators write
  anything to the bots of any shops and press any buttons, those about orders while they are on
  offer, the administrator decides disputes, and everything else goes on in between: a chat that
  waits for a receipt waits for an order that is open, no other chat waits for this order, and every
  order keeps what identifies it and moves along its state machine. When no other work and no
  confirmed top-up changes a balance, the balance of a shop together with the commission of its
  orders under way stays what it was, up to a hundredth for each photo that was sent.
\<close>

theorem updates_keep_orders_in_order:
  assumes "system_ok s" and "always allowed system_step evs s"
  defines "s' \<equiv> fold system_step evs s"
  shows "(if chat_waits s' chat oid then status_is oid AwaitingPayment (sys_db s')
        \<and> (if chat_waits s' chat' oid then chat' = chat else True) else True)
    \<and> (case lookup o_id oid (orders (sys_db s)) of
         None \<Rightarrow> (case lookup o_id oid (orders (sys_db s')) of
             None \<Rightarrow> True | Some ord' \<Rightarrow> lives_on (birth ord') (o_status ord'))
       | Some ord \<Rightarrow> (case lookup o_id oid (orders (sys_db s')) of
             None \<Rightarrow> False
           | Some ord' \<Rightarrow> same_order ord ord' \<and> lives_on (o_status ord) (o_status ord')
               \<and> (if ended_order (o_status ord) then o_status ord' = o_status ord else True)))
    \<and> (if always (\<lambda>ev s. allowed ev s \<and> same_money ev s) system_step evs s
       then \<bar>holdings rid (sys_db s') - holdings rid (sys_db s)\<bar> \<le> int (sum_list (map system_rounding evs))
       else True)"
proof (intro conjI)
  have ok: "system_ok s'" unfolding s'_def by (rule system_life.run_keeps [OF assms(1,2)])
  show "if chat_waits s' chat oid then status_is oid AwaitingPayment (sys_db s')
        \<and> (if chat_waits s' chat' oid then chat' = chat else True) else True"
    using system_okD(2,3) [OF ok] by simp
  show "if always (\<lambda>ev s. allowed ev s \<and> same_money ev s) system_step evs s
       then \<bar>holdings rid (sys_db s') - holdings rid (sys_db s)\<bar> \<le> int (sum_list (map system_rounding evs))
       else True"
    unfolding s'_def using system_run.run_holdings [OF assms(1)] by simp
qed (rule lives_cases [OF system_life.run_lives [OF assms(1,2), folded s'_def]])

text \<open>A receipt is sent twice, and the owner rejects it; the second photo reaches no handler.\<close>

definition demo_waiting :: chat where
  "demo_waiting = demo_chat\<lparr>ch_db := demo_order_db, ch_state := Some (InShop OrderWaitingReceipt),
     ch_shop := empty_data\<lparr>data_order_id := Some 1\<rparr>\<rparr>"

definition demo_system :: system where
  "demo_system = \<lparr>sys_db = demo_order_db, sys_chats = (\<lambda>chat. demo_chat)((1, 900) := demo_waiting)\<rparr>"

definition demo_updates :: "system_event list" where
  "demo_updates = [Update demo_bot_env 900 (Received (Photo ''p'')), Update demo_bot_env 900 (Received (Photo ''p'')),
     Update demo_bot_env 700 (Pressed (OnId RejectReceiptButton 1)), Update demo_bot_env 900 (Received (Photo ''q''))]"

lemma updates_keep_orders_in_order_witness:
  "status_is 1 Rejected (sys_db (fold system_step demo_updates demo_system))
   \<and> \<bar>holdings 1 (sys_db (fold system_step demo_updates demo_system)) - holdings 1 (sys_db demo_system)\<bar> \<le> 3"
proof
  show "status_is 1 Rejected (sys_db (fold system_step demo_updates demo_system))" by code_simp
  have "orders_ok demo_order_db" "status_is 1 AwaitingPayment demo_order_db" by code_simp+
  then have ok: "system_ok demo_system"
    by (simp add: system_ok_def chat_waits_def demo_system_def demo_waiting_def demo_chat_def waits_def as_shop_def)
  have run: "always allowed system_step demo_updates demo_system"
    "always (\<lambda>ev s. allowed ev s \<and> same_money ev s) system_step demo_updates demo_system" by code_simp+
  have "int (sum_list (map system_rounding demo_updates)) = 3" by (simp add: demo_updates_def)
  with updates_keep_orders_in_order [OF ok run(1), of "(1, 900)" 1 "(1, 900)" 1] run(2)
  show "\<bar>holdings 1 (sys_db (fold system_step demo_updates demo_system)) - holdings 1 (sys_db demo_system)\<bar> \<le> 3"
    by (simp only: if_True)
qed

end
