(* ===== verification/Migrator.thy ===== *)
theory Migrator
  imports Prelude "HOL-Library.Char_ord" "HOL-Library.List_Lexorder"
begin

text \<open>
  The runner of the schema migrations (\<^verbatim>\<open>database/migrator.py\<close>): splitting a file into
  statements, recording the files that are there at the first start, and executing new
  files in order of their names. Executing a statement and rolling back are MySQL's, and
  are parameters: \<open>exec s c\<close> is the content of the database after the statement or nothing
  when it raises, \<open>rollback c c'\<close> what a rollback leaves of a transaction that started at
  \<open>c\<close> and has reached \<open>c'\<close> (a statement that changes the schema commits at once in MySQL,
  so this need not be \<open>c\<close>).
\<close>

section \<open>Splitting\<close>

text \<open>\<^verbatim>\<open>"\n".join(lines)\<close>.\<close>

fun unlines :: "string list \<Rightarrow> string" where
  "unlines [] = []"
| "unlines [l] = l"
| "unlines (l # l' # ls) = l @ newline # unlines (l' # ls)"

definition is_comment_or_blank :: "string \<Rightarrow> bool" where
  "is_comment_or_blank line \<longleftrightarrow> take 2 (strip line) = ''--'' \<or> strip line = []"

definition split_statements :: "string \<Rightarrow> string list" where
  "split_statements sql_text =
     (let lines = filter (\<lambda>l. \<not> is_comment_or_blank l) (splitlines sql_text);
          cleaned = unlines lines;
          statements = map strip (split_on (CHR '';'') cleaned)
      in filter (\<lambda>s. s \<noteq> []) statements)"

section \<open>Running\<close>

text \<open>The table \<^verbatim>\<open>schema_migrations\<close> and everything else in the database.\<close>

record 's migration_db =
  applied :: "string list"
  content :: 's

type_synonym migration_file = "string \<times> string"

fun run_statements :: "(string \<Rightarrow> 's \<Rightarrow> 's option) \<Rightarrow> string list \<Rightarrow> 's \<Rightarrow> 's \<times> bool" where
  "run_statements exec [] c = (c, True)"
| "run_statements exec (s # ss) c =
     (case exec s c of None \<Rightarrow> (c, False) | Some c1 \<Rightarrow> run_statements exec ss c1)"

fun run_pending ::
  "(string \<Rightarrow> 's \<Rightarrow> 's option) \<Rightarrow> ('s \<Rightarrow> 's \<Rightarrow> 's) \<Rightarrow> migration_file list \<Rightarrow>
   's migration_db \<Rightarrow> ('s migration_db, unit) outcome" where
  "run_pending exec rollback [] m = (Inr (), m)"
| "run_pending exec rollback ((name, sql) # fs) m =
     (case run_statements exec (split_statements sql) (content m) of
        (c, True) \<Rightarrow>
          run_pending exec rollback fs (m\<lparr>applied := applied m @ [name], content := c\<rparr>)
      | (c, False) \<Rightarrow> (Inl RuntimeError, m\<lparr>content := rollback (content m) c\<rparr>))"

text \<open>
  The directory may be missing; otherwise its files are sorted by name. An insertion does not look at the primary key
  of \<^verbatim>\<open>schema_migrations\<close>: the names in a directory differ and recorded ones are not inserted again, so it is
  never met (\<open>migrations_run_once\<close> shows that the recorded names stay distinct).
\<close>

definition run_migrations ::
  "(string \<Rightarrow> 's \<Rightarrow> 's option) \<Rightarrow> ('s \<Rightarrow> 's \<Rightarrow> 's) \<Rightarrow> migration_file list option \<Rightarrow>
   's migration_db \<Rightarrow> ('s migration_db, unit) outcome" where
  "run_migrations exec rollback dir m =
     (case dir of
        None \<Rightarrow> (Inr (), m)
      | Some files \<Rightarrow>
          let all_files = sort_key fst files in
          if all_files = [] then (Inr (), m)
          else if length (applied m) = 0
          then (Inr (), m\<lparr>applied := applied m @ map fst all_files\<rparr>)
          else (let pending = filter (\<lambda>f. fst f \<notin> set (applied m)) all_files
                in if pending = [] then (Inr (), m)
                   else run_pending exec rollback pending m))"

section \<open>Elementary facts\<close>

lemma run_statements_append:
  "run_statements exec (ss @ ts) c =
     (case run_statements exec ss c of (c1, True) \<Rightarrow> run_statements exec ts c1 | (c1, False) \<Rightarrow> (c1, False))"
  by (induction ss arbitrary: c) (auto split: option.split)

definition statements_of :: "migration_file list \<Rightarrow> string list" where
  "statements_of fs = concat (map (split_statements \<circ> snd) fs)"

lemma statements_of_simps [simp]:
  "statements_of [] = []" "statements_of (f # fs) = split_statements (snd f) @ statements_of fs"
  "statements_of (fs @ gs) = statements_of fs @ statements_of gs"
  by (simp_all add: statements_of_def)

lemma run_pending_ok:
  assumes "run_pending exec rollback fs m = (Inr (), m')"
  shows "applied m' = applied m @ map fst fs
    \<and> run_statements exec (statements_of fs) (content m) = (content m', True)"
  using assms
proof (induction fs arbitrary: m)
  case (Cons f fs)
  obtain name sql where f: "f = (name, sql)" by (cases f)
  obtain c ok where run: "run_statements exec (split_statements sql) (content m) = (c, ok)"
    by (cases "run_statements exec (split_statements sql) (content m)")
  with Cons.prems have ok: ok
    and rest: "run_pending exec rollback fs (m\<lparr>applied := applied m @ [name], content := c\<rparr>) = (Inr (), m')"
    by (auto simp: f split: bool.splits)
  from Cons.IH [OF rest] show ?case by (simp add: f run_statements_append run ok)
qed simp

text \<open>
  A run that fails: the files before the failing one went through and are recorded, the failing one
  is rolled back and is not.
\<close>

definition stopped_at ::
  "(string \<Rightarrow> 's \<Rightarrow> 's option) \<Rightarrow> ('s \<Rightarrow> 's \<Rightarrow> 's) \<Rightarrow> migration_file list \<Rightarrow> migration_file \<Rightarrow> 's \<Rightarrow> 's \<Rightarrow> bool" where
  "stopped_at exec rollback before failing c0 c2 \<longleftrightarrow>
     (\<exists>c c1. run_statements exec (statements_of before) c0 = (c, True)
        \<and> run_statements exec (split_statements (snd failing)) c = (c1, False) \<and> c2 = rollback c c1)"

lemma stopped_later:
  "run_statements exec (statements_of fs) c0 = (c, True) \<Longrightarrow> stopped_at exec rollback before failing c c2 \<Longrightarrow>
   stopped_at exec rollback (fs @ before) failing c0 c2"
  by (auto simp: stopped_at_def run_statements_append)

lemma run_pending_failed:
  assumes "run_pending exec rollback fs m = (Inl e, m')"
  shows "\<exists>before failing after. fs = before @ failing # after \<and> applied m' = applied m @ map fst before
    \<and> stopped_at exec rollback before failing (content m) (content m')"
  using assms
proof (induction fs arbitrary: m)
  case (Cons f fs)
  obtain name sql where f: "f = (name, sql)" by (cases f)
  obtain c ok where run: "run_statements exec (split_statements sql) (content m) = (c, ok)" by fastforce
  show ?case
  proof (cases ok)
    case True
    with Cons.prems run have "run_pending exec rollback fs
        (m\<lparr>applied := applied m @ [name], content := c\<rparr>) = (Inl e, m')" by (simp add: f)
    from Cons.IH [OF this] obtain before failing after where
      "fs = before @ failing # after" "applied m' = (applied m @ [name]) @ map fst before"
      "stopped_at exec rollback before failing c (content m')" by auto
    with stopped_later [of exec "[f]" "content m" c rollback before failing "content m'"] run True show ?thesis
      by (intro exI [of _ "f # before"] exI [of _ failing] exI [of _ after]) (simp add: f)
  next
    case False
    with Cons.prems run have "m' = m\<lparr>content := rollback (content m) c\<rparr>" by (auto simp: f)
    with run False have "stopped_at exec rollback [] f (content m) (content m') \<and> applied m' = applied m"
      by (simp add: stopped_at_def f)
    then show ?thesis by (intro exI [of _ "[]"] exI [of _ f] exI [of _ fs]) simp
  qed
qed simp

section \<open>One start after the other\<close>

definition files_of :: "migration_file list option \<Rightarrow> migration_file list" where
  "files_of dir = (case dir of None \<Rightarrow> [] | Some files \<Rightarrow> files)"

definition unrecorded :: "string list \<Rightarrow> migration_file list option \<Rightarrow> migration_file list" where
  "unrecorded names dir = filter (\<lambda>f. fst f \<notin> set names) (sort_key fst (files_of dir))"

lemma run_migrations_eq:
  "run_migrations exec rollback dir m =
     (if applied m = [] then (Inr (), m\<lparr>applied := map fst (unrecorded [] dir)\<rparr>)
      else run_pending exec rollback (unrecorded (applied m) dir) m)"
proof -
  have "sort_key fst fs = [] \<longleftrightarrow> fs = []" for fs :: "migration_file list"
    by (metis length_0_conv length_sort)
  then show ?thesis
    by (cases m; cases "applied m = []")
      (auto simp: run_migrations_def unrecorded_def files_of_def Let_def split: option.split)
qed

lemma unrecorded_names: "fst ` set (unrecorded names dir) = fst ` set (files_of dir) - set names"
  by (auto simp: unrecorded_def)

lemma unrecorded_distinct: "distinct (map fst (files_of dir)) \<Longrightarrow> distinct (map fst (unrecorded names dir))"
  by (auto simp: unrecorded_def distinct_map inj_on_def)

text \<open>
  The program is started again and again, each time with the directory of its version, until a start
  fails.
\<close>

fun run_starts ::
  "(string \<Rightarrow> 's \<Rightarrow> 's option) \<Rightarrow> ('s \<Rightarrow> 's \<Rightarrow> 's) \<Rightarrow> migration_file list option list \<Rightarrow>
   's migration_db \<Rightarrow> ('s migration_db, unit) outcome" where
  "run_starts exec rollback [] m = (Inr (), m)"
| "run_starts exec rollback (dir # dirs) m =
     (case run_migrations exec rollback dir m of
        (Inl e, m1) \<Rightarrow> (Inl e, m1)
      | (Inr _, m1) \<Rightarrow> run_starts exec rollback dirs m1)"

text \<open>
  What these starts are to execute: at each start, in the order of their names, the files that no start
  before has seen; the start that finds nothing recorded only records.
\<close>

fun executed_files :: "string list \<Rightarrow> migration_file list option list \<Rightarrow> migration_file list" where
  "executed_files names [] = []"
| "executed_files names (dir # dirs) =
     (let new = unrecorded names dir
      in (if names = [] then [] else new) @ executed_files (names @ map fst new) dirs)"

lemma executed_files_once:
  assumes "\<forall>dir \<in> set dirs. distinct (map fst (files_of dir))"
  shows "distinct (map fst (executed_files names dirs)) \<and> fst ` set (executed_files names dirs) \<inter> set names = {}"
  using assms
proof (induction dirs arbitrary: names)
  case (Cons dir dirs)
  with Cons.IH [of "names @ map fst (unrecorded names dir)"] unrecorded_names [of names dir] unrecorded_distinct [of dir names]
  show ?case by (auto simp: Let_def)
qed simp

text \<open>What one start does, with what it is to execute.\<close>

lemma start_ok:
  assumes "run_migrations exec rollback dir m = (Inr (), m1)"
  shows "applied m1 = applied m @ map fst (unrecorded (applied m) dir)
    \<and> run_statements exec (statements_of (if applied m = [] then [] else unrecorded (applied m) dir)) (content m) =
        (content m1, True)"
  using assms run_pending_ok [of exec rollback "unrecorded (applied m) dir" m m1]
  by (auto simp: run_migrations_eq split: if_splits)

lemma start_failed:
  assumes "run_migrations exec rollback dir m = (Inl e, m1)"
  shows "applied m \<noteq> [] \<and> (\<exists>before failing after. unrecorded (applied m) dir = before @ failing # after
    \<and> applied m1 = applied m @ map fst before \<and> stopped_at exec rollback before failing (content m) (content m1))"
  using assms run_pending_failed [of exec rollback "unrecorded (applied m) dir" m e m1]
  by (auto simp: run_migrations_eq split: if_splits)

section \<open>Properties\<close>

lemma starts_ok:
  assumes "run_starts exec rollback dirs m = (Inr (), m')"
    and "\<forall>dir \<in> set dirs. distinct (map fst (files_of dir))" and "distinct (applied m)"
  shows "distinct (applied m') \<and> set (applied m') = set (applied m) \<union> (\<Union>dir \<in> set dirs. fst ` set (files_of dir))
    \<and> run_statements exec (statements_of (executed_files (applied m) dirs)) (content m) = (content m', True)"
  using assms
proof (induction dirs arbitrary: m)
  case (Cons dir dirs)
  obtain m1 where start: "run_migrations exec rollback dir m = (Inr (), m1)"
    and rest: "run_starts exec rollback dirs m1 = (Inr (), m')"
    using Cons.prems(1) by (auto split: prod.splits sum.splits)
  note one = start_ok [OF start]
  have "distinct (applied m1)"
    using one Cons.prems(2,3) unrecorded_names [of "applied m" dir] unrecorded_distinct [of dir "applied m"] by auto
  with Cons.IH [OF rest] Cons.prems(2) one unrecorded_names [of "applied m" dir]
  show ?case by (auto simp: Let_def run_statements_append)
qed simp

lemma starts_failed:
  assumes "run_starts exec rollback dirs m = (Inl e, m')"
    and "\<forall>dir \<in> set dirs. distinct (map fst (files_of dir))" and "distinct (applied m)"
  shows "\<exists>before failing after. executed_files (applied m) dirs = before @ failing # after
    \<and> stopped_at exec rollback before failing (content m) (content m')
    \<and> distinct (applied m') \<and> fst failing \<notin> set (applied m') \<and> set (applied m) \<union> fst ` set before \<subseteq> set (applied m')"
  using assms
proof (induction dirs arbitrary: m)
  case (Cons dir dirs)
  let ?new = "unrecorded (applied m) dir"
  show ?case
  proof (cases "run_migrations exec rollback dir m")
    case (Pair res m1)
    show ?thesis
    proof (cases res)
      case (Inl x)
      with Pair Cons.prems(1) have "run_migrations exec rollback dir m = (Inl x, m')" by simp
      from start_failed [OF this] obtain before failing after where
        "applied m \<noteq> []" "?new = before @ failing # after" "applied m' = applied m @ map fst before"
        "stopped_at exec rollback before failing (content m) (content m')" by blast
      then show ?thesis
        using Cons.prems(2,3) unrecorded_names [of "applied m" dir] unrecorded_distinct [of dir "applied m"]
        by (intro exI [of _ before] exI [of _ failing] exI) (auto simp: Let_def)
    next
      case (Inr u)
      with Pair Cons.prems(1) have start: "run_migrations exec rollback dir m = (Inr (), m1)"
        and rest: "run_starts exec rollback dirs m1 = (Inl e, m')" by auto
      note one = start_ok [OF start]
      have "distinct (applied m1)"
        using one Cons.prems(2,3) unrecorded_names [of "applied m" dir] unrecorded_distinct [of dir "applied m"] by auto
      with Cons.IH [OF rest] Cons.prems(2) obtain before failing after where
        "executed_files (applied m1) dirs = before @ failing # after"
        "stopped_at exec rollback before failing (content m1) (content m')"
        "distinct (applied m')" "fst failing \<notin> set (applied m')"
        "set (applied m1) \<union> fst ` set before \<subseteq> set (applied m')" by auto
      with one show ?thesis
        by (intro exI [of _ "(if applied m = [] then [] else ?new) @ before"] exI [of _ failing] exI [of _ after])
          (auto simp: Let_def intro: stopped_later)
    qed
  qed
qed simp

text \<open>
  Property C39: every migration once. The program is started any number of times, with files added to or
  missing from the directory in between. The files that these starts execute are, start by start and in the
  order of their names, exactly those not recorded before, no name twice and none that was recorded at the
  beginning; only the first start of all executes nothing. When all starts succeed, the database is
  the one that the statements of these files make, in this order and nothing else, and exactly the names of
  all files seen are recorded, each once (so no insertion meets the primary key). When a start fails, the files
  before the failing one went through and are recorded, and the failing one is rolled back and not recorded.
\<close>

theorem migrations_run_once:
  assumes "\<forall>dir \<in> set dirs. distinct (map fst (files_of dir))" and "distinct (applied m)"
  shows "let ran = executed_files (applied m) dirs
    in distinct (map fst ran) \<and> fst ` set ran \<inter> set (applied m) = {}
     \<and> (case run_starts exec rollback dirs m of
          (Inr _, m') \<Rightarrow>
            distinct (applied m') \<and> set (applied m') = set (applied m) \<union> (\<Union>dir \<in> set dirs. fst ` set (files_of dir))
            \<and> run_statements exec (statements_of ran) (content m) = (content m', True)
        | (Inl _, m') \<Rightarrow>
            \<exists>before failing after. ran = before @ failing # after
            \<and> stopped_at exec rollback before failing (content m) (content m')
            \<and> distinct (applied m') \<and> fst failing \<notin> set (applied m')
            \<and> set (applied m) \<union> fst ` set before \<subseteq> set (applied m'))"
proof (cases "run_starts exec rollback dirs m")
  case (Pair res m')
  show ?thesis
    using executed_files_once [OF assms(1)] starts_ok [OF _ assms, of exec rollback m']
      starts_failed [OF _ assms, of exec rollback _ m']
    by (cases res) (simp_all add: Pair Let_def)
qed

definition demo_exec :: "string \<Rightarrow> string list \<Rightarrow> string list option" where
  "demo_exec s c = (if s = ''BAD'' then None else Some (c @ [s]))"

definition demo_files :: "migration_file list" where
  "demo_files = [(''0002_b.sql'', ''B1; B2;''), (''0001_a.sql'', ''A;'')]"

definition demo_starts :: "migration_file list option list" where
  "demo_starts = [Some demo_files, Some demo_files, Some ((''0003_c.sql'', ''C;'') # demo_files)]"

text \<open>The second file waits at the first of three starts, and a third one is added before the last.\<close>

lemma migrations_run_once_witness:
  "content (snd (run_starts demo_exec (\<lambda>c c'. c') demo_starts \<lparr>applied = [''0001_a.sql''], content = []\<rparr>)) =
     [''B1'', ''B2'', ''C'']"
proof -
  let ?m = "\<lparr>applied = [''0001_a.sql''], content = []\<rparr>"
  obtain m' where run: "run_starts demo_exec (\<lambda>c c'. c') demo_starts ?m = (Inr (), m')"
  proof -
    have "fst (run_starts demo_exec (\<lambda>c c'. c') demo_starts ?m) = Inr ()" by code_simp
    with that show thesis by (metis prod.collapse)
  qed
  have "\<forall>dir \<in> set demo_starts. distinct (map fst (files_of dir))" "distinct (applied ?m)"
    by (simp_all add: demo_starts_def demo_files_def files_of_def)
  from migrations_run_once [OF this, of demo_exec "\<lambda>c c'. c'"] run
  have "run_statements demo_exec (statements_of (executed_files (applied ?m) demo_starts)) (content ?m) = (content m', True)"
    by (simp add: Let_def)
  moreover have "run_statements demo_exec (statements_of (executed_files (applied ?m) demo_starts)) (content ?m) =
      ([''B1'', ''B2'', ''C''], True)" by code_simp
  ultimately show ?thesis using run by simp
qed

text \<open>
  The first start executes nothing. When no file is recorded yet, all files are
  recorded as applied and the database is otherwise left alone, and no later start with the
  same files ever executes them. On a database that was set up without them (the README
  names \<^verbatim>\<open>schema.sql\<close> and \<^verbatim>\<open>schema_phase3.sql\<close> only) their tables stay missing.
\<close>

theorem first_start_executes_nothing:
  assumes "applied m = []"
  shows "\<exists>m'. run_migrations exec rollback (Some files) m = (Inr (), m')
    \<and> content m' = content m \<and> set (applied m') = fst ` set files
    \<and> run_migrations exec' rollback' (Some files) m' = (Inr (), m')"
proof -
  let ?m' = "m\<lparr>applied := map fst (unrecorded [] (Some files))\<rparr>"
  have names: "set (applied ?m') = fst ` set files"
    using unrecorded_names [of "[]" "Some files"] by (simp add: files_of_def)
  then have "unrecorded (applied ?m') (Some files) = []"
    by (auto simp: unrecorded_def files_of_def filter_empty_conv)
  then have "run_migrations exec' rollback' (Some files) ?m' = (Inr (), ?m')"
    by (auto simp: run_migrations_eq)
  with names assms show ?thesis by (intro exI [of _ ?m']) (simp add: run_migrations_eq)
qed

lemma first_start_executes_nothing_witness:
  "\<exists>m'. run_migrations demo_exec (\<lambda>c c'. c') (Some demo_files) \<lparr>applied = [], content = []\<rparr> =
     (Inr (), m') \<and> content m' = [] \<and> set (applied m') = {''0001_a.sql'', ''0002_b.sql''}"
proof -
  have names: "fst ` set demo_files = {''0001_a.sql'', ''0002_b.sql''}"
    by (auto simp: demo_files_def)
  show ?thesis
    using first_start_executes_nothing [of "\<lparr>applied = [], content = []\<rparr>" demo_exec "\<lambda>c c'. c'"
        demo_files demo_exec "\<lambda>c c'. c'"]
    unfolding names by auto
qed

text \<open>Splitting what was written statement by statement.\<close>

definition plain_statement :: "string \<Rightarrow> bool" where
  "plain_statement s \<longleftrightarrow> s \<noteq> [] \<and> \<not> is_space (hd s) \<and> \<not> is_space (last s) \<and> CHR '';'' \<notin> set s
     \<and> take 2 s \<noteq> ''--'' \<and> (\<forall>x \<in> set s. \<not> is_line_break x)"

definition write_statements :: "string list \<Rightarrow> string" where
  "write_statements ss = concat (map (\<lambda>s. (s @ [CHR '';'']) @ [newline]) ss)"

lemma newline_no_semicolon: "newline \<noteq> CHR '';''" "\<not> is_line_break (CHR '';'')"
  by code_simp+

lemma split_unlines:
  "\<forall>s \<in> set (s # ss). CHR '';'' \<notin> set s \<Longrightarrow>
   split_on (CHR '';'') (unlines (map (\<lambda>s. s @ [CHR '';'']) (s # ss))) =
     s # map (\<lambda>s. newline # s) ss @ [[]]"
proof (induction ss arbitrary: s)
  case (Cons t ss)
  have "split_on (CHR '';'') (newline # unlines (map (\<lambda>s. s @ [CHR '';'']) (t # ss))) =
      (newline # t) # map (\<lambda>s. newline # s) ss @ [[]]"
    using Cons.IH [of t] Cons.prems newline_no_semicolon by simp
  with Cons.prems show ?case by (simp add: split_on_append)
qed (simp add: split_on_append)

lemma plain_line:
  assumes "plain_statement s"
  shows "\<not> is_comment_or_blank (s @ [CHR '';''])" and "strip s = s"
    and "\<forall>x \<in> set (s @ [CHR '';'']). \<not> is_line_break x"
proof -
  have "strip (s @ [CHR '';'']) = s @ [CHR '';'']"
    using assms by (intro strip_id) (auto simp: plain_statement_def is_space_def)
  moreover have "take 2 (s @ [CHR '';'']) \<noteq> ''--''"
    using assms by (cases s; cases "tl s") (auto simp: plain_statement_def)
  ultimately show "\<not> is_comment_or_blank (s @ [CHR '';''])" by (simp add: is_comment_or_blank_def)
qed (use assms in \<open>auto simp: plain_statement_def is_line_break_def intro: strip_id\<close>)

text \<open>
  Statements survive the splitting. Statements on one line each, without a
  semicolon inside, that do not begin like a comment, are given back one by one and in
  order when each is ended by a semicolon and a line feed.
\<close>

theorem split_statements_roundtrip:
  assumes "\<forall>s \<in> set ss. plain_statement s"
  shows "split_statements (write_statements ss) = ss"
proof -
  have lines: "splitlines (write_statements ss) = map (\<lambda>s. s @ [CHR '';'']) ss"
    using splitlines_lines [of "map (\<lambda>s. s @ [CHR '';'']) ss"] assms newline_no_semicolon
    by (simp add: write_statements_def o_def plain_statement_def)
  have keep: "filter (\<lambda>l. \<not> is_comment_or_blank l) (map (\<lambda>s. s @ [CHR '';'']) ss) =
      map (\<lambda>s. s @ [CHR '';'']) ss"
    using plain_line(1) assms by (intro filter_True) auto
  have blank: "strip [] = []" by (simp add: strip_def)
  show ?thesis
  proof (cases ss)
    case Nil
    then show ?thesis using lines blank by (simp add: split_statements_def)
  next
    case (Cons s rest)
    have split: "split_on (CHR '';'') (unlines (map (\<lambda>s. s @ [CHR '';'']) ss)) =
        s # map (\<lambda>s. newline # s) rest @ [[]]"
      using split_unlines [of s rest] assms by (auto simp: Cons plain_statement_def)
    have "map strip (map (\<lambda>s. newline # s) rest) = rest"
      using assms plain_line(2) by (auto simp: Cons strip_newline intro: map_idI)
    moreover have "strip s = s" "s \<noteq> []" "filter (\<lambda>s. s \<noteq> []) rest = rest"
      using assms plain_line(2) by (auto simp: Cons plain_statement_def filter_id_conv)
    ultimately show ?thesis
      unfolding split_statements_def Let_def lines keep split
      by (simp add: blank Cons del: map_map)
  qed
qed

lemma split_statements_roundtrip_witness:
  "split_statements (write_statements [''A 1'', ''B'']) = [''A 1'', ''B'']"
  by (rule split_statements_roundtrip) (simp add: plain_statement_def is_space_def is_line_break_def)

end
