(* ===== verification/Spec2Isabelle.thy ===== *)
theory Spec2Isabelle
  imports CustomerMoney StockRefinement Startup Strangers PanelRest PriceWaits ShopSystem Migrator
begin

text \<open>
  Baste is a platform on which resellers sell internet packages and charge codes: one Telegram
  bot per reseller, a bot for the administrator, and one MySQL database behind all of them. This
  development models the Python code under \<^verbatim>\<open>src/\<close>: the services that write the tables, the
  dialogs of customers and resellers that call them, the manager that runs the bots, and the
  migrations of the schema.

  \<^bold>\<open>How the parts interact.\<close> A message or a pressed button of a chat reaches the routers of a bot in
  a fixed order; the first handler whose filter accepts it runs, reads and writes the state and
  data of the chat (aiogram's FSM context), calls services, and sends messages. The services
  read and write rows; those that move money do so in one transaction that locks what it reads
  (\<^verbatim>\<open>SELECT ... FOR UPDATE\<close>). An exception that leaves a handler is logged and answered by the
  error handler of the bot. Handlers of different chats interleave between their database
  calls.

  \<^bold>\<open>State and effects.\<close> \<open>Schema\<close> has one record per table and the record \<open>db\<close> of all tables;
  \<open>Tables\<close> has the table type (rows in the order of their keys, the next automatic key) with
  lookup, insertion, update and deletion, and \<open>Prelude\<close> decimals in hundredths
  (\<^verbatim>\<open>DECIMAL(15,2)\<close>), rounding, numerals, text functions and outcomes. A step that can raise is a
  function from the state to a pair: \<open>Inl\<close> of the exception or \<open>Inr\<close> of the value, and the
  state that is left. \<open>transaction\<close> restores the state when the body raises, as \<^verbatim>\<open>db.py\<close> does by
  rolling back. Where a service splits its work between reads outside the transaction and the
  transaction, the model has one function for the checks (with the values they read as a
  plan) and one for the transaction; sequences of these steps in any order are the
  interleavings.

  \<^bold>\<open>Theories.\<close>
  \<^item> \<open>Prelude\<close>, \<open>Tables\<close>, \<open>Schema\<close>: as above (\<^verbatim>\<open>database/db.py\<close>, \<^verbatim>\<open>database/schema*.sql\<close>).
  \<^item> \<open>CommissionWallet\<close>: \<^verbatim>\<open>services/wallet_service.py\<close>; the interface of the wallet as a locale, and
    the ledger.
  \<^item> \<open>CustomerWallet\<close>: \<^verbatim>\<open>services/customer_wallet_service.py\<close>; top-ups, their confirmation and its
    interleavings.
  \<^item> \<open>Blacklist\<close>, \<open>Disputes\<close>: \<^verbatim>\<open>services/blacklist_service.py\<close>, \<^verbatim>\<open>services/dispute_service.py\<close>.
  \<^item> \<open>Purchases\<close>, \<open>Orders\<close>: \<^verbatim>\<open>services/order_service.py\<close>; creation, wallet payment, receipts, review,
    activation, test mode, alerts. \<open>Purchases\<close> is the locale of a wallet debit that orders and
    charge codes share.
  \<^item> \<open>Charges\<close>: \<^verbatim>\<open>services/charge_service.py\<close>; stock and purchases of charge codes.
    \<open>StockRefinement\<close>: the same service as an abstract vault of purses and shelves, and the proof that
    the transactions on the tables refine it.
  \<^item> \<open>Promotions\<close>: \<^verbatim>\<open>services/discount_service.py\<close>, \<^verbatim>\<open>services/referral_service.py\<close>.
  \<^item> \<open>OrderLife\<close>: the state machine of an order across the services that write it, and where its
    commission is at each moment, for all sequences of their operations.
  \<^item> \<open>ShopSettings\<close>: cards, price floors, forced channels and crypto options of a shop
    (\<^verbatim>\<open>services/payment_methods_service.py\<close>, \<^verbatim>\<open>sanity_check.py\<close>, \<^verbatim>\<open>forced_join_service.py\<close>,
    \<^verbatim>\<open>crypto_service.py\<close>).
  \<^item> \<open>Access\<close>: \<^verbatim>\<open>core/permissions_middleware.py\<close> and what the buttons of orders do.
  \<^item> \<open>CustomerChat\<close>, \<open>CustomerCatalog\<close>, \<open>CustomerPurchase\<close>, \<open>CustomerCharge\<close>, \<open>CustomerTopup\<close>,
    \<open>CustomerBot\<close>: the dialogs of a customer (\<^verbatim>\<open>handlers/customer/\<close>) and the routing of his messages.
  \<^item> \<open>Conversations\<close>, \<open>CustomerMoney\<close>: theorems on conversations of any length, and on what a message
    can do to balances.
  \<^item> \<open>CatalogStore\<close>, \<open>CatalogShape\<close>: the statements of \<^verbatim>\<open>handlers/reseller/catalog.py\<close> with the
    foreign keys of the schema, and the shape that every catalog keeps.
  \<^item> \<open>PanelButtons\<close>: the callback data of \<^verbatim>\<open>utils/keyboards.py\<close>, written and read back through the
    filters of the routers.
  \<^item> \<open>PanelChat\<close>, \<open>PanelCatalog\<close>, \<open>PanelStock\<close>, \<open>PanelDialogs\<close>, \<open>PanelOrders\<close>, \<open>PanelBot\<close>: the panel
    of a reseller (\<^verbatim>\<open>handlers/reseller/\<close>), one definition per handler, and its routing.
  \<^item> \<open>PanelKeys\<close>, \<open>PanelPrices\<close>: the panel alone: which keys a state's data hold, and the dialogs of
    prices from the first button to the row.
  \<^item> \<open>ShopBot\<close>: the panel and the dialogs of the customers in one chat, with one state, one
    dictionary of data, buttons, messages and the error handler
    (\<^verbatim>\<open>core/bot_manager.py\<close>, \<^verbatim>\<open>core/error_handler.py\<close>), and what holds of all mixed chats.
  \<^item> \<open>PanelRest\<close>: a chat without a state holds no data of the panel. \<open>PriceWaits\<close>: messages of
    customers change no product, so a price below the floor waits in the whole bot for its button.
  \<^item> \<open>PanelFrame\<close>: what the panel leaves alone. \<open>CustomerTurns\<close>: what a message of a customer does to
    orders. \<open>ShopSystem\<close>: the chats of all users with the bots of all shops on one database, with the
    administrator and all other work in between: orders stay in order, as \<open>OrderLife\<close> states it.
  \<^item> \<open>Strangers\<close>: which buttons of the panel look at who presses them, and what somebody who is
    neither owner nor operator can do with the others.
  \<^item> \<open>Reports\<close>, \<open>PanelReports\<close>: \<^verbatim>\<open>services/report_service.py\<close>, \<^verbatim>\<open>services/customer_stats_service.py\<close>
    and the buttons of the panel that show them.
  \<^item> \<open>AdminBot\<close>, \<open>AdminFacts\<close>: the bot of the administrator (\<^verbatim>\<open>handlers/admin/\<close>), one definition per
    handler, and theorems on its dialogs across the bots.
  \<^item> \<open>Backup\<close>: \<^verbatim>\<open>services/backup_service.py\<close> and \<^verbatim>\<open>handlers/admin/backup.py\<close>, over tables by name and
    JSON values.
  \<^item> \<open>Platform\<close>: the connections of \<^verbatim>\<open>database/db.py\<close>, \<^verbatim>\<open>services/zarinpal_service.py\<close>,
    \<^verbatim>\<open>services/activity_log_service.py\<close>, and \<^verbatim>\<open>main.py\<close>: the loop of the alerts, start and end.
  \<^item> \<open>Startup\<close>: \<^verbatim>\<open>config.py\<close> and \<^verbatim>\<open>core/encryption.py\<close> while they are imported, the tokens of the shops
    from the dialog that stores them to the bot that uses them, and the alerts of missing credit
    (\<^verbatim>\<open>services/notifications.py\<close>) when Telegram refuses messages.
  \<^item> \<open>BotManager\<close>: \<^verbatim>\<open>core/bot_manager.py\<close>. \<open>Migrator\<close>: \<^verbatim>\<open>database/migrator.py\<close>.

  \<^bold>\<open>What the lemmas show.\<close> For each service: the functional behaviour on every branch with the
  errors, the invariant of its tables, and the safety of balances under any interleaving of its
  transactions; where the code does not keep a promise, the theorem exhibits a run that breaks
  it, and the finding in the manifest names it. For the dialogs: well-formedness of every
  reachable context, which buttons and texts are accepted, how a dialog ends. For the catalog:
  what a deletion removes and what it announces, and the shape of folders, products and codes. For
  the charge codes: a refinement of an abstract service, and from it the order in which codes are
  handed out. For the backup: what a restore brings back, and that a safety copy undoes it. For an
  order: its life from the first row to its end, and that the commission is held once, for every
  run in which buttons are pressed while they are on offer.

  \<^bold>\<open>Parameters.\<close> The current time, the fresh tokens, the numbers of the forced channels a user has
  joined, the answer of Zarinpal to a payment request, whether building a bot raises, what Telegram
  answers to a new token, which messages of a broadcast arrive, the cipher of the tokens (Fernet,
  with what it documents as a hypothesis), the captions of the reply keyboards, and what MySQL makes
  of the values of a backup file (reading a value into a column, completing a row, the clash of two
  rows on a unique key) are arguments of the definitions that use them. All recursion is structural
  over lists or numerals; there is no fuel.

  \<^bold>\<open>Not modelled, and simplifications.\<close>
  \<^item> Telegram and aiogram: sending succeeds (limits on the length of messages included), a chat's
    updates are handled one at a time (two photos that are handled together, as an album, are two
    submissions in \<open>Orders\<close>), and cancellation of a task is not an exception of a
    handler. The Persian wording of a message is a constructor with the values it shows.
  \<^item> MySQL: a value outside the range of a column, the gaps that rolled back insertions leave in
    automatic keys, collation, the lengths of \<^verbatim>\<open>VARCHAR\<close> columns (except the reference of a
    top-up), and the order of rows that \<^verbatim>\<open>ORDER BY\<close> leaves open.
  \<^item> Texts are lists of Latin-1 characters; \<^verbatim>\<open>upper\<close> is that of ASCII, and \<^verbatim>\<open>isdigit\<close> knows the three
    superscript digits of Latin-1.
  \<^item> The blocks on the connections of the pool (\<open>Platform\<close>) run one after the other; the services' transactions
    interleave in the theories of the services.
  \<^item> A backup is read and a safety copy written without other writes in between; \<open>create_backup_dict\<close>
    itself takes the database as each of its statements sees it.
  \<^item> The exchange over HTTP, the Excel file that openpyxl writes, logging,
    and the set-up of the dispatchers.
\<close>

end
